(* ===== verification/Prelude.thy ===== *)
theory Prelude
  imports Main "HOL-Library.Word"
begin

text \<open>
  What the components share: the names of the machine types, the result type of fallible
  Rust code (a value, an error message, or a panic), its sequencing operator (the source's
  \<open>?\<close>), and the lemmas on slices of lists that the byte formats are proved with. The
  collection \<open>ok_iff\<close> inverts a successful result into the facts that made it succeed;
  \<open>panic_iff\<close> does the same for a panic.
\<close>

section \<open>Machine types\<close>

type_synonym u8 = "8 word"
type_synonym u16 = "16 word"
type_synonym u32 = "32 word"
type_synonym bytes = "u8 list"

text \<open>
  \<open>usize\<close> values are naturals; where the code checks for overflow the bound of a 64-bit
  host appears explicitly. No allocation is larger than \<open>isize_max\<close> bytes.
\<close>

definition usize_max :: nat where
  "usize_max = 2 ^ 64 - 1"

definition isize_max :: nat where
  "isize_max = 2 ^ 63 - 1"

section \<open>Results\<close>

datatype 'a res = Ok 'a | Err string | Panic

fun and_then :: "'a res \<Rightarrow> ('a \<Rightarrow> 'b res) \<Rightarrow> 'b res" where
  "and_then (Ok x) f = f x"
| "and_then (Err e) f = Err e"
| "and_then Panic f = Panic"

fun map_err :: "(string \<Rightarrow> string) \<Rightarrow> 'a res \<Rightarrow> 'a res" where
  "map_err f (Ok x) = Ok x"
| "map_err f (Err e) = Err (f e)"
| "map_err f Panic = Panic"

fun map_res :: "('a \<Rightarrow> 'b) \<Rightarrow> 'a res \<Rightarrow> 'b res" where
  "map_res f (Ok x) = Ok (f x)"
| "map_res f (Err e) = Err e"
| "map_res f Panic = Panic"

fun ok_or :: "'a option \<Rightarrow> string \<Rightarrow> 'a res" where
  "ok_or (Some x) e = Ok x"
| "ok_or None e = Err e"

fun expect :: "'a option \<Rightarrow> 'a res" where
  "expect (Some x) = Ok x"
| "expect None = Panic"

fun is_ok :: "'a res \<Rightarrow> bool" where
  "is_ok (Ok _) = True"
| "is_ok _ = False"

named_theorems ok_iff
named_theorems panic_iff

lemma and_then_Ok_iff [ok_iff]:
  "and_then r f = Ok y \<longleftrightarrow> (\<exists>x. r = Ok x \<and> f x = Ok y)"
  by (cases r) auto

lemma if_Err_Ok_iff [ok_iff]:
  "(if c then Err e else r) = Ok y \<longleftrightarrow> \<not> c \<and> r = Ok y"
  by simp

lemma if_Panic_Ok_iff [ok_iff]:
  "(if c then r else Panic) = Ok y \<longleftrightarrow> c \<and> r = Ok y"
  by simp

lemma map_err_Ok_iff [ok_iff]: "map_err f r = Ok x \<longleftrightarrow> r = Ok x"
  by (cases r) auto

lemma map_res_Ok_iff [ok_iff]: "map_res f r = Ok y \<longleftrightarrow> (\<exists>x. r = Ok x \<and> y = f x)"
  by (cases r) auto

lemma ok_or_Ok_iff [ok_iff]: "ok_or v e = Ok x \<longleftrightarrow> v = Some x"
  by (cases v) auto

lemma expect_Ok_iff [ok_iff]: "expect v = Ok x \<longleftrightarrow> v = Some x"
  by (cases v) auto

lemma and_then_Panic_iff [panic_iff]:
  "and_then r f = Panic \<longleftrightarrow> r = Panic \<or> (\<exists>x. r = Ok x \<and> f x = Panic)"
  by (cases r) auto

lemma if_Err_Panic_iff [panic_iff]:
  "(if c then Err e else r) = Panic \<longleftrightarrow> \<not> c \<and> r = Panic"
  by simp

lemma if_Panic_Panic_iff [panic_iff]:
  "(if c then r else Panic) = Panic \<longleftrightarrow> (c \<longrightarrow> r = Panic)"
  by auto

lemma map_err_Panic_iff [panic_iff]: "map_err f r = Panic \<longleftrightarrow> r = Panic"
  by (cases r) auto

lemma map_res_Panic_iff [panic_iff]: "map_res f r = Panic \<longleftrightarrow> r = Panic"
  by (cases r) auto

lemma ok_or_Panic_iff [panic_iff]: "ok_or v e = Panic \<longleftrightarrow> False"
  by (cases v) auto

lemma expect_Panic_iff [panic_iff]: "expect v = Panic \<longleftrightarrow> v = None"
  by (cases v) auto

lemma not_Ok_cases: "(\<And>x. r \<noteq> Ok x) \<Longrightarrow> r \<noteq> Panic \<Longrightarrow> \<exists>e. r = Err e"
  by (cases r) auto

text \<open>With this congruence the simplifier runs a chain of steps in order.\<close>

lemma and_then_weak_cong: "r = s \<Longrightarrow> and_then r f = and_then s f"
  by simp

section \<open>Slices of lists\<close>

text \<open>The \<open>n\<close> elements from position \<open>i\<close> on; a total function, used in specifications.\<close>

definition seg :: "nat \<Rightarrow> nat \<Rightarrow> 'a list \<Rightarrow> 'a list" where
  "seg i n xs = take n (drop i xs)"

lemma length_seg: "length (seg i n xs) = min n (length xs - i)"
  by (simp add: seg_def)

lemma length_seg_le [simp]: "i + n \<le> length xs \<Longrightarrow> length (seg i n xs) = n"
  by (simp add: seg_def)

lemma seg_0 [simp]: "seg i 0 xs = []"
  by (simp add: seg_def)

lemma nth_seg [simp]: "k < n \<Longrightarrow> i + n \<le> length xs \<Longrightarrow> seg i n xs ! k = xs ! (i + k)"
  by (simp add: seg_def)

lemma seg_all: "n = length xs \<Longrightarrow> seg 0 n xs = xs"
  by (simp add: seg_def)

lemma seg_append_left: "i + n \<le> length xs \<Longrightarrow> seg i n (xs @ ys) = seg i n xs"
  by (simp add: seg_def)

lemma seg_append_right: "length xs \<le> i \<Longrightarrow> seg i n (xs @ ys) = seg (i - length xs) n ys"
  by (simp add: seg_def)

lemma seg_take: "i + n \<le> k \<Longrightarrow> seg i n (take k xs) = seg i n xs"
  by (simp add: seg_def drop_take min_def)

lemma seg_seg: "j + n \<le> m \<Longrightarrow> seg j n (seg i m xs) = seg (i + j) n xs"
  by (simp add: seg_def drop_take ac_simps)

lemma seg_split: "seg i (m + n) xs = seg i m xs @ seg (i + m) n xs"
  by (simp add: seg_def take_add ac_simps)

lemma length_concat_map_const:
  "(\<And>x. length (f x) = w) \<Longrightarrow> length (concat (map f xs)) = length xs * w"
  by (induction xs) auto

lemma seg_concat_map_const:
  assumes "\<And>x. length (f x) = w" and "i < length xs"
  shows "seg (i * w) w (concat (map f xs)) = f (xs ! i)"
  using assms(2)
proof (induction xs arbitrary: i)
  case (Cons x xs)
  show ?case
  proof (cases i)
    case 0
    then show ?thesis using assms(1) by (simp add: seg_def)
  next
    case (Suc j)
    then show ?thesis
      using Cons assms(1) by (simp add: seg_append_right)
  qed
qed simp

section \<open>Layouts\<close>

text \<open>
  A layout is a list of fields; the bytes are their concatenation. \<open>fields_at\<close> says that
  the fields stand in a buffer from an offset on, one equation per field: the rule
  \<open>layout_iff\<close> turns equality with a layout into the table of its fields.
\<close>

fun fields_at :: "nat \<Rightarrow> 'a list list \<Rightarrow> 'a list \<Rightarrow> bool" where
  "fields_at i [] xs = True"
| "fields_at i (f # fs) xs = (seg i (length f) xs = f \<and> fields_at (i + length f) fs xs)"

lemma drop_eq_concat_iff:
  "length xs = i + sum_list (map length fs) \<Longrightarrow> drop i xs = concat fs \<longleftrightarrow> fields_at i fs xs"
proof (induction fs arbitrary: i)
  case (Cons f fs)
  have "drop i xs = seg i (length f) xs @ drop (i + length f) xs"
    by (metis add.commute append_take_drop_id drop_drop seg_def)
  then have "drop i xs = concat (f # fs) \<longleftrightarrow>
      seg i (length f) xs = f \<and> drop (i + length f) xs = concat fs"
    using Cons.prems by (auto simp: append_eq_append_conv)
  then show ?case using Cons by simp
qed simp

lemma layout_iff:
  "xs = concat fs \<longleftrightarrow> length xs = sum_list (map length fs) \<and> fields_at 0 fs xs"
  using drop_eq_concat_iff [of xs 0 fs] by (auto simp: length_concat)

lemma fields_at_concat: "fields_at 0 fs (concat fs)"
  using layout_iff [of "concat fs" fs] by simp

end
