(* ===== verification/Bytes.thy ===== *)
theory Bytes
  imports Prelude
begin

unbundle bit_operations_syntax

text \<open>
  The byte layer of \<^verbatim>\<open>host/rampart/src/format.rs\<close>: slicing and indexing with Rust's
  panics, the little-endian reads and writes, the checked arithmetic and the
  \<^verbatim>\<open>require_*\<close> checks. The interface \<open>fixed_field\<close> states what a reader and a
  writer of one fixed-width field promise each other; it is interpreted on the 16-bit and
  the 32-bit accessors.
\<close>

section \<open>Slices and buffers of the standard library\<close>

text \<open>\<^verbatim>\<open>&bytes[a..b]\<close>, \<^verbatim>\<open>bytes[i]\<close>, \<^verbatim>\<open>out[a..b].copy_from_slice(src)\<close> and
  \<^verbatim>\<open>vec![0u8; n]\<close> panic where Rust does.\<close>

definition slice :: "'a list \<Rightarrow> nat \<Rightarrow> nat \<Rightarrow> 'a list res" where
  "slice xs a b = (if a \<le> b \<and> b \<le> length xs then Ok (seg a (b - a) xs) else Panic)"

definition index :: "'a list \<Rightarrow> nat \<Rightarrow> 'a res" where
  "index xs i = (if i < length xs then Ok (xs ! i) else Panic)"

definition copy_into :: "bytes \<Rightarrow> nat \<Rightarrow> nat \<Rightarrow> bytes \<Rightarrow> bytes res" where
  "copy_into out a b src =
     (if a \<le> b \<and> b \<le> length out \<and> length src = b - a
      then Ok (take a out @ src @ drop b out) else Panic)"

definition vec_zeroed :: "nat \<Rightarrow> bytes res" where
  "vec_zeroed n = (if n \<le> isize_max then Ok (replicate n 0) else Panic)"

section \<open>Little-endian encoding\<close>

definition u16_from_le :: "u8 \<Rightarrow> u8 \<Rightarrow> u16" where
  "u16_from_le b0 b1 = ucast b0 OR push_bit 8 (ucast b1)"

definition u16_to_le :: "u16 \<Rightarrow> bytes" where
  "u16_to_le v = [ucast v, ucast (drop_bit 8 v)]"

definition u32_from_le :: "u8 \<Rightarrow> u8 \<Rightarrow> u8 \<Rightarrow> u8 \<Rightarrow> u32" where
  "u32_from_le b0 b1 b2 b3 =
     ucast b0 OR push_bit 8 (ucast b1) OR push_bit 16 (ucast b2) OR push_bit 24 (ucast b3)"

definition u32_to_le :: "u32 \<Rightarrow> bytes" where
  "u32_to_le v = [ucast v, ucast (drop_bit 8 v), ucast (drop_bit 16 v), ucast (drop_bit 24 v)]"

lemma length_u16_to_le [simp]: "length (u16_to_le v) = 2"
  by (simp add: u16_to_le_def)

lemma length_u32_to_le [simp]: "length (u32_to_le v) = 4"
  by (simp add: u32_to_le_def)

lemma bit_u8_bound: "bit (b :: u8) n \<Longrightarrow> n < 8"
  using bit_imp_le_length [of b n] by simp

lemma not_bit_u8 [simp]: "8 \<le> n \<Longrightarrow> \<not> bit (b :: u8) n"
  by (auto dest: bit_u8_bound)

lemma u16_from_to_le [simp]: "u16_from_le (ucast v) (ucast (drop_bit 8 v)) = v"
  unfolding u16_from_le_def by (rule bit_word_eqI) (auto simp: bit_simps)

lemma u16_to_from_le [simp]: "u16_to_le (u16_from_le b0 b1) = [b0, b1]"
  unfolding u16_from_le_def u16_to_le_def
  by (auto simp: bit_simps intro!: bit_word_eqI)

lemma u32_from_to_le [simp]:
  "u32_from_le (ucast v) (ucast (drop_bit 8 v)) (ucast (drop_bit 16 v)) (ucast (drop_bit 24 v)) = v"
proof (rule bit_word_eqI)
  fix n assume "n < LENGTH(32)"
  moreover have "n < 8 \<or> 8 \<le> n \<and> n < 16 \<or> 16 \<le> n \<and> n < 24 \<or> 24 \<le> n" by arith
  ultimately show
    "bit (u32_from_le (ucast v) (ucast (drop_bit 8 v)) (ucast (drop_bit 16 v))
       (ucast (drop_bit 24 v))) n = bit v n"
    by (auto simp: u32_from_le_def bit_simps)
qed

lemma u32_to_from_le [simp]: "u32_to_le (u32_from_le b0 b1 b2 b3) = [b0, b1, b2, b3]"
  unfolding u32_from_le_def u32_to_le_def
  by (auto simp: bit_simps intro!: bit_word_eqI)

section \<open>Checked arithmetic\<close>

definition checked_add :: "nat \<Rightarrow> nat \<Rightarrow> nat res" where
  "checked_add left right =
     (if left + right \<le> usize_max then Ok (left + right) else Err ''section offset overflow'')"

definition checked_range :: "nat \<Rightarrow> nat \<Rightarrow> nat \<Rightarrow> (nat \<times> nat) res" where
  "checked_range offset len total_len =
     and_then (checked_add offset len) (\<lambda>end.
       if end > total_len then Err ''section range extends beyond image bounds''
       else Ok (offset, end))"

definition u32_try_from :: "nat \<Rightarrow> u32 option" where
  "u32_try_from n = (if n < 2 ^ 32 then Some (word_of_nat n) else None)"

definition u16_try_from :: "nat \<Rightarrow> u16 option" where
  "u16_try_from n = (if n < 2 ^ 16 then Some (word_of_nat n) else None)"

definition checked_u32 :: "nat \<Rightarrow> string \<Rightarrow> u32 res" where
  "checked_u32 value field = ok_or (u32_try_from value) (field @ '' exceeds u32'')"

section \<open>Reads, writes and requirements\<close>

definition read_u16 :: "bytes \<Rightarrow> nat \<Rightarrow> u16 res" where
  "read_u16 bs offset =
     and_then (checked_add offset 2) (\<lambda>end.
       if end > length bs then Err ''u16 read exceeds bounds''
       else and_then (index bs offset) (\<lambda>b0.
            and_then (index bs (offset + 1)) (\<lambda>b1.
            Ok (u16_from_le b0 b1))))"

definition read_u32 :: "bytes \<Rightarrow> nat \<Rightarrow> u32 res" where
  "read_u32 bs offset =
     and_then (checked_add offset 4) (\<lambda>end.
       if end > length bs then Err ''u32 read exceeds bounds''
       else and_then (index bs offset) (\<lambda>b0.
            and_then (index bs (offset + 1)) (\<lambda>b1.
            and_then (index bs (offset + 2)) (\<lambda>b2.
            and_then (index bs (offset + 3)) (\<lambda>b3.
            Ok (u32_from_le b0 b1 b2 b3))))))"

definition write_u16 :: "bytes \<Rightarrow> nat \<Rightarrow> u16 \<Rightarrow> bytes res" where
  "write_u16 out offset value = copy_into out offset (offset + 2) (u16_to_le value)"

definition write_u32 :: "bytes \<Rightarrow> nat \<Rightarrow> u32 \<Rightarrow> bytes res" where
  "write_u32 out offset value = copy_into out offset (offset + 4) (u32_to_le value)"

definition require_magic :: "bytes \<Rightarrow> bytes \<Rightarrow> string \<Rightarrow> unit res" where
  "require_magic actual expected label =
     (if actual \<noteq> expected then Err (label @ '' magic is invalid'') else Ok ())"

definition require_zeroes :: "bytes \<Rightarrow> string \<Rightarrow> unit res" where
  "require_zeroes bs label =
     (if list_ex (\<lambda>b. b \<noteq> 0) bs then Err (label @ '' must be zero'') else Ok ())"

definition require_u16 :: "bytes \<Rightarrow> nat \<Rightarrow> u16 \<Rightarrow> string \<Rightarrow> unit res" where
  "require_u16 bs offset expected label =
     and_then (read_u16 bs offset) (\<lambda>actual.
       if actual \<noteq> expected then Err (label @ '' is unsupported'') else Ok ())"

definition require_u32 :: "bytes \<Rightarrow> nat \<Rightarrow> u32 \<Rightarrow> string \<Rightarrow> unit res" where
  "require_u32 bs offset expected label =
     and_then (read_u32 bs offset) (\<lambda>actual.
       if actual \<noteq> expected then Err (label @ '' is unsupported'') else Ok ())"

section \<open>The interface of a fixed-width field\<close>

text \<open>
  \<open>enc\<close> is the field's encoding, \<open>rd\<close> reads it at an offset and \<open>wr\<close> overwrites
  it there. The laws say what a read returns in and out of bounds and what a write leaves
  behind; the lemmas are what the encoders and parsers need of any such field.
\<close>

locale fixed_field =
  fixes width :: nat
    and enc :: "'v \<Rightarrow> bytes"
    and rd :: "bytes \<Rightarrow> nat \<Rightarrow> 'v res"
    and wr :: "bytes \<Rightarrow> nat \<Rightarrow> 'v \<Rightarrow> bytes res"
  assumes enc_length: "length (enc v) = width"
    and rd_in: "off + width \<le> length bs \<Longrightarrow> off + width \<le> usize_max \<Longrightarrow>
      \<exists>v. rd bs off = Ok v \<and> seg off width bs = enc v"
    and rd_out: "\<not> off + width \<le> length bs \<or> \<not> off + width \<le> usize_max \<Longrightarrow>
      \<exists>e. rd bs off = Err e"
    and enc_inj: "enc v = enc w \<Longrightarrow> v = w"
    and wr_eq: "wr out off v = copy_into out off (off + width) (enc v)"
begin

lemma rd_Ok_iff:
  assumes "off + width \<le> usize_max"
  shows "rd bs off = Ok v \<longleftrightarrow> off + width \<le> length bs \<and> seg off width bs = enc v"
proof (cases "off + width \<le> length bs")
  case True
  then obtain u where "rd bs off = Ok u" and "seg off width bs = enc u"
    using assms rd_in by blast
  with True show ?thesis using enc_inj by auto
next
  case False
  then obtain e where "rd bs off = Err e" using rd_out by blast
  with False show ?thesis by simp
qed

lemma rd_no_panic: "rd bs off \<noteq> Panic"
  using rd_in rd_out by (metis res.distinct(3) res.distinct(5))

lemma wr_Ok:
  "off + width \<le> length out \<Longrightarrow> wr out off v = Ok (take off out @ enc v @ drop (off + width) out)"
  by (simp add: wr_eq copy_into_def enc_length)

lemma wr_Panic: "\<not> off + width \<le> length out \<Longrightarrow> wr out off v = Panic"
  by (simp add: wr_eq copy_into_def)

lemma wr_length: "wr out off v = Ok out' \<Longrightarrow> length out' = length out"
  by (auto simp: wr_eq copy_into_def enc_length split: if_splits)

lemma rd_after_wr:
  assumes "wr out off v = Ok out'" and "off + width \<le> usize_max"
  shows "rd out' off = Ok v"
  using assms
  by (auto simp: rd_Ok_iff wr_eq copy_into_def enc_length seg_def min_def split: if_splits)

text \<open>A write leaves every segment that it does not overlap.\<close>

lemma seg_after_wr:
  assumes "wr out off v = Ok out'" and "i + n \<le> off \<or> off + width \<le> i"
  shows "seg i n out' = seg i n out"
proof -
  have out': "out' = take off out @ enc v @ drop (off + width) out" and b: "off + width \<le> length out"
    using assms(1) by (auto simp: wr_eq copy_into_def enc_length split: if_splits)
  from assms(2) show ?thesis
  proof
    assume "i + n \<le> off"
    then show ?thesis using b by (simp add: out' seg_append_left seg_take)
  next
    assume "off + width \<le> i"
    then show ?thesis using b by (simp add: out' seg_def enc_length min_def)
  qed
qed

lemma wr_replace:
  "length z = width \<Longrightarrow> off = length a \<Longrightarrow> wr (a @ z @ b) off v = Ok (a @ enc v @ b)"
  by (simp add: wr_eq copy_into_def enc_length)

end

lemma list_eq_2: "length xs = 2 \<Longrightarrow> xs = [xs ! 0, xs ! 1]"
  by (rule nth_equalityI) (auto simp: less_Suc_eq numeral_eq_Suc)

lemma list_eq_4: "length xs = 4 \<Longrightarrow> xs = [xs ! 0, xs ! 1, xs ! 2, xs ! 3]"
  by (rule nth_equalityI) (auto simp: less_Suc_eq numeral_eq_Suc)

interpretation u16_field: fixed_field 2 u16_to_le read_u16 write_u16
proof
  fix off and bs :: bytes
  assume b: "off + 2 \<le> length bs" "off + 2 \<le> usize_max"
  have "seg off 2 bs = [bs ! off, bs ! (off + 1)]"
    using b list_eq_2 [of "seg off 2 bs"] by simp
  with b show "\<exists>v. read_u16 bs off = Ok v \<and> seg off 2 bs = u16_to_le v"
    by (simp add: read_u16_def checked_add_def index_def)
next
  fix v w assume "u16_to_le v = u16_to_le w"
  then show "v = w"
    by (subst u16_from_to_le [of v, symmetric], subst u16_from_to_le [of w, symmetric])
      (simp only: u16_to_le_def list.inject)
qed (auto simp: read_u16_def checked_add_def index_def write_u16_def)

interpretation u32_field: fixed_field 4 u32_to_le read_u32 write_u32
proof
  fix off and bs :: bytes
  assume b: "off + 4 \<le> length bs" "off + 4 \<le> usize_max"
  have "seg off 4 bs = [bs ! off, bs ! (off + 1), bs ! (off + 2), bs ! (off + 3)]"
    using b list_eq_4 [of "seg off 4 bs"] by simp
  with b show "\<exists>v. read_u32 bs off = Ok v \<and> seg off 4 bs = u32_to_le v"
    by (simp add: read_u32_def checked_add_def index_def)
next
  fix v w assume "u32_to_le v = u32_to_le w"
  then show "v = w"
    by (subst u32_from_to_le [of v, symmetric], subst u32_from_to_le [of w, symmetric])
      (simp only: u32_to_le_def list.inject)
qed (auto simp: read_u32_def checked_add_def index_def write_u32_def)

section \<open>Inversion rules\<close>

lemma le_inject [simp]:
  "u16_to_le v = u16_to_le w \<longleftrightarrow> v = w" "u32_to_le x = u32_to_le y \<longleftrightarrow> x = y"
  using u16_field.enc_inj u32_field.enc_inj by blast+


lemma usize_bounds [simp]:
  "numeral n \<le> usize_max \<longleftrightarrow> (numeral n :: nat) \<le> 18446744073709551615"
  "0 \<le> usize_max" "Suc 0 \<le> usize_max"
  by (simp_all add: usize_max_def)

lemmas read_ok = u16_field.rd_Ok_iff u32_field.rd_Ok_iff
lemmas write_ok = u16_field.wr_Ok u32_field.wr_Ok

lemma slice_Ok_iff [ok_iff]:
  "slice xs a b = Ok ys \<longleftrightarrow> a \<le> b \<and> b \<le> length xs \<and> ys = seg a (b - a) xs"
  by (auto simp: slice_def)

lemma copy_into_Ok_iff [ok_iff]:
  "copy_into out a b src = Ok r \<longleftrightarrow>
     a \<le> b \<and> b \<le> length out \<and> length src = b - a \<and> r = take a out @ src @ drop b out"
  by (auto simp: copy_into_def)

lemma checked_add_Ok_iff [ok_iff]:
  "checked_add a b = Ok c \<longleftrightarrow> a + b \<le> usize_max \<and> c = a + b"
  by (auto simp: checked_add_def)

lemma checked_range_Ok_iff [ok_iff]:
  "checked_range offset len n = Ok r \<longleftrightarrow>
     offset + len \<le> usize_max \<and> offset + len \<le> n \<and> r = (offset, offset + len)"
  by (auto simp: checked_range_def ok_iff)

lemma unat_u8_less: "unat (v :: u8) < 256"
  using unsigned_less [of v, where ?'a = nat] by simp

lemma unat_u16_less: "unat (v :: u16) < 65536"
  using unsigned_less [of v, where ?'a = nat] by simp

lemma unat_u32_less: "unat (v :: u32) < 4294967296"
  using unsigned_less [of v, where ?'a = nat] by simp

lemma unat_of_nat_u16: "n < 65536 \<Longrightarrow> unat (of_nat n :: u16) = n"
  by (simp add: unat_of_nat take_bit_nat_eq_self)

lemma unat_of_nat_u32: "n < 4294967296 \<Longrightarrow> unat (of_nat n :: u32) = n"
  by (simp add: unat_of_nat take_bit_nat_eq_self)

lemma u16_try_from_numeral [simp]:
  "(numeral k :: nat) < 65536 \<Longrightarrow> u16_try_from (numeral k) = Some (numeral k)"
  by (simp add: u16_try_from_def)

lemma u32_try_from_Some_iff [ok_iff]:
  "u32_try_from n = Some v \<longleftrightarrow> n = unat v"
  by (auto simp: u32_try_from_def unat_of_nat take_bit_nat_eq_self)
    (use unat_u32_less [of v] in simp)

lemma u16_try_from_Some_iff [ok_iff]:
  "u16_try_from n = Some v \<longleftrightarrow> n = unat v"
  by (auto simp: u16_try_from_def unat_of_nat take_bit_nat_eq_self)
    (use unat_u16_less [of v] in simp)

lemma require_magic_Ok_iff [ok_iff]: "require_magic a e l = Ok u \<longleftrightarrow> a = e"
  by (simp add: require_magic_def)

lemma require_zeroes_Ok_iff [ok_iff]: "require_zeroes bs l = Ok u \<longleftrightarrow> bs = replicate (length bs) 0"
  by (simp add: require_zeroes_def list_ex_iff replicate_length_same [symmetric])
    (metis in_set_replicate replicate_length_same)

lemma require_u16_Ok_iff [ok_iff]:
  "off + 2 \<le> usize_max \<Longrightarrow>
     require_u16 bs off v l = Ok u \<longleftrightarrow> off + 2 \<le> length bs \<and> seg off 2 bs = u16_to_le v"
  by (auto simp: require_u16_def ok_iff read_ok split: if_splits)

lemma require_u32_Ok_iff [ok_iff]:
  "off + 4 \<le> usize_max \<Longrightarrow>
     require_u32 bs off v l = Ok u \<longleftrightarrow> off + 4 \<le> length bs \<and> seg off 4 bs = u32_to_le v"
  by (auto simp: require_u32_def ok_iff read_ok split: if_splits)

text \<open>None of the checks panics; a slice or a copy panics exactly out of range.\<close>

lemma checks_no_panic [simp]:
  "checked_add a b \<noteq> Panic" "checked_range a b c \<noteq> Panic" "checked_u32 n f \<noteq> Panic"
  "read_u16 bs off \<noteq> Panic" "read_u32 bs off \<noteq> Panic"
  "require_magic m m' l \<noteq> Panic" "require_zeroes bs l \<noteq> Panic"
  "require_u16 bs off v l \<noteq> Panic" "require_u32 bs off v' l \<noteq> Panic"
  using u16_field.rd_no_panic u32_field.rd_no_panic
  by (auto simp: checked_add_def checked_range_def checked_u32_def require_magic_def
      require_zeroes_def require_u16_def require_u32_def panic_iff)

lemma slice_Panic_iff [panic_iff]: "slice xs a b = Panic \<longleftrightarrow> \<not> (a \<le> b \<and> b \<le> length xs)"
  by (simp add: slice_def)

lemma index_Panic_iff [panic_iff]: "index xs i = Panic \<longleftrightarrow> \<not> i < length xs"
  by (simp add: index_def)

lemma copy_into_Panic_iff [panic_iff]:
  "copy_into out a b src = Panic \<longleftrightarrow> \<not> (a \<le> b \<and> b \<le> length out \<and> length src = b - a)"
  by (simp add: copy_into_def)

section \<open>Properties\<close>

text \<open>A 32-bit field written at any offset of a buffer reads back, and the write changes neither
  a byte outside the field nor the length; a write that does not fit panics.\<close>

theorem write_u32_field:
  assumes "off + 4 \<le> usize_max"
  shows "if off + 4 \<le> length out
    then \<exists>out'. write_u32 out off v = Ok out' \<and> length out' = length out \<and>
      read_u32 out' off = Ok v \<and>
      (\<forall>i. i < off \<or> off + 4 \<le> i \<longrightarrow> seg i 1 out' = seg i 1 out)
    else write_u32 out off v = Panic"
proof (cases "off + 4 \<le> length out")
  case True
  then obtain out' where w: "write_u32 out off v = Ok out'"
    using u32_field.wr_Ok by blast
  moreover have "seg i 1 out' = seg i 1 out" if "i < off \<or> off + 4 \<le> i" for i
    using u32_field.seg_after_wr [OF w, of i 1] that by auto
  ultimately show ?thesis
    using True assms u32_field.wr_length [OF w] u32_field.rd_after_wr [OF w] by auto
qed (simp add: u32_field.wr_Panic)

theorem write_u32_field_witness:
  "\<exists>out'. write_u32 [9, 9, 9, 9, 9, 9] 1 0x01020304 = Ok out' \<and> read_u32 out' 1 = Ok 0x01020304"
  using write_u32_field [of 1 "[9, 9, 9, 9, 9, 9]" "0x01020304"] by (auto split: if_splits)

text \<open>A checked range is Ok exactly when it ends inside the image; every other offset and length,
  an overflowing sum included, is the documented error and never a panic.\<close>

theorem checked_range_exact:
  "checked_range offset len n =
     (if offset + len \<le> n \<and> offset + len \<le> usize_max then Ok (offset, offset + len)
      else Err (if offset + len \<le> usize_max then ''section range extends beyond image bounds''
                else ''section offset overflow''))"
  by (simp add: checked_range_def checked_add_def)

end
