(* ===== verification/Text.thy ===== *)
theory Text
  imports Bytes
begin

text \<open>
  What the host tool uses of the standard library's strings, and \<^verbatim>\<open>hex_lower\<close> of
  \<^verbatim>\<open>host/rampart/src/format.rs\<close>. A Rust string is a sequence of UTF-8 bytes; it is
  modelled by the \<open>string\<close> whose characters are those bytes, and \<open>valid_utf8\<close> is the
  invariant that the type \<^verbatim>\<open>str\<close> keeps. Integer parsing and printing follow
  \<^verbatim>\<open>from_str_radix\<close> and the \<^verbatim>\<open>Display\<close> and \<^verbatim>\<open>LowerHex\<close> formats; the round
  trips between them are proved once here.
\<close>

section \<open>Strings as bytes\<close>

definition as_bytes :: "string \<Rightarrow> bytes" where
  "as_bytes s = map of_char s"

definition byte_char :: "u8 \<Rightarrow> char" where
  "byte_char b = char_of (unat b)"

definition cont :: "u8 \<Rightarrow> bool" where
  "cont b \<longleftrightarrow> 0x80 \<le> b \<and> b \<le> 0xBF"

text \<open>The checks of \<^verbatim>\<open>core::str::from_utf8\<close>, one scalar value at a time.\<close>

fun valid_utf8 :: "bytes \<Rightarrow> bool" where
  "valid_utf8 [] = True"
| "valid_utf8 (a # bs) =
     (if a < 0x80 then valid_utf8 bs
      else case bs of
        [] \<Rightarrow> False
      | b # cs \<Rightarrow>
          (if 0xC2 \<le> a \<and> a \<le> 0xDF then cont b \<and> valid_utf8 cs
           else case cs of
             [] \<Rightarrow> False
           | c # ds \<Rightarrow>
               (if a = 0xE0 then 0xA0 \<le> b \<and> b \<le> 0xBF \<and> cont c \<and> valid_utf8 ds
                else if a = 0xED then 0x80 \<le> b \<and> b \<le> 0x9F \<and> cont c \<and> valid_utf8 ds
                else if 0xE1 \<le> a \<and> a \<le> 0xEF then cont b \<and> cont c \<and> valid_utf8 ds
                else case ds of
                  [] \<Rightarrow> False
                | d # es \<Rightarrow>
                    (if a = 0xF0 then 0x90 \<le> b \<and> b \<le> 0xBF \<and> cont c \<and> cont d \<and> valid_utf8 es
                     else if 0xF1 \<le> a \<and> a \<le> 0xF3
                       then cont b \<and> cont c \<and> cont d \<and> valid_utf8 es
                     else if a = 0xF4
                       then 0x80 \<le> b \<and> b \<le> 0x8F \<and> cont c \<and> cont d \<and> valid_utf8 es
                     else False))))"

definition from_utf8 :: "bytes \<Rightarrow> string option" where
  "from_utf8 bs = (if valid_utf8 bs then Some (map byte_char bs) else None)"

definition valid_str :: "string \<Rightarrow> bool" where
  "valid_str s \<longleftrightarrow> valid_utf8 (as_bytes s)"

lemma length_as_bytes [simp]: "length (as_bytes s) = length s"
  by (simp add: as_bytes_def)

lemma unat_of_char [simp]: "unat (of_char c :: u8) = of_char c"
proof -
  have "unat (of_nat (of_char c) :: u8) = of_char c mod 256"
    by (simp add: unat_of_nat take_bit_eq_mod del: of_char_mod_256)
  then show ?thesis by (simp add: of_nat_of_char)
qed

lemma byte_char_of_char [simp]: "byte_char (of_char c) = c"
  by (simp add: byte_char_def)

lemma of_char_byte_char [simp]: "of_char (byte_char b) = b"
proof -
  have "(of_char (byte_char b) :: nat) = unat b"
    using unat_u8_less [of b] by (simp add: byte_char_def)
  then have "of_nat (of_char (byte_char b)) = (of_nat (unat b) :: u8)" by simp
  then show ?thesis by (simp add: of_nat_of_char)
qed

lemma as_bytes_map_byte_char [simp]: "as_bytes (map byte_char bs) = bs"
  by (simp add: as_bytes_def comp_def)

lemma map_byte_char_as_bytes [simp]: "map byte_char (as_bytes s) = s"
  by (simp add: as_bytes_def comp_def)

lemma as_bytes_inj [simp]: "as_bytes s = as_bytes t \<longleftrightarrow> s = t"
  by (metis map_byte_char_as_bytes)

lemma from_utf8_Some_iff [ok_iff]:
  "from_utf8 bs = Some s \<longleftrightarrow> valid_str s \<and> bs = as_bytes s"
  by (auto simp: from_utf8_def valid_str_def)

lemma valid_utf8_ascii: "(\<And>b. b \<in> set bs \<Longrightarrow> b < 0x80) \<Longrightarrow> valid_utf8 bs"
  by (induction bs) auto

section \<open>Slicing, prefixes and splitting\<close>

text \<open>A slice of a \<^verbatim>\<open>str\<close> panics out of range and inside a multi-byte character.\<close>

definition is_char_boundary :: "string \<Rightarrow> nat \<Rightarrow> bool" where
  "is_char_boundary s i \<longleftrightarrow> i = 0 \<or> i = length s \<or> i < length s \<and> \<not> cont (of_char (s ! i))"

definition str_slice :: "string \<Rightarrow> nat \<Rightarrow> nat \<Rightarrow> string res" where
  "str_slice s a b =
     (if a \<le> b \<and> is_char_boundary s a \<and> is_char_boundary s b then Ok (seg a (b - a) s) else Panic)"

definition strip_prefix :: "string \<Rightarrow> string \<Rightarrow> string option" where
  "strip_prefix p s = (if take (length p) s = p then Some (drop (length p) s) else None)"

fun split_on :: "char \<Rightarrow> string \<Rightarrow> string list" where
  "split_on c [] = [[]]"
| "split_on c (x # xs) =
     (if x = c then [] # split_on c xs
      else case split_on c xs of [] \<Rightarrow> [[x]] | y # ys \<Rightarrow> (x # y) # ys)"

lemma split_on_fresh: "c \<notin> set s \<Longrightarrow> split_on c s = [s]"
  by (induction s) auto

lemma split_on_append: "c \<notin> set s \<Longrightarrow> split_on c (s @ c # t) = s # split_on c t"
  by (induction s) auto

section \<open>Parsing integers\<close>

definition to_digit :: "nat \<Rightarrow> char \<Rightarrow> nat option" where
  "to_digit radix c =
     (let n = of_char c :: nat;
          d = (if 48 \<le> n \<and> n \<le> 57 then n - 48
               else if 97 \<le> n \<and> n \<le> 122 then n - 87
               else if 65 \<le> n \<and> n \<le> 90 then n - 55 else 36)
      in if d < radix then Some d else None)"

text \<open>The loop of \<^verbatim>\<open>from_str_radix\<close>: checked multiplication, then checked addition.\<close>

fun parse_digits :: "nat \<Rightarrow> nat \<Rightarrow> nat \<Rightarrow> string \<Rightarrow> nat option" where
  "parse_digits radix mx acc [] = Some acc"
| "parse_digits radix mx acc (c # cs) =
     (case to_digit radix c of
        None \<Rightarrow> None
      | Some d \<Rightarrow>
          if mx < acc * radix then None
          else if mx < acc * radix + d then None
          else parse_digits radix mx (acc * radix + d) cs)"

definition from_str_radix :: "nat \<Rightarrow> nat \<Rightarrow> string \<Rightarrow> nat option" where
  "from_str_radix mx radix s =
     (case s of
        [] \<Rightarrow> None
      | c # cs \<Rightarrow>
          if cs = [] \<and> (c = CHR ''+'' \<or> c = CHR ''-'') then None
          else if c = CHR ''+'' then parse_digits radix mx 0 cs
          else parse_digits radix mx 0 s)"

definition u8_from_str_radix :: "nat \<Rightarrow> string \<Rightarrow> u8 option" where
  "u8_from_str_radix radix s = map_option of_nat (from_str_radix 255 radix s)"

definition u16_from_str_radix :: "nat \<Rightarrow> string \<Rightarrow> u16 option" where
  "u16_from_str_radix radix s = map_option of_nat (from_str_radix 65535 radix s)"

definition u32_from_str_radix :: "nat \<Rightarrow> string \<Rightarrow> u32 option" where
  "u32_from_str_radix radix s = map_option of_nat (from_str_radix 4294967295 radix s)"

section \<open>Printing integers\<close>

definition digit_char :: "nat \<Rightarrow> char" where
  "digit_char d = char_of (if d < 10 then 48 + d else 87 + d)"

fun display_nat :: "nat \<Rightarrow> string" where
  "display_nat n =
     (if n < 10 then [digit_char n] else display_nat (n div 10) @ [digit_char (n mod 10)])"

declare display_nat.simps [simp del]

text \<open>\<open>{:0kx}\<close> of a number below \<open>16 ^ k\<close>: exactly \<open>k\<close> lower-case hexadecimal digits.\<close>

fun hex_pad :: "nat \<Rightarrow> nat \<Rightarrow> string" where
  "hex_pad 0 n = []"
| "hex_pad (Suc k) n = hex_pad k (n div 16) @ [digit_char (n mod 16)]"

definition hex_lower :: "bytes \<Rightarrow> string" where
  "hex_lower bs = foldl (\<lambda>out b. out @ hex_pad 2 (unat b)) [] bs"

section \<open>Printed numbers parse back\<close>

text \<open>The value of a digit string, without the overflow checks.\<close>

fun digits_value :: "nat \<Rightarrow> nat \<Rightarrow> string \<Rightarrow> nat option" where
  "digits_value radix acc [] = Some acc"
| "digits_value radix acc (c # cs) =
     (case to_digit radix c of
        None \<Rightarrow> None
      | Some d \<Rightarrow> digits_value radix (acc * radix + d) cs)"

lemma digits_value_append:
  "digits_value r a (s @ t) =
     (case digits_value r a s of None \<Rightarrow> None | Some b \<Rightarrow> digits_value r b t)"
  by (induction s arbitrary: a) (auto split: option.splits)

lemma digits_value_ge: "1 \<le> r \<Longrightarrow> digits_value r a s = Some v \<Longrightarrow> a \<le> v"
proof (induction s arbitrary: a)
  case (Cons c cs)
  then obtain d where "to_digit r c = Some d" and v: "digits_value r (a * r + d) cs = Some v"
    by (auto split: option.splits)
  from Cons.IH [OF Cons.prems(1) v] have "a * r + d \<le> v" .
  moreover have "a \<le> a * r" using Cons.prems(1) by simp
  ultimately show ?case by linarith
qed simp

lemma parse_digits_iff:
  "1 \<le> r \<Longrightarrow> a \<le> mx \<Longrightarrow>
     parse_digits r mx a s = Some v \<longleftrightarrow> digits_value r a s = Some v \<and> v \<le> mx"
proof (induction s arbitrary: a)
  case (Cons c cs)
  show ?case
  proof (cases "to_digit r c")
    case (Some d)
    then show ?thesis
      using Cons.IH [of "a * r + d"] Cons.prems digits_value_ge [of r "a * r + d" cs v] by auto
  qed simp
qed auto

lemma from_str_radix_le: "1 \<le> r \<Longrightarrow> from_str_radix mx r s = Some v \<Longrightarrow> v \<le> mx"
  by (auto simp: from_str_radix_def parse_digits_iff simp del: parse_digits.simps
      split: list.splits if_splits)

lemma to_digit_digit_char: "d < r \<Longrightarrow> r \<le> 16 \<Longrightarrow> to_digit r (digit_char d) = Some d"
  by (auto simp: to_digit_def digit_char_def Let_def)

lemma plus_no_digit: "to_digit r (CHR ''+'') = None \<longleftrightarrow> r \<le> 36"
  by (auto simp: to_digit_def)

lemma digits_value_display_nat: "digits_value 10 0 (display_nat n) = Some n"
proof (induction n rule: display_nat.induct)
  case (1 n)
  then show ?case
    by (cases "n < 10")
      (simp_all add: display_nat.simps [of n] digits_value_append to_digit_digit_char)
qed

lemma digits_value_hex_pad:
  "n < 16 ^ k \<Longrightarrow> digits_value 16 0 (hex_pad k n) = Some n"
proof (induction k arbitrary: n)
  case (Suc k)
  then have "n div 16 < 16 ^ k" by (simp add: less_mult_imp_div_less mult.commute)
  with Suc.IH show ?case by (simp add: digits_value_append to_digit_digit_char)
qed simp

lemma length_hex_pad [simp]: "length (hex_pad k n) = k"
  by (induction k arbitrary: n) auto

lemma from_str_radix_digits:
  assumes "digits_value r 0 s = Some v" "s \<noteq> []" "1 \<le> r" "r \<le> 16" "v \<le> mx"
  shows "from_str_radix mx r s = Some v"
proof -
  obtain c cs where s: "s = c # cs" using assms(2) by (cases s) auto
  then have "to_digit r c \<noteq> None" using assms(1) by (auto split: option.splits)
  then have "c \<noteq> CHR ''+''" and "c \<noteq> CHR ''-''"
    using assms(4) by (auto simp: to_digit_def)
  then show ?thesis
    using assms by (simp add: s from_str_radix_def parse_digits_iff del: parse_digits.simps)
qed

lemma display_nat_ne [simp]: "display_nat n \<noteq> []"
  by (simp add: display_nat.simps [of n])

lemma u16_parse_display [simp]: "u16_from_str_radix 10 (display_nat (unat v)) = Some v"
  using unat_u16_less [of v] from_str_radix_digits [OF digits_value_display_nat, of "unat v"]
  by (simp add: u16_from_str_radix_def)

lemma u32_parse_display [simp]: "u32_from_str_radix 10 (display_nat (unat v)) = Some v"
  using unat_u32_less [of v] from_str_radix_digits [OF digits_value_display_nat, of "unat v"]
  by (simp add: u32_from_str_radix_def)

lemma u32_parse_hex [simp]: "u32_from_str_radix 16 (hex_pad 8 (unat v)) = Some v"
proof -
  have "hex_pad 8 (unat v) \<noteq> []" by (metis length_hex_pad list.size(3) zero_neq_numeral)
  then show ?thesis
    using unat_u32_less [of v]
      from_str_radix_digits [OF digits_value_hex_pad [of "unat v" 8], of 4294967295]
    by (simp add: u32_from_str_radix_def)
qed

lemma u8_parse_hex [simp]: "u8_from_str_radix 16 (hex_pad 2 (unat v)) = Some v"
proof -
  have "hex_pad 2 (unat v) \<noteq> []" by (metis length_hex_pad list.size(3) zero_neq_numeral)
  then show ?thesis
    using unat_u8_less [of v]
      from_str_radix_digits [OF digits_value_hex_pad [of "unat v" 2], of 255]
    by (simp add: u8_from_str_radix_def)
qed

lemma display_nat_chars: "c \<in> set (display_nat n) \<Longrightarrow> 48 \<le> (of_char c :: nat) \<and> (of_char c :: nat) \<le> 57"
proof (induction n rule: display_nat.induct)
  case (1 n)
  then show ?case
    by (subst (asm) (2) display_nat.simps) (auto simp: digit_char_def split: if_splits)
qed

lemma hex_lower_concat: "hex_lower bs = concat (map (\<lambda>b. hex_pad 2 (unat b)) bs)"
proof -
  have "foldl (\<lambda>out b. out @ hex_pad 2 (unat b)) acc bs =
          acc @ concat (map (\<lambda>b. hex_pad 2 (unat b)) bs)" for acc
    by (induction bs arbitrary: acc) auto
  then show ?thesis by (simp add: hex_lower_def)
qed

abbreviation nl :: string where
  "nl \<equiv> [CHR 0x0A]"

end
