(* ===== verification/Policy.thy ===== *)
theory Policy
  imports Text
begin

text \<open>
  The policy vocabulary of \<^verbatim>\<open>host/rampart/src/format.rs\<close>: signing roles, rollback
  policies, semantic versions and the words of the reports. The interface
  \<open>code_table\<close> is the contract of a name table: which codes are known, and that the
  names of exactly the known codes parse back to them. Both tables interpret it.
\<close>

section \<open>Roles\<close>

definition ROLE_RELEASE :: u16 where "ROLE_RELEASE = 1"
definition ROLE_SECURITY :: u16 where "ROLE_SECURITY = 2"
definition ROLE_BOOT_MANAGER :: u16 where "ROLE_BOOT_MANAGER = 3"
definition ROLE_RECOVERY :: u16 where "ROLE_RECOVERY = 4"
definition ROLE_FACTORY :: u16 where "ROLE_FACTORY = 5"
definition ROLE_DEVELOPMENT :: u16 where "ROLE_DEVELOPMENT = 6"

lemmas role_codes = ROLE_RELEASE_def ROLE_SECURITY_def ROLE_BOOT_MANAGER_def ROLE_RECOVERY_def
  ROLE_FACTORY_def ROLE_DEVELOPMENT_def

definition parse_role :: "string \<Rightarrow> u16 res" where
  "parse_role role =
     (if role = ''RELEASE'' then Ok ROLE_RELEASE
      else if role = ''SECURITY'' then Ok ROLE_SECURITY
      else if role = ''BOOT_MANAGER'' then Ok ROLE_BOOT_MANAGER
      else if role = ''RECOVERY'' then Ok ROLE_RECOVERY
      else if role = ''FACTORY'' then Ok ROLE_FACTORY
      else if role = ''DEVELOPMENT'' then Ok ROLE_DEVELOPMENT
      else Err (''unknown signature role '' @ role))"

definition role_name :: "u16 \<Rightarrow> string" where
  "role_name role =
     (if role = ROLE_RELEASE then ''RELEASE''
      else if role = ROLE_SECURITY then ''SECURITY''
      else if role = ROLE_BOOT_MANAGER then ''BOOT_MANAGER''
      else if role = ROLE_RECOVERY then ''RECOVERY''
      else if role = ROLE_FACTORY then ''FACTORY''
      else if role = ROLE_DEVELOPMENT then ''DEVELOPMENT''
      else ''UNKNOWN'')"

definition is_known_role :: "u16 \<Rightarrow> bool" where
  "is_known_role role \<longleftrightarrow>
     role = ROLE_RELEASE \<or> role = ROLE_SECURITY \<or> role = ROLE_BOOT_MANAGER \<or>
     role = ROLE_RECOVERY \<or> role = ROLE_FACTORY \<or> role = ROLE_DEVELOPMENT"

section \<open>Rollback policies\<close>

definition ROLLBACK_POLICY_NONE :: u16 where "ROLLBACK_POLICY_NONE = 0"
definition ROLLBACK_POLICY_FALLBACK :: u16 where "ROLLBACK_POLICY_FALLBACK = 1"

lemmas rollback_codes = ROLLBACK_POLICY_NONE_def ROLLBACK_POLICY_FALLBACK_def

definition parse_rollback_policy :: "string \<Rightarrow> u16 res" where
  "parse_rollback_policy policy =
     (if policy = ''none'' then Ok ROLLBACK_POLICY_NONE
      else if policy = ''fallback'' then Ok ROLLBACK_POLICY_FALLBACK
      else Err (''unknown rollback policy '' @ policy))"

definition rollback_policy_name :: "u16 \<Rightarrow> string" where
  "rollback_policy_name policy =
     (if policy = ROLLBACK_POLICY_NONE then ''none''
      else if policy = ROLLBACK_POLICY_FALLBACK then ''fallback''
      else ''unknown'')"

definition is_known_rollback_policy :: "u16 \<Rightarrow> bool" where
  "is_known_rollback_policy policy \<longleftrightarrow>
     policy = ROLLBACK_POLICY_NONE \<or> policy = ROLLBACK_POLICY_FALLBACK"

section \<open>The contract of a name table\<close>

locale code_table =
  fixes parse :: "string \<Rightarrow> u16 res"
    and name :: "u16 \<Rightarrow> string"
    and known :: "u16 \<Rightarrow> bool"
  assumes parse_name: "known c \<Longrightarrow> parse (name c) = Ok c"
    and parse_known: "parse s = Ok c \<Longrightarrow> known c \<and> s = name c"
    and parse_no_panic: "parse s \<noteq> Panic"
begin

lemma parse_iff: "parse s = Ok c \<longleftrightarrow> known c \<and> s = name c"
  using parse_name parse_known by blast

lemma name_inj: "known c \<Longrightarrow> known d \<Longrightarrow> name c = name d \<Longrightarrow> c = d"
  by (metis parse_name res.inject(1))

lemma parse_inj: "parse s = Ok c \<Longrightarrow> parse t = Ok c \<Longrightarrow> s = t"
  by (metis parse_known)

lemma parse_Err: "(\<And>c. known c \<Longrightarrow> s \<noteq> name c) \<Longrightarrow> \<exists>e. parse s = Err e"
  using parse_known parse_no_panic not_Ok_cases by metis

end

interpretation role_table: code_table parse_role role_name is_known_role
  by unfold_locales
    (auto simp: is_known_role_def parse_role_def role_name_def role_codes split: if_splits)

interpretation rollback_table:
  code_table parse_rollback_policy rollback_policy_name is_known_rollback_policy
  by unfold_locales
    (auto simp: is_known_rollback_policy_def parse_rollback_policy_def rollback_policy_name_def
      rollback_codes split: if_splits)

section \<open>Versions\<close>

definition parse_semver_part :: "string option \<Rightarrow> string \<Rightarrow> u16 res" where
  "parse_semver_part part label =
     and_then (ok_or part (''version is missing '' @ label @ '' component'')) (\<lambda>value.
     if value = [] then Err (''version '' @ label @ '' component is empty'')
     else ok_or (u16_from_str_radix 10 value)
            (''version '' @ label @ '' component must fit in u16''))"

text \<open>\<open>parts.next()\<close> on the iterator over the pieces.\<close>

definition next_part :: "string list \<Rightarrow> string option \<times> string list" where
  "next_part parts = (case parts of [] \<Rightarrow> (None, []) | p # ps \<Rightarrow> (Some p, ps))"

definition parse_semver_core :: "string \<Rightarrow> (u16 \<times> u16 \<times> u16) res" where
  "parse_semver_core version =
     (let parts = split_on (CHR ''.'') version;
          (p1, parts) = next_part parts in
      and_then (parse_semver_part p1 ''major'') (\<lambda>major.
      let (p2, parts) = next_part parts in
      and_then (parse_semver_part p2 ''minor'') (\<lambda>minor.
      let (p3, parts) = next_part parts in
      and_then (parse_semver_part p3 ''patch'') (\<lambda>patch.
      if fst (next_part parts) \<noteq> None
      then Err ''version must use major.minor.patch form''
      else Ok (major, minor, patch)))))"

definition version_text :: "u16 \<Rightarrow> u16 \<Rightarrow> u16 \<Rightarrow> string" where
  "version_text major minor patch =
     display_nat (unat major) @ ''.'' @ display_nat (unat minor) @ ''.'' @ display_nat (unat patch)"

lemma dot_fresh: "CHR ''.'' \<notin> set (display_nat n)"
  using display_nat_chars [of "CHR ''.''" n] by auto

lemma parse_version_text: "parse_semver_core (version_text a b c) = Ok (a, b, c)"
  by (simp add: parse_semver_core_def version_text_def split_on_append split_on_fresh dot_fresh
      next_part_def parse_semver_part_def)

lemma parse_semver_no_panic: "parse_semver_core s \<noteq> Panic"
  by (simp add: parse_semver_core_def parse_semver_part_def panic_iff Let_def split: prod.splits)

section \<open>Words of the reports\<close>

definition status_word :: "bool \<Rightarrow> string" where
  "status_word valid = (if valid then ''valid'' else ''rejected'')"

fun optional_status :: "bool option \<Rightarrow> string" where
  "optional_status (Some True) = ''valid''"
| "optional_status (Some False) = ''rejected''"
| "optional_status None = ''not checked''"

lemma next_part_simps [simp]: "next_part [] = (None, [])" "next_part (p # ps) = (Some p, ps)"
  by (simp_all add: next_part_def)

section \<open>Properties\<close>


text \<open>
  The grammar of a part, stated apart from the parser: decimal digits, after at most one plus
  sign, with a value of 16 bits. \<open>decimal_value\<close> reads the digits from the left.
\<close>

definition is_decimal :: "char \<Rightarrow> bool" where
  "is_decimal c \<longleftrightarrow> c \<in> set ''0123456789''"

definition decimal_value :: "string \<Rightarrow> nat" where
  "decimal_value ds = foldl (\<lambda>n c. 10 * n + (of_char c - of_char CHR ''0'')) 0 ds"

definition decimal_u16 :: "string \<Rightarrow> u16 \<Rightarrow> bool" where
  "decimal_u16 s v \<longleftrightarrow> (\<exists>ds. (s = ds \<or> s = CHR ''+'' # ds) \<and> ds \<noteq> [] \<and> list_all is_decimal ds \<and>
     decimal_value ds = unat v)"

lemma is_decimal_code: "is_decimal c \<longleftrightarrow> 48 \<le> (of_char c :: nat) \<and> (of_char c :: nat) \<le> 57"
proof
  assume "48 \<le> (of_char c :: nat) \<and> (of_char c :: nat) \<le> 57"
  moreover have "n \<in> {48, 49, 50, 51, 52, 53, 54, 55, 56, 57}" if "48 \<le> n \<and> n \<le> 57" for n :: nat
    using that by (simp only: insert_iff empty_iff) presburger
  ultimately have "(of_char c :: nat) \<in> {48, 49, 50, 51, 52, 53, 54, 55, 56, 57}" by blast
  then have "c \<in> char_of ` {48, 49, 50, 51, 52, 53, 54, 55, 56, 57 :: nat}"
    by (metis char_of_char image_eqI)
  then show "is_decimal c" by (auto simp: is_decimal_def char_of_eq_iff)
qed (auto simp: is_decimal_def)

lemma to_digit_decimal:
  "to_digit 10 c = (if is_decimal c then Some (of_char c - 48) else None)"
  by (auto simp: to_digit_def is_decimal_code Let_def)

lemma digits_value_decimal:
  "digits_value 10 a s =
     (if list_all is_decimal s then Some (foldl (\<lambda>n c. 10 * n + (of_char c - 48)) a s) else None)"
  by (induction s arbitrary: a) (auto simp: to_digit_decimal mult.commute)

lemma parse_digits_decimal:
  "parse_digits 10 65535 0 s = Some n \<longleftrightarrow>
     list_all is_decimal s \<and> decimal_value s = n \<and> n \<le> 65535"
  by (auto simp: parse_digits_iff digits_value_decimal decimal_value_def)

lemma plus_minus_not_decimal: "\<not> is_decimal (CHR ''+'')" "\<not> is_decimal (CHR ''-'')"
  by (simp_all add: is_decimal_def)

lemma u16_from_str_decimal: "u16_from_str_radix 10 s = Some v \<longleftrightarrow> decimal_u16 s v"
proof -
  have word: "(of_nat n :: u16) = v \<and> n \<le> 65535 \<longleftrightarrow> n = unat v" for n
    using unat_u16_less [of v] by (auto simp: unat_of_nat)
  have "u16_from_str_radix 10 s = Some v \<longleftrightarrow> from_str_radix 65535 10 s = Some (unat v)"
    using word from_str_radix_le [of 10 65535 s] by (fastforce simp: u16_from_str_radix_def)
  also have "\<dots> \<longleftrightarrow> decimal_u16 s v"
  proof (cases s)
    case Nil
    then show ?thesis by (simp add: from_str_radix_def decimal_u16_def)
  next
    case (Cons c cs)
    then show ?thesis
      using plus_minus_not_decimal unat_u16_less [of v]
      by (auto simp: from_str_radix_def decimal_u16_def parse_digits_decimal
          simp del: parse_digits.simps)
  qed
  finally show ?thesis .
qed

text \<open>C37: A version text is accepted exactly when it has three parts between dots, each of them
  decimal digits with a value of 16 bits; the values are the result, in order. The digits may
  follow a plus sign and start with zeroes, which a semantic version excludes: the second
  conjunct is such a text.\<close>

theorem semver_exact:
  "(parse_semver_core s = Ok (a, b, c) \<longleftrightarrow>
     (\<exists>x y z. split_on (CHR ''.'') s = [x, y, z] \<and>
        decimal_u16 x a \<and> decimal_u16 y b \<and> decimal_u16 z c)) \<and>
   parse_semver_core ''+1.02.003'' = Ok (1, 2, 3)"
proof
  have ne: "u16_from_str_radix 10 [] = None" by (simp add: u16_from_str_radix_def from_str_radix_def)
  then have part: "parse_semver_part (Some x) l = Ok v \<longleftrightarrow> decimal_u16 x v"
    "parse_semver_part None l = Ok v \<longleftrightarrow> False" for x l v
    by (auto simp: parse_semver_part_def ok_iff u16_from_str_decimal [symmetric])
  consider "split_on (CHR ''.'') s = []" | x where "split_on (CHR ''.'') s = [x]"
    | x y where "split_on (CHR ''.'') s = [x, y]"
    | x y z r where "split_on (CHR ''.'') s = x # y # z # r"
    by (metis neq_Nil_conv)
  then show "parse_semver_core s = Ok (a, b, c) \<longleftrightarrow>
     (\<exists>x y z. split_on (CHR ''.'') s = [x, y, z] \<and>
        decimal_u16 x a \<and> decimal_u16 y b \<and> decimal_u16 z c)"
    by cases (auto simp: parse_semver_core_def ok_iff part Let_def split: list.splits, (case_tac r; auto)?)
  show "parse_semver_core ''+1.02.003'' = Ok (1, 2, 3)"
    by (simp add: parse_semver_core_def parse_semver_part_def u16_from_str_radix_def
        from_str_radix_def to_digit_def)
qed

end
