(* ===== verification/Crypto.thy ===== *)
theory Crypto
  imports Text
begin

text \<open>
  The third-party primitives of the host tool (the crates \<^verbatim>\<open>sha2\<close> and
  \<^verbatim>\<open>p256\<close>) are the fields of a record of functions, the parameter \<open>P\<close> of the
  definitions that call them. \<open>provider_laws\<close> states the documented behaviour the code
  relies on: the sizes of digests, keys and signatures, that decoding inverts encoding,
  and that a signature verifies under the key that made it. \<open>pem_laws\<close> does so for the
  PEM codecs. \<open>sample_provider\<close> is a concrete instance, with which the theorems that
  assume the laws are applied; it is no model of the cryptography.
\<close>

record ('sk, 'vk, 'sg) provider =
  sha256 :: "bytes \<Rightarrow> bytes"
  verifying_key :: "'sk \<Rightarrow> 'vk"
  ecdsa_sign :: "'sk \<Rightarrow> bytes \<Rightarrow> 'sg"
  ecdsa_verify :: "'vk \<Rightarrow> bytes \<Rightarrow> 'sg \<Rightarrow> bool"
  sig_to_bytes :: "'sg \<Rightarrow> bytes"
  sig_from_slice :: "bytes \<Rightarrow> 'sg option"
  to_encoded_point :: "'vk \<Rightarrow> bytes"
  from_sec1_bytes :: "bytes \<Rightarrow> 'vk option"
  from_pkcs8_pem :: "string \<Rightarrow> string + 'sk"
  to_pkcs8_pem :: "'sk \<Rightarrow> string + string"
  to_public_key_pem :: "'vk \<Rightarrow> string + string"

definition provider_laws :: "('sk, 'vk, 'sg) provider \<Rightarrow> bool" where
  "provider_laws P \<longleftrightarrow>
     (\<forall>m. length (sha256 P m) = 32) \<and>
     (\<forall>vk. length (to_encoded_point P vk) = 65) \<and>
     (\<forall>vk. from_sec1_bytes P (to_encoded_point P vk) = Some vk) \<and>
     (\<forall>s. length (sig_to_bytes P s) = 64) \<and>
     (\<forall>s. sig_from_slice P (sig_to_bytes P s) = Some s) \<and>
     (\<forall>sk m. ecdsa_verify P (verifying_key P sk) m (ecdsa_sign P sk m))"

definition pem_laws :: "('sk, 'vk, 'sg) provider \<Rightarrow> bool" where
  "pem_laws P \<longleftrightarrow>
     (\<forall>sk pem. to_pkcs8_pem P sk = Inr pem \<longrightarrow> valid_str pem \<and> from_pkcs8_pem P pem = Inr sk)"

text \<open>A 65-byte SEC1 encoding is the uncompressed one, tagged 4.\<close>

definition sec1_law :: "('sk, 'vk, 'sg) provider \<Rightarrow> bool" where
  "sec1_law P \<longleftrightarrow>
     (\<forall>bs vk. length bs = 65 \<longrightarrow> from_sec1_bytes P bs = Some vk \<longrightarrow>
        bs ! 0 = 4 \<and> to_encoded_point P vk = bs)"

lemma provider_lawsD:
  assumes "provider_laws P"
  shows "length (sha256 P m) = 32" "length (to_encoded_point P vk) = 65"
    "from_sec1_bytes P (to_encoded_point P vk) = Some vk" "length (sig_to_bytes P s) = 64"
    "sig_from_slice P (sig_to_bytes P s) = Some s"
    "ecdsa_verify P (verifying_key P sk) m (ecdsa_sign P sk m)"
  using assms by (simp_all add: provider_laws_def)

text \<open>A sum of the third-party code's, with the error as text, is a result of ours.\<close>

fun of_sum :: "string + 'a \<Rightarrow> 'a res" where
  "of_sum (Inl e) = Err e"
| "of_sum (Inr x) = Ok x"

lemma of_sum_Ok_iff [ok_iff]: "of_sum s = Ok x \<longleftrightarrow> s = Inr x"
  by (cases s) auto

lemma of_sum_no_panic [simp]: "of_sum s \<noteq> Panic"
  by (cases s) auto

section \<open>A sample instance\<close>

definition sample_digest :: "bytes \<Rightarrow> bytes" where
  "sample_digest m = (foldl (\<lambda>a b. 3 * a + b) 7 m) # of_nat (length m) # replicate 30 0"

definition sample_provider :: "(u8, u8, u8) provider" where
  "sample_provider = \<lparr>
     sha256 = sample_digest,
     verifying_key = (\<lambda>sk. sk),
     ecdsa_sign = (\<lambda>sk m. sk + hd (sample_digest m)),
     ecdsa_verify = (\<lambda>vk m s. s = vk + hd (sample_digest m)),
     sig_to_bytes = (\<lambda>s. s # replicate 63 0),
     sig_from_slice = (\<lambda>bs. if bs = hd bs # replicate 63 0 then Some (hd bs) else None),
     to_encoded_point = (\<lambda>vk. 4 # vk # replicate 63 0),
     from_sec1_bytes = (\<lambda>bs. if bs = 4 # bs ! 1 # replicate 63 0 then Some (bs ! 1) else None),
     from_pkcs8_pem = (\<lambda>s. case s of
         [c] \<Rightarrow> if (of_char c :: u8) < 0x80 then Inr (of_char c) else Inl ''malformed key''
       | _ \<Rightarrow> Inl ''malformed key''),
     to_pkcs8_pem = (\<lambda>sk. if sk < 0x80 then Inr [byte_char sk] else Inl ''unsupported key''),
     to_public_key_pem = (\<lambda>vk. if vk < 0x80 then Inr [byte_char vk] else Inl ''unsupported key'') \<rparr>"

lemma sample_provider_laws: "provider_laws sample_provider"
  by (simp add: provider_laws_def sample_provider_def sample_digest_def)

lemma sample_pem_laws: "pem_laws sample_provider"
  by (auto simp: pem_laws_def sample_provider_def valid_str_def as_bytes_def split: if_splits)

lemma sample_sec1_law: "sec1_law sample_provider"
proof -
  have "xs = 4 # xs ! 1 # ys \<Longrightarrow> xs ! 0 = 4" for xs ys :: bytes
    by (metis nth_Cons_0)
  then show ?thesis
    by (auto simp: sec1_law_def sample_provider_def split: if_splits)
qed

end
