(* ===== verification/World.thy ===== *)
theory World
  imports Text
begin

text \<open>
  The effects of the host tool: the file system and the two output streams, as a state
  that every command takes and returns. \<open>os\<close> holds what the operating system decides
  (which reads and writes fail, and the text of its errors); a write that fails may leave
  a prefix of the contents behind. A directory is a path that exists and whose reads and
  writes fail. Paths are strings and print as themselves.
\<close>

datatype write_outcome =
    WriteOk
  | OpenFails string
  | WriteFails nat string

record os =
  read_fault :: "string \<Rightarrow> string option"
  write_outcome :: "string \<Rightarrow> write_outcome"
  not_found :: string
  not_utf8 :: string

record world =
  files :: "string \<Rightarrow> bytes option"
  stdout :: string
  stderr :: string

type_synonym 'a io = "world \<Rightarrow> 'a res \<times> world"

definition io_lift :: "'a res \<Rightarrow> 'a io" where
  "io_lift r = (\<lambda>w. (r, w))"

definition io_then :: "'a io \<Rightarrow> ('a \<Rightarrow> 'b io) \<Rightarrow> 'b io" where
  "io_then m f = (\<lambda>w. case m w of
      (Ok x, w') \<Rightarrow> f x w'
    | (Err e, w') \<Rightarrow> (Err e, w')
    | (Panic, w') \<Rightarrow> (Panic, w'))"

definition io_map_err :: "(string \<Rightarrow> string) \<Rightarrow> 'a io \<Rightarrow> 'a io" where
  "io_map_err f m = (\<lambda>w. case m w of (r, w') \<Rightarrow> (map_err f r, w'))"

section \<open>Files and streams\<close>

definition path_exists :: "string \<Rightarrow> bool io" where
  "path_exists p = (\<lambda>w. (Ok (files w p \<noteq> None), w))"

definition fs_read :: "os \<Rightarrow> string \<Rightarrow> bytes io" where
  "fs_read os p = (\<lambda>w.
     (case files w p of
        None \<Rightarrow> Err (not_found os)
      | Some bs \<Rightarrow> (case read_fault os p of Some e \<Rightarrow> Err e | None \<Rightarrow> Ok bs), w))"

definition fs_read_to_string :: "os \<Rightarrow> string \<Rightarrow> string io" where
  "fs_read_to_string os p =
     io_then (fs_read os p) (\<lambda>bs. io_lift (ok_or (from_utf8 bs) (not_utf8 os)))"

definition fs_write :: "os \<Rightarrow> string \<Rightarrow> bytes \<Rightarrow> unit io" where
  "fs_write os p bs = (\<lambda>w.
     case write_outcome os p of
       WriteOk \<Rightarrow> (Ok (), w\<lparr>files := (files w)(p \<mapsto> bs)\<rparr>)
     | OpenFails e \<Rightarrow> (Err e, w)
     | WriteFails n e \<Rightarrow> (Err e, w\<lparr>files := (files w)(p \<mapsto> take n bs)\<rparr>))"

definition print_out :: "string \<Rightarrow> unit io" where
  "print_out s = (\<lambda>w. (Ok (), w\<lparr>stdout := stdout w @ s\<rparr>))"

definition print_err :: "string \<Rightarrow> unit io" where
  "print_err s = (\<lambda>w. (Ok (), w\<lparr>stderr := stderr w @ s\<rparr>))"

section \<open>Inversion\<close>

lemma io_then_Ok_iff [ok_iff]:
  "io_then m f w = (Ok y, w2) \<longleftrightarrow> (\<exists>x w1. m w = (Ok x, w1) \<and> f x w1 = (Ok y, w2))"
  by (auto simp: io_then_def split: prod.splits res.splits)

lemma io_lift_eq [ok_iff]: "io_lift r w = (s, w2) \<longleftrightarrow> r = s \<and> w2 = w"
  by (auto simp: io_lift_def)

lemma io_map_err_Ok_iff [ok_iff]: "io_map_err f m w = (Ok x, w2) \<longleftrightarrow> m w = (Ok x, w2)"
  by (auto simp: io_map_err_def ok_iff split: prod.splits)

lemma path_exists_iff [ok_iff]:
  "path_exists p w = (Ok b, w2) \<longleftrightarrow> b = (files w p \<noteq> None) \<and> w2 = w"
  by (auto simp: path_exists_def)

lemma fs_read_Ok_iff [ok_iff]:
  "fs_read os p w = (Ok bs, w2) \<longleftrightarrow> files w p = Some bs \<and> read_fault os p = None \<and> w2 = w"
  by (auto simp: fs_read_def split: option.splits)

lemma fs_read_to_string_Ok_iff [ok_iff]:
  "fs_read_to_string os p w = (Ok s, w2) \<longleftrightarrow>
     valid_str s \<and> files w p = Some (as_bytes s) \<and> read_fault os p = None \<and> w2 = w"
  by (auto simp: fs_read_to_string_def ok_iff)

lemma fs_write_Ok_iff [ok_iff]:
  "fs_write os p bs w = (Ok u, w2) \<longleftrightarrow>
     write_outcome os p = WriteOk \<and> w2 = w\<lparr>files := (files w)(p \<mapsto> bs)\<rparr>"
  by (auto simp: fs_write_def split: write_outcome.splits)

lemma print_out_Ok_iff [ok_iff]:
  "print_out s w = (Ok u, w2) \<longleftrightarrow> w2 = w\<lparr>stdout := stdout w @ s\<rparr>"
  by (auto simp: print_out_def)

section \<open>Frames: what an action may change\<close>

text \<open>
  \<open>framed R m\<close>: the action \<open>m\<close> only takes a state to one that \<open>R\<close> relates to it.
  For a reflexive and transitive \<open>R\<close> this is kept by sequencing, so that the frame of
  a command follows from the frames of its steps; the locale proves it once, and the
  interpretations are the frames the tool's commands are held to.
\<close>

definition framed :: "(world \<Rightarrow> world \<Rightarrow> bool) \<Rightarrow> 'a io \<Rightarrow> bool" where
  "framed R m \<longleftrightarrow> (\<forall>w. R w (snd (m w)))"

definition same_files :: "world \<Rightarrow> world \<Rightarrow> bool" where
  "same_files w w' \<longleftrightarrow> files w' = files w"

definition same_elsewhere :: "string \<Rightarrow> world \<Rightarrow> world \<Rightarrow> bool" where
  "same_elsewhere p w w' \<longleftrightarrow> (\<forall>q. q \<noteq> p \<longrightarrow> files w' q = files w q)"

definition silent :: "world \<Rightarrow> world \<Rightarrow> bool" where
  "silent w w' \<longleftrightarrow> stdout w' = stdout w \<and> stderr w' = stderr w"

locale frame_relation =
  fixes R :: "world \<Rightarrow> world \<Rightarrow> bool"
  assumes refl: "R w w"
    and trans: "R u v \<Longrightarrow> R v w \<Longrightarrow> R u w"
begin

lemma framed_then:
  assumes "framed R m" and "\<And>x. framed R (f x)"
  shows "framed R (io_then m f)"
  unfolding framed_def
proof
  fix w
  obtain r w1 where m: "m w = (r, w1)" by (cases "m w")
  have "R w w1" using assms(1) m by (metis framed_def snd_conv)
  then show "R w (snd (io_then m f w))"
    using assms(2) trans by (cases r) (auto simp: io_then_def m framed_def)
qed

lemma framed_lift: "framed R (io_lift r)"
  by (simp add: framed_def io_lift_def refl)

lemma framed_exists: "framed R (path_exists p)"
  by (simp add: framed_def path_exists_def refl)

lemma framed_read: "framed R (fs_read os p)"
  by (simp add: framed_def fs_read_def refl)

lemma framed_read_to_string: "framed R (fs_read_to_string os p)"
  unfolding fs_read_to_string_def by (intro framed_then framed_read framed_lift)

lemma framed_map_err: "framed R m \<Longrightarrow> framed R (io_map_err f m)"
  by (auto simp: framed_def io_map_err_def split: prod.split) (metis snd_conv)

lemma framed_if:
  "(c \<Longrightarrow> framed R m) \<Longrightarrow> (\<not> c \<Longrightarrow> framed R n) \<Longrightarrow> framed R (if c then m else n)"
  by simp

lemmas framed_rules = framed_then framed_lift framed_exists framed_read
  framed_read_to_string framed_map_err framed_if

end

interpretation files_frame: frame_relation same_files
  by unfold_locales (auto simp: same_files_def)

interpretation path_frame: frame_relation "same_elsewhere p"
  by unfold_locales (auto simp: same_elsewhere_def)

interpretation stream_frame: frame_relation silent
  by unfold_locales (auto simp: silent_def)

interpretation still_frame: frame_relation "(=)"
  by unfold_locales auto

text \<open>
  A sequence that changes the state, or succeeds, has passed every earlier step that
  cannot change the state.
\<close>

lemma io_then_reached:
  assumes "framed (=) m" and "w' \<noteq> w \<or> is_ok r"
  shows "io_then m f w = (r, w') \<longleftrightarrow> (\<exists>x. m w = (Ok x, w) \<and> f x w = (r, w'))"
proof -
  obtain s w1 where m: "m w = (s, w1)" by (cases "m w")
  with assms(1) have "w1 = w" by (metis framed_def snd_conv)
  with m assms(2) show ?thesis by (cases s) (auto simp: io_then_def)
qed

lemma io_lift_reached:
  "w' \<noteq> w \<or> is_ok r \<Longrightarrow> io_lift (Err e) w = (r, w') \<longleftrightarrow> False"
  by (auto simp: io_lift_def)

lemma write_frames:
  "framed (same_elsewhere p) (fs_write os p bs)" "framed silent (fs_write os p bs)"
  by (auto simp: framed_def same_elsewhere_def silent_def fs_write_def
      split: write_outcome.split)

lemma print_frames:
  "framed same_files (print_out s)" "framed same_files (print_err s)"
  "framed (same_elsewhere p) (print_out s)" "framed (same_elsewhere p) (print_err s)"
  by (auto simp: framed_def same_files_def same_elsewhere_def print_out_def print_err_def)

section \<open>A sample system\<close>

definition sample_os :: os where
  "sample_os = \<lparr>read_fault = (\<lambda>_. None), write_outcome = (\<lambda>_. WriteOk),
     not_found = ''not found'', not_utf8 = ''not UTF-8''\<rparr>"

definition empty_world :: world where
  "empty_world = \<lparr>files = Map.empty, stdout = [], stderr = []\<rparr>"

end
