(* ===== verification/Keys.thy ===== *)
theory Keys
  imports Crypto World
begin

text \<open>
  \<^verbatim>\<open>host/rampart/src/keys.rs\<close>: key identifiers (the first eight bytes of the digest of
  the uncompressed public key), their hexadecimal form, and the key files. The key that
  \<^verbatim>\<open>generate_private_key\<close> draws from the operating system's generator is an argument.
\<close>

definition KEY_ID_SIZE :: nat where
  "KEY_ID_SIZE = 8"

definition derive_key_id :: "('sk, 'vk, 'sg) provider \<Rightarrow> 'vk \<Rightarrow> bytes" where
  "derive_key_id P public_key = take KEY_ID_SIZE (sha256 P (to_encoded_point P public_key))"

definition key_id_hex :: "bytes \<Rightarrow> string" where
  "key_id_hex key_id = foldl (\<lambda>encoded b. encoded @ hex_pad 2 (unat b)) [] key_id"

text \<open>The loop over the eight positions of the array.\<close>

fun parse_key_bytes :: "string \<Rightarrow> nat list \<Rightarrow> bytes res" where
  "parse_key_bytes value [] = Ok []"
| "parse_key_bytes value (i # is) =
     and_then (str_slice value (i * 2) (i * 2 + 2)) (\<lambda>s.
     and_then (ok_or (u8_from_str_radix 16 s) ''key ID contains non-hexadecimal characters'') (\<lambda>b.
     and_then (parse_key_bytes value is) (\<lambda>bs.
     Ok (b # bs))))"

definition strip_hex_prefix :: "string \<Rightarrow> string option" where
  "strip_hex_prefix s =
     (case strip_prefix ''0x'' s of Some r \<Rightarrow> Some r | None \<Rightarrow> strip_prefix ''0X'' s)"

definition parse_key_id_hex :: "string \<Rightarrow> bytes res" where
  "parse_key_id_hex encoded =
     (let value = (case strip_hex_prefix encoded of Some r \<Rightarrow> r | None \<Rightarrow> encoded) in
      if length value \<noteq> KEY_ID_SIZE * 2
      then Err (''key ID must contain '' @ display_nat (KEY_ID_SIZE * 2) @ '' hexadecimal characters'')
      else parse_key_bytes value [0..<KEY_ID_SIZE])"

section \<open>Key files\<close>

definition read_signing_key :: "('sk, 'vk, 'sg) provider \<Rightarrow> os \<Rightarrow> string \<Rightarrow> 'sk io" where
  "read_signing_key P os path =
     io_then (io_map_err (\<lambda>e. ''failed to read key '' @ path @ '': '' @ e)
       (fs_read_to_string os path)) (\<lambda>pem.
     io_lift (map_err (\<lambda>e. ''failed to decode P-256 PKCS#8 key '' @ path @ '': '' @ e)
       (of_sum (from_pkcs8_pem P pem))))"

definition generate_private_key ::
  "('sk, 'vk, 'sg) provider \<Rightarrow> os \<Rightarrow> 'sk \<Rightarrow> string \<Rightarrow> string io" where
  "generate_private_key P os signing_key path =
     io_then (path_exists path) (\<lambda>there.
     if there then io_lift (Err (''refusing to overwrite existing key '' @ path))
     else (let key_id = derive_key_id P (verifying_key P signing_key) in
       io_then (io_lift (map_err (\<lambda>e. ''failed to encode PKCS#8 key: '' @ e)
         (of_sum (to_pkcs8_pem P signing_key)))) (\<lambda>pem.
       io_then (io_map_err (\<lambda>e. ''failed to write key '' @ path @ '': '' @ e)
         (fs_write os path (as_bytes pem))) (\<lambda>_.
       io_lift (Ok (key_id_hex key_id))))))"

definition inspect_private_key :: "('sk, 'vk, 'sg) provider \<Rightarrow> os \<Rightarrow> string \<Rightarrow> string io" where
  "inspect_private_key P os path =
     io_then (read_signing_key P os path) (\<lambda>signing_key.
     let key_id = derive_key_id P (verifying_key P signing_key) in
     io_lift (Ok (''Rampart Key'' @ [CHR 0x0A, CHR 0x0A] @ ''Algorithm'' @ [CHR 0x0A] @
       ''  ECDSA_P256_SHA256'' @ [CHR 0x0A, CHR 0x0A] @ ''Key ID'' @ [CHR 0x0A] @ ''  0x'' @
       key_id_hex key_id @ [CHR 0x0A])))"

definition export_public_key ::
  "('sk, 'vk, 'sg) provider \<Rightarrow> os \<Rightarrow> string \<Rightarrow> string \<Rightarrow> string io" where
  "export_public_key P os private_key_path output_path =
     io_then (path_exists output_path) (\<lambda>there.
     if there then io_lift (Err (''refusing to overwrite existing public key '' @ output_path))
     else
       io_then (read_signing_key P os private_key_path) (\<lambda>signing_key.
       let vk = verifying_key P signing_key; key_id = derive_key_id P vk in
       io_then (io_lift (map_err (\<lambda>e. ''failed to encode public key: '' @ e)
         (of_sum (to_public_key_pem P vk)))) (\<lambda>pem.
       io_then (io_map_err (\<lambda>e. ''failed to write public key '' @ output_path @ '': '' @ e)
         (fs_write os output_path (as_bytes pem))) (\<lambda>_.
       io_lift (Ok (key_id_hex key_id))))))"

section \<open>Key identifiers\<close>

lemma length_derive_key_id:
  "provider_laws P \<Longrightarrow> length (derive_key_id P vk) = 8"
  by (simp add: derive_key_id_def KEY_ID_SIZE_def provider_lawsD)

lemma key_id_hex_eq: "key_id_hex k = hex_lower k"
  by (simp add: key_id_hex_def hex_lower_def)

lemma length_key_id_hex [simp]: "length (key_id_hex k) = 2 * length k"
  unfolding key_id_hex_eq hex_lower_concat by (induction k) auto

lemma hex_pad_chars: "c \<in> set (hex_pad k n) \<Longrightarrow> \<exists>d < 16. c = digit_char d"
proof (induction k arbitrary: n)
  case (Suc k)
  from Suc.prems consider "c \<in> set (hex_pad k (n div 16))" | "c = digit_char (n mod 16)"
    by auto
  then show ?case
  proof cases
    case 1
    then show ?thesis by (rule Suc.IH)
  next
    case 2
    moreover have "n mod 16 < 16" by simp
    ultimately show ?thesis by blast
  qed
qed simp

lemma key_id_hex_chars: "c \<in> set (key_id_hex k) \<Longrightarrow> \<exists>d < 16. c = digit_char d"
  by (auto simp: key_id_hex_eq hex_lower_concat dest: hex_pad_chars)

lemma digit_char_code: "d < 16 \<Longrightarrow> (of_char (digit_char d) :: nat) = (if d < 10 then 48 + d else 87 + d)"
  by (simp add: digit_char_def)

lemma digit_char_not_cont: "d < 16 \<Longrightarrow> \<not> cont (of_char (digit_char d))"
  by (auto simp: cont_def word_le_nat_alt digit_char_code)

lemma digit_char_not_x:
  assumes "d < 16"
  shows "digit_char d \<noteq> CHR ''x''" "digit_char d \<noteq> CHR ''X''"
proof -
  have "(of_char (digit_char d) :: nat) \<noteq> of_char (CHR ''x'')"
    "(of_char (digit_char d) :: nat) \<noteq> of_char (CHR ''X'')"
    using assms by (auto simp: digit_char_code)
  then show "digit_char d \<noteq> CHR ''x''" "digit_char d \<noteq> CHR ''X''" by auto
qed

lemma strip_prefix_append [simp]: "strip_prefix p (p @ s) = Some s"
  by (simp add: strip_prefix_def)

lemma no_hex_prefix:
  assumes "2 \<le> length s" and "s ! 1 \<noteq> CHR ''x''" and "s ! 1 \<noteq> CHR ''X''"
  shows "strip_hex_prefix s = None"
proof -
  obtain a b r where "s = a # b # r"
    using assms(1) by (cases s; cases "tl s") auto
  with assms(2,3) show ?thesis by (simp add: strip_hex_prefix_def strip_prefix_def)
qed

lemma parse_key_bytes_map:
  "(\<And>i. i \<in> set is \<Longrightarrow> str_slice v (i * 2) (i * 2 + 2) = Ok (hex_pad 2 (unat (k ! i)))) \<Longrightarrow>
     parse_key_bytes v is = Ok (map ((!) k) is)"
  by (induction "is") auto

lemma str_slice_key_id_hex:
  assumes "i < length k"
  shows "str_slice (key_id_hex k) (i * 2) (i * 2 + 2) = Ok (hex_pad 2 (unat (k ! i)))"
proof -
  have "is_char_boundary (key_id_hex k) j" if "j \<le> 2 * length k" for j
    using that key_id_hex_chars [of "key_id_hex k ! j" k] digit_char_not_cont
    by (force simp: is_char_boundary_def)
  moreover have "seg (i * 2) 2 (key_id_hex k) = hex_pad 2 (unat (k ! i))"
    using assms seg_concat_map_const [of "\<lambda>b. hex_pad 2 (unat b)" 2 i k]
    by (simp add: key_id_hex_eq hex_lower_concat)
  ultimately show ?thesis using assms by (simp add: str_slice_def)
qed

lemma key_id_hex_no_prefix: "length k = 8 \<Longrightarrow> strip_hex_prefix (key_id_hex k) = None"
  using key_id_hex_chars [of "key_id_hex k ! 1" k] digit_char_not_x
  by (intro no_hex_prefix) (force intro: nth_mem)+

lemma parse_key_id_hex_eq:
  assumes "length k = 8"
    and "strip_hex_prefix s = Some (key_id_hex k) \<or> strip_hex_prefix s = None \<and> s = key_id_hex k"
  shows "parse_key_id_hex s = Ok k"
proof -
  have "parse_key_bytes (key_id_hex k) [0..<8] = Ok (map ((!) k) [0..<8])"
    using assms(1) by (intro parse_key_bytes_map str_slice_key_id_hex) simp
  also have "map ((!) k) [0..<8] = k"
    using map_nth [of k] assms(1) by simp
  finally show ?thesis
    using assms by (auto simp: parse_key_id_hex_def KEY_ID_SIZE_def)
qed

lemma length_parse_key_bytes: "parse_key_bytes v is = Ok bs \<Longrightarrow> length bs = length is"
  by (induction "is" arbitrary: bs) (auto simp: ok_iff)

lemma length_parse_key_id_hex: "parse_key_id_hex s = Ok k \<Longrightarrow> length k = 8"
  by (auto simp: parse_key_id_hex_def KEY_ID_SIZE_def Let_def
      dest!: length_parse_key_bytes split: option.splits if_splits)

lemma str_slice_plain:
  assumes "\<And>c. c \<in> set s \<Longrightarrow> \<not> cont (of_char c)" and "a \<le> b" and "b \<le> length s"
  shows "str_slice s a b = Ok (seg a (b - a) s)"
  using assms by (auto simp: str_slice_def is_char_boundary_def)

lemma str_slice_plain_no_panic:
  assumes "\<And>c. c \<in> set s \<Longrightarrow> \<not> cont (of_char c)" and "i * 2 + 2 \<le> length s"
  shows "str_slice s (i * 2) (i * 2 + 2) \<noteq> Panic"
  using assms by (subst str_slice_plain) auto

lemma parse_key_bytes_no_panic:
  assumes "\<And>c. c \<in> set v \<Longrightarrow> \<not> cont (of_char c)" and "\<And>i. i \<in> set is \<Longrightarrow> i * 2 + 2 \<le> length v"
  shows "parse_key_bytes v is \<noteq> Panic"
  using assms(2) 
proof (induction "is")
  case (Cons i "is")
  then show ?case using str_slice_plain_no_panic [OF assms(1), where i = i] by (auto simp: panic_iff)
qed simp

text \<open>The loop stops at the first offset between two pairs that is inside a character.\<close>

lemma parse_key_bytes_Panic_iff:
  assumes "length v = 2 * n" and "k < n" and "is_char_boundary v (k * 2)"
  shows "parse_key_bytes v [k..<n] = Panic \<longleftrightarrow>
    (\<exists>i < n - 1. k \<le> i \<and> cont (of_char (v ! (i * 2 + 2))) \<and>
       (\<forall>j < i. k \<le> j \<longrightarrow> u8_from_str_radix 16 (seg (j * 2) 2 v) \<noteq> None))"
    (is "_ \<longleftrightarrow> (\<exists>i < n - 1. k \<le> i \<and> ?cut i \<and> ?before k i)")
  using assms(2,3)
proof (induction "n - k" arbitrary: k)
  case (Suc x)
  have loop: "[k..<n] = k # [Suc k..<n]" using Suc.prems(1) by (simp add: upt_rec)
  have slice: "str_slice v (k * 2) (k * 2 + 2) =
      (if is_char_boundary v (Suc k * 2) then Ok (seg (k * 2) 2 v) else Panic)"
    using Suc.prems(2) by (simp add: str_slice_def add.commute)
  have bound: "is_char_boundary v (Suc k * 2) \<longleftrightarrow> Suc k = n \<or> \<not> ?cut k"
    using assms(1) Suc.prems(1) by (auto simp: is_char_boundary_def)
  consider (here) "Suc k < n" "?cut k" | (bad) "Suc k = n \<or> \<not> ?cut k"
      "u8_from_str_radix 16 (seg (k * 2) 2 v) = None"
    | (last) "Suc k = n" "u8_from_str_radix 16 (seg (k * 2) 2 v) \<noteq> None"
    | (go) "Suc k < n" "\<not> ?cut k" "u8_from_str_radix 16 (seg (k * 2) 2 v) \<noteq> None"
    using Suc.prems(1) by linarith
  then show ?case
  proof cases
    case here
    then have "parse_key_bytes v [k..<n] = Panic"
      using slice bound by (simp add: loop)
    moreover have "k < n - 1" "?before k k" using here(1) by simp_all
    ultimately show ?thesis using here(2) by blast
  next
    case bad
    then have "parse_key_bytes v [k..<n] \<noteq> Panic"
      using slice bound by (simp add: loop)
    moreover have "k < i" if "i < n - 1" "k \<le> i" "?cut i" for i
      using that bad(1) by (cases "i = k") auto
    ultimately show ?thesis using bad(2) by blast
  next
    case last
    then have "parse_key_bytes v [k..<n] \<noteq> Panic"
      using slice bound by (auto simp: loop)
    then show ?thesis using last(1) by auto
  next
    case go
    then have "parse_key_bytes v [k..<n] = Panic \<longleftrightarrow> parse_key_bytes v [Suc k..<n] = Panic"
      using slice bound by (auto simp: loop panic_iff)
    also have "\<dots> \<longleftrightarrow> (\<exists>i < n - 1. Suc k \<le> i \<and> ?cut i \<and> ?before (Suc k) i)"
      using Suc.hyps go(1,2) bound by (intro Suc.hyps(1)) auto
    also have "\<dots> \<longleftrightarrow> (\<exists>i < n - 1. k \<le> i \<and> ?cut i \<and> ?before k i)"
      using go(2,3) by (metis Suc_le_eq le_eq_less_or_eq)
    finally show ?thesis .
  qed
qed simp

lemma strip_hex_prefix_subset: "strip_hex_prefix s = Some r \<Longrightarrow> set r \<subseteq> set s"
  by (auto simp: strip_hex_prefix_def strip_prefix_def split: if_splits dest: in_set_dropD)

lemma ascii_not_cont: "(of_char c :: u8) < 0x80 \<Longrightarrow> \<not> cont (of_char c)"
  by (simp add: cont_def not_le)

lemma u8_parse_plus: "d < 16 \<Longrightarrow> u8_from_str_radix 16 [CHR ''+'', digit_char d] = Some (of_nat d)"
  by (simp add: u8_from_str_radix_def from_str_radix_def to_digit_digit_char)

lemma parse_key_bytes_pairs:
  assumes "\<And>i. i \<in> set is \<Longrightarrow> \<exists>p. str_slice v (i * 2) (i * 2 + 2) = Ok p \<and>
    u8_from_str_radix 16 p = Some (f i)"
  shows "parse_key_bytes v is = Ok (map f is)"
  using assms by (induction "is") (auto, force)

lemma read_signing_key_Ok [ok_iff]:
  "read_signing_key P os path w = (Ok sk, w') \<longleftrightarrow> w' = w \<and> read_fault os path = None \<and>
     (\<exists>pem. valid_str pem \<and> files w path = Some (as_bytes pem) \<and> from_pkcs8_pem P pem = Inr sk)"
  by (auto simp: read_signing_key_def ok_iff)

lemma framed_generate:
  "framed (same_elsewhere p) (generate_private_key P os sk p)"
  "framed (same_elsewhere p) (export_public_key P os kp p)"
  unfolding generate_private_key_def export_public_key_def read_signing_key_def Let_def
  by (intro path_frame.framed_rules write_frames)+

lemma framed_inspect_key: "framed same_files (inspect_private_key P os p)"
  unfolding inspect_private_key_def read_signing_key_def Let_def
  by (intro files_frame.framed_rules)

section \<open>Properties\<close>

text \<open>C35: A key identifier printed in hexadecimal, without a prefix or after 0x or 0X, parses back
  to the same eight bytes.\<close>

theorem key_id_roundtrip:
  assumes "length k = 8" and "prefix \<in> {'''', ''0x'', ''0X''}"
  shows "parse_key_id_hex (prefix @ key_id_hex k) = Ok k"
  using assms key_id_hex_no_prefix [of k]
  by (intro parse_key_id_hex_eq) (auto simp: strip_hex_prefix_def strip_prefix_def)

theorem key_id_roundtrip_witness:
  "parse_key_id_hex (''0X'' @ key_id_hex [1, 2, 3, 4, 5, 6, 7, 255]) = Ok [1, 2, 3, 4, 5, 6, 7, 255]"
  by (rule key_id_roundtrip) simp_all

text \<open>On ASCII text the key identifier parser returns a value or an error; it does not panic.\<close>

theorem key_id_ascii_total:
  assumes "\<forall>c \<in> set s. (of_char c :: u8) < 0x80"
  shows "parse_key_id_hex s \<noteq> Panic"
proof -
  have plain: "\<not> cont (of_char c)" if "c \<in> set v" "set v \<subseteq> set s" for c v
    using assms that ascii_not_cont by blast
  have "parse_key_bytes v [0..<8] \<noteq> Panic" if "set v \<subseteq> set s" "length v = 16" for v
    using that plain by (intro parse_key_bytes_no_panic) auto
  then show ?thesis
    using strip_hex_prefix_subset [of s]
    by (auto simp: parse_key_id_hex_def Let_def KEY_ID_SIZE_def split: option.splits)
qed

theorem key_id_ascii_total_witness:
  "parse_key_id_hex ''0xzz00000000000000'' \<noteq> Panic"
  by (rule key_id_ascii_total) simp

text \<open>C39: The key identifier parser panics on exactly this class of inputs: the text, without its
  prefix, has sixteen bytes; a multi-byte character goes on across one of the even offsets
  2, 4, ..., 14, where the parser slices; and the pairs before the one that ends there are
  read as bytes. The test of the length, which counts bytes, does not exclude them.\<close>

theorem key_id_panics:
  assumes "v = (case strip_hex_prefix s of Some r \<Rightarrow> r | None \<Rightarrow> s)"
  shows "parse_key_id_hex s = Panic \<longleftrightarrow> length v = 16 \<and>
    (\<exists>i < 7. cont (of_char (v ! (i * 2 + 2))) \<and>
       (\<forall>j < i. u8_from_str_radix 16 (seg (j * 2) 2 v) \<noteq> None))"
proof (cases "length v = 16")
  case True
  then have "parse_key_id_hex s = parse_key_bytes v [0..<8]"
    using assms by (simp add: parse_key_id_hex_def KEY_ID_SIZE_def)
  then show ?thesis
    using parse_key_bytes_Panic_iff [of v 8 0] True by (simp add: is_char_boundary_def)
qed (simp add: parse_key_id_hex_def KEY_ID_SIZE_def assms [symmetric])

theorem key_id_panics_witness:
  "valid_str (''0xa'' @ [CHR 0xC3, CHR 0xA9] @ ''0000000000000'') \<and>
   parse_key_id_hex (''0xa'' @ [CHR 0xC3, CHR 0xA9] @ ''0000000000000'') = Panic"
proof -
  let ?v = "''a'' @ [CHR 0xC3, CHR 0xA9] @ ''0000000000000''"
  let ?s = "''0xa'' @ [CHR 0xC3, CHR 0xA9] @ ''0000000000000''"
  have v: "?v = (case strip_hex_prefix ?s of Some r \<Rightarrow> r | None \<Rightarrow> ?s)"
    by (simp add: strip_hex_prefix_def strip_prefix_def)
  have "cont (of_char (?v ! (0 * 2 + 2)))" by (simp add: cont_def)
  then have "parse_key_id_hex ?s = Panic"
    by (intro key_id_panics [OF v, THEN iffD2] conjI exI [of _ 0]) simp_all
  moreover have "valid_str ?s" by (simp add: valid_str_def as_bytes_def cont_def)
  ultimately show ?thesis by blast
qed

text \<open>C40: The key identifier parser takes a plus sign and one digit for a byte: eight such pairs
  are accepted, whatever the digits.\<close>

theorem key_id_plus_accepted:
  assumes "length ds = 8" and "\<forall>d \<in> set ds. d < 16"
  shows "parse_key_id_hex (concat (map (\<lambda>d. [CHR ''+'', digit_char d]) ds)) = Ok (map of_nat ds)"
proof -
  let ?s = "concat (map (\<lambda>d. [CHR ''+'', digit_char d]) ds)"
  have len: "length ?s = 16" using assms(1) length_concat_map_const [of "\<lambda>d. [CHR ''+'', digit_char d]" 2 ds] by simp
  have plain: "\<not> cont (of_char c)" if "c \<in> set ?s" for c
  proof -
    from that assms(2) consider "c = CHR ''+''" | d where "d < 16" "c = digit_char d"
      by (auto split: if_splits)
    then show ?thesis by cases (simp_all add: cont_def [of 43] digit_char_not_cont)
  qed
  have slice: "str_slice ?s (i * 2) (i * 2 + 2) = Ok [CHR ''+'', digit_char (ds ! i)]" if "i < 8" for i
    using that assms(1) len plain seg_concat_map_const [of "\<lambda>d. [CHR ''+'', digit_char d]" 2 i ds]
    by (subst str_slice_plain) auto
  have "parse_key_bytes ?s [0..<8] = Ok (map (\<lambda>i. of_nat (ds ! i)) [0..<8])"
    using slice assms u8_parse_plus by (intro parse_key_bytes_pairs) auto
  moreover have "map (\<lambda>i. of_nat (ds ! i)) [0..<8] = (map of_nat ds :: bytes)"
    using assms(1) by (auto intro: nth_equalityI)
  moreover have "strip_hex_prefix ?s = None"
    using assms(1) by (cases ds) (auto simp: strip_hex_prefix_def strip_prefix_def)
  ultimately show ?thesis using len by (simp add: parse_key_id_hex_def KEY_ID_SIZE_def)
qed

theorem key_id_plus_accepted_witness:
  "parse_key_id_hex ''+0+1+2+3+4+5+6+7'' = Ok [0, 1, 2, 3, 4, 5, 6, 7]"
proof -
  have "concat (map (\<lambda>d. [CHR ''+'', digit_char d]) [0, 1, 2, 3, 4, 5, 6, 7]) = ''+0+1+2+3+4+5+6+7''"
    by code_simp
  then show ?thesis using key_id_plus_accepted [of "[0, 1, 2, 3, 4, 5, 6, 7]"] by simp
qed

text \<open>C32: Generating and exporting keys change no file but the output, and neither overwrites an
  existing file: then nothing changes at all.\<close>

theorem key_files_frame:
  "same_elsewhere p w (snd (generate_private_key P os sk p w)) \<and>
   same_elsewhere p w (snd (export_public_key P os kp p w)) \<and>
   (files w p = None \<or>
      generate_private_key P os sk p w = (Err (''refusing to overwrite existing key '' @ p), w) \<and>
      export_public_key P os kp p w =
        (Err (''refusing to overwrite existing public key '' @ p), w))"
proof (intro conjI)
  show "files w p = None \<or>
      generate_private_key P os sk p w = (Err (''refusing to overwrite existing key '' @ p), w) \<and>
      export_public_key P os kp p w =
        (Err (''refusing to overwrite existing public key '' @ p), w)"
    by (cases "files w p") (simp_all add: generate_private_key_def export_public_key_def
        io_then_def path_exists_def io_lift_def)
  show "same_elsewhere p w (snd (generate_private_key P os sk p w))"
    by (rule framed_generate(1) [unfolded framed_def, rule_format])
  show "same_elsewhere p w (snd (export_public_key P os kp p w))"
    by (rule framed_generate(2) [unfolded framed_def, rule_format])
qed

text \<open>C31: A generated key file reads back as the same signing key, and inspecting it reports the
  key identifier that generation returned.\<close>

theorem generated_key_reads_back:
  assumes "pem_laws P" "generate_private_key P os sk path w = (Ok kid, w')"
    and "read_fault os path = None"
  shows "kid = key_id_hex (derive_key_id P (verifying_key P sk)) \<and>
    read_signing_key P os path w' = (Ok sk, w') \<and>
    inspect_private_key P os path w' =
      (Ok (''Rampart Key'' @ nl @ nl @ ''Algorithm'' @ nl @ ''  ECDSA_P256_SHA256'' @ nl @ nl @
         ''Key ID'' @ nl @ ''  0x'' @ kid @ nl), w')"
proof -
  from assms(2) obtain pem where pem: "to_pkcs8_pem P sk = Inr pem"
    and w': "w' = w\<lparr>files := (files w)(path \<mapsto> as_bytes pem)\<rparr>"
    and kid: "kid = key_id_hex (derive_key_id P (verifying_key P sk))"
    by (auto simp: generate_private_key_def ok_iff Let_def split: if_splits)
  have "valid_str pem" "from_pkcs8_pem P pem = Inr sk"
    using assms(1) pem by (simp_all add: pem_laws_def)
  then have read: "read_signing_key P os path w' = (Ok sk, w')"
    using assms(3) by (auto simp: ok_iff w')
  then show ?thesis
    by (simp add: kid inspect_private_key_def io_then_def io_lift_def Let_def)
qed

theorem generated_key_reads_back_witness:
  "\<exists>kid w'. generate_private_key sample_provider sample_os 9 ''o'' empty_world = (Ok kid, w') \<and>
     read_signing_key sample_provider sample_os ''o'' w' = (Ok 9, w')"
proof -
  have "\<exists>kid w'. generate_private_key sample_provider sample_os 9 ''o'' empty_world = (Ok kid, w')"
    by (simp add: generate_private_key_def io_then_def path_exists_def io_lift_def fs_write_def
        io_map_err_def sample_os_def)
      (simp add: empty_world_def sample_provider_def)
  then obtain kid w' where "generate_private_key sample_provider sample_os 9 ''o'' empty_world =
    (Ok kid, w')" by blast
  from this generated_key_reads_back [OF sample_pem_laws this] show ?thesis
    by (auto simp: sample_os_def)
qed

end
