(* ===== verification/Manifest.thy ===== *)
theory Manifest
  imports Policy Keys
begin

text \<open>
  The manifest of an image, from \<^verbatim>\<open>host/rampart/src/format.rs\<close>: the TOML document and
  its conversion, the binary encoder and the parser. \<open>manifest_layout\<close> is the byte layout
  that \<^verbatim>\<open>docs/image-format.md\<close> tabulates; the encoder is proved to produce it and the
  parser to accept exactly the layouts of well-formed manifests.
\<close>

section \<open>Constants\<close>

definition MANIFEST_MAGIC :: bytes where "MANIFEST_MAGIC = as_bytes ''RPMFST01''"
definition MANIFEST_FORMAT_VERSION :: u16 where "MANIFEST_FORMAT_VERSION = 1"
definition MANIFEST_HEADER_SIZE :: nat where "MANIFEST_HEADER_SIZE = 128"
definition MANIFEST_ARTIFACT_ID_MAX :: nat where "MANIFEST_ARTIFACT_ID_MAX = 128"
definition HASH_ALGORITHM_SHA256 :: u16 where "HASH_ALGORITHM_SHA256 = 1"
definition SIGNATURE_ALGORITHM_ECDSA_P256_SHA256 :: u16 where
  "SIGNATURE_ALGORITHM_ECDSA_P256_SHA256 = 1"

lemmas manifest_sizes = MANIFEST_HEADER_SIZE_def MANIFEST_ARTIFACT_ID_MAX_def

lemma length_MANIFEST_MAGIC [simp]: "length MANIFEST_MAGIC = 8"
  by (simp add: MANIFEST_MAGIC_def)

section \<open>Data\<close>

record trial_document =
  max_attempts :: u16
  probation_period_ms :: u32

record manifest_document =
  d_artifact_id :: string
  d_vendor_id :: u32
  d_product_id :: u32
  d_hardware_family :: u32
  d_hardware_revision_min :: u32
  d_hardware_revision_max :: u32
  d_component_id :: u32
  d_version :: string
  d_security_epoch :: u32
  d_signature_role :: "string option"
  d_rollback_policy :: "string option"
  d_key_id :: "string option"
  d_trial :: "trial_document option"

record rampart_manifest =
  artifact_id :: string
  vendor_id :: u32
  product_id :: u32
  hardware_family :: u32
  hardware_revision_min :: u32
  hardware_revision_max :: u32
  component_id :: u32
  security_epoch :: u32
  version_major :: u16
  version_minor :: u16
  version_patch :: u16
  payload_size :: u32
  payload_digest :: bytes
  signature_role :: u16
  signature_threshold :: u16
  signature_count :: u16
  key_id :: bytes
  trial_max_attempts :: u16
  trial_probation_ms :: u32
  rollback_policy :: u16
  requirement_count :: u16
  dependency_count :: u16
  health_required_count :: u16

section \<open>From the document\<close>

definition into_manifest ::
  "manifest_document \<Rightarrow> u32 \<Rightarrow> bytes \<Rightarrow> bytes \<Rightarrow> rampart_manifest res" where
  "into_manifest doc payload_len digest kid =
     (if d_artifact_id doc = [] then Err ''artifact_id must not be empty''
      else if length (d_artifact_id doc) > MANIFEST_ARTIFACT_ID_MAX
      then Err (''artifact_id must be at most '' @ display_nat MANIFEST_ARTIFACT_ID_MAX @ '' bytes'')
      else if 0 \<in> set (as_bytes (d_artifact_id doc))
      then Err ''artifact_id must not contain NUL bytes''
      else if d_hardware_revision_min doc > d_hardware_revision_max doc
      then Err ''hardware_revision_min must be <= hardware_revision_max''
      else
        and_then (parse_semver_core (d_version doc)) (\<lambda>(major, minor, patch).
        and_then (parse_role (case d_signature_role doc of None \<Rightarrow> ''RELEASE'' | Some r \<Rightarrow> r)) (\<lambda>role.
        and_then (parse_rollback_policy
          (case d_rollback_policy doc of None \<Rightarrow> ''fallback'' | Some p \<Rightarrow> p)) (\<lambda>rollback.
        let trial = (case d_trial doc of
              None \<Rightarrow> \<lparr>max_attempts = 0, probation_period_ms = 0\<rparr> | Some t \<Rightarrow> t) in
        Ok \<lparr>artifact_id = d_artifact_id doc,
            vendor_id = d_vendor_id doc,
            product_id = d_product_id doc,
            hardware_family = d_hardware_family doc,
            hardware_revision_min = d_hardware_revision_min doc,
            hardware_revision_max = d_hardware_revision_max doc,
            component_id = d_component_id doc,
            security_epoch = d_security_epoch doc,
            version_major = major,
            version_minor = minor,
            version_patch = patch,
            payload_size = payload_len,
            payload_digest = digest,
            signature_role = role,
            signature_threshold = 1,
            signature_count = 1,
            key_id = kid,
            trial_max_attempts = max_attempts trial,
            trial_probation_ms = probation_period_ms trial,
            rollback_policy = rollback,
            requirement_count = 0,
            dependency_count = 0,
            health_required_count = 0\<rparr>))))"

definition version_string :: "rampart_manifest \<Rightarrow> string" where
  "version_string m = version_text (version_major m) (version_minor m) (version_patch m)"

definition signature_role_name :: "rampart_manifest \<Rightarrow> string" where
  "signature_role_name m = role_name (signature_role m)"

definition manifest_rollback_policy_name :: "rampart_manifest \<Rightarrow> string" where
  "manifest_rollback_policy_name m = rollback_policy_name (rollback_policy m)"

section \<open>The encoder\<close>

lemma padding_shrinks:
  "n mod 4 \<noteq> 0 \<Longrightarrow> (4 - Suc n mod 4) mod 4 < (4 - n mod 4) mod (4 :: nat)"
proof -
  assume "n mod 4 \<noteq> 0"
  then consider "n mod 4 = 1" | "n mod 4 = 2" | "n mod 4 = 3" by linarith
  then show ?thesis by cases (simp_all add: mod_Suc)
qed

text \<open>\<^verbatim>\<open>while out.len() % 4 != 0 { out.push(0u8); }\<close>\<close>

function pad4 :: "bytes \<Rightarrow> bytes" where
  "pad4 out = (if length out mod 4 \<noteq> 0 then pad4 (out @ [0]) else out)"
  by pat_completeness auto
termination
proof (relation "measure (\<lambda>out. (4 - length out mod 4) mod 4)")
  fix out :: bytes
  assume "length out mod 4 \<noteq> 0"
  then show "(out @ [0], out) \<in> measure (\<lambda>out. (4 - length out mod 4) mod 4)"
    using padding_shrinks by (simp only: in_measure length_append_singleton)
qed (rule wf_measure)

declare pad4.simps [simp del]

definition encode_manifest :: "rampart_manifest \<Rightarrow> bytes res" where
  "encode_manifest m =
     (let id_bytes = as_bytes (artifact_id m) in
      if length id_bytes > MANIFEST_ARTIFACT_ID_MAX
      then Err (''artifact_id must be at most '' @ display_nat MANIFEST_ARTIFACT_ID_MAX @ '' bytes'')
      else
        and_then (vec_zeroed MANIFEST_HEADER_SIZE) (\<lambda>out.
        and_then (copy_into out 0 8 MANIFEST_MAGIC) (\<lambda>out.
        and_then (write_u16 out 8 MANIFEST_FORMAT_VERSION) (\<lambda>out.
        and_then (expect (u16_try_from MANIFEST_HEADER_SIZE)) (\<lambda>header_size.
        and_then (write_u16 out 10 header_size) (\<lambda>out.
        and_then (write_u32 out 16 (vendor_id m)) (\<lambda>out.
        and_then (write_u32 out 20 (product_id m)) (\<lambda>out.
        and_then (write_u32 out 24 (hardware_family m)) (\<lambda>out.
        and_then (write_u32 out 28 (hardware_revision_min m)) (\<lambda>out.
        and_then (write_u32 out 32 (hardware_revision_max m)) (\<lambda>out.
        and_then (write_u32 out 36 (component_id m)) (\<lambda>out.
        and_then (write_u32 out 40 (security_epoch m)) (\<lambda>out.
        and_then (write_u16 out 44 (version_major m)) (\<lambda>out.
        and_then (write_u16 out 46 (version_minor m)) (\<lambda>out.
        and_then (write_u16 out 48 (version_patch m)) (\<lambda>out.
        and_then (write_u16 out 50 HASH_ALGORITHM_SHA256) (\<lambda>out.
        and_then (write_u32 out 52 (payload_size m)) (\<lambda>out.
        and_then (copy_into out 56 88 (payload_digest m)) (\<lambda>out.
        and_then (write_u16 out 88 SIGNATURE_ALGORITHM_ECDSA_P256_SHA256) (\<lambda>out.
        and_then (write_u16 out 90 (signature_role m)) (\<lambda>out.
        and_then (write_u16 out 92 (signature_threshold m)) (\<lambda>out.
        and_then (write_u16 out 94 (signature_count m)) (\<lambda>out.
        and_then (copy_into out 96 104 (key_id m)) (\<lambda>out.
        and_then (write_u16 out 104 (trial_max_attempts m)) (\<lambda>out.
        and_then (write_u16 out 106 (rollback_policy m)) (\<lambda>out.
        and_then (write_u32 out 108 (trial_probation_ms m)) (\<lambda>out.
        and_then (expect (u16_try_from (length id_bytes))) (\<lambda>id_len.
        and_then (write_u16 out 112 id_len) (\<lambda>out.
        and_then (write_u16 out 114 (requirement_count m)) (\<lambda>out.
        and_then (write_u16 out 116 (dependency_count m)) (\<lambda>out.
        and_then (write_u16 out 118 (health_required_count m)) (\<lambda>out.
        let out = pad4 (out @ id_bytes) in
        and_then (ok_or (u32_try_from (length out)) ''manifest size exceeds Rampart image v1 limit'')
          (\<lambda>manifest_size.
        write_u32 out 12 manifest_size)))))))))))))))))))))))))))))))))"

section \<open>The parser\<close>

definition parse_manifest :: "bytes \<Rightarrow> rampart_manifest res" where
  "parse_manifest bs =
     (if length bs < MANIFEST_HEADER_SIZE then Err ''manifest is shorter than the fixed header''
      else
      and_then (slice bs 0 8) (\<lambda>magic.
      and_then (require_magic magic MANIFEST_MAGIC ''manifest'') (\<lambda>_.
      and_then (require_u16 bs 8 MANIFEST_FORMAT_VERSION ''manifest format version'') (\<lambda>_.
      and_then (expect (u16_try_from MANIFEST_HEADER_SIZE)) (\<lambda>header_size.
      and_then (require_u16 bs 10 header_size ''manifest header size'') (\<lambda>_.
      and_then (read_u32 bs 12) (\<lambda>manifest_size.
      if unat manifest_size \<noteq> length bs then Err ''manifest size does not match section size''
      else
      and_then (require_u16 bs 50 HASH_ALGORITHM_SHA256 ''digest algorithm'') (\<lambda>_.
      and_then (require_u16 bs 88 SIGNATURE_ALGORITHM_ECDSA_P256_SHA256 ''signature algorithm'') (\<lambda>_.
      and_then (read_u16 bs 112) (\<lambda>id_len.
      let artifact_id_len = unat id_len in
      if artifact_id_len = 0 \<or> artifact_id_len > MANIFEST_ARTIFACT_ID_MAX
      then Err ''artifact_id length is invalid''
      else
      and_then (checked_add MANIFEST_HEADER_SIZE artifact_id_len) (\<lambda>artifact_id_end.
      let padding_len = (4 - (artifact_id_end mod 4)) mod 4 in
      and_then (checked_add artifact_id_end padding_len) (\<lambda>canonical_manifest_size.
      if canonical_manifest_size \<noteq> length bs then Err ''manifest padding length is not canonical''
      else
      and_then (slice bs 120 MANIFEST_HEADER_SIZE) (\<lambda>reserved.
      and_then (require_zeroes reserved ''manifest reserved bytes'') (\<lambda>_.
      and_then (slice bs artifact_id_end (length bs)) (\<lambda>padding.
      and_then (require_zeroes padding ''manifest trailing padding'') (\<lambda>_.
      and_then (slice bs MANIFEST_HEADER_SIZE artifact_id_end) (\<lambda>id_bytes.
      and_then (ok_or (from_utf8 id_bytes) ''artifact_id must be UTF-8'') (\<lambda>id.
      and_then (slice bs 56 88) (\<lambda>digest.
      and_then (slice bs 96 104) (\<lambda>kid.
      and_then (read_u32 bs 28) (\<lambda>rev_min.
      and_then (read_u32 bs 32) (\<lambda>rev_max.
      if rev_min > rev_max then Err ''hardware revision range is invalid''
      else
      and_then (read_u16 bs 90) (\<lambda>role.
      if \<not> is_known_role role then Err ''signature role is unknown''
      else
      and_then (read_u16 bs 106) (\<lambda>rollback.
      if \<not> is_known_rollback_policy rollback then Err ''rollback policy is unknown''
      else
      and_then (read_u16 bs 92) (\<lambda>threshold.
      and_then (read_u16 bs 94) (\<lambda>sig_count.
      if threshold \<noteq> 1 \<or> sig_count \<noteq> 1 then Err ''image v1 requires exactly one signature''
      else
      and_then (read_u16 bs 114) (\<lambda>requirements.
      and_then (read_u16 bs 116) (\<lambda>dependencies.
      and_then (read_u16 bs 118) (\<lambda>health.
      if requirements \<noteq> 0 \<or> dependencies \<noteq> 0 \<or> health \<noteq> 0
      then Err ''image v1 does not support manifest extension counts yet''
      else
      and_then (read_u32 bs 16) (\<lambda>vendor.
      and_then (read_u32 bs 20) (\<lambda>product.
      and_then (read_u32 bs 24) (\<lambda>family.
      and_then (read_u32 bs 36) (\<lambda>component.
      and_then (read_u32 bs 40) (\<lambda>epoch.
      and_then (read_u16 bs 44) (\<lambda>major.
      and_then (read_u16 bs 46) (\<lambda>minor.
      and_then (read_u16 bs 48) (\<lambda>patch.
      and_then (read_u32 bs 52) (\<lambda>size.
      and_then (read_u16 bs 104) (\<lambda>attempts.
      and_then (read_u32 bs 108) (\<lambda>probation.
      Ok \<lparr>artifact_id = id,
          vendor_id = vendor,
          product_id = product,
          hardware_family = family,
          hardware_revision_min = rev_min,
          hardware_revision_max = rev_max,
          component_id = component,
          security_epoch = epoch,
          version_major = major,
          version_minor = minor,
          version_patch = patch,
          payload_size = size,
          payload_digest = digest,
          signature_role = role,
          signature_threshold = threshold,
          signature_count = sig_count,
          key_id = kid,
          trial_max_attempts = attempts,
          trial_probation_ms = probation,
          rollback_policy = rollback,
          requirement_count = requirements,
          dependency_count = dependencies,
          health_required_count = health\<rparr>))))))))))))))))))))))))))))))))))))))))"

section \<open>The layout\<close>

text \<open>The padding that the loop adds to a buffer of \<open>n\<close> bytes.\<close>

definition pad_len :: "nat \<Rightarrow> nat" where
  "pad_len n = (4 - n mod 4) mod 4"

lemma pad_len_step: "n mod 4 \<noteq> 0 \<Longrightarrow> pad_len n = Suc (pad_len (Suc n))"
proof -
  assume "n mod 4 \<noteq> 0"
  then consider "n mod 4 = 1" | "n mod 4 = 2" | "n mod 4 = 3" by linarith
  then show ?thesis by cases (simp_all add: pad_len_def mod_Suc)
qed

lemma pad4_eq: "pad4 out = out @ replicate (pad_len (length out)) 0"
proof (induction out rule: pad4.induct)
  case (1 out)
  show ?case
  proof (cases "length out mod 4 = 0")
    case True
    then show ?thesis by (simp add: pad4.simps [of out] pad_len_def)
  next
    case False
    with "1" show ?thesis by (simp add: pad4.simps [of out] pad_len_step)
  qed
qed

text \<open>The table of \<^verbatim>\<open>docs/image-format.md\<close>, one field per row.\<close>

definition manifest_size_of :: "rampart_manifest \<Rightarrow> nat" where
  "manifest_size_of m = 128 + length (artifact_id m) + pad_len (length (artifact_id m))"

definition manifest_layout :: "rampart_manifest \<Rightarrow> bytes" where
  "manifest_layout m = concat
    [MANIFEST_MAGIC, u16_to_le 1, u16_to_le 128, u32_to_le (of_nat (manifest_size_of m)),
     u32_to_le (vendor_id m), u32_to_le (product_id m), u32_to_le (hardware_family m),
     u32_to_le (hardware_revision_min m), u32_to_le (hardware_revision_max m),
     u32_to_le (component_id m), u32_to_le (security_epoch m),
     u16_to_le (version_major m), u16_to_le (version_minor m), u16_to_le (version_patch m),
     u16_to_le 1, u32_to_le (payload_size m), payload_digest m, u16_to_le 1,
     u16_to_le (signature_role m), u16_to_le (signature_threshold m),
     u16_to_le (signature_count m), key_id m, u16_to_le (trial_max_attempts m),
     u16_to_le (rollback_policy m), u32_to_le (trial_probation_ms m),
     u16_to_le (of_nat (length (artifact_id m))), u16_to_le (requirement_count m),
     u16_to_le (dependency_count m), u16_to_le (health_required_count m), replicate 8 0,
     as_bytes (artifact_id m), replicate (pad_len (length (artifact_id m))) 0]"

text \<open>
  \<open>manifest_typed\<close>: what the Rust types of the fields guarantee (array lengths, a UTF-8
  string). \<open>manifest_valid\<close>: the rules of format version 1.
\<close>

definition manifest_typed :: "rampart_manifest \<Rightarrow> bool" where
  "manifest_typed m \<longleftrightarrow>
     length (payload_digest m) = 32 \<and> length (key_id m) = 8 \<and> valid_str (artifact_id m)"

lemma manifest_layout_iff:
  assumes "length (payload_digest m) = 32" "length (key_id m) = 8"
  shows "bs = manifest_layout m \<longleftrightarrow>
    length bs = manifest_size_of m \<and> seg 0 8 bs = MANIFEST_MAGIC \<and>
    seg 8 2 bs = u16_to_le 1 \<and> seg 10 2 bs = u16_to_le 128 \<and>
    seg 12 4 bs = u32_to_le (of_nat (manifest_size_of m)) \<and>
    seg 16 4 bs = u32_to_le (vendor_id m) \<and> seg 20 4 bs = u32_to_le (product_id m) \<and>
    seg 24 4 bs = u32_to_le (hardware_family m) \<and>
    seg 28 4 bs = u32_to_le (hardware_revision_min m) \<and>
    seg 32 4 bs = u32_to_le (hardware_revision_max m) \<and>
    seg 36 4 bs = u32_to_le (component_id m) \<and> seg 40 4 bs = u32_to_le (security_epoch m) \<and>
    seg 44 2 bs = u16_to_le (version_major m) \<and> seg 46 2 bs = u16_to_le (version_minor m) \<and>
    seg 48 2 bs = u16_to_le (version_patch m) \<and> seg 50 2 bs = u16_to_le 1 \<and>
    seg 52 4 bs = u32_to_le (payload_size m) \<and> seg 56 32 bs = payload_digest m \<and>
    seg 88 2 bs = u16_to_le 1 \<and> seg 90 2 bs = u16_to_le (signature_role m) \<and>
    seg 92 2 bs = u16_to_le (signature_threshold m) \<and>
    seg 94 2 bs = u16_to_le (signature_count m) \<and> seg 96 8 bs = key_id m \<and>
    seg 104 2 bs = u16_to_le (trial_max_attempts m) \<and>
    seg 106 2 bs = u16_to_le (rollback_policy m) \<and>
    seg 108 4 bs = u32_to_le (trial_probation_ms m) \<and>
    seg 112 2 bs = u16_to_le (of_nat (length (artifact_id m))) \<and>
    seg 114 2 bs = u16_to_le (requirement_count m) \<and>
    seg 116 2 bs = u16_to_le (dependency_count m) \<and>
    seg 118 2 bs = u16_to_le (health_required_count m) \<and> seg 120 8 bs = replicate 8 0 \<and>
    seg 128 (length (artifact_id m)) bs = as_bytes (artifact_id m) \<and>
    seg (128 + length (artifact_id m)) (pad_len (length (artifact_id m))) bs =
      replicate (pad_len (length (artifact_id m))) 0"
  by (simp add: manifest_layout_def layout_iff assms manifest_size_of_def add.assoc
    del: concat.simps)

definition manifest_valid :: "rampart_manifest \<Rightarrow> bool" where
  "manifest_valid m \<longleftrightarrow>
     artifact_id m \<noteq> [] \<and> length (artifact_id m) \<le> MANIFEST_ARTIFACT_ID_MAX \<and>
     hardware_revision_min m \<le> hardware_revision_max m \<and>
     is_known_role (signature_role m) \<and> is_known_rollback_policy (rollback_policy m) \<and>
     signature_threshold m = 1 \<and> signature_count m = 1 \<and>
     requirement_count m = 0 \<and> dependency_count m = 0 \<and> health_required_count m = 0"

lemma pad_len_128: "pad_len (128 + n) = pad_len n"
proof -
  have "(128 + n) mod 4 = n mod 4" by presburger
  then show ?thesis by (simp add: pad_len_def)
qed

lemma pad_len_128_unfold: "(4 - (128 + n) mod 4) mod 4 = pad_len n"
  using pad_len_128 [of n] by (simp add: pad_len_def)

lemma pad_len_le: "pad_len n \<le> 3"
  by (simp add: pad_len_def)

lemmas format_codes = MANIFEST_FORMAT_VERSION_def HASH_ALGORITHM_SHA256_def
  SIGNATURE_ALGORITHM_ECDSA_P256_SHA256_def

text \<open>The parts of the parser that depend on the length of the identifier.\<close>

lemma parse_manifest_lengths:
  assumes "parse_manifest bs = Ok m"
  shows "length bs = manifest_size_of m"
    and "seg 12 4 bs = u32_to_le (of_nat (manifest_size_of m))"
    and "seg 112 2 bs = u16_to_le (of_nat (length (artifact_id m)))"
    and "seg 128 (length (artifact_id m)) bs = as_bytes (artifact_id m)"
    and "seg (128 + length (artifact_id m)) (pad_len (length (artifact_id m))) bs =
      replicate (pad_len (length (artifact_id m))) 0"
    and "artifact_id m \<noteq> []" and "length (artifact_id m) \<le> 128"
    and "valid_str (artifact_id m)"
proof -
  have len: "128 \<le> length bs"
    using assms by (simp add: parse_manifest_def manifest_sizes not_less split: if_splits)
  from assms obtain n s where n: "seg 128 (unat n) bs = as_bytes (artifact_id m)"
    "seg 112 2 bs = u16_to_le n" "0 < unat n" "unat n \<le> 128"
    and sz: "128 + unat n + pad_len (unat n) = length bs" "seg 12 4 bs = u32_to_le s"
    "unat s = length bs"
    and pad: "seg (128 + unat n) (length bs - (128 + unat n)) bs =
      replicate (length bs - (128 + unat n)) 0"
    and v: "valid_str (artifact_id m)"
    by (auto simp: parse_manifest_def ok_iff read_ok Let_def manifest_sizes not_less not_le
        pad_len_128_unfold)
  have idl: "unat n = length (artifact_id m)"
    using n(1) sz(1) by (metis le_add1 length_as_bytes length_seg_le)
  show size: "length bs = manifest_size_of m"
    using sz(1) by (simp add: manifest_size_of_def idl)
  show "seg 12 4 bs = u32_to_le (of_nat (manifest_size_of m))"
    using sz(2) by (simp flip: size sz(3))
  show "seg 112 2 bs = u16_to_le (of_nat (length (artifact_id m)))"
    using n(2) by (simp flip: idl)
  show "seg 128 (length (artifact_id m)) bs = as_bytes (artifact_id m)"
    using n(1) by (simp flip: idl)
  have "length bs - (128 + unat n) = pad_len (unat n)" using sz(1) by simp
  with pad show "seg (128 + length (artifact_id m)) (pad_len (length (artifact_id m))) bs =
      replicate (pad_len (length (artifact_id m))) 0"
    by (simp add: idl)
  show "artifact_id m \<noteq> []" "length (artifact_id m) \<le> 128" "valid_str (artifact_id m)"
    using n(3,4) idl v by auto
qed

section \<open>The parser accepts exactly the layouts of valid manifests\<close>

lemma parse_manifest_sound:
  assumes "parse_manifest bs = Ok m"
  shows "manifest_typed m" and "manifest_valid m" and "bs = manifest_layout m"
proof -
  note lengths = parse_manifest_lengths [OF assms]
  have len: "128 \<le> length bs"
    using lengths(1) by (simp add: manifest_size_of_def)
  have "manifest_typed m \<and> manifest_valid m"
    using assms len lengths(6,7,8)
    by (clarsimp simp: parse_manifest_def manifest_typed_def manifest_valid_def ok_iff
        read_ok Let_def manifest_sizes not_less not_le)
  then show typed: "manifest_typed m" and "manifest_valid m" by simp_all
  from typed have fixed: "length (payload_digest m) = 32" "length (key_id m) = 8"
    by (simp_all add: manifest_typed_def)
  show "bs = manifest_layout m"
    unfolding manifest_layout_iff [OF fixed] lengths simp_thms
    using assms len
    by (clarsimp simp: parse_manifest_def ok_iff read_ok Let_def manifest_sizes
        not_less not_le format_codes)
qed


lemma parse_manifest_complete:
  assumes "manifest_typed m" and "manifest_valid m"
  shows "parse_manifest (manifest_layout m) = Ok m"
proof -
  have fixed: "length (payload_digest m) = 32" "length (key_id m) = 8"
    using assms(1) by (simp_all add: manifest_typed_def)
  define bs where "bs = manifest_layout m"
  note table = bs_def [unfolded manifest_layout_iff [OF fixed]]
  have idl: "length (artifact_id m) \<le> 128" "artifact_id m \<noteq> []" "valid_str (artifact_id m)"
    using assms by (auto simp: manifest_valid_def manifest_typed_def manifest_sizes)
  have nid: "unat (of_nat (length (artifact_id m)) :: u16) = length (artifact_id m)"
    using idl(1) by (simp add: unat_of_nat_u16)
  have "manifest_size_of m < 4294967296"
    using idl(1) pad_len_le [of "length (artifact_id m)"] by (simp add: manifest_size_of_def)
  then have nsz: "unat (of_nat (manifest_size_of m) :: u32) = manifest_size_of m"
    by (rule unat_of_nat_u32)
  have le: "128 \<le> length bs" "manifest_size_of m \<le> usize_max"
    using table idl(1) pad_len_le [of "length (artifact_id m)"]
    by (simp_all add: manifest_size_of_def usize_max_def)
  have "parse_manifest bs = Ok m"
    using table idl nid nsz le assms(2) unfolding manifest_size_of_def
    by (cases m) (clarsimp simp: parse_manifest_def ok_iff read_ok Let_def manifest_sizes
        not_less not_le format_codes manifest_valid_def pad_len_128_unfold simp del: of_nat_add)
  then show ?thesis by (simp add: bs_def)
qed


lemma encode_manifest_layout:
  assumes "manifest_typed m" and "length (artifact_id m) \<le> MANIFEST_ARTIFACT_ID_MAX"
  shows "encode_manifest m = Ok (manifest_layout m)"
proof -
  have fixed: "length (payload_digest m) = 32" "length (key_id m) = 8"
    using assms(1) by (simp_all add: manifest_typed_def)
  have "length (artifact_id m) \<le> 128" using assms(2) by (simp add: manifest_sizes)
  moreover have "isize_max \<ge> 128" by (simp add: isize_max_def)
  ultimately show ?thesis
    using fixed pad_len_le [of "length (artifact_id m)"]
    by (simp add: encode_manifest_def Let_def manifest_sizes vec_zeroed_def write_u16_def
        write_u32_def copy_into_def pad4_eq u16_try_from_def u32_try_from_def
        manifest_layout_def manifest_size_of_def format_codes pad_len_128
        cong: and_then_weak_cong)
qed

lemma parse_manifest_iff:
  "parse_manifest bs = Ok m \<longleftrightarrow> manifest_typed m \<and> manifest_valid m \<and> bs = manifest_layout m"
  using parse_manifest_sound parse_manifest_complete by blast

lemma length_manifest_layout:
  assumes "manifest_typed m"
  shows "length (manifest_layout m) = manifest_size_of m"
  using assms manifest_layout_iff [of m "manifest_layout m"] by (simp add: manifest_typed_def)

lemma manifest_size_bounds:
  "length (artifact_id m) \<le> MANIFEST_ARTIFACT_ID_MAX \<Longrightarrow>
     128 \<le> manifest_size_of m \<and> manifest_size_of m \<le> 259"
  using pad_len_le [of "length (artifact_id m)"] by (simp add: manifest_size_of_def manifest_sizes)

lemma parse_manifest_no_panic: "parse_manifest bs \<noteq> Panic"
proof (cases "128 \<le> length bs")
  case True
  then show ?thesis
    by (auto simp: parse_manifest_def panic_iff ok_iff read_ok Let_def manifest_sizes not_less)
next
  case False
  then show ?thesis by (simp add: parse_manifest_def manifest_sizes)
qed

section \<open>The conversion of a document\<close>

lemma into_manifest_no_panic: "into_manifest doc n d k \<noteq> Panic"
  using role_table.parse_no_panic rollback_table.parse_no_panic
  by (auto simp: into_manifest_def panic_iff parse_semver_no_panic Let_def split: prod.splits)

lemma into_manifest_Ok:
  assumes "into_manifest doc n d k = Ok m"
  shows "manifest_valid m" and "artifact_id m = d_artifact_id doc" and "payload_size m = n"
    and "payload_digest m = d" and "key_id m = k"
    and "security_epoch m = d_security_epoch doc"
    and "0 \<notin> set (as_bytes (artifact_id m))"
  using assms role_table.parse_known rollback_table.parse_known
  by (auto simp: into_manifest_def ok_iff manifest_valid_def not_less not_le Let_def
      split: prod.splits if_splits)

lemma pad_len_dvd: "4 dvd n + pad_len n"
proof -
  have "n = 4 * (n div 4) + n mod 4" by simp
  moreover consider "n mod 4 = 0" | "n mod 4 = 1" | "n mod 4 = 2" | "n mod 4 = 3" by linarith
  then have "n mod 4 + pad_len n = 0 \<or> n mod 4 + pad_len n = 4"
    by cases (simp_all add: pad_len_def)
  ultimately show ?thesis by presburger
qed

lemma padded_le:
  assumes "n \<le> 128"
  shows "n + pad_len n \<le> 128"
proof -
  obtain k where k: "n + pad_len n = 4 * k" using pad_len_dvd by (rule dvdE)
  then have "k \<le> 32" using assms pad_len_le [of n] by linarith
  then show ?thesis using k by simp
qed

text \<open>What the document decides, field by field.\<close>

lemma into_manifest_fields:
  assumes "into_manifest doc n digest kid = Ok m"
  shows "vendor_id m = d_vendor_id doc" "product_id m = d_product_id doc"
    "hardware_family m = d_hardware_family doc" "component_id m = d_component_id doc"
    "hardware_revision_min m = d_hardware_revision_min doc"
    "hardware_revision_max m = d_hardware_revision_max doc"
    "parse_semver_core (d_version doc) = Ok (version_major m, version_minor m, version_patch m)"
    "parse_semver_core (version_string m) = Ok (version_major m, version_minor m, version_patch m)"
    "signature_role_name m = (case d_signature_role doc of None \<Rightarrow> ''RELEASE'' | Some r \<Rightarrow> r)"
    "manifest_rollback_policy_name m =
      (case d_rollback_policy doc of None \<Rightarrow> ''fallback'' | Some r \<Rightarrow> r)"
    "trial_max_attempts m = (case d_trial doc of None \<Rightarrow> 0 | Some t \<Rightarrow> max_attempts t)"
    "trial_probation_ms m = (case d_trial doc of None \<Rightarrow> 0 | Some t \<Rightarrow> probation_period_ms t)"
  using assms
  by (auto simp: into_manifest_def ok_iff Let_def version_string_def parse_version_text
      signature_role_name_def manifest_rollback_policy_name_def role_table.parse_iff
      rollback_table.parse_iff split: if_splits option.splits)

section \<open>A sample manifest\<close>

definition sample_document :: manifest_document where
  "sample_document = \<lparr>d_artifact_id = ''app'', d_vendor_id = 0x585, d_product_id = 2,
     d_hardware_family = 3, d_hardware_revision_min = 1, d_hardware_revision_max = 4,
     d_component_id = 5, d_version = ''1.2.3'', d_security_epoch = 7,
     d_signature_role = None, d_rollback_policy = Some ''none'', d_key_id = None,
     d_trial = Some \<lparr>max_attempts = 3, probation_period_ms = 5000\<rparr>\<rparr>"

definition sample_manifest :: "u32 \<Rightarrow> bytes \<Rightarrow> bytes \<Rightarrow> rampart_manifest" where
  "sample_manifest n digest kid = \<lparr>artifact_id = ''app'', vendor_id = 0x585, product_id = 2,
     hardware_family = 3, hardware_revision_min = 1, hardware_revision_max = 4,
     component_id = 5, security_epoch = 7, version_major = 1, version_minor = 2,
     version_patch = 3, payload_size = n, payload_digest = digest, signature_role = 1,
     signature_threshold = 1, signature_count = 1, key_id = kid, trial_max_attempts = 3,
     trial_probation_ms = 5000, rollback_policy = 0, requirement_count = 0,
     dependency_count = 0, health_required_count = 0\<rparr>"

lemma sample_into_manifest: "into_manifest sample_document n d k = Ok (sample_manifest n d k)"
proof -
  have "version_text 1 2 3 = ''1.2.3''"
    by (simp add: version_text_def display_nat.simps digit_char_def char_of_eq_iff)
  then have "parse_semver_core ''1.2.3'' = Ok (1, 2, 3)"
    by (metis parse_version_text)
  moreover have "parse_role ''RELEASE'' = Ok 1" "parse_rollback_policy ''none'' = Ok 0"
    by (simp_all add: parse_role_def parse_rollback_policy_def role_codes rollback_codes)
  moreover have "0 \<notin> set (as_bytes ''app'')"
    by (simp add: as_bytes_def)
  ultimately show ?thesis
    by (simp add: into_manifest_def sample_document_def sample_manifest_def manifest_sizes)
qed

lemma sample_manifest_ok:
  assumes "length d = 32" "length k = 8"
  shows "manifest_typed (sample_manifest n d k)" "manifest_valid (sample_manifest n d k)"
  using assms
  by (simp_all add: sample_manifest_def manifest_typed_def manifest_valid_def valid_str_def
      as_bytes_def manifest_sizes is_known_role_def is_known_rollback_policy_def role_codes
      rollback_codes)

lemma sample_manifest_size [simp]: "manifest_size_of (sample_manifest n d k) = 132"
  by (simp add: sample_manifest_def manifest_size_of_def pad_len_def)

lemma sample_manifest_sel [simp]:
  "key_id (sample_manifest n d k) = k" "payload_size (sample_manifest n d k) = n"
  "payload_digest (sample_manifest n d k) = d" "security_epoch (sample_manifest n d k) = 7"
  by (simp_all add: sample_manifest_def)

section \<open>Properties\<close>

text \<open>C6: The manifest parser accepts exactly what the encoder writes for a well-typed manifest that
  obeys the rules of format version 1, and returns that manifest: no other bytes are accepted,
  and no manifest has two encodings.\<close>

theorem manifest_canonical:
  "parse_manifest bs = Ok m \<longleftrightarrow> manifest_typed m \<and> manifest_valid m \<and> encode_manifest m = Ok bs"
proof -
  have "encode_manifest m = Ok (manifest_layout m)" if "manifest_typed m" "manifest_valid m"
    using that by (intro encode_manifest_layout) (simp_all add: manifest_valid_def)
  then show ?thesis by (auto simp: parse_manifest_iff)
qed

text \<open>C36: An accepted manifest has between 129 and 256 bytes, a multiple of four.\<close>

theorem manifest_bytes_bounds:
  assumes "parse_manifest bs = Ok m"
  shows "128 < length bs \<and> length bs \<le> 256 \<and> 4 dvd length bs"
proof -
  have m: "manifest_typed m" "manifest_valid m" "bs = manifest_layout m"
    using parse_manifest_sound [OF assms] .
  define n where "n = length (artifact_id m)"
  have n: "1 \<le> n" "n \<le> 128" "length bs = 128 + (n + pad_len n)"
    using m by (simp_all add: n_def manifest_valid_def manifest_sizes length_manifest_layout
        manifest_size_of_def Suc_le_eq)
  moreover have "4 dvd 128 + (n + pad_len n)"
    by (intro dvd_add pad_len_dvd) simp
  ultimately show ?thesis using padded_le by simp
qed

theorem manifest_bytes_bounds_witness:
  "4 dvd length (manifest_layout (sample_manifest 3 (replicate 32 9) (replicate 8 1)))"
  using manifest_bytes_bounds [OF parse_manifest_complete [OF sample_manifest_ok]] by simp

text \<open>C17: The manifest built from a document encodes and parses back to itself, with every field
  of the document: identifiers, revisions, version, epoch, role and rollback policy (by their
  names, RELEASE and fallback when the document has none) and the trial policy (zeroes when it
  has none). Length, digest and key identifier are the ones given; threshold and count of the
  signatures are one, and the extensions of the format are empty.\<close>

theorem document_roundtrip:
  assumes "into_manifest doc n digest kid = Ok m"
    and "valid_str (d_artifact_id doc)" and "length digest = 32" and "length kid = 8"
  shows "\<exists>bs. encode_manifest m = Ok bs \<and> parse_manifest bs = Ok m \<and>
    artifact_id m = d_artifact_id doc \<and> vendor_id m = d_vendor_id doc \<and>
    product_id m = d_product_id doc \<and> hardware_family m = d_hardware_family doc \<and>
    hardware_revision_min m = d_hardware_revision_min doc \<and>
    hardware_revision_max m = d_hardware_revision_max doc \<and>
    component_id m = d_component_id doc \<and> security_epoch m = d_security_epoch doc \<and>
    parse_semver_core (d_version doc) = Ok (version_major m, version_minor m, version_patch m) \<and>
    parse_semver_core (d_version doc) = parse_semver_core (version_string m) \<and>
    is_known_role (signature_role m) \<and>
    signature_role_name m = (case d_signature_role doc of None \<Rightarrow> ''RELEASE'' | Some r \<Rightarrow> r) \<and>
    is_known_rollback_policy (rollback_policy m) \<and>
    manifest_rollback_policy_name m =
      (case d_rollback_policy doc of None \<Rightarrow> ''fallback'' | Some r \<Rightarrow> r) \<and>
    trial_max_attempts m = (case d_trial doc of None \<Rightarrow> 0 | Some t \<Rightarrow> max_attempts t) \<and>
    trial_probation_ms m = (case d_trial doc of None \<Rightarrow> 0 | Some t \<Rightarrow> probation_period_ms t) \<and>
    payload_size m = n \<and> payload_digest m = digest \<and> key_id m = kid \<and>
    signature_threshold m = 1 \<and> signature_count m = 1 \<and>
    requirement_count m = 0 \<and> dependency_count m = 0 \<and> health_required_count m = 0"
proof -
  note m = into_manifest_Ok [OF assms(1)]
  have typed: "manifest_typed m" using m assms(2-4) by (simp add: manifest_typed_def)
  have "encode_manifest m = Ok (manifest_layout m)"
    using typed m(1) by (intro encode_manifest_layout) (simp_all add: manifest_valid_def)
  moreover have "parse_manifest (manifest_layout m) = Ok m"
    using typed m(1) by (rule parse_manifest_complete)
  ultimately show ?thesis
    using m into_manifest_fields [OF assms(1)] by (simp add: manifest_valid_def)
qed

theorem document_roundtrip_witness:
  "\<exists>bs. encode_manifest (sample_manifest 3 (replicate 32 9) (replicate 8 1)) = Ok bs \<and>
     parse_manifest bs = Ok (sample_manifest 3 (replicate 32 9) (replicate 8 1))"
  using document_roundtrip [OF sample_into_manifest, of "replicate 32 9" "replicate 8 1" 3]
  by (auto simp: sample_document_def valid_str_def as_bytes_def)

text \<open>C30: A document becomes a manifest exactly when its artifact identifier has 1 to 128 bytes
  without NUL, its revisions are ordered, and its version, role and rollback policy are
  understood.\<close>

theorem document_accepted:
  "(\<exists>m. into_manifest doc n digest kid = Ok m) \<longleftrightarrow>
     d_artifact_id doc \<noteq> [] \<and> length (d_artifact_id doc) \<le> 128 \<and>
     0 \<notin> set (as_bytes (d_artifact_id doc)) \<and>
     d_hardware_revision_min doc \<le> d_hardware_revision_max doc \<and>
     (\<exists>v. parse_semver_core (d_version doc) = Ok v) \<and>
     (\<exists>c. is_known_role c \<and> role_name c = (case d_signature_role doc of None \<Rightarrow> ''RELEASE'' | Some r \<Rightarrow> r)) \<and>
     (\<exists>c. is_known_rollback_policy c \<and> rollback_policy_name c =
        (case d_rollback_policy doc of None \<Rightarrow> ''fallback'' | Some p \<Rightarrow> p))"
  using role_table.parse_iff rollback_table.parse_iff
  by (simp add: into_manifest_def ok_iff Let_def manifest_sizes not_less not_le split: prod.split)
    metis

text \<open>C28: The padding loop of the encoder terminates: it pushes fewer than four zero bytes, just as
  many as it takes to reach a multiple of four.\<close>

theorem padding_loop_terminates:
  "\<exists>k < 4. pad4 out = out @ replicate k 0 \<and> 4 dvd length (pad4 out) \<and>
     (\<forall>j < k. \<not> 4 dvd length out + j)"
proof -
  let ?n = "length out"
  have "\<not> 4 dvd ?n + j" if "j < pad_len ?n" for j
  proof
    assume "4 dvd ?n + j"
    moreover have "4 dvd ?n + pad_len ?n" by (rule pad_len_dvd)
    ultimately have "4 dvd (?n + pad_len ?n) - (?n + j)" by (rule dvd_diff_nat [rotated])
    then have "4 \<le> pad_len ?n - j" using that by (auto dest: dvd_imp_le)
    then show False using pad_len_le [of ?n] by simp
  qed
  moreover have "pad_len ?n < 4" using pad_len_le [of ?n] by simp
  moreover have "4 dvd length (pad4 out)" by (simp only: pad4_eq length_append length_replicate pad_len_dvd)
  ultimately show ?thesis using pad4_eq by blast
qed

theorem padding_loop_terminates_witness:
  "pad4 [1, 2, 3, 4, 5] = [1, 2, 3, 4, 5, 0, 0, 0]"
proof -
  from padding_loop_terminates [of "[1, 2, 3, 4, 5]"] obtain k where
    k: "pad4 [1, 2, 3, 4, 5] = [1, 2, 3, 4, 5] @ replicate k 0" "k < 4" "4 dvd length (pad4 [1, 2, 3, 4, 5])"
    by blast
  have "k = 3" using k(2,3) unfolding k(1) by simp presburger
  then show ?thesis using k(1) by (simp add: numeral_3_eq_3)
qed

end
