(* ===== verification/Signature.thy ===== *)
theory Signature
  imports Manifest
begin

text \<open>
  The signature section of an image, from \<^verbatim>\<open>host/rampart/src/format.rs\<close>: signing a
  region, the encoder and the parser of the section. As for the manifest,
  \<open>signature_layout\<close> is the documented table; the encoder produces it, and the parser
  accepts exactly the layouts whose key identifier agrees with the manifest and with the
  embedded public key.
\<close>

section \<open>Constants and data\<close>

definition SIGNATURE_MAGIC :: bytes where "SIGNATURE_MAGIC = as_bytes ''RPSIGN01''"
definition SIGNATURE_FORMAT_VERSION :: u16 where "SIGNATURE_FORMAT_VERSION = 1"
definition SIGNATURE_HEADER_SIZE :: nat where "SIGNATURE_HEADER_SIZE = 32"
definition SIGNATURE_RECORD_SIZE :: nat where "SIGNATURE_RECORD_SIZE = 160"
definition PUBLIC_KEY_ALGORITHM_P256 :: u16 where "PUBLIC_KEY_ALGORITHM_P256 = 1"
definition SIGNATURE_SIZE :: nat where "SIGNATURE_SIZE = 64"
definition PUBLIC_KEY_SIZE :: nat where "PUBLIC_KEY_SIZE = 65"
definition IMAGE_HEADER_SIZE :: nat where "IMAGE_HEADER_SIZE = 64"

lemmas signature_sizes = SIGNATURE_HEADER_SIZE_def SIGNATURE_RECORD_SIZE_def SIGNATURE_SIZE_def
  PUBLIC_KEY_SIZE_def IMAGE_HEADER_SIZE_def KEY_ID_SIZE_def

lemmas signature_codes = SIGNATURE_FORMAT_VERSION_def SIGNATURE_ALGORITHM_ECDSA_P256_SHA256_def
  PUBLIC_KEY_ALGORITHM_P256_def

lemma length_SIGNATURE_MAGIC [simp]: "length SIGNATURE_MAGIC = 8"
  by (simp add: SIGNATURE_MAGIC_def)

record signature_record =
  s_key_id :: bytes
  s_signature :: bytes
  s_public_key :: bytes

section \<open>Operations\<close>

definition sign_region ::
  "('sk, 'vk, 'sg) provider \<Rightarrow> 'sk \<Rightarrow> 'vk \<Rightarrow> bytes \<Rightarrow> bytes \<Rightarrow> signature_record res" where
  "sign_region P signing_key vk kid signed_region =
     (let signature = ecdsa_sign P signing_key signed_region;
          signature_bytes = sig_to_bytes P signature;
          public_key_bytes = to_encoded_point P vk in
      if length public_key_bytes \<noteq> PUBLIC_KEY_SIZE
      then Err ''P-256 public key must use uncompressed SEC1 encoding''
      else
        and_then (copy_into (replicate PUBLIC_KEY_SIZE 0) 0 PUBLIC_KEY_SIZE public_key_bytes)
          (\<lambda>public_key.
        and_then (copy_into (replicate SIGNATURE_SIZE 0) 0 SIGNATURE_SIZE signature_bytes)
          (\<lambda>encoded_signature.
        Ok \<lparr>s_key_id = kid, s_signature = encoded_signature, s_public_key = public_key\<rparr>)))"

definition encode_signature_section :: "signature_record \<Rightarrow> bytes \<Rightarrow> bytes res" where
  "encode_signature_section record signed_region =
     and_then (ok_or (u32_try_from (length signed_region))
       ''signed region exceeds Rampart image v1 limit'') (\<lambda>signed_region_size.
     let section_size = SIGNATURE_HEADER_SIZE + SIGNATURE_RECORD_SIZE in
     and_then (vec_zeroed section_size) (\<lambda>out.
     and_then (copy_into out 0 8 SIGNATURE_MAGIC) (\<lambda>out.
     and_then (write_u16 out 8 SIGNATURE_FORMAT_VERSION) (\<lambda>out.
     and_then (expect (u16_try_from SIGNATURE_HEADER_SIZE)) (\<lambda>n.
     and_then (write_u16 out 10 n) (\<lambda>out.
     and_then (expect (u32_try_from section_size)) (\<lambda>n.
     and_then (write_u32 out 12 n) (\<lambda>out.
     and_then (expect (u32_try_from IMAGE_HEADER_SIZE)) (\<lambda>n.
     and_then (write_u32 out 16 n) (\<lambda>out.
     and_then (write_u32 out 20 signed_region_size) (\<lambda>out.
     and_then (write_u16 out 24 1) (\<lambda>out.
     and_then (write_u16 out 26 SIGNATURE_ALGORITHM_ECDSA_P256_SHA256) (\<lambda>out.
     and_then (expect (u16_try_from SIGNATURE_RECORD_SIZE)) (\<lambda>n.
     and_then (write_u16 out 28 n) (\<lambda>out.
     let record_offset = SIGNATURE_HEADER_SIZE in
     and_then (copy_into out record_offset (record_offset + KEY_ID_SIZE) (s_key_id record)) (\<lambda>out.
     and_then (write_u16 out (record_offset + 8) SIGNATURE_ALGORITHM_ECDSA_P256_SHA256) (\<lambda>out.
     and_then (write_u16 out (record_offset + 10) PUBLIC_KEY_ALGORITHM_P256) (\<lambda>out.
     and_then (expect (u16_try_from SIGNATURE_SIZE)) (\<lambda>n.
     and_then (write_u16 out (record_offset + 12) n) (\<lambda>out.
     and_then (expect (u16_try_from PUBLIC_KEY_SIZE)) (\<lambda>n.
     and_then (write_u16 out (record_offset + 14) n) (\<lambda>out.
     and_then (copy_into out (record_offset + 16) (record_offset + 16 + SIGNATURE_SIZE)
       (s_signature record)) (\<lambda>out.
     copy_into out (record_offset + 80) (record_offset + 80 + PUBLIC_KEY_SIZE)
       (s_public_key record))))))))))))))))))))))))"

definition parse_signature_section ::
  "('sk, 'vk, 'sg) provider \<Rightarrow> bytes \<Rightarrow> nat \<Rightarrow> nat \<Rightarrow> rampart_manifest \<Rightarrow> signature_record res" where
  "parse_signature_section P bs signed_region_offset signed_region_size manifest =
     (let expected_size = SIGNATURE_HEADER_SIZE + SIGNATURE_RECORD_SIZE in
      if length bs \<noteq> expected_size then Err ''signature section size is invalid''
      else
      and_then (slice bs 0 8) (\<lambda>magic.
      and_then (require_magic magic SIGNATURE_MAGIC ''signature section'') (\<lambda>_.
      and_then (require_u16 bs 8 SIGNATURE_FORMAT_VERSION ''signature section format version'') (\<lambda>_.
      and_then (expect (u16_try_from SIGNATURE_HEADER_SIZE)) (\<lambda>n.
      and_then (require_u16 bs 10 n ''signature section header size'') (\<lambda>_.
      and_then (expect (u32_try_from expected_size)) (\<lambda>n.
      and_then (require_u32 bs 12 n ''signature section size'') (\<lambda>_.
      and_then (ok_or (u32_try_from signed_region_offset) ''signed region offset exceeds u32'') (\<lambda>n.
      and_then (require_u32 bs 16 n ''signature signed region offset'') (\<lambda>_.
      and_then (ok_or (u32_try_from signed_region_size) ''signed region size exceeds u32'') (\<lambda>n.
      and_then (require_u32 bs 20 n ''signature signed region size'') (\<lambda>_.
      and_then (require_u16 bs 24 1 ''signature count'') (\<lambda>_.
      and_then (require_u16 bs 26 SIGNATURE_ALGORITHM_ECDSA_P256_SHA256
        ''signature section algorithm'') (\<lambda>_.
      and_then (expect (u16_try_from SIGNATURE_RECORD_SIZE)) (\<lambda>n.
      and_then (require_u16 bs 28 n ''signature record size'') (\<lambda>_.
      and_then (require_u16 bs 30 0 ''signature reserved field'') (\<lambda>_.
      let record_offset = SIGNATURE_HEADER_SIZE in
      and_then (slice bs record_offset (record_offset + KEY_ID_SIZE)) (\<lambda>kid.
      if kid \<noteq> key_id manifest then Err ''signature key ID does not match manifest policy''
      else
      and_then (require_u16 bs (record_offset + 8) SIGNATURE_ALGORITHM_ECDSA_P256_SHA256
        ''signature record algorithm'') (\<lambda>_.
      and_then (require_u16 bs (record_offset + 10) PUBLIC_KEY_ALGORITHM_P256
        ''signature record public key algorithm'') (\<lambda>_.
      and_then (expect (u16_try_from SIGNATURE_SIZE)) (\<lambda>n.
      and_then (require_u16 bs (record_offset + 12) n ''signature size'') (\<lambda>_.
      and_then (expect (u16_try_from PUBLIC_KEY_SIZE)) (\<lambda>n.
      and_then (require_u16 bs (record_offset + 14) n ''public key size'') (\<lambda>_.
      and_then (slice bs (record_offset + 16) (record_offset + 16 + SIGNATURE_SIZE)) (\<lambda>signature.
      and_then (slice bs (record_offset + 80) (record_offset + 80 + PUBLIC_KEY_SIZE)) (\<lambda>public_key.
      and_then (slice bs (record_offset + 145) (record_offset + SIGNATURE_RECORD_SIZE)) (\<lambda>padding.
      and_then (require_zeroes padding ''signature record padding'') (\<lambda>_.
      and_then (ok_or (from_sec1_bytes P public_key)
        ''signature record public key is not valid P-256 SEC1'') (\<lambda>vk.
      let derived_key_id = derive_key_id P vk in
      if derived_key_id \<noteq> kid then Err ''signature key ID does not match embedded public key''
      else Ok \<lparr>s_key_id = kid, s_signature = signature, s_public_key = public_key\<rparr>)))))))))))))))))))))))))))))"

section \<open>The layout\<close>

definition signature_layout :: "signature_record \<Rightarrow> nat \<Rightarrow> nat \<Rightarrow> bytes" where
  "signature_layout r region_offset region_size = concat
    [SIGNATURE_MAGIC, u16_to_le 1, u16_to_le 32, u32_to_le 192,
     u32_to_le (of_nat region_offset), u32_to_le (of_nat region_size),
     u16_to_le 1, u16_to_le 1, u16_to_le 160, u16_to_le 0,
     s_key_id r, u16_to_le 1, u16_to_le 1, u16_to_le 64, u16_to_le 65,
     s_signature r, s_public_key r, replicate 15 0]"

text \<open>What the Rust types of a record guarantee, and what the parser demands of its key.\<close>

definition signature_typed :: "signature_record \<Rightarrow> bool" where
  "signature_typed r \<longleftrightarrow>
     length (s_key_id r) = 8 \<and> length (s_signature r) = 64 \<and> length (s_public_key r) = 65"

definition key_bound :: "('sk, 'vk, 'sg) provider \<Rightarrow> signature_record \<Rightarrow> bool" where
  "key_bound P r \<longleftrightarrow>
     (case from_sec1_bytes P (s_public_key r) of
        None \<Rightarrow> False
      | Some vk \<Rightarrow> derive_key_id P vk = s_key_id r)"

lemma length_signature_layout:
  "signature_typed r \<Longrightarrow> length (signature_layout r i n) = 192"
  by (simp add: signature_layout_def signature_typed_def)

lemma u32_try_from_numeral [simp]:
  "(numeral k :: nat) < 4294967296 \<Longrightarrow> u32_try_from (numeral k) = Some (numeral k)"
  by (simp add: u32_try_from_def)

lemma replicate_2_0: "replicate 2 0 = u16_to_le 0"
  by (simp add: u16_to_le_def numeral_2_eq_2)

lemma encode_signature_layout:
  assumes "signature_typed r" and "length region < 2 ^ 32"
  shows "encode_signature_section r region = Ok (signature_layout r 64 (length region))"
proof -
  have "isize_max \<ge> 192" by (simp add: isize_max_def)
  then show ?thesis
    using assms
    by (simp add: encode_signature_section_def Let_def signature_sizes vec_zeroed_def write_u16_def
        write_u32_def copy_into_def signature_layout_def signature_typed_def signature_codes
        u32_try_from_def replicate_2_0 cong: and_then_weak_cong)
qed

lemma encode_signature_no_panic:
  "signature_typed r \<Longrightarrow> encode_signature_section r region \<noteq> Panic"
  by (cases "length region < 2 ^ 32")
    (simp_all add: encode_signature_layout, simp add: encode_signature_section_def u32_try_from_def)

lemma parse_signature_no_panic: "parse_signature_section P bs i n m \<noteq> Panic"
proof (cases "length bs = 192")
  case True
  then show ?thesis
    by (auto simp: parse_signature_section_def panic_iff ok_iff Let_def signature_sizes)
next
  case False
  then show ?thesis by (simp add: parse_signature_section_def signature_sizes Let_def)
qed

lemma parse_signature_iff:
  assumes "length (key_id m) = 8"
  shows "parse_signature_section P bs i n m = Ok r \<longleftrightarrow>
    i < 2 ^ 32 \<and> n < 2 ^ 32 \<and> signature_typed r \<and> s_key_id r = key_id m \<and> key_bound P r \<and>
    bs = signature_layout r i n"
proof (cases "length bs = 192 \<and> i < 2 ^ 32 \<and> n < 2 ^ 32")
  case False
  then show ?thesis
    by (auto simp: parse_signature_section_def signature_sizes Let_def length_signature_layout
        ok_iff u32_try_from_def split: if_splits)
next
  case True
  then have 1: "u32_try_from i = Some (of_nat i)" "u32_try_from n = Some (of_nat n)"
    by (simp_all add: u32_try_from_def)
  show ?thesis
    using True assms
    by (cases r) (auto simp: parse_signature_section_def ok_iff Let_def signature_sizes
      signature_codes 1 signature_layout_def layout_iff key_bound_def signature_typed_def
      simp del: concat.simps split: option.splits)
qed

lemma signature_layout_inject:
  assumes "signature_typed r" "signature_typed r'" "signature_layout r i n = signature_layout r' i' n'"
  shows "r = r'"
  using assms by (cases r; cases r') (simp add: signature_layout_def signature_typed_def)

section \<open>A sample record\<close>

definition sample_record :: "u8 \<Rightarrow> bytes \<Rightarrow> signature_record" where
  "sample_record vk region =
     \<lparr>s_key_id = derive_key_id sample_provider vk,
      s_signature = (vk + hd (sample_digest region)) # replicate 63 0,
      s_public_key = 4 # vk # replicate 63 0\<rparr>"

lemma sample_sec1: "from_sec1_bytes sample_provider (4 # vk # replicate 63 0) = Some vk"
  by (simp add: sample_provider_def)

lemma sample_record_ok:
  "signature_typed (sample_record vk region)" "key_bound sample_provider (sample_record vk region)"
  "s_key_id (sample_record vk region) = derive_key_id sample_provider vk"
  by (simp_all add: sample_record_def signature_typed_def key_bound_def sample_sec1
      length_derive_key_id [OF sample_provider_laws])

section \<open>Properties\<close>

text \<open>C16: The parser of the signature section accepts exactly what the encoder writes for a
  well-typed record whose key identifier is that of the manifest and of the embedded key.\<close>

theorem signature_canonical:
  assumes "length (key_id m) = 8" and "length region < 2 ^ 32"
  shows "parse_signature_section P bs 64 (length region) m = Ok r \<longleftrightarrow>
    signature_typed r \<and> s_key_id r = key_id m \<and> key_bound P r \<and>
    encode_signature_section r region = Ok bs"
  using assms by (auto simp: parse_signature_iff encode_signature_layout)

theorem signature_canonical_witness:
  "\<exists>bs. parse_signature_section sample_provider bs 64 3
      (sample_manifest 3 [] (derive_key_id sample_provider 9)) = Ok (sample_record 9 [1, 2, 3])"
proof -
  let ?m = "sample_manifest 3 [] (derive_key_id sample_provider 9)"
  obtain bs where "encode_signature_section (sample_record 9 [1, 2, 3]) [1, 2, 3] = Ok bs"
    using encode_signature_layout [OF sample_record_ok(1), of "[1, 2, 3]"] by auto
  then show ?thesis
    using signature_canonical [of ?m "[1, 2, 3]" sample_provider bs "sample_record 9 [1, 2, 3]"]
      sample_record_ok length_derive_key_id [OF sample_provider_laws]
    by (auto simp: numeral_3_eq_3)
qed

end
