(* ===== verification/Image.thy ===== *)
theory Image
  imports Signature
begin

text \<open>
  The image container of \<^verbatim>\<open>host/rampart/src/format.rs\<close>: the encoder, the parser and
  the parsed view with its byte ranges. \<open>image_bytes\<close> composes the layouts of the header,
  the manifest, the payload and the signature section; the main lemma says that the parser
  accepts exactly the images that \<open>image_wf\<close> admits, and returns their view.
\<close>

section \<open>Data\<close>

definition IMAGE_MAGIC :: bytes where "IMAGE_MAGIC = as_bytes ''RMPIMG01''"
definition IMAGE_FORMAT_VERSION :: u16 where "IMAGE_FORMAT_VERSION = 1"
definition IMAGE_KIND_FIRMWARE :: u16 where "IMAGE_KIND_FIRMWARE = 1"

lemmas image_codes = IMAGE_FORMAT_VERSION_def IMAGE_KIND_FIRMWARE_def

lemma length_IMAGE_MAGIC [simp]: "length IMAGE_MAGIC = 8"
  by (simp add: IMAGE_MAGIC_def)

record parsed_image =
  manifest :: rampart_manifest
  manifest_range :: "nat \<times> nat"
  payload_range :: "nat \<times> nat"
  signature_range :: "nat \<times> nat"
  signed_region_range :: "nat \<times> nat"
  signature :: signature_record

text \<open>\<^verbatim>\<open>bytes[range.clone()]\<close>\<close>

definition slice_range :: "bytes \<Rightarrow> nat \<times> nat \<Rightarrow> bytes res" where
  "slice_range bs r = slice bs (fst r) (snd r)"

section \<open>The encoder\<close>

definition encode_image :: "bytes \<Rightarrow> bytes \<Rightarrow> bytes \<Rightarrow> bytes res" where
  "encode_image mf payload sigs =
     (let manifest_offset = IMAGE_HEADER_SIZE in
      and_then (checked_add manifest_offset (length mf)) (\<lambda>payload_offset.
      and_then (checked_add payload_offset (length payload)) (\<lambda>signature_offset.
      and_then (checked_add signature_offset (length sigs)) (\<lambda>file_len.
      and_then (checked_add (length mf) (length payload)) (\<lambda>signed_region_size.
      and_then (vec_zeroed file_len) (\<lambda>out.
      and_then (copy_into out 0 8 IMAGE_MAGIC) (\<lambda>out.
      and_then (write_u16 out 8 IMAGE_FORMAT_VERSION) (\<lambda>out.
      and_then (write_u16 out 10 IMAGE_KIND_FIRMWARE) (\<lambda>out.
      and_then (expect (u16_try_from IMAGE_HEADER_SIZE)) (\<lambda>n.
      and_then (write_u16 out 12 n) (\<lambda>out.
      and_then (checked_u32 manifest_offset ''manifest offset'') (\<lambda>n.
      and_then (write_u32 out 16 n) (\<lambda>out.
      and_then (checked_u32 (length mf) ''manifest size'') (\<lambda>n.
      and_then (write_u32 out 20 n) (\<lambda>out.
      and_then (checked_u32 payload_offset ''payload offset'') (\<lambda>n.
      and_then (write_u32 out 24 n) (\<lambda>out.
      and_then (checked_u32 (length payload) ''payload size'') (\<lambda>n.
      and_then (write_u32 out 28 n) (\<lambda>out.
      and_then (checked_u32 signature_offset ''signature offset'') (\<lambda>n.
      and_then (write_u32 out 32 n) (\<lambda>out.
      and_then (checked_u32 (length sigs) ''signature size'') (\<lambda>n.
      and_then (write_u32 out 36 n) (\<lambda>out.
      and_then (checked_u32 manifest_offset ''signed region offset'') (\<lambda>n.
      and_then (write_u32 out 40 n) (\<lambda>out.
      and_then (checked_u32 signed_region_size ''signed region size'') (\<lambda>n.
      and_then (write_u32 out 44 n) (\<lambda>out.
      and_then (copy_into out manifest_offset payload_offset mf) (\<lambda>out.
      and_then (copy_into out payload_offset signature_offset payload) (\<lambda>out.
      copy_into out signature_offset file_len sigs)))))))))))))))))))))))))))))"

section \<open>The parser\<close>

definition parse_image :: "('sk, 'vk, 'sg) provider \<Rightarrow> bytes \<Rightarrow> parsed_image res" where
  "parse_image P bs =
     (if length bs < IMAGE_HEADER_SIZE then Err ''image is shorter than the Rampart header''
      else
      and_then (slice bs 0 8) (\<lambda>magic.
      and_then (require_magic magic IMAGE_MAGIC ''image'') (\<lambda>_.
      and_then (require_u16 bs 8 IMAGE_FORMAT_VERSION ''image format version'') (\<lambda>_.
      and_then (require_u16 bs 10 IMAGE_KIND_FIRMWARE ''image artifact kind'') (\<lambda>_.
      and_then (expect (u16_try_from IMAGE_HEADER_SIZE)) (\<lambda>n.
      and_then (require_u16 bs 12 n ''image header size'') (\<lambda>_.
      and_then (require_u16 bs 14 0 ''image flags'') (\<lambda>_.
      and_then (map_res unat (read_u32 bs 16)) (\<lambda>manifest_offset.
      and_then (map_res unat (read_u32 bs 20)) (\<lambda>manifest_size.
      and_then (map_res unat (read_u32 bs 24)) (\<lambda>payload_offset.
      and_then (map_res unat (read_u32 bs 28)) (\<lambda>payload_size.
      and_then (map_res unat (read_u32 bs 32)) (\<lambda>signature_offset.
      and_then (map_res unat (read_u32 bs 36)) (\<lambda>signature_size.
      and_then (map_res unat (read_u32 bs 40)) (\<lambda>signed_region_offset.
      and_then (map_res unat (read_u32 bs 44)) (\<lambda>signed_region_size.
      and_then (slice bs 48 64) (\<lambda>reserved.
      and_then (require_zeroes reserved ''image reserved bytes'') (\<lambda>_.
      if manifest_offset \<noteq> IMAGE_HEADER_SIZE
      then Err ''manifest must immediately follow the image header''
      else
      and_then (checked_add manifest_offset manifest_size) (\<lambda>expected_payload_offset.
      if payload_offset \<noteq> expected_payload_offset
      then Err ''payload must immediately follow the manifest''
      else
      and_then (checked_add payload_offset payload_size) (\<lambda>expected_signature_offset.
      if signature_offset \<noteq> expected_signature_offset
      then Err ''signature section must immediately follow the payload''
      else
      and_then (checked_add signature_offset signature_size) (\<lambda>expected_file_len.
      if expected_file_len \<noteq> length bs then Err ''image length does not match section table''
      else if signed_region_offset \<noteq> manifest_offset
      then Err ''signed region must start at the manifest''
      else
      and_then (checked_add manifest_size payload_size) (\<lambda>expected_region_size.
      if signed_region_size \<noteq> expected_region_size
      then Err ''signed region must cover manifest and payload''
      else
      and_then (checked_range manifest_offset manifest_size (length bs)) (\<lambda>m_range.
      and_then (checked_range payload_offset payload_size (length bs)) (\<lambda>p_range.
      and_then (checked_range signature_offset signature_size (length bs)) (\<lambda>s_range.
      and_then (checked_range signed_region_offset signed_region_size (length bs)) (\<lambda>r_range.
      and_then (slice_range bs m_range) (\<lambda>manifest_bytes.
      and_then (parse_manifest manifest_bytes) (\<lambda>m.
      if unat (rampart_manifest.payload_size m) \<noteq> payload_size
      then Err ''manifest payload size does not match image header''
      else
      and_then (slice_range bs s_range) (\<lambda>signature_bytes.
      and_then (parse_signature_section P signature_bytes signed_region_offset
        signed_region_size m) (\<lambda>r.
      Ok \<lparr>manifest = m, manifest_range = m_range, payload_range = p_range,
          signature_range = s_range, signed_region_range = r_range,
          signature = r\<rparr>))))))))))))))))))))))))))))))"



section \<open>The image as a layout\<close>

text \<open>
  \<open>image_layout\<close> lists the fields of the container in file order. \<open>image_bytes\<close> puts the
  layouts of the sections in it, \<open>image_view\<close> is what the parser returns for it, and
  \<open>image_wf\<close> says which triples of manifest, payload and signature record form an image.
\<close>

definition image_layout :: "bytes \<Rightarrow> bytes \<Rightarrow> bytes \<Rightarrow> bytes" where
  "image_layout mf payload sigs =
     (let p = 64 + length mf; s = p + length payload in concat
      [IMAGE_MAGIC, u16_to_le 1, u16_to_le 1, u16_to_le 64, u16_to_le 0,
       u32_to_le 64, u32_to_le (of_nat (length mf)),
       u32_to_le (of_nat p), u32_to_le (of_nat (length payload)),
       u32_to_le (of_nat s), u32_to_le (of_nat (length sigs)),
       u32_to_le 64, u32_to_le (of_nat (length mf + length payload)), replicate 16 0,
       mf, payload, sigs])"

definition region_size :: "rampart_manifest \<Rightarrow> bytes \<Rightarrow> nat" where
  "region_size m payload = manifest_size_of m + length payload"

definition image_bytes :: "rampart_manifest \<Rightarrow> bytes \<Rightarrow> signature_record \<Rightarrow> bytes" where
  "image_bytes m payload r =
     image_layout (manifest_layout m) payload (signature_layout r 64 (region_size m payload))"

definition image_view :: "rampart_manifest \<Rightarrow> bytes \<Rightarrow> signature_record \<Rightarrow> parsed_image" where
  "image_view m payload r =
     (let p = 64 + manifest_size_of m; s = p + length payload in
      \<lparr>manifest = m, manifest_range = (64, p), payload_range = (p, s),
       signature_range = (s, s + 192), signed_region_range = (64, s), signature = r\<rparr>)"

definition image_wf ::
  "('sk, 'vk, 'sg) provider \<Rightarrow> rampart_manifest \<Rightarrow> bytes \<Rightarrow> signature_record \<Rightarrow> bool" where
  "image_wf P m payload r \<longleftrightarrow>
     manifest_typed m \<and> manifest_valid m \<and> unat (payload_size m) = length payload \<and>
     64 + region_size m payload < 2 ^ 32 \<and>
     signature_typed r \<and> s_key_id r = key_id m \<and> key_bound P r"

lemma length_image_layout:
  "length (image_layout mf payload sigs) = 64 + length mf + length payload + length sigs"
  by (simp add: image_layout_def Let_def)

lemma encode_image_layout:
  assumes "64 + length mf + length payload < 2 ^ 32" and "length sigs < 2 ^ 32"
  shows "encode_image mf payload sigs = Ok (image_layout mf payload sigs)"
  using assms
  by (simp add: encode_image_def Let_def signature_sizes vec_zeroed_def write_u16_def
      write_u32_def copy_into_def image_layout_def image_codes checked_add_def checked_u32_def
      u32_try_from_def replicate_2_0 add.assoc usize_max_def isize_max_def
      cong: and_then_weak_cong)

text \<open>The bound on the sections is the only obstacle.\<close>

lemma encode_image_too_big:
  assumes "2 ^ 32 \<le> 64 + length mf + length payload" and "length mf < 2 ^ 32"
    and "length payload < 2 ^ 32" and "length sigs < 2 ^ 32"
  shows "\<exists>e. encode_image mf payload sigs = Err e"
  using assms
  by (simp add: encode_image_def Let_def signature_sizes vec_zeroed_def write_u16_def
      write_u32_def copy_into_def image_codes checked_add_def checked_u32_def
      u32_try_from_def add.assoc usize_max_def isize_max_def split: if_splits
      cong: and_then_weak_cong)

lemma eq_of_nat: "unat (x :: 'a::len word) = n \<Longrightarrow> x = of_nat n"
  by auto

lemma parse_image_header:
  assumes "parse_image P bs = Ok img"
  obtains mf payload sigs where
    "bs = image_layout mf payload sigs"
    "64 + length mf + length payload < 2 ^ 32"
    "parse_manifest mf = Ok (manifest img)"
    "unat (payload_size (manifest img)) = length payload"
    "parse_signature_section P sigs 64 (length mf + length payload) (manifest img) =
       Ok (signature img)"
    "manifest_range img = (64, 64 + length mf)"
    "payload_range img = (64 + length mf, 64 + length mf + length payload)"
    "signature_range img = (64 + length mf + length payload, length bs)"
    "signed_region_range img = (64, 64 + length mf + length payload)"
proof -
  have len: "64 \<le> length bs"
    using assms by (simp add: parse_image_def signature_sizes not_less split: if_splits)
  from assms len obtain x1 x2 x3 x4 x5 x6 x7 x8
    where segs: "seg 0 8 bs = IMAGE_MAGIC" "seg 8 2 bs = u16_to_le 1" "seg 10 2 bs = u16_to_le 1"
      "seg 12 2 bs = u16_to_le 64" "seg 14 2 bs = u16_to_le 0" "seg 16 4 bs = u32_to_le x1"
      "seg 20 4 bs = u32_to_le x2" "seg 24 4 bs = u32_to_le x3" "seg 28 4 bs = u32_to_le x4"
      "seg 32 4 bs = u32_to_le x5" "seg 36 4 bs = u32_to_le x6" "seg 40 4 bs = u32_to_le x7"
      "seg 44 4 bs = u32_to_le x8" "seg 48 16 bs = replicate 16 0"
    and offs: "unat x1 = 64" "unat x3 = 64 + unat x2" "unat x5 = unat x3 + unat x4"
      "length bs = unat x5 + unat x6" "unat x7 = 64" "unat x8 = unat x2 + unat x4"
    and m: "parse_manifest (seg 64 (unat x2) bs) = Ok (manifest img)"
      "unat (payload_size (manifest img)) = unat x4"
      "parse_signature_section P (seg (unat x5) (unat x6) bs) 64 (unat x8) (manifest img) =
         Ok (signature img)"
    and ranges: "manifest_range img = (64, unat x3)" "payload_range img = (unat x3, unat x5)"
      "signature_range img = (unat x5, unat x5 + unat x6)"
      "signed_region_range img = (64, 64 + unat x8)"
    by (clarsimp simp: parse_image_def ok_iff read_ok Let_def signature_sizes slice_range_def
        image_codes)
  define mf where "mf = seg 64 (unat x2) bs"
  define payload where "payload = seg (unat x3) (unat x4) bs"
  define sigs where "sigs = seg (unat x5) (unat x6) bs"
  have lens: "length mf = unat x2" "length payload = unat x4" "length sigs = unat x6"
    using offs by (simp_all add: mf_def payload_def sigs_def)
  have words: "x1 = 64" "x2 = of_nat (length mf)" "x3 = of_nat (64 + length mf)"
    "x4 = of_nat (length payload)" "x5 = of_nat (64 + length mf + length payload)"
    "x6 = of_nat (length sigs)" "x7 = 64" "x8 = of_nat (length mf + length payload)"
    using offs(1-3,5,6) [THEN eq_of_nat] lens offs by simp_all
  have parts: "seg 64 (length mf) bs = mf" "seg (64 + length mf) (length payload) bs = payload"
    "seg (64 + (length mf + length payload)) (length sigs) bs = sigs"
    "length bs = 64 + (length mf + (length payload + length sigs))"
    using offs by (simp_all add: lens) (simp_all add: mf_def payload_def sigs_def add.assoc)
  show thesis
  proof
    show "bs = image_layout mf payload sigs"
      unfolding image_layout_def Let_def layout_iff
      by (simp add: segs words parts add.assoc del: concat.simps)
    show "64 + length mf + length payload < 2 ^ 32"
      using offs unat_u32_less [of x5] by (simp add: lens)
    show "parse_manifest mf = Ok (manifest img)"
      "unat (payload_size (manifest img)) = length payload"
      "parse_signature_section P sigs 64 (length mf + length payload) (manifest img) =
         Ok (signature img)"
      using m offs by (simp_all add: lens) (simp_all add: mf_def sigs_def)
    show "manifest_range img = (64, 64 + length mf)"
      "payload_range img = (64 + length mf, 64 + length mf + length payload)"
      "signature_range img = (64 + length mf + length payload, length bs)"
      "signed_region_range img = (64, 64 + length mf + length payload)"
      using ranges offs by (simp_all add: lens)
  qed
qed

lemma parse_image_sound:
  assumes "parse_image P bs = Ok img"
  obtains m payload r where
    "image_wf P m payload r" "bs = image_bytes m payload r" "img = image_view m payload r"
proof -
  from parse_image_header [OF assms] obtain mf payload sigs where h:
    "bs = image_layout mf payload sigs" "64 + length mf + length payload < 2 ^ 32"
    "parse_manifest mf = Ok (manifest img)"
    "unat (payload_size (manifest img)) = length payload"
    "parse_signature_section P sigs 64 (length mf + length payload) (manifest img) =
       Ok (signature img)"
    "manifest_range img = (64, 64 + length mf)"
    "payload_range img = (64 + length mf, 64 + length mf + length payload)"
    "signature_range img = (64 + length mf + length payload, length bs)"
    "signed_region_range img = (64, 64 + length mf + length payload)" .
  let ?m = "manifest img"
  have m: "manifest_typed ?m" "manifest_valid ?m" "mf = manifest_layout ?m"
    using h(3) by (simp_all add: parse_manifest_iff)
  then have kid: "length (key_id ?m) = 8" and mf: "length mf = manifest_size_of ?m"
    by (simp_all add: manifest_typed_def length_manifest_layout)
  have r: "signature_typed (signature img)" "s_key_id (signature img) = key_id ?m"
    "key_bound P (signature img)"
    "sigs = signature_layout (signature img) 64 (region_size ?m payload)"
    using h(5) by (simp_all add: parse_signature_iff [OF kid] mf region_size_def)
  have len: "length bs = 64 + length mf + length payload + 192"
    by (simp add: h(1) length_image_layout r(4) length_signature_layout [OF r(1)])
  show thesis
  proof
    have "64 + region_size ?m payload < 2 ^ 32"
      using h(2) by (simp only: region_size_def mf add.assoc)
    then show "image_wf P ?m payload (signature img)"
      using m(1,2) r(1-3) h(4) by (simp add: image_wf_def)
    show "bs = image_bytes ?m payload (signature img)"
      using h(1) m(3) r(4) by (simp add: image_bytes_def)
    show "img = image_view ?m payload (signature img)"
      using h(6-9) len by (cases img) (simp add: image_view_def Let_def mf)
  qed
qed

lemma parse_image_complete:
  assumes "image_wf P m payload r"
  shows "parse_image P (image_bytes m payload r) = Ok (image_view m payload r)"
proof -
  let ?mf = "manifest_layout m"
  let ?sigs = "signature_layout r 64 (region_size m payload)"
  have wf: "manifest_typed m" "manifest_valid m" "unat (payload_size m) = length payload"
    "64 + region_size m payload < 2 ^ 32" "signature_typed r" "s_key_id r = key_id m"
    "key_bound P r"
    using assms by (simp_all add: image_wf_def)
  have mf: "length ?mf = manifest_size_of m" and sigs: "length ?sigs = 192"
    using wf by (simp_all add: length_manifest_layout length_signature_layout)
  define bs where "bs = image_bytes m payload r"
  note table = bs_def [unfolded image_bytes_def image_layout_def Let_def layout_iff mf sigs]
  have m: "parse_manifest ?mf = Ok m" using wf(1,2) by (rule parse_manifest_complete)
  have "length (key_id m) = 8" using wf(1) by (simp add: manifest_typed_def)
  then have r: "parse_signature_section P ?sigs 64 (region_size m payload) m = Ok r"
    using wf by (simp add: parse_signature_iff)
  have small: "manifest_size_of m + length payload < 4294967232"
    using wf(4) by (simp add: region_size_def)
  then have words: "unat (of_nat (manifest_size_of m) :: u32) = manifest_size_of m"
    "unat (of_nat (length payload) :: u32) = length payload"
    "unat (of_nat (64 + manifest_size_of m) :: u32) = 64 + manifest_size_of m"
    "unat (of_nat (64 + (manifest_size_of m + length payload)) :: u32) =
       64 + (manifest_size_of m + length payload)"
    "unat (of_nat (manifest_size_of m + length payload) :: u32) =
       manifest_size_of m + length payload"
    by (intro unat_of_nat_u32; simp)+
  have "parse_image P bs = Ok (image_view m payload r)"
    using table small words m r [unfolded region_size_def] wf(3)
    by (clarsimp simp: parse_image_def ok_iff read_ok Let_def signature_sizes slice_range_def
        image_codes image_view_def region_size_def mf sigs [unfolded region_size_def] usize_max_def add.assoc
        simp del: of_nat_add concat.simps)
  then show ?thesis by (simp add: bs_def)
qed


lemma parse_image_iff:
  "parse_image P bs = Ok img \<longleftrightarrow>
     (\<exists>m payload r. image_wf P m payload r \<and> bs = image_bytes m payload r \<and>
        img = image_view m payload r)"
  by (metis parse_image_sound parse_image_complete)

lemma parse_image_no_panic: "parse_image P bs \<noteq> Panic"
proof (cases "length bs < 64")
  case False
  then show ?thesis
    by (auto simp: parse_image_def panic_iff ok_iff read_ok Let_def signature_sizes
        slice_range_def parse_manifest_no_panic parse_signature_no_panic)
qed (simp add: parse_image_def signature_sizes)

lemma image_view_sel [simp]:
  "manifest (image_view m payload r) = m"
  "signature (image_view m payload r) = r"
  "manifest_range (image_view m payload r) = (64, 64 + manifest_size_of m)"
  "payload_range (image_view m payload r) =
     (64 + manifest_size_of m, 64 + manifest_size_of m + length payload)"
  "signature_range (image_view m payload r) =
     (64 + manifest_size_of m + length payload, 64 + manifest_size_of m + length payload + 192)"
  "signed_region_range (image_view m payload r) =
     (64, 64 + manifest_size_of m + length payload)"
  by (simp_all add: image_view_def Let_def)

lemma length_image_bytes:
  assumes "image_wf P m payload r"
  shows "length (image_bytes m payload r) = 64 + manifest_size_of m + length payload + 192"
  using assms
  by (simp add: image_bytes_def length_image_layout image_wf_def length_manifest_layout
      length_signature_layout)

lemma image_bytes_sections:
  assumes "image_wf P m payload r"
  shows "slice_range (image_bytes m payload r) (payload_range (image_view m payload r)) = Ok payload"
    and "slice_range (image_bytes m payload r) (signed_region_range (image_view m payload r)) =
      Ok (manifest_layout m @ payload)"
    and "slice_range (image_bytes m payload r) (manifest_range (image_view m payload r)) =
      Ok (manifest_layout m)"
proof -
  define h where "h = take 64 (image_bytes m payload r)"
  define t where "t = signature_layout r 64 (region_size m payload)"
  have mf: "length (manifest_layout m) = manifest_size_of m"
    using assms by (simp add: image_wf_def length_manifest_layout)
  have len: "length h = 64" using length_image_bytes [OF assms] by (simp add: h_def)
  have eq: "image_bytes m payload r = h @ manifest_layout m @ payload @ t"
    by (simp add: h_def t_def image_bytes_def image_layout_def Let_def take_Cons')
  show "slice_range (image_bytes m payload r) (payload_range (image_view m payload r)) = Ok payload"
    "slice_range (image_bytes m payload r) (signed_region_range (image_view m payload r)) =
      Ok (manifest_layout m @ payload)"
    "slice_range (image_bytes m payload r) (manifest_range (image_view m payload r)) =
      Ok (manifest_layout m)"
    by (simp_all add: slice_range_def slice_Ok_iff eq len mf seg_def)
qed


lemma of_nat_u32_inject:
  assumes "(of_nat a :: u32) = of_nat b" and "a < 2 ^ 32" and "b < 2 ^ 32"
  shows "a = b"
proof -
  have "unat (of_nat a :: u32) = a" "unat (of_nat b :: u32) = b"
    using assms(2,3) by (auto intro!: unat_of_nat_u32)
  then show ?thesis using assms(1) by metis
qed

text \<open>The bytes of an accepted image are determined by its signed region and its record.\<close>

lemma image_bytes_inject:
  assumes "image_wf P m payload r" and "image_wf P m' payload' r"
    and "manifest_layout m @ payload = manifest_layout m' @ payload'"
  shows "m = m' \<and> payload = payload'"
proof -
  have typed: "manifest_typed m" "manifest_valid m" "manifest_typed m'" "manifest_valid m'"
    using assms(1,2) by (simp_all add: image_wf_def)
  have len: "length (manifest_layout m) = manifest_size_of m"
    "length (manifest_layout m') = manifest_size_of m'" "128 \<le> manifest_size_of m"
    "128 \<le> manifest_size_of m'"
    using typed by (simp_all add: length_manifest_layout manifest_size_of_def)
  have "seg 12 4 (manifest_layout x @ y) = u32_to_le (of_nat (manifest_size_of x))"
    if "manifest_typed x" "manifest_valid x" for x y
  proof -
    have "128 \<le> length (manifest_layout x)"
      using that by (simp add: length_manifest_layout manifest_size_of_def)
    then show ?thesis
      using that manifest_layout_iff [of x "manifest_layout x"]
      by (simp add: seg_append_left manifest_typed_def)
  qed
  from this [OF typed(1,2), of payload] this [OF typed(3,4), of payload'] assms(3)
  have "(of_nat (manifest_size_of m) :: u32) = of_nat (manifest_size_of m')"
    by simp
  moreover have "manifest_size_of m < 2 ^ 32" "manifest_size_of m' < 2 ^ 32"
    using assms(1,2) by (simp_all add: image_wf_def region_size_def)
  ultimately have "manifest_size_of m = manifest_size_of m'"
    using of_nat_u32_inject by blast
  with assms(3) len have "manifest_layout m = manifest_layout m'" and p: "payload = payload'"
    by simp_all
  then have "Ok m = Ok m'"
    by (metis typed parse_manifest_complete)
  with p show ?thesis by simp
qed

lemma image_bytes_record:
  assumes "signature_typed r" "signature_typed r'" "image_bytes m p r = image_bytes m' p' r'"
  shows "r = r'"
proof -
  have tail: "drop (length (image_bytes m p r) - 192) (image_bytes m p r) =
      signature_layout r 64 (region_size m p)" if "signature_typed r" for m p r
    using length_signature_layout [OF that]
    by (simp add: image_bytes_def image_layout_def Let_def)
  show ?thesis
    using tail [OF assms(1), of m p] tail [OF assms(2), of m' p'] assms(3)
      signature_layout_inject [OF assms(1,2)] by metis
qed

section \<open>A sample image\<close>

definition sample_payload :: bytes where "sample_payload = [1, 2, 3]"

definition sample_image_manifest :: rampart_manifest where
  "sample_image_manifest =
     sample_manifest 3 (sample_digest sample_payload) (derive_key_id sample_provider 9)"

definition sample_image_record :: signature_record where
  "sample_image_record = sample_record 9 (manifest_layout sample_image_manifest @ sample_payload)"

definition sample_image :: bytes where
  "sample_image = image_bytes sample_image_manifest sample_payload sample_image_record"

lemma sample_image_wf:
  "image_wf sample_provider sample_image_manifest sample_payload sample_image_record"
proof -
  have d: "length (sample_digest p) = 32" for p by (simp add: sample_digest_def)
  note k = length_derive_key_id [OF sample_provider_laws, of 9]
  show ?thesis
    using sample_record_ok sample_manifest_ok [OF d k]
    by (simp add: image_wf_def region_size_def sample_image_manifest_def sample_image_record_def
        sample_payload_def)
qed

lemma sample_parse_image:
  "parse_image sample_provider sample_image =
     Ok (image_view sample_image_manifest sample_payload sample_image_record)"
  unfolding sample_image_def by (rule parse_image_complete [OF sample_image_wf])

section \<open>The signed content\<close>

text \<open>What the signature covers, and the record that holds it.\<close>

definition signed_content ::
  "('sk, 'vk, 'sg) provider \<Rightarrow> bytes \<Rightarrow> (bytes res \<times> signature_record) res" where
  "signed_content P bs =
     map_res (\<lambda>img. (slice_range bs (signed_region_range img), signature img)) (parse_image P bs)"

lemma signed_region_determines_image:
  assumes "parse_image P bs = Ok img" and "parse_image P bs' = Ok img'"
    and "slice_range bs (signed_region_range img) = slice_range bs' (signed_region_range img')"
    and "signature img = signature img'"
  shows "bs = bs'"
proof -
  from assms(1) obtain m payload r where a: "image_wf P m payload r" "bs = image_bytes m payload r"
    "img = image_view m payload r" by (rule parse_image_sound)
  from assms(2) obtain m' payload' r' where b: "image_wf P m' payload' r'"
    "bs' = image_bytes m' payload' r'" "img' = image_view m' payload' r'" by (rule parse_image_sound)
  have r: "r' = r" using assms(4) by (simp add: a(3) b(3))
  have "manifest_layout m @ payload = manifest_layout m' @ payload'"
    using assms(3) image_bytes_sections(2) [OF a(1)] image_bytes_sections(2) [OF b(1)]
    by (simp add: a b)
  with image_bytes_inject a(1) b(1) r have "m = m' \<and> payload = payload'" by blast
  then show ?thesis by (simp add: a b r)
qed

section \<open>Properties\<close>

text \<open>C3: The image parser accepts exactly the images that the three encoders write for a
  well-formed manifest, payload and record, and returns their view: an accepted image is the
  canonical encoding of what it parses to.\<close>

theorem image_canonical:
  "parse_image P bs = Ok img \<longleftrightarrow>
     (\<exists>payload mf sigs. image_wf P (manifest img) payload (signature img) \<and>
        encode_manifest (manifest img) = Ok mf \<and>
        encode_signature_section (signature img) (mf @ payload) = Ok sigs \<and>
        encode_image mf payload sigs = Ok bs \<and>
        img = image_view (manifest img) payload (signature img))"
proof -
  have enc: "encode_manifest m = Ok (manifest_layout m) \<and>
     encode_signature_section r (manifest_layout m @ payload) = 
       Ok (signature_layout r 64 (region_size m payload)) \<and>
     encode_image (manifest_layout m) payload (signature_layout r 64 (region_size m payload)) =
       Ok (image_bytes m payload r)" if "image_wf P m payload r" for m payload r
    using that encode_signature_layout [of r "manifest_layout m @ payload"]
    by (simp add: image_wf_def encode_manifest_layout encode_image_layout manifest_valid_def
        length_manifest_layout length_signature_layout image_bytes_def region_size_def)
  show ?thesis
  proof
    assume "parse_image P bs = Ok img"
    then obtain m payload r where "image_wf P m payload r" "bs = image_bytes m payload r"
      "img = image_view m payload r" by (rule parse_image_sound)
    then show "\<exists>payload mf sigs. image_wf P (manifest img) payload (signature img) \<and>
        encode_manifest (manifest img) = Ok mf \<and>
        encode_signature_section (signature img) (mf @ payload) = Ok sigs \<and>
        encode_image mf payload sigs = Ok bs \<and>
        img = image_view (manifest img) payload (signature img)"
      using enc by auto
  next
    assume "\<exists>payload mf sigs. image_wf P (manifest img) payload (signature img) \<and>
        encode_manifest (manifest img) = Ok mf \<and>
        encode_signature_section (signature img) (mf @ payload) = Ok sigs \<and>
        encode_image mf payload sigs = Ok bs \<and>
        img = image_view (manifest img) payload (signature img)"
    then obtain payload where wf: "image_wf P (manifest img) payload (signature img)"
      and "bs = image_bytes (manifest img) payload (signature img)"
      and img: "img = image_view (manifest img) payload (signature img)"
      using enc by auto
    then show "parse_image P bs = Ok img"
      using parse_image_complete [OF wf] by simp
  qed
qed

text \<open>C15: The sections of an accepted image follow each other without a gap from the header to the
  end of the file, the signed region is the manifest and the payload, the sizes agree, and the
  manifest section holds the encoding of the manifest.\<close>

theorem image_sections_tile:
  assumes "parse_image P bs = Ok img"
  shows "\<exists>m_end p_end. manifest_range img = (64, m_end) \<and> payload_range img = (m_end, p_end) \<and>
    signature_range img = (p_end, length bs) \<and> signed_region_range img = (64, p_end) \<and>
    192 \<le> m_end \<and> m_end \<le> 320 \<and> m_end \<le> p_end \<and> p_end + 192 = length bs \<and>
    unat (payload_size (manifest img)) = p_end - m_end \<and>
    slice bs 64 m_end = encode_manifest (manifest img)"
proof -
  from assms obtain m payload r where a: "image_wf P m payload r" "bs = image_bytes m payload r"
    "img = image_view m payload r" by (rule parse_image_sound)
  have m: "manifest_typed m" "manifest_valid m" "unat (payload_size m) = length payload"
    using a(1) by (simp_all add: image_wf_def)
  have "manifest_size_of m \<le> 256"
    using m(2) padded_le by (simp add: manifest_valid_def manifest_sizes manifest_size_of_def)
  moreover have "128 \<le> manifest_size_of m" by (simp add: manifest_size_of_def)
  ultimately show ?thesis
    using length_image_bytes [OF a(1)] image_bytes_sections(3) [OF a(1)] m(3)
      encode_manifest_layout [OF m(1)] m(2)
    by (simp add: a slice_range_def manifest_valid_def)
qed

theorem image_sections_tile_witness:
  "\<exists>p_end. payload_range (image_view sample_image_manifest sample_payload sample_image_record) = (196, p_end)
     \<and> p_end + 192 = length sample_image"
  using image_sections_tile [OF sample_parse_image] 
  by (auto simp: sample_image_manifest_def)

text \<open>C7: Among accepted images, the signed region and the signature record determine every byte of
  the file: there is nothing an attacker can change outside of them.\<close>

theorem signed_content_injective: "inj_on (signed_content P) {bs. is_ok (parse_image P bs)}"
proof (rule inj_onI)
  fix bs bs' assume "bs \<in> {bs. is_ok (parse_image P bs)}" "bs' \<in> {bs. is_ok (parse_image P bs)}"
  then obtain img img' where "parse_image P bs = Ok img" "parse_image P bs' = Ok img'"
    by (cases "parse_image P bs"; cases "parse_image P bs'") auto
  moreover assume "signed_content P bs = signed_content P bs'"
  ultimately show "bs = bs'" by (simp add: signed_content_def signed_region_determines_image)
qed

end
