(* ===== verification/Verify.thy ===== *)
theory Verify
  imports Image
begin

text \<open>
  Verification and inspection, from \<^verbatim>\<open>host/rampart/src/format.rs\<close>: the checks
  behind \<^verbatim>\<open>rampart image verify\<close>, the report they fill and its text. The lemmas say
  what a report means in terms of the sections of the image, that neither operation
  panics on any input, and what a valid report entails.
\<close>

section \<open>Data\<close>

record device_target =
  t_vendor_id :: u32
  t_product_id :: u32
  t_hardware_family :: u32
  t_component_id :: u32

record verification_options =
  o_device_target :: "device_target option"
  o_minimum_security_epoch :: u32

record verification_report =
  r_image :: parsed_image
  payload_digest_valid :: bool
  signature_valid :: bool
  target_valid :: bool
  security_epoch_valid :: bool

definition is_valid :: "verification_report \<Rightarrow> bool" where
  "is_valid self \<longleftrightarrow>
     payload_digest_valid self \<and> signature_valid self \<and> target_valid self \<and>
     security_epoch_valid self"

section \<open>Checks\<close>

text \<open>The digest type of the hash has the 32 bytes of the array it is copied to.\<close>

definition digest_payload :: "('sk, 'vk, 'sg) provider \<Rightarrow> bytes \<Rightarrow> bytes" where
  "digest_payload P payload = sha256 P payload"

definition target_matches :: "rampart_manifest \<Rightarrow> device_target \<Rightarrow> bool" where
  "target_matches m target \<longleftrightarrow>
     vendor_id m = t_vendor_id target \<and> product_id m = t_product_id target \<and>
     hardware_family m = t_hardware_family target \<and> component_id m = t_component_id target"

definition verify_signature ::
  "('sk, 'vk, 'sg) provider \<Rightarrow> bytes \<Rightarrow> parsed_image \<Rightarrow> bool res" where
  "verify_signature P bs img =
     and_then (slice_range bs (signed_region_range img)) (\<lambda>signed_region.
     and_then (ok_or (from_sec1_bytes P (s_public_key (signature img)))
       ''signature public key is not valid P-256 SEC1'') (\<lambda>vk.
     and_then (ok_or (sig_from_slice P (s_signature (signature img)))
       ''signature bytes are not a valid P-256 ECDSA signature'') (\<lambda>s.
     Ok (ecdsa_verify P vk signed_region s))))"

definition verify_image ::
  "('sk, 'vk, 'sg) provider \<Rightarrow> bytes \<Rightarrow> verification_options \<Rightarrow> verification_report res" where
  "verify_image P bs options =
     and_then (parse_image P bs) (\<lambda>img.
     and_then (slice_range bs (payload_range img)) (\<lambda>payload.
     let digest_ok = (digest_payload P payload = payload_digest (manifest img)) in
     and_then (verify_signature P bs img) (\<lambda>sig_ok.
     let target_ok = (case o_device_target options of
           Some target \<Rightarrow> target_matches (manifest img) target | None \<Rightarrow> True);
         epoch_ok = (security_epoch (manifest img) \<ge> o_minimum_security_epoch options) in
     Ok \<lparr>r_image = img, payload_digest_valid = digest_ok, signature_valid = sig_ok,
         target_valid = target_ok, security_epoch_valid = epoch_ok\<rparr>)))"

section \<open>Reports\<close>

definition format_image_report :: "parsed_image \<Rightarrow> bool option \<Rightarrow> bool option \<Rightarrow> string" where
  "format_image_report img digest_status sig_status =
     (let m = manifest img; digest = hex_lower (payload_digest m) in
      ''Rampart Image'' @ nl @ nl @
      ''Artifact'' @ nl @ ''  '' @ artifact_id m @ nl @ nl @
      ''Target'' @ nl @
      ''  vendor_id        0x'' @ hex_pad 8 (unat (vendor_id m)) @ nl @
      ''  product_id       0x'' @ hex_pad 8 (unat (product_id m)) @ nl @
      ''  hardware_family  0x'' @ hex_pad 8 (unat (hardware_family m)) @ nl @
      ''  hardware_rev     '' @ display_nat (unat (hardware_revision_min m)) @ ''..'' @
        display_nat (unat (hardware_revision_max m)) @ nl @
      ''  component_id     0x'' @ hex_pad 8 (unat (component_id m)) @ nl @ nl @
      ''Version'' @ nl @ ''  '' @ version_string m @ nl @ nl @
      ''Security Epoch'' @ nl @ ''  '' @ display_nat (unat (security_epoch m)) @ nl @ nl @
      ''Payload'' @ nl @ ''  '' @ display_nat (unat (payload_size m)) @ '' bytes'' @ nl @
      ''  SHA-256'' @ nl @ ''  '' @ digest @ nl @
      ''  digest '' @ optional_status digest_status @ nl @ nl @
      ''Authorization'' @ nl @
      ''  role              '' @ signature_role_name m @ nl @
      ''  key_id            0x'' @ key_id_hex (key_id m) @ nl @
      ''  signature         ECDSA_P256_SHA256'' @ nl @
      ''  signature '' @ optional_status sig_status @ nl @ nl @
      ''Trial Policy'' @ nl @
      ''  attempts          '' @ display_nat (unat (trial_max_attempts m)) @ nl @
      ''  probation_ms      '' @ display_nat (unat (trial_probation_ms m)) @ nl @ nl @
      ''Rollback'' @ nl @ ''  '' @ manifest_rollback_policy_name m @ nl)"

definition format_verification_report :: "verification_report \<Rightarrow> string" where
  "format_verification_report report =
     format_image_report (r_image report) (Some (payload_digest_valid report))
       (Some (signature_valid report)) @
     nl @ ''Policy Checks'' @ nl @
     ''  target binding      '' @ status_word (target_valid report) @ nl @
     ''  security epoch      '' @ status_word (security_epoch_valid report) @ nl @ nl @
     ''Result'' @ nl @ ''  '' @ (if is_valid report then ''valid'' else ''rejected'') @ nl"

definition inspect_image :: "('sk, 'vk, 'sg) provider \<Rightarrow> bytes \<Rightarrow> string res" where
  "inspect_image P bs =
     and_then (parse_image P bs) (\<lambda>img.
     and_then (slice_range bs (payload_range img)) (\<lambda>payload.
     let digest = digest_payload P payload;
         digest_ok = (digest = payload_digest (manifest img)) in
     Ok (format_image_report img (Some digest_ok) None)))"

section \<open>What verification computes\<close>

text \<open>The checks over the sections of an image, without its bytes.\<close>

definition signature_check ::
  "('sk, 'vk, 'sg) provider \<Rightarrow> rampart_manifest \<Rightarrow> bytes \<Rightarrow> signature_record \<Rightarrow> bool res" where
  "signature_check P m payload r =
     (case from_sec1_bytes P (s_public_key r) of
        None \<Rightarrow> Err ''signature public key is not valid P-256 SEC1''
      | Some vk \<Rightarrow> (case sig_from_slice P (s_signature r) of
          None \<Rightarrow> Err ''signature bytes are not a valid P-256 ECDSA signature''
        | Some s \<Rightarrow> Ok (ecdsa_verify P vk (manifest_layout m @ payload) s)))"

definition report_of ::
  "('sk, 'vk, 'sg) provider \<Rightarrow> verification_options \<Rightarrow> rampart_manifest \<Rightarrow> bytes \<Rightarrow>
     signature_record \<Rightarrow> bool \<Rightarrow> verification_report" where
  "report_of P opts m payload r sig_ok =
     \<lparr>r_image = image_view m payload r,
      payload_digest_valid = (sha256 P payload = payload_digest m),
      signature_valid = sig_ok,
      target_valid = (\<forall>t \<in> set_option (o_device_target opts). target_matches m t),
      security_epoch_valid = (o_minimum_security_epoch opts \<le> security_epoch m)\<rparr>"

lemma verify_signature_sections:
  assumes "image_wf P m payload r"
  shows "verify_signature P (image_bytes m payload r) (image_view m payload r) =
    signature_check P m payload r"
  using image_bytes_sections(2) [OF assms]
  by (simp add: verify_signature_def signature_check_def split: option.split)

lemma verify_image_sections:
  assumes "image_wf P m payload r"
  shows "verify_image P (image_bytes m payload r) opts =
    map_res (report_of P opts m payload r) (signature_check P m payload r)"
  using image_bytes_sections(1) [OF assms]
  by (cases "signature_check P m payload r")
    (simp_all add: verify_image_def parse_image_complete [OF assms]
      verify_signature_sections [OF assms] digest_payload_def report_of_def split: option.split)

lemma verify_image_cases:
  assumes "verify_image P bs opts = Ok report"
  obtains m payload r sig_ok where "image_wf P m payload r" "bs = image_bytes m payload r"
    "signature_check P m payload r = Ok sig_ok" "report = report_of P opts m payload r sig_ok"
proof -
  from assms obtain img where "parse_image P bs = Ok img"
    by (auto simp: verify_image_def ok_iff)
  then obtain m payload r where *: "image_wf P m payload r" "bs = image_bytes m payload r"
    by (rule parse_image_sound)
  have "map_res (report_of P opts m payload r) (signature_check P m payload r) = Ok report"
    using assms verify_image_sections [OF *(1), of opts] *(2) by simp
  then obtain sig_ok where "signature_check P m payload r = Ok sig_ok"
    "report = report_of P opts m payload r sig_ok"
    by (cases "signature_check P m payload r") auto
  with * show thesis by (rule that)
qed

lemma signature_check_no_panic [simp]: "signature_check P m payload r \<noteq> Panic"
  by (simp add: signature_check_def split: option.split)

lemma verify_image_no_panic: "verify_image P bs opts \<noteq> Panic"
proof (cases "parse_image P bs")
  case (Ok img)
  then obtain m payload r where "image_wf P m payload r" "bs = image_bytes m payload r"
    by (rule parse_image_sound)
  then show ?thesis
    using signature_check_no_panic [of P m payload r]
    by (cases "signature_check P m payload r") (auto simp: verify_image_sections)
qed (auto simp: verify_image_def parse_image_no_panic)

lemma inspect_image_sections:
  assumes "image_wf P m payload r"
  shows "inspect_image P (image_bytes m payload r) =
    Ok (format_image_report (image_view m payload r)
      (Some (sha256 P payload = payload_digest m)) None)"
  using image_bytes_sections(1) [OF assms]
  by (simp add: inspect_image_def parse_image_complete [OF assms] digest_payload_def)

lemma inspect_image_no_panic: "inspect_image P bs \<noteq> Panic"
proof (cases "parse_image P bs")
  case (Ok img)
  then obtain m payload r where "image_wf P m payload r" "bs = image_bytes m payload r"
    by (rule parse_image_sound)
  then show ?thesis by (auto simp: inspect_image_sections)
qed (auto simp: inspect_image_def parse_image_no_panic)

section \<open>The sample image verifies\<close>

definition any_target :: verification_options where
  "any_target = \<lparr>o_device_target = None, o_minimum_security_epoch = 0\<rparr>"

lemma sample_verify:
  "verify_image sample_provider sample_image any_target =
     Ok (report_of sample_provider any_target sample_image_manifest sample_payload
       sample_image_record True)"
  "is_valid (report_of sample_provider any_target sample_image_manifest sample_payload
       sample_image_record True)"
proof -
  have "signature_check sample_provider sample_image_manifest sample_payload sample_image_record = Ok True"
    by (simp add: signature_check_def sample_image_record_def sample_record_def sample_provider_def)
  then show "verify_image sample_provider sample_image any_target =
     Ok (report_of sample_provider any_target sample_image_manifest sample_payload
       sample_image_record True)"
    unfolding sample_image_def using verify_image_sections [OF sample_image_wf] by simp
  have "sha256 sample_provider = sample_digest" by (simp add: sample_provider_def)
  then show "is_valid (report_of sample_provider any_target sample_image_manifest sample_payload
       sample_image_record True)"
    by (simp add: is_valid_def report_of_def any_target_def sample_image_manifest_def)
qed

section \<open>Properties\<close>

text \<open>C2: Verification reports a valid image exactly when the bytes are a well-formed image, the
  digest of the payload is that of the manifest, the embedded key decodes to one with the
  identifier of the manifest, the signature decodes and verifies over manifest and payload
  under it, and the target and the security epoch satisfy the options.\<close>

theorem verification_exact:
  "(\<exists>report. verify_image P bs opts = Ok report \<and> is_valid report) \<longleftrightarrow>
     (\<exists>m payload r vk s. image_wf P m payload r \<and> bs = image_bytes m payload r \<and>
        sha256 P payload = payload_digest m \<and>
        from_sec1_bytes P (s_public_key r) = Some vk \<and> derive_key_id P vk = key_id m \<and>
        sig_from_slice P (s_signature r) = Some s \<and>
        ecdsa_verify P vk (manifest_layout m @ payload) s \<and>
        (case o_device_target opts of None \<Rightarrow> True | Some t \<Rightarrow> target_matches m t) \<and>
        o_minimum_security_epoch opts \<le> security_epoch m)"
   (is "?L \<longleftrightarrow> ?R")
proof
  assume ?L
  then obtain report where v: "verify_image P bs opts = Ok report" and ok: "is_valid report" by blast
  from v obtain m payload r sig_ok where *: "image_wf P m payload r" "bs = image_bytes m payload r"
    "signature_check P m payload r = Ok sig_ok" "report = report_of P opts m payload r sig_ok"
    by (rule verify_image_cases)
  have kid: "key_bound P r" "s_key_id r = key_id m" using *(1) by (simp_all add: image_wf_def)
  have checks: "sha256 P payload = payload_digest m" "sig_ok"
    "case o_device_target opts of None \<Rightarrow> True | Some t \<Rightarrow> target_matches m t"
    "o_minimum_security_epoch opts \<le> security_epoch m"
    using ok by (simp_all add: *(4) is_valid_def report_of_def split: option.split)
  from *(3) checks(2) obtain vk s where "from_sec1_bytes P (s_public_key r) = Some vk"
    "sig_from_slice P (s_signature r) = Some s" "ecdsa_verify P vk (manifest_layout m @ payload) s"
    by (auto simp: signature_check_def split: option.splits)
  moreover from this kid have "derive_key_id P vk = key_id m" by (simp add: key_bound_def)
  ultimately show ?R using *(1,2) checks by blast
next
  assume ?R
  then obtain m payload r vk s where *: "image_wf P m payload r" "bs = image_bytes m payload r"
    "sha256 P payload = payload_digest m" "from_sec1_bytes P (s_public_key r) = Some vk"
    "sig_from_slice P (s_signature r) = Some s" "ecdsa_verify P vk (manifest_layout m @ payload) s"
    "case o_device_target opts of None \<Rightarrow> True | Some t \<Rightarrow> target_matches m t"
    "o_minimum_security_epoch opts \<le> security_epoch m" by blast
  then have "signature_check P m payload r = Ok True" by (simp add: signature_check_def)
  then show ?L using * verify_image_sections [OF *(1), of opts]
    by (simp add: is_valid_def report_of_def split: option.splits)
qed

text \<open>C12: No input makes parsing, verification or inspection panic.\<close>

theorem parsers_never_panic:
  "parse_image P bs \<noteq> Panic \<and> verify_image P bs opts \<noteq> Panic \<and> inspect_image P bs \<noteq> Panic \<and>
   parse_manifest bs \<noteq> Panic \<and> parse_signature_section P bs i n m \<noteq> Panic"
  by (simp add: parse_image_no_panic verify_image_no_panic inspect_image_no_panic
      parse_manifest_no_panic parse_signature_no_panic)

text \<open>C38: The text of a verification report ends in the word valid exactly for a valid report.\<close>

theorem report_verdict:
  "(\<exists>front. format_verification_report report = front @ ''valid'' @ nl) \<longleftrightarrow> is_valid report"
proof -
  obtain front where f: "format_verification_report report =
      front @ ''  '' @ (if is_valid report then ''valid'' else ''rejected'') @ nl"
    unfolding format_verification_report_def by (metis append.assoc)
  have "front @ ''  rejected'' @ nl \<noteq> g @ ''valid'' @ nl" for g
  proof
    assume "front @ ''  rejected'' @ nl = g @ ''valid'' @ nl"
    then have "rev (front @ ''  rejected'' @ nl) = rev (g @ ''valid'' @ nl)" by simp
    then show False by simp
  qed
  then show ?thesis by (cases "is_valid report") (auto simp: f)
qed

end
