(* ===== verification/Signing.thy ===== *)
theory Signing
  imports Verify Keys
begin

text \<open>
  \<^verbatim>\<open>sign_image\<close> of \<^verbatim>\<open>host/rampart/src/format.rs\<close>, over the file system of
  \<open>World\<close>. The TOML decoder is the parameter \<open>toml\<close>; \<open>toml_laws\<close> says that the strings
  it returns are UTF-8, as every Rust string is. \<open>signed_bytes\<close> is the artifact the
  code builds from a manifest, a payload and a key; the lemmas say when signing
  succeeds, what it leaves on disk and that verification accepts it.
\<close>

type_synonym toml_decoder = "string \<Rightarrow> string + manifest_document"

definition toml_laws :: "toml_decoder \<Rightarrow> bool" where
  "toml_laws toml \<longleftrightarrow> (\<forall>s doc. toml s = Inr doc \<longrightarrow> valid_str (d_artifact_id doc))"

section \<open>Operations\<close>

definition read_manifest_document :: "toml_decoder \<Rightarrow> os \<Rightarrow> string \<Rightarrow> manifest_document io" where
  "read_manifest_document toml os path =
     io_then (io_map_err (\<lambda>e. ''failed to read manifest '' @ path @ '': '' @ e)
       (fs_read_to_string os path)) (\<lambda>text.
     io_lift (map_err (\<lambda>e. ''failed to parse manifest '' @ path @ '': '' @ e)
       (of_sum (toml text))))"

definition sign_image ::
  "('sk, 'vk, 'sg) provider \<Rightarrow> toml_decoder \<Rightarrow> os \<Rightarrow> string \<Rightarrow> string \<Rightarrow> string \<Rightarrow> string \<Rightarrow>
     string option \<Rightarrow> parsed_image io" where
  "sign_image P toml os payload_path manifest_path key_path output_path key_id_override =
     io_then (path_exists output_path) (\<lambda>there.
     if there then io_lift (Err (''refusing to overwrite existing artifact '' @ output_path))
     else
     io_then (io_map_err (\<lambda>e. ''failed to read payload '' @ payload_path @ '': '' @ e)
       (fs_read os payload_path)) (\<lambda>payload.
     io_then (io_lift (ok_or (u32_try_from (length payload))
       ''payload size exceeds Rampart image v1 limit'')) (\<lambda>payload_len.
     if payload = [] then io_lift (Err ''payload must not be empty'')
     else
     io_then (read_signing_key P os key_path) (\<lambda>signing_key.
     let vk = verifying_key P signing_key; derived_key_id = derive_key_id P vk in
     io_then (io_lift (case key_id_override of
         Some value \<Rightarrow> parse_key_id_hex value | None \<Rightarrow> Ok derived_key_id)) (\<lambda>kid.
     io_then (read_manifest_document toml os manifest_path) (\<lambda>document.
     io_then (io_lift (case d_key_id document of
         None \<Rightarrow> Ok ()
       | Some manifest_key_id \<Rightarrow> and_then (parse_key_id_hex manifest_key_id) (\<lambda>declared.
           if declared \<noteq> kid then Err ''manifest key_id does not match signing key ID''
           else Ok ()))) (\<lambda>_.
     let digest = digest_payload P payload in
     io_then (io_lift (into_manifest document payload_len digest kid)) (\<lambda>m.
     io_then (io_lift (encode_manifest m)) (\<lambda>manifest_bytes.
     let signed_region = manifest_bytes @ payload in
     io_then (io_lift (sign_region P signing_key vk kid signed_region)) (\<lambda>record.
     io_then (io_lift (encode_signature_section record signed_region)) (\<lambda>signature_bytes.
     io_then (io_lift (encode_image manifest_bytes payload signature_bytes)) (\<lambda>image_bytes.
     io_then (io_map_err (\<lambda>e. ''failed to write artifact '' @ output_path @ '': '' @ e)
       (fs_write os output_path image_bytes)) (\<lambda>_.
     io_lift (parse_image P image_bytes))))))))))))))"

section \<open>The artifact\<close>

definition record_of :: "('sk, 'vk, 'sg) provider \<Rightarrow> 'sk \<Rightarrow> bytes \<Rightarrow> bytes \<Rightarrow> signature_record" where
  "record_of P sk kid region =
     \<lparr>s_key_id = kid, s_signature = sig_to_bytes P (ecdsa_sign P sk region),
      s_public_key = to_encoded_point P (verifying_key P sk)\<rparr>"

definition signed_record ::
  "('sk, 'vk, 'sg) provider \<Rightarrow> 'sk \<Rightarrow> rampart_manifest \<Rightarrow> bytes \<Rightarrow> signature_record" where
  "signed_record P sk m payload = record_of P sk (key_id m) (manifest_layout m @ payload)"

definition signed_bytes ::
  "('sk, 'vk, 'sg) provider \<Rightarrow> 'sk \<Rightarrow> rampart_manifest \<Rightarrow> bytes \<Rightarrow> bytes" where
  "signed_bytes P sk m payload = image_bytes m payload (signed_record P sk m payload)"

lemma sign_region_eq:
  assumes "provider_laws P"
  shows "sign_region P sk (verifying_key P sk) kid region = Ok (record_of P sk kid region)"
  using assms
  by (simp add: sign_region_def record_of_def signature_sizes copy_into_def provider_lawsD)

lemma signed_record_typed:
  assumes "provider_laws P" and "length (key_id m) = 8"
  shows "signature_typed (signed_record P sk m payload)"
  using assms by (simp add: signature_typed_def signed_record_def record_of_def provider_lawsD)

lemma signed_record_bound:
  assumes "provider_laws P"
  shows "key_bound P (signed_record P sk m payload) \<longleftrightarrow>
    derive_key_id P (verifying_key P sk) = key_id m"
  using assms by (simp add: key_bound_def signed_record_def record_of_def provider_lawsD)

lemma signed_wf:
  assumes "provider_laws P" "manifest_typed m" "manifest_valid m"
    "unat (payload_size m) = length payload" "64 + region_size m payload < 2 ^ 32"
    "key_id m = derive_key_id P (verifying_key P sk)"
  shows "image_wf P m payload (signed_record P sk m payload)"
  using assms signed_record_typed [of P m sk payload] signed_record_bound [of P sk m payload]
  by (simp add: image_wf_def manifest_typed_def signed_record_def record_of_def)

lemma signed_check:
  assumes "provider_laws P"
  shows "signature_check P m payload (signed_record P sk m payload) = Ok True"
  using assms
  by (simp add: signature_check_def signed_record_def record_of_def provider_lawsD)

section \<open>When signing succeeds\<close>

text \<open>
  \<open>sign_request\<close> collects what the code reads and checks before it builds the artifact:
  the payload, the key, the document, the key identifier and the manifest they make.
\<close>

definition chosen_key_id ::
  "('sk, 'vk, 'sg) provider \<Rightarrow> 'sk \<Rightarrow> string option \<Rightarrow> bytes res" where
  "chosen_key_id P sk key_id_override =
     (case key_id_override of
        Some value \<Rightarrow> parse_key_id_hex value
      | None \<Rightarrow> Ok (derive_key_id P (verifying_key P sk)))"

definition sign_request ::
  "('sk, 'vk, 'sg) provider \<Rightarrow> toml_decoder \<Rightarrow> os \<Rightarrow> string \<Rightarrow> string \<Rightarrow> string \<Rightarrow>
     string option \<Rightarrow> world \<Rightarrow> bytes \<Rightarrow> 'sk \<Rightarrow> manifest_document \<Rightarrow> rampart_manifest \<Rightarrow> bool" where
  "sign_request P toml os payload_path manifest_path key_path key_id_override w payload sk doc m \<longleftrightarrow>
     files w payload_path = Some payload \<and> read_fault os payload_path = None \<and>
     payload \<noteq> [] \<and> length payload < 2 ^ 32 \<and>
     read_signing_key P os key_path w = (Ok sk, w) \<and>
     read_manifest_document toml os manifest_path w = (Ok doc, w) \<and>
     chosen_key_id P sk key_id_override = Ok (key_id m) \<and>
     (\<forall>s \<in> set_option (d_key_id doc). parse_key_id_hex s = Ok (key_id m)) \<and>
     into_manifest doc (of_nat (length payload)) (sha256 P payload) (key_id m) = Ok m \<and>
     64 + region_size m payload < 2 ^ 32"

lemma read_manifest_document_Ok [ok_iff]:
  "read_manifest_document toml os path w = (Ok doc, w') \<longleftrightarrow> w' = w \<and> read_fault os path = None \<and>
     (\<exists>s. valid_str s \<and> files w path = Some (as_bytes s) \<and> toml s = Inr doc)"
  by (auto simp: read_manifest_document_def ok_iff)

lemma declared_key_iff:
  "(case k of None \<Rightarrow> Ok ()
    | Some s \<Rightarrow> and_then (parse_key_id_hex s) (\<lambda>declared. if declared \<noteq> kid
        then Err ''manifest key_id does not match signing key ID'' else Ok ())) = Ok u \<longleftrightarrow>
     (\<forall>s \<in> set_option k. parse_key_id_hex s = Ok kid)"
  by (cases k) (auto simp: ok_iff split: if_splits)

lemma chosen_key_id_length:
  assumes "provider_laws P" and "chosen_key_id P sk ov = Ok kid"
  shows "length kid = 8"
  using assms length_parse_key_id_hex length_derive_key_id [of P]
  by (auto simp: chosen_key_id_def split: option.splits)

lemma sign_request_manifest:
  assumes "provider_laws P" "toml_laws toml"
    and "sign_request P toml os pp mp kp ov w payload sk doc m"
  shows "manifest_typed m" "manifest_valid m" "unat (payload_size m) = length payload"
    "payload_digest m = sha256 P payload" "64 + region_size m payload < 2 ^ 32"
proof -
  have r: "length payload < 2 ^ 32" "chosen_key_id P sk ov = Ok (key_id m)"
    "into_manifest doc (of_nat (length payload)) (sha256 P payload) (key_id m) = Ok m"
    "64 + region_size m payload < 2 ^ 32"
    and doc: "read_manifest_document toml os mp w = (Ok doc, w)"
    using assms(3) by (simp_all add: sign_request_def)
  note m = into_manifest_Ok [OF r(3)]
  have "valid_str (d_artifact_id doc)"
    using doc assms(2) by (auto simp: ok_iff toml_laws_def)
  then show "manifest_typed m"
    using m(2,4) assms(1) chosen_key_id_length [OF assms(1) r(2)]
    by (simp add: manifest_typed_def provider_lawsD)
  show "manifest_valid m" by (rule m(1))
  show "unat (payload_size m) = length payload"
    using m(3) r(1) unat_of_nat_u32 [of "length payload"] by simp
  show "payload_digest m = sha256 P payload" by (rule m(4))
  show "64 + region_size m payload < 2 ^ 32" by (rule r(4))
qed

lemma signed_stages:
  assumes "provider_laws P" "manifest_typed m" "manifest_valid m"
    "64 + region_size m payload < 2 ^ 32"
  shows "encode_manifest m = Ok (manifest_layout m)"
    and "sign_region P sk (verifying_key P sk) (key_id m) (manifest_layout m @ payload) =
      Ok (signed_record P sk m payload)"
    and "encode_signature_section (signed_record P sk m payload) (manifest_layout m @ payload) =
      Ok (signature_layout (signed_record P sk m payload) 64 (region_size m payload))"
    and "encode_image (manifest_layout m) payload
      (signature_layout (signed_record P sk m payload) 64 (region_size m payload)) =
      Ok (signed_bytes P sk m payload)"
proof -
  have mf: "length (manifest_layout m) = manifest_size_of m"
    using assms by (simp add: length_manifest_layout)
  have len: "length (manifest_layout m @ payload) = region_size m payload"
    by (simp add: mf region_size_def)
  have typed: "signature_typed (signed_record P sk m payload)"
    using assms(1,2) by (intro signed_record_typed) (simp_all add: manifest_typed_def)
  show "encode_manifest m = Ok (manifest_layout m)"
    using assms(2,3) by (intro encode_manifest_layout) (simp_all add: manifest_valid_def)
  show "sign_region P sk (verifying_key P sk) (key_id m) (manifest_layout m @ payload) =
      Ok (signed_record P sk m payload)"
    using assms(1) by (simp add: sign_region_eq signed_record_def)
  show "encode_signature_section (signed_record P sk m payload) (manifest_layout m @ payload) =
      Ok (signature_layout (signed_record P sk m payload) 64 (region_size m payload))"
    using encode_signature_layout [OF typed, of "manifest_layout m @ payload"] assms(4)
    by (simp only: len)
  show "encode_image (manifest_layout m) payload
      (signature_layout (signed_record P sk m payload) 64 (region_size m payload)) =
      Ok (signed_bytes P sk m payload)"
    using assms(4)
    by (simp add: encode_image_layout length_signature_layout [OF typed] signed_bytes_def
        image_bytes_def mf region_size_def)
qed

lemma sign_image_writes:
  assumes "provider_laws P" "toml_laws toml"
    and "sign_request P toml os pp mp kp ov w payload sk doc m"
    and "files w out = None" "write_outcome os out = WriteOk"
  shows "sign_image P toml os pp mp kp out ov w =
    (parse_image P (signed_bytes P sk m payload),
     w\<lparr>files := (files w)(out \<mapsto> signed_bytes P sk m payload)\<rparr>)"
proof -
  note m = sign_request_manifest [OF assms(1-3)]
  note stages = signed_stages(1) [OF assms(1) m(1,2,5)]
    signed_stages(2-4) [OF assms(1) m(1,2,5), where sk = sk]
  have r: "files w pp = Some payload" "read_fault os pp = None" "payload \<noteq> []"
    "length payload < 2 ^ 32" "read_signing_key P os kp w = (Ok sk, w)"
    "read_manifest_document toml os mp w = (Ok doc, w)" 
    "chosen_key_id P sk ov = Ok (key_id m)"
    "\<forall>s \<in> set_option (d_key_id doc). parse_key_id_hex s = Ok (key_id m)"
    "into_manifest doc (of_nat (length payload)) (sha256 P payload) (key_id m) = Ok m"
    using assms(3) by (simp_all add: sign_request_def)
  have declared: "(case d_key_id doc of None \<Rightarrow> Ok ()
    | Some s \<Rightarrow> and_then (parse_key_id_hex s) (\<lambda>declared. if declared \<noteq> key_id m
        then Err ''manifest key_id does not match signing key ID'' else Ok ())) = Ok ()"
    using r(8) by (cases "d_key_id doc") simp_all
  show ?thesis
    using r(1-7,9) assms(4,5) stages declared
    by (simp add: sign_image_def io_then_def io_lift_def io_map_err_def path_exists_def
        fs_read_def fs_write_def u32_try_from_def Let_def digest_payload_def
        chosen_key_id_def [symmetric])
qed


lemma still_reads:
  "framed (=) (read_signing_key P os kp)" "framed (=) (read_manifest_document toml os mp)"
  unfolding read_signing_key_def read_manifest_document_def
  by (intro still_frame.framed_rules)+

text \<open>
  A signing that succeeds or leaves a trace has built an artifact for a request and has
  come to the write.
\<close>

lemma sign_image_reached:
  assumes "provider_laws P" "toml_laws toml"
    and "sign_image P toml os pp mp kp out ov w = (res, w')" and "w' \<noteq> w \<or> is_ok res"
  obtains payload sk doc m where
    "sign_request P toml os pp mp kp ov w payload sk doc m" "files w out = None"
    "write_outcome os out = WriteOk \<or> \<not> is_ok res \<and> (\<exists>n e. write_outcome os out = WriteFails n e)"
proof -
  have "io_lift a w = (Ok x, w) \<longleftrightarrow> a = Ok x" for a :: "'x res" and x
    by (simp add: io_lift_def)
  note reached = this io_then_reached [OF _ assms(4)] io_lift_reached [OF assms(4)]
    still_frame.framed_rules still_reads
  from assms(3) obtain payload n sk kid doc m mf r sigs bs where
    s: "files w out = None" "files w pp = Some payload" "read_fault os pp = None"
      "u32_try_from (length payload) = Some n" "payload \<noteq> []"
      "read_signing_key P os kp w = (Ok sk, w)" "chosen_key_id P sk ov = Ok kid"
      "read_manifest_document toml os mp w = (Ok doc, w)"
      "\<forall>s \<in> set_option (d_key_id doc). parse_key_id_hex s = Ok kid"
      "into_manifest doc n (sha256 P payload) kid = Ok m" "encode_manifest m = Ok mf"
      "sign_region P sk (verifying_key P sk) kid (mf @ payload) = Ok r"
      "encode_signature_section r (mf @ payload) = Ok sigs"
      "encode_image mf payload sigs = Ok bs"
    and wr: "io_then (io_map_err (\<lambda>e. ''failed to write artifact '' @ out @ '': '' @ e)
       (fs_write os out bs)) (\<lambda>_. io_lift (parse_image P bs)) w = (res, w')"
    by (clarsimp simp: sign_image_def reached ok_iff Let_def digest_payload_def
        chosen_key_id_def [symmetric] declared_key_iff split: if_splits
        simp del: read_signing_key_Ok read_manifest_document_Ok io_then_Ok_iff
          io_lift_eq)
  have done_write: "write_outcome os out = WriteOk \<or>
      \<not> is_ok res \<and> (\<exists>n e. write_outcome os out = WriteFails n e)"
    using wr assms(4)
    by (auto simp: io_then_def io_map_err_def fs_write_def split: write_outcome.splits)
  have n: "length payload < 2 ^ 32" "n = of_nat (length payload)"
    using s(4) by (simp_all add: u32_try_from_def split: if_splits)
  have kid: "key_id m = kid" using into_manifest_Ok(5) [OF s(10)] .
  note m = into_manifest_Ok [OF s(10)]
  have kid8: "length kid = 8" using assms(1) s(7) by (rule chosen_key_id_length)
  have "valid_str (d_artifact_id doc)"
    using s(8) assms(2) by (auto simp: ok_iff toml_laws_def)
  then have typed: "manifest_typed m"
    using m(2,4) assms(1) kid kid8 by (simp add: manifest_typed_def provider_lawsD)
  have mf: "mf = manifest_layout m" "length mf = manifest_size_of m"
    using s(11) encode_manifest_layout [OF typed] m(1) length_manifest_layout [OF typed]
    by (simp_all add: manifest_valid_def)
  have r: "r = signed_record P sk m payload" "signature_typed r"
    using s(12) assms(1) kid signed_record_typed [OF assms(1), of m sk payload] kid8
    by (simp_all add: sign_region_eq signed_record_def mf)
  have "length mf < 2 ^ 32"
    using manifest_size_bounds [of m] m(1) by (simp add: mf(2) manifest_valid_def)
  moreover have "length sigs < 2 ^ 32"
  proof (cases "length (mf @ payload) < 2 ^ 32")
    case True
    then have "sigs = signature_layout r 64 (length (mf @ payload))"
      using s(13) encode_signature_layout [OF r(2) True] by simp
    then show ?thesis by (simp add: length_signature_layout [OF r(2)])
  next
    case False
    then show ?thesis using s(13) by (simp add: encode_signature_section_def u32_try_from_def)
  qed
  ultimately have "64 + region_size m payload < 2 ^ 32"
    using encode_image_too_big [of mf payload sigs] s(14) n(1)
    by (force simp: region_size_def mf(2) not_less)
  then have "sign_request P toml os pp mp kp ov w payload sk doc m"
    using s n kid by (simp add: sign_request_def)
  then show thesis using s(1) done_write by (rule that)
qed

text \<open>The artifact parses back exactly when the key identifier is the derived one.\<close>

lemma signed_parse:
  assumes "provider_laws P" "manifest_typed m" "manifest_valid m"
    "unat (payload_size m) = length payload" "64 + region_size m payload < 2 ^ 32"
  shows "key_id m = derive_key_id P (verifying_key P sk) \<Longrightarrow>
      parse_image P (signed_bytes P sk m payload) =
        Ok (image_view m payload (signed_record P sk m payload))"
    and "key_id m \<noteq> derive_key_id P (verifying_key P sk) \<Longrightarrow>
      \<exists>e. parse_image P (signed_bytes P sk m payload) = Err e"
proof -
  let ?r = "signed_record P sk m payload"
  show "parse_image P (signed_bytes P sk m payload) = Ok (image_view m payload ?r)"
    if "key_id m = derive_key_id P (verifying_key P sk)"
    using signed_wf [OF assms that] by (simp add: signed_bytes_def parse_image_complete)
  show "\<exists>e. parse_image P (signed_bytes P sk m payload) = Err e"
    if neq: "key_id m \<noteq> derive_key_id P (verifying_key P sk)"
  proof (cases "parse_image P (signed_bytes P sk m payload)")
    case (Ok img)
    then obtain m' payload' r where wf: "image_wf P m' payload' r"
      and eq: "signed_bytes P sk m payload = image_bytes m' payload' r"
      by (rule parse_image_sound)
    have "signature_typed ?r"
      using assms(1,2) by (intro signed_record_typed) (simp_all add: manifest_typed_def)
    moreover have "signature_typed r" "key_bound P r" using wf by (simp_all add: image_wf_def)
    ultimately have "key_bound P ?r"
      using image_bytes_record [of ?r r m payload m' payload'] eq by (simp add: signed_bytes_def)
    then show ?thesis using neq by (simp add: signed_record_bound [OF assms(1)])
  qed (simp_all add: parse_image_no_panic)
qed

lemma sign_image_Ok:
  assumes "provider_laws P" "toml_laws toml"
    and "sign_image P toml os pp mp kp out ov w = (Ok img, w')"
  obtains payload sk doc m where
    "sign_request P toml os pp mp kp ov w payload sk doc m"
    "files w out = None" "write_outcome os out = WriteOk"
    "key_id m = derive_key_id P (verifying_key P sk)"
    "img = image_view m payload (signed_record P sk m payload)"
    "w' = w\<lparr>files := (files w)(out \<mapsto> signed_bytes P sk m payload)\<rparr>"
proof -
  obtain payload sk doc m where
    r: "sign_request P toml os pp mp kp ov w payload sk doc m"
      "files w out = None" "write_outcome os out = WriteOk"
    by (rule sign_image_reached [OF assms]) auto
  note m = sign_request_manifest [OF assms(1,2) r(1)]
  have eq: "parse_image P (signed_bytes P sk m payload) = Ok img"
    "w' = w\<lparr>files := (files w)(out \<mapsto> signed_bytes P sk m payload)\<rparr>"
    using sign_image_writes [OF assms(1,2) r] assms(3) by simp_all
  have kid: "key_id m = derive_key_id P (verifying_key P sk)"
    using signed_parse(2) [OF assms(1) m(1-3,5), of sk] eq(1) by auto
  then have "img = image_view m payload (signed_record P sk m payload)"
    using signed_parse(1) [OF assms(1) m(1-3,5) kid] eq(1) by simp
  then show thesis using r kid eq(2) by (intro that)
qed

lemma signed_verify:
  assumes "provider_laws P" "image_wf P m payload (signed_record P sk m payload)"
  shows "verify_image P (signed_bytes P sk m payload) opts =
    Ok (report_of P opts m payload (signed_record P sk m payload) True)"
  using verify_image_sections [OF assms(2), of opts] signed_check [OF assms(1), of m payload sk]
  by (simp add: signed_bytes_def)

section \<open>What signing may change\<close>

lemma framed_case_option:
  "framed R m \<Longrightarrow> (\<And>x. framed R (f x)) \<Longrightarrow> framed R (case v of None \<Rightarrow> m | Some x \<Rightarrow> f x)"
  by (cases v) auto

lemma framed_read_key:
  "framed (same_elsewhere p) (read_signing_key P os kp)" "framed silent (read_signing_key P os kp)"
  unfolding read_signing_key_def
  by (intro path_frame.framed_rules stream_frame.framed_rules)+

lemma framed_read_document:
  "framed (same_elsewhere p) (read_manifest_document toml os mp)"
  "framed silent (read_manifest_document toml os mp)"
  unfolding read_manifest_document_def
  by (intro path_frame.framed_rules stream_frame.framed_rules)+

lemma sign_image_frames:
  "framed (same_elsewhere out) (sign_image P toml os pp mp kp out ov)"
  "framed silent (sign_image P toml os pp mp kp out ov)"
  unfolding sign_image_def Let_def
  by (intro path_frame.framed_rules stream_frame.framed_rules write_frames framed_read_key
      framed_read_document)+

lemma sign_image_existing:
  "files w out \<noteq> None \<Longrightarrow>
     sign_image P toml os pp mp kp out ov w =
       (Err (''refusing to overwrite existing artifact '' @ out), w)"
  by (simp add: sign_image_def io_then_def path_exists_def io_lift_def)

section \<open>A sample signing\<close>

definition sample_toml :: toml_decoder where
  "sample_toml s = (if s = ''M'' then Inr sample_document else Inl ''expected a table'')"

definition sample_world :: world where
  "sample_world = \<lparr>files = [''p'' \<mapsto> sample_payload, ''m'' \<mapsto> as_bytes ''M'', ''k'' \<mapsto> [9]],
     stdout = [], stderr = []\<rparr>"

lemma sample_toml_laws: "toml_laws sample_toml"
  by (simp add: toml_laws_def sample_toml_def sample_document_def valid_str_def as_bytes_def)

lemma sample_reads:
  "read_signing_key sample_provider sample_os ''k'' sample_world = (Ok 9, sample_world)"
  "read_manifest_document sample_toml sample_os ''m'' sample_world =
     (Ok sample_document, sample_world)"
proof -
  have "valid_str [byte_char 9]" "as_bytes [byte_char 9] = [9]"
    "from_pkcs8_pem sample_provider [byte_char 9] = Inr 9"
    by (simp_all add: valid_str_def as_bytes_def sample_provider_def)
  then show "read_signing_key sample_provider sample_os ''k'' sample_world = (Ok 9, sample_world)"
    by (auto simp: ok_iff sample_world_def sample_os_def)
  show "read_manifest_document sample_toml sample_os ''m'' sample_world =
     (Ok sample_document, sample_world)"
    by (auto simp: ok_iff sample_world_def sample_os_def sample_toml_def valid_str_def as_bytes_def)
qed

lemma sample_request:
  "chosen_key_id sample_provider 9 ov = Ok kid \<Longrightarrow> length kid = 8 \<Longrightarrow>
   sign_request sample_provider sample_toml sample_os ''p'' ''m'' ''k'' ov sample_world
     sample_payload 9 sample_document (sample_manifest 3 (sample_digest sample_payload) kid)"
proof -
  have "sha256 sample_provider = sample_digest" by (simp add: sample_provider_def)
  moreover have "d_key_id sample_document = None" by (simp add: sample_document_def)
  ultimately show ?thesis if "chosen_key_id sample_provider 9 ov = Ok kid" "length kid = 8"
    using that sample_into_manifest [of 3] sample_reads
    by (simp add: sign_request_def region_size_def) 
      (simp add: sample_world_def sample_os_def sample_payload_def)
qed

lemma sample_key [simp]: "verifying_key sample_provider sk = sk"
  by (simp add: sample_provider_def)

lemma sample_sign_request:
  "sign_request sample_provider sample_toml sample_os ''p'' ''m'' ''k'' None sample_world
     sample_payload 9 sample_document sample_image_manifest"
proof -
  have "chosen_key_id sample_provider 9 None = Ok (derive_key_id sample_provider 9)"
    by (simp add: chosen_key_id_def)
  then show ?thesis
    using sample_request [of None] length_derive_key_id [OF sample_provider_laws]
    by (simp add: sample_image_manifest_def)
qed

definition sample_signed :: parsed_image where
  "sample_signed = image_view sample_image_manifest sample_payload
     (signed_record sample_provider 9 sample_image_manifest sample_payload)"

definition sample_signed_world :: world where
  "sample_signed_world = sample_world\<lparr>files := (files sample_world)
     (''o'' \<mapsto> signed_bytes sample_provider 9 sample_image_manifest sample_payload)\<rparr>"

lemma sample_sign:
  "sign_image sample_provider sample_toml sample_os ''p'' ''m'' ''k'' ''o'' None sample_world =
     (Ok sample_signed, sample_signed_world)"
proof -
  note m = sign_request_manifest [OF sample_provider_laws sample_toml_laws sample_sign_request]
  have "files sample_world ''o'' = None" "write_outcome sample_os ''o'' = WriteOk"
    by (simp_all add: sample_world_def sample_os_def)
  from sign_image_writes [OF sample_provider_laws sample_toml_laws sample_sign_request this]
  show ?thesis
    using signed_parse(1) [OF sample_provider_laws m(1-3,5), of 9]
    by (simp add: sample_signed_def sample_signed_world_def) (simp add: sample_image_manifest_def)
qed

section \<open>Properties\<close>

text \<open>C1: When signing succeeds, the output file holds an image that parses to the returned one,
  carries the payload that was read, and verifies under every option that admits the target
  and the epoch of its manifest.\<close>

theorem sign_then_verify:
  assumes "provider_laws P" "toml_laws toml"
    and "sign_image P toml os payload_path manifest_path key_path out ov w = (Ok img, w')"
    and "case o_device_target opts of None \<Rightarrow> True | Some t \<Rightarrow> target_matches (manifest img) t"
    and "o_minimum_security_epoch opts \<le> security_epoch (manifest img)"
  shows "\<exists>bs report. files w' out = Some bs \<and> parse_image P bs = Ok img \<and>
    verify_image P bs opts = Ok report \<and> is_valid report \<and> r_image report = img \<and>
    (\<exists>payload. files w payload_path = Some payload \<and> slice_range bs (payload_range img) = Ok payload)"
proof -
  from assms(1-3) obtain payload sk doc m where s:
    "sign_request P toml os payload_path manifest_path key_path ov w payload sk doc m"
    "key_id m = derive_key_id P (verifying_key P sk)"
    "img = image_view m payload (signed_record P sk m payload)"
    "w' = w\<lparr>files := (files w)(out \<mapsto> signed_bytes P sk m payload)\<rparr>"
    by (rule sign_image_Ok)
  note m = sign_request_manifest [OF assms(1,2) s(1)]
  have wf: "image_wf P m payload (signed_record P sk m payload)"
    using assms(1) m(1-3,5) s(2) by (rule signed_wf)
  have "is_valid (report_of P opts m payload (signed_record P sk m payload) True)"
    using assms(4,5) m(4) by (simp add: is_valid_def report_of_def s(3) split: option.splits)
  moreover have "files w payload_path = Some payload" using s(1) by (simp add: sign_request_def)
  ultimately show ?thesis
    using signed_verify [OF assms(1) wf, of opts] parse_image_complete [OF wf]
      image_bytes_sections(1) [OF wf]
    by (simp add: s(3,4) signed_bytes_def report_of_def)
qed

theorem sign_then_verify_witness:
  "\<exists>bs report. files sample_signed_world ''o'' = Some bs \<and>
     parse_image sample_provider bs = Ok sample_signed \<and>
     verify_image sample_provider bs any_target = Ok report \<and> is_valid report"
  using sign_then_verify [OF sample_provider_laws sample_toml_laws sample_sign, of any_target]
  by (auto simp: any_target_def)

text \<open>C8: Signing succeeds exactly when the output is free and can be written, the inputs can be
  read and make a manifest, the sizes fit the format, and the key identifier is the derived
  one.\<close>

theorem sign_image_succeeds_iff:
  assumes "provider_laws P" "toml_laws toml"
  shows "(\<exists>img w'. sign_image P toml os payload_path manifest_path key_path out ov w = (Ok img, w')) \<longleftrightarrow>
    files w out = None \<and> write_outcome os out = WriteOk \<and>
    (\<exists>payload sk doc m.
       sign_request P toml os payload_path manifest_path key_path ov w payload sk doc m \<and>
       key_id m = derive_key_id P (verifying_key P sk))"
   (is "?L \<longleftrightarrow> ?R")
proof
  assume ?L
  then obtain img w' where
    "sign_image P toml os payload_path manifest_path key_path out ov w = (Ok img, w')" by blast
  then show ?R by (rule sign_image_Ok [OF assms]) blast
next
  assume ?R
  then obtain payload sk doc m where out: "files w out = None" "write_outcome os out = WriteOk"
    and r: "sign_request P toml os payload_path manifest_path key_path ov w payload sk doc m"
    and kid: "key_id m = derive_key_id P (verifying_key P sk)" by blast
  note m = sign_request_manifest [OF assms r]
  show ?L
    using sign_image_writes [OF assms r out] signed_parse(1) [OF assms(1) m(1-3,5) kid] by simp
qed

theorem sign_image_succeeds_iff_witness:
  "\<exists>img w'. sign_image sample_provider sample_toml sample_os ''p'' ''m'' ''k'' ''o'' None
     sample_world = (Ok img, w')"
proof -
  have "key_id sample_image_manifest = derive_key_id sample_provider (verifying_key sample_provider 9)"
    by (simp add: sample_image_manifest_def)
  moreover have "files sample_world ''o'' = None" "write_outcome sample_os ''o'' = WriteOk"
    by (simp_all add: sample_world_def sample_os_def)
  ultimately show ?thesis
    unfolding sign_image_succeeds_iff [OF sample_provider_laws sample_toml_laws]
    using sample_sign_request by blast
qed

text \<open>C18: Without an override of the key identifier, and if the output is never left half written,
  a signing that fails changes nothing.\<close>

theorem failed_signing_leaves_nothing:
  assumes "provider_laws P" "toml_laws toml"
    and "sign_image P toml os payload_path manifest_path key_path out None w = (Err e, w')"
    and "\<And>n e'. write_outcome os out \<noteq> WriteFails n e'"
  shows "w' = w"
proof (rule ccontr)
  assume changed: "w' \<noteq> w"
  obtain payload sk doc m where
    r: "sign_request P toml os payload_path manifest_path key_path None w payload sk doc m"
    and out: "files w out = None" "write_outcome os out = WriteOk"
    by (rule sign_image_reached [OF assms(1-3)]) (use changed assms(4) in auto)
  note m = sign_request_manifest [OF assms(1,2) r]
  have "key_id m = derive_key_id P (verifying_key P sk)"
    using r by (simp add: sign_request_def chosen_key_id_def)
  from signed_parse(1) [OF assms(1) m(1-3,5) this] sign_image_writes [OF assms(1,2) r out] assms(3)
  show False by simp
qed

theorem failed_signing_leaves_nothing_witness:
  "snd (sign_image sample_provider sample_toml sample_os ''absent'' ''m'' ''k'' ''o'' None
     sample_world) = sample_world"
proof -
  have "\<exists>e. sign_image sample_provider sample_toml sample_os ''absent'' ''m'' ''k'' ''o'' None
     sample_world = (Err e, snd (sign_image sample_provider sample_toml sample_os ''absent'' ''m''
       ''k'' ''o'' None sample_world))"
    by (simp add: sign_image_def io_then_def path_exists_def fs_read_def io_map_err_def
        sample_world_def sample_os_def)
  then obtain e where e: "sign_image sample_provider sample_toml sample_os ''absent'' ''m'' ''k''
     ''o'' None sample_world = (Err e, snd (sign_image sample_provider sample_toml sample_os
       ''absent'' ''m'' ''k'' ''o'' None sample_world))" by blast
  show ?thesis
    by (rule failed_signing_leaves_nothing [OF sample_provider_laws sample_toml_laws e])
      (simp add: sample_os_def)
qed

text \<open>C19: With an override that is not the identifier of the key, signing writes the artifact and
  then reports an error; the file it leaves behind fails every verification.\<close>

theorem wrong_override_leaves_artifact:
  assumes "provider_laws P" "toml_laws toml"
    and "sign_request P toml os payload_path manifest_path key_path ov w payload sk doc m"
    and "files w out = None" "write_outcome os out = WriteOk"
    and "key_id m \<noteq> derive_key_id P (verifying_key P sk)"
  shows "\<exists>e w' bs. sign_image P toml os payload_path manifest_path key_path out ov w = (Err e, w') \<and>
    files w' out = Some bs \<and> (\<forall>opts. \<exists>e'. verify_image P bs opts = Err e')"
proof -
  note m = sign_request_manifest [OF assms(1,2,3)]
  obtain e where "parse_image P (signed_bytes P sk m payload) = Err e"
    using signed_parse(2) [OF assms(1) m(1-3,5) assms(6)] by blast
  then show ?thesis
    using sign_image_writes [OF assms(1-5)] by (simp add: verify_image_def)
qed

theorem wrong_override_leaves_artifact_witness:
  "\<exists>e w' bs. sign_image sample_provider sample_toml sample_os ''p'' ''m'' ''k'' ''o''
      (Some ''0102030405060708'') sample_world = (Err e, w') \<and> files w' ''o'' = Some bs"
proof -
  have hex: "key_id_hex [1, 2, 3, 4, 5, 6, 7, 8] = ''0102030405060708''" by code_simp
  have "parse_key_id_hex (key_id_hex [1, 2, 3, 4, 5, 6, 7, 8]) = Ok [1, 2, 3, 4, 5, 6, 7, 8]"
    by (rule parse_key_id_hex_eq) (simp_all add: key_id_hex_no_prefix)
  then have "chosen_key_id sample_provider 9 (Some ''0102030405060708'') =
      Ok [1, 2, 3, 4, 5, 6, 7, 8]"
    by (simp add: chosen_key_id_def hex)
  then have r: "sign_request sample_provider sample_toml sample_os ''p'' ''m'' ''k''
     (Some ''0102030405060708'') sample_world sample_payload 9 sample_document
     (sample_manifest 3 (sample_digest sample_payload) [1, 2, 3, 4, 5, 6, 7, 8])"
    by (rule sample_request) simp
  have out: "files sample_world ''o'' = None" "write_outcome sample_os ''o'' = WriteOk"
    by (simp_all add: sample_world_def sample_os_def)
  have "derive_key_id sample_provider 9 ! 1 = 65"
    by (simp add: derive_key_id_def sample_provider_def sample_digest_def KEY_ID_SIZE_def)
  moreover have "[1, 2, 3, 4, 5, 6, 7, 8 :: u8] ! 1 \<noteq> 65" by simp
  ultimately have "[1, 2, 3, 4, 5, 6, 7, 8] \<noteq> derive_key_id sample_provider 9" by metis
  then show ?thesis
    using wrong_override_leaves_artifact [OF sample_provider_laws sample_toml_laws r out] by auto
qed

text \<open>C29: Signing changes no file but its output, prints nothing on either stream, and leaves an
  existing output alone.\<close>

theorem signing_frame:
  "same_elsewhere out w (snd (sign_image P toml os payload_path manifest_path key_path out ov w)) \<and>
   stdout (snd (sign_image P toml os payload_path manifest_path key_path out ov w)) = stdout w \<and>
   stderr (snd (sign_image P toml os payload_path manifest_path key_path out ov w)) = stderr w \<and>
   (files w out = None \<or>
      sign_image P toml os payload_path manifest_path key_path out ov w =
        (Err (''refusing to overwrite existing artifact '' @ out), w))"
proof (intro conjI)
  note frames = sign_image_frames [where out = out and P = P and toml = toml and os = os and
      pp = payload_path and mp = manifest_path and kp = key_path and ov = ov]
  show "same_elsewhere out w (snd (sign_image P toml os payload_path manifest_path key_path out ov w))"
    using frames(1) by (simp add: framed_def)
  show "stdout (snd (sign_image P toml os payload_path manifest_path key_path out ov w)) = stdout w"
    "stderr (snd (sign_image P toml os payload_path manifest_path key_path out ov w)) = stderr w"
    using frames(2) by (simp_all add: framed_def silent_def)
  show "files w out = None \<or>
      sign_image P toml os payload_path manifest_path key_path out ov w =
        (Err (''refusing to overwrite existing artifact '' @ out), w)"
    using sign_image_existing by blast
qed

end
