(* ===== verification/Cli.thy ===== *)
theory Cli
  imports Signing
begin

text \<open>
  The command line tool, \<^verbatim>\<open>host/rampart/src/main.rs\<close>. The data types are the
  commands as \<^verbatim>\<open>clap\<close> returns them; the record \<open>host\<close> holds what is outside the
  source: the cryptography, the TOML and JSON codecs, the operating system, the key drawn
  by the system's generator, and the standard library's quoting of a path in debug output.
  \<open>main\<close> maps a command and a state to an exit status and the state it leaves. A panic
  ends the process with status 101; its message is not modelled.
\<close>

section \<open>Commands\<close>

record self_check_args =
  arg_json :: bool

record image_verify_args =
  v_artifact :: string
  v_minimum_security_epoch :: u32
  v_vendor_id :: "u32 option"
  v_product_id :: "u32 option"
  v_hardware_family :: "u32 option"
  v_component_id :: "u32 option"

record image_sign_args =
  g_payload :: string
  g_manifest :: string
  g_key :: string
  g_key_id :: "string option"
  g_output :: string

datatype image_command =
    ImageInspect string
  | ImageVerify image_verify_args
  | ImageSign image_sign_args

datatype bundle_command = BundleCreate string | BundleInspect string | BundleVerify string

datatype key_command =
    KeyGenerate string string
  | KeyInspect string
  | KeyPublic string string

datatype trust_command = TrustInspect string
datatype manifest_command = ManifestInspect string | ManifestValidate string
datatype simulate_command = SimulateRun string
datatype device_command =
    DeviceInfo | DeviceSlots | DeviceJournal | DeviceTrust | DeviceRecovery
datatype journal_command = JournalDecode string
datatype recovery_command = RecoveryInspect string

datatype command =
    SelfCheck self_check_args
  | Image image_command
  | Bundle bundle_command
  | Key key_command
  | Trust trust_command
  | Manifest manifest_command
  | Simulate simulate_command
  | Device device_command
  | Journal journal_command
  | Recovery recovery_command

record tool_status =
  tool :: string
  status :: string
  implemented_checkpoint :: u8

definition current_status :: tool_status where
  "current_status = \<lparr>tool = ''rampart'', status = ''image format tooling available'',
     implemented_checkpoint = 3\<rparr>"

record ('sk, 'vk, 'sg) host =
  crypto :: "('sk, 'vk, 'sg) provider"
  toml_from_str :: toml_decoder
  json_pretty :: "tool_status \<Rightarrow> string + string"
  system :: os
  fresh_key :: 'sk
  quote :: "string \<Rightarrow> string"

section \<open>The derived debug text of the planned commands\<close>

definition debug_struct :: "string \<Rightarrow> string \<Rightarrow> string \<Rightarrow> string" where
  "debug_struct name field v = name @ '' { '' @ field @ '': '' @ v @ '' }''"

fun debug_bundle :: "(string \<Rightarrow> string) \<Rightarrow> bundle_command \<Rightarrow> string" where
  "debug_bundle q (BundleCreate p) = debug_struct ''Create'' ''manifest'' (q p)"
| "debug_bundle q (BundleInspect p) = debug_struct ''Inspect'' ''bundle'' (q p)"
| "debug_bundle q (BundleVerify p) = debug_struct ''Verify'' ''bundle'' (q p)"

fun debug_trust :: "(string \<Rightarrow> string) \<Rightarrow> trust_command \<Rightarrow> string" where
  "debug_trust q (TrustInspect p) = debug_struct ''Inspect'' ''manifest'' (q p)"

fun debug_manifest :: "(string \<Rightarrow> string) \<Rightarrow> manifest_command \<Rightarrow> string" where
  "debug_manifest q (ManifestInspect p) = debug_struct ''Inspect'' ''manifest'' (q p)"
| "debug_manifest q (ManifestValidate p) = debug_struct ''Validate'' ''manifest'' (q p)"

fun debug_simulate :: "(string \<Rightarrow> string) \<Rightarrow> simulate_command \<Rightarrow> string" where
  "debug_simulate q (SimulateRun s) = debug_struct ''Run'' ''scenario'' (q s)"

fun debug_device :: "device_command \<Rightarrow> string" where
  "debug_device DeviceInfo = ''Info''"
| "debug_device DeviceSlots = ''Slots''"
| "debug_device DeviceJournal = ''Journal''"
| "debug_device DeviceTrust = ''Trust''"
| "debug_device DeviceRecovery = ''Recovery''"

fun debug_journal :: "(string \<Rightarrow> string) \<Rightarrow> journal_command \<Rightarrow> string" where
  "debug_journal q (JournalDecode p) = debug_struct ''Decode'' ''journal'' (q p)"

fun debug_recovery :: "(string \<Rightarrow> string) \<Rightarrow> recovery_command \<Rightarrow> string" where
  "debug_recovery q (RecoveryInspect p) = debug_struct ''Inspect'' ''capsule'' (q p)"

section \<open>Arguments\<close>

definition image_verify_target :: "image_verify_args \<Rightarrow> device_target option res" where
  "image_verify_target args =
     (let provided = length (filter (\<lambda>value. value)
        [v_vendor_id args \<noteq> None, v_product_id args \<noteq> None,
         v_hardware_family args \<noteq> None, v_component_id args \<noteq> None]) in
      if provided = 0 then Ok None
      else if provided \<noteq> 4 then Err (''target binding verification requires --vendor-id, '' @
        ''--product-id, --hardware-family, and --component-id'')
      else
        and_then (expect (v_vendor_id args)) (\<lambda>vendor.
        and_then (expect (v_product_id args)) (\<lambda>product.
        and_then (expect (v_hardware_family args)) (\<lambda>family.
        and_then (expect (v_component_id args)) (\<lambda>component.
        Ok (Some \<lparr>t_vendor_id = vendor, t_product_id = product,
                  t_hardware_family = family, t_component_id = component\<rparr>))))))"

definition validate_key_role_label :: "string \<Rightarrow> unit res" where
  "validate_key_role_label role =
     (if role \<in> {''RELEASE'', ''SECURITY'', ''BOOT_MANAGER'', ''RECOVERY'', ''FACTORY'',
                 ''DEVELOPMENT''}
      then Ok () else Err (''unknown key role '' @ role))"

definition parse_u32_value :: "string \<Rightarrow> u32 res" where
  "parse_u32_value value =
     (case strip_hex_prefix value of
        Some hex \<Rightarrow> ok_or (u32_from_str_radix 16 hex) (''invalid hexadecimal u32 value '' @ value)
      | None \<Rightarrow> ok_or (u32_from_str_radix 10 value) (''invalid decimal u32 value '' @ value))"

section \<open>Commands\<close>

definition println :: "string \<Rightarrow> unit io" where
  "println s = print_out (s @ nl)"

definition planned :: "string \<Rightarrow> string \<Rightarrow> unit res" where
  "planned domain_name command =
     Err (domain_name @ '' command is defined for the final CLI but is not implemented yet: '' @
       command)"

definition run_self_check :: "('sk, 'vk, 'sg) host \<Rightarrow> self_check_args \<Rightarrow> unit io" where
  "run_self_check h args =
     (if arg_json args
      then io_then (io_lift (of_sum (json_pretty h current_status))) println
      else println ''Rampart image format tooling available'')"

fun run_image :: "('sk, 'vk, 'sg) host \<Rightarrow> image_command \<Rightarrow> unit io" where
  "run_image h (ImageInspect artifact) =
     io_then (io_map_err (\<lambda>e. ''failed to read '' @ artifact @ '': '' @ e)
       (fs_read (system h) artifact)) (\<lambda>bs.
     io_then (io_lift (inspect_image (crypto h) bs)) print_out)"
| "run_image h (ImageVerify args) =
     io_then (io_map_err (\<lambda>e. ''failed to read '' @ v_artifact args @ '': '' @ e)
       (fs_read (system h) (v_artifact args))) (\<lambda>bs.
     io_then (io_lift (image_verify_target args)) (\<lambda>target.
     let options = \<lparr>o_device_target = target,
                    o_minimum_security_epoch = v_minimum_security_epoch args\<rparr> in
     io_then (io_lift (verify_image (crypto h) bs options)) (\<lambda>report.
     io_then (print_out (format_verification_report report)) (\<lambda>_.
     io_lift (if is_valid report then Ok () else Err ''image verification failed'')))))"
| "run_image h (ImageSign args) =
     io_then (sign_image (crypto h) (toml_from_str h) (system h) (g_payload args)
       (g_manifest args) (g_key args) (g_output args) (g_key_id args)) (\<lambda>img.
     println (''wrote '' @ g_output args @ nl @ ''artifact_id '' @ artifact_id (manifest img) @ nl @
       ''key_id 0x'' @ key_id_hex (key_id (manifest img))))"

fun run_key :: "('sk, 'vk, 'sg) host \<Rightarrow> key_command \<Rightarrow> unit io" where
  "run_key h (KeyGenerate role output) =
     io_then (io_lift (validate_key_role_label role)) (\<lambda>_.
     io_then (generate_private_key (crypto h) (system h) (fresh_key h) output) (\<lambda>kid.
     println (''wrote '' @ output @ nl @ ''role '' @ role @ nl @
       ''algorithm ECDSA_P256_SHA256'' @ nl @ ''key_id 0x'' @ kid)))"
| "run_key h (KeyInspect key) =
     io_then (inspect_private_key (crypto h) (system h) key) print_out"
| "run_key h (KeyPublic key output) =
     io_then (export_public_key (crypto h) (system h) key output) (\<lambda>kid.
     println (''wrote '' @ output @ nl @ ''key_id 0x'' @ kid))"

fun run :: "('sk, 'vk, 'sg) host \<Rightarrow> command \<Rightarrow> unit io" where
  "run h (SelfCheck args) = run_self_check h args"
| "run h (Image c) = run_image h c"
| "run h (Bundle c) = io_lift (planned ''bundle'' (debug_bundle (quote h) c))"
| "run h (Key c) = run_key h c"
| "run h (Trust c) = io_lift (planned ''trust'' (debug_trust (quote h) c))"
| "run h (Manifest c) = io_lift (planned ''manifest'' (debug_manifest (quote h) c))"
| "run h (Simulate c) = io_lift (planned ''simulate'' (debug_simulate (quote h) c))"
| "run h (Device c) = io_lift (planned ''device'' (debug_device c))"
| "run h (Journal c) = io_lift (planned ''journal'' (debug_journal (quote h) c))"
| "run h (Recovery c) = io_lift (planned ''recovery'' (debug_recovery (quote h) c))"

definition main :: "('sk, 'vk, 'sg) host \<Rightarrow> command \<Rightarrow> world \<Rightarrow> nat \<times> world" where
  "main h cli w =
     (case run h cli w of
        (Ok _, w') \<Rightarrow> (0, w')
      | (Err error, w') \<Rightarrow> (2, snd (print_err (''error: '' @ error @ nl) w'))
      | (Panic, w') \<Rightarrow> (101, w'))"

lemma strip_hex_prefix_fresh:
  assumes "CHR ''x'' \<notin> set s" and "CHR ''X'' \<notin> set s"
  shows "strip_hex_prefix s = None"
proof -
  have "take 2 s \<noteq> ''0x''" "take 2 s \<noteq> ''0X''"
    using assms by (metis in_set_takeD list.set_intros)+
  then show ?thesis by (simp add: strip_hex_prefix_def strip_prefix_def numeral_2_eq_2)
qed

lemma display_nat_no_prefix: "strip_hex_prefix (display_nat n) = None"
  using display_nat_chars [of "CHR ''x''" n] display_nat_chars [of "CHR ''X''" n]
  by (intro strip_hex_prefix_fresh) auto

lemma strip_hex_prefix_append: "strip_hex_prefix (''0x'' @ s) = Some s" "strip_hex_prefix (''0X'' @ s) = Some s"
  by (simp_all add: strip_hex_prefix_def strip_prefix_def)

lemma main_status:
  "fst (main h c w) = 0 \<longleftrightarrow> (\<exists>w'. run h c w = (Ok (), w'))"
  "fst (main h c w) = 101 \<longleftrightarrow> fst (run h c w) = Panic"
  by (auto simp: main_def print_err_def split: prod.split res.split)

lemma if_Ok_Err [ok_iff]: "(if b then Ok x else Err e) = Ok y \<longleftrightarrow> b \<and> x = y"
  by simp

section \<open>Frames of the commands\<close>

definition read_only :: "command \<Rightarrow> bool" where
  "read_only c = (case c of
       Image (ImageSign _) \<Rightarrow> False
     | Key (KeyGenerate _ _) \<Rightarrow> False
     | Key (KeyPublic _ _) \<Rightarrow> False
     | _ \<Rightarrow> True)"

lemma framed_main:
  assumes "framed same_files (run h c)"
  shows "files (snd (main h c w)) = files w"
proof -
  obtain r w1 where r: "run h c w = (r, w1)" by (cases "run h c w")
  then have "files w1 = files w" using assms by (metis framed_def same_files_def snd_conv)
  then show ?thesis using r by (cases r) (simp_all add: main_def print_err_def)
qed

lemma framed_println: "framed same_files (println s)"
  by (simp add: println_def print_frames)

definition never_panics :: "'a io \<Rightarrow> bool" where
  "never_panics m \<longleftrightarrow> (\<forall>w. fst (m w) \<noteq> Panic)"

lemma never_panics_rules:
  "never_panics m \<Longrightarrow> (\<And>x. never_panics (f x)) \<Longrightarrow> never_panics (io_then m f)"
  "r \<noteq> Panic \<Longrightarrow> never_panics (io_lift r)"
  "never_panics n \<Longrightarrow> never_panics (io_map_err g n)"
  "never_panics (fs_read os p)" "never_panics (print_out s)" "never_panics (println s)"
proof -
  show "never_panics (io_then m f)" if "never_panics m" "\<And>x. never_panics (f x)"
    using that by (auto simp: never_panics_def io_then_def split: prod.splits res.splits) 
      (metis fst_conv)+
  show "never_panics (io_map_err g n)" if "never_panics n"
    using that by (auto simp: never_panics_def io_map_err_def panic_iff split: prod.splits)
      (metis fst_conv)
qed (simp_all add: never_panics_def io_lift_def fs_read_def print_out_def println_def
    split: option.split)

lemma sign_command_writes:
  assumes "provider_laws (crypto h)" "toml_laws (toml_from_str h)"
    and "main h (Image (ImageSign args)) w = (0, w')"
  obtains bs report where "files w' (g_output args) = Some bs"
    "verify_image (crypto h) bs any_target = Ok report" "is_valid report"
proof -
  from assms(3) obtain img w1 where sign: "sign_image (crypto h) (toml_from_str h) (system h)
      (g_payload args) (g_manifest args) (g_key args) (g_output args) (g_key_id args) w = (Ok img, w1)"
    and w': "files w' = files w1"
    by (auto simp: main_def io_then_def println_def print_out_def print_err_def
        split: prod.splits res.splits)
  from sign_image_Ok [OF assms(1,2) sign] obtain payload sk doc m where
    r: "sign_request (crypto h) (toml_from_str h) (system h) (g_payload args) (g_manifest args)
      (g_key args) (g_key_id args) w payload sk doc m"
    "key_id m = derive_key_id (crypto h) (verifying_key (crypto h) sk)"
    "w1 = w\<lparr>files := (files w)(g_output args \<mapsto> signed_bytes (crypto h) sk m payload)\<rparr>" .
  note m = sign_request_manifest [OF assms(1,2) r(1)]
  have wf: "image_wf (crypto h) m payload (signed_record (crypto h) sk m payload)"
    using assms(1) m(1-3,5) r(2) by (rule signed_wf)
  show thesis
  proof
    show "files w' (g_output args) = Some (signed_bytes (crypto h) sk m payload)"
      by (simp add: w' r(3))
    show "verify_image (crypto h) (signed_bytes (crypto h) sk m payload) any_target =
        Ok (report_of (crypto h) any_target m payload (signed_record (crypto h) sk m payload) True)"
      using assms(1) wf by (rule signed_verify)
    show "is_valid (report_of (crypto h) any_target m payload
        (signed_record (crypto h) sk m payload) True)"
      using m(4) by (simp add: is_valid_def report_of_def any_target_def)
  qed
qed

section \<open>A sample host\<close>

definition sample_host :: "(u8, u8, u8) host" where
  "sample_host = \<lparr>crypto = sample_provider, toml_from_str = sample_toml,
     json_pretty = (\<lambda>_. Inr ''{}''), system = sample_os, fresh_key = 9, quote = (\<lambda>s. s)\<rparr>"

definition sample_args :: image_sign_args where
  "sample_args = \<lparr>g_payload = ''p'', g_manifest = ''m'', g_key = ''k'', g_key_id = None,
     g_output = ''o''\<rparr>"

section \<open>Properties\<close>


text \<open>C33: Every command but image sign, key generate and key public leaves the file system as it
  was.\<close>

theorem read_only_commands_keep_files:
  assumes "read_only c"
  shows "files (snd (main h c w)) = files w"
proof (rule framed_main)
  note rules = files_frame.framed_rules print_frames framed_println framed_inspect_key
  have image: "framed same_files (run_image h ic)" if "\<forall>a. ic \<noteq> ImageSign a" for ic
    using that by (cases ic) (auto simp: Let_def intro!: rules)
  have key: "framed same_files (run_key h kc)"
    if "\<forall>r p. kc \<noteq> KeyGenerate r p" "\<forall>k p. kc \<noteq> KeyPublic k p" for kc
    using that by (cases kc) (auto intro!: rules)
  have "framed same_files (run_self_check h args)" for args
    unfolding run_self_check_def by (intro rules)
  then show "framed same_files (run h c)"
    using assms image key
    by (cases c) (auto simp: read_only_def intro!: rules split: image_command.splits key_command.splits)
qed

theorem read_only_commands_keep_files_witness:
  "files (snd (main sample_host (Image (ImageInspect ''p'')) sample_world)) = files sample_world"
  by (rule read_only_commands_keep_files) (simp add: read_only_def)

text \<open>C34: Whatever the file holds, the verify and inspect commands exit with status 0 or 2: no image
  crashes the tool. Neither does the self check.\<close>

theorem checking_never_panics:
  "fst (main h (Image (ImageVerify args)) w) \<in> {0, 2} \<and>
   fst (main h (Image (ImageInspect path)) w) \<in> {0, 2} \<and>
   fst (main h (SelfCheck flags) w) \<in> {0, 2}"
proof -
  have status: "fst (main h c w) \<in> {0, 2}" if "never_panics (run h c)" for c
    using that by (auto simp: never_panics_def main_def print_err_def split: prod.split res.split)
      (metis fst_conv)
  have target: "image_verify_target args \<noteq> Panic"
    by (cases "v_vendor_id args"; cases "v_product_id args"; cases "v_hardware_family args";
        cases "v_component_id args"; simp add: image_verify_target_def)
  show ?thesis
    by (intro conjI status; simp add: run_self_check_def Let_def)
      (intro never_panics_rules conjI impI;
        simp add: target verify_image_no_panic inspect_image_no_panic)+
qed

text \<open>The target of a verification is given by all four options or by none; any other
  combination is an error.\<close>

theorem verify_target_all_or_none:
  "image_verify_target args =
     (case (v_vendor_id args, v_product_id args, v_hardware_family args, v_component_id args) of
        (Some v, Some p, Some f, Some c) \<Rightarrow>
          Ok (Some \<lparr>t_vendor_id = v, t_product_id = p, t_hardware_family = f, t_component_id = c\<rparr>)
      | (None, None, None, None) \<Rightarrow> Ok None
      | _ \<Rightarrow> Err (''target binding verification requires --vendor-id, '' @
          ''--product-id, --hardware-family, and --component-id''))"
  by (simp add: image_verify_target_def split: option.split)

text \<open>A 32-bit argument printed in decimal, or in hexadecimal after 0x or 0X, parses back to the
  same value.\<close>

theorem u32_argument_roundtrip:
  "parse_u32_value (display_nat (unat v)) = Ok v \<and>
   parse_u32_value (''0x'' @ hex_pad 8 (unat v)) = Ok v \<and>
   parse_u32_value (''0X'' @ hex_pad 8 (unat v)) = Ok v"
  unfolding parse_u32_value_def strip_hex_prefix_append display_nat_no_prefix by simp

text \<open>The role label of a generated key is accepted exactly when the manifest parser knows the
  role.\<close>

theorem key_role_labels:
  "validate_key_role_label s = Ok () \<longleftrightarrow> (\<exists>c. parse_role s = Ok c)"
  by (simp add: validate_key_role_label_def parse_role_def)

end
