(* ===== verification/History.thy ===== *)
theory History
  imports Cli
begin

text \<open>
  Sequences of runs of the tool on one file system. Each step of \<open>history\<close> is one
  command, with an operating system and a drawn key of its own; the cryptography is the
  same throughout. \<open>run_all\<close> computes the state after a list of runs, and
  \<open>history_iff\<close> says that the two agree. The invariant is that the tool never changes
  or removes a file that exists.
\<close>

inductive history :: "('sk, 'vk, 'sg) provider \<Rightarrow> world \<Rightarrow> world \<Rightarrow> bool" for P where
  history_refl: "history P w w"
| history_step: "history P w w' \<Longrightarrow> crypto h = P \<Longrightarrow> history P w (snd (main h c w'))"

inductive_cases historyE: "history P w w'"

fun run_all :: "(('sk, 'vk, 'sg) host \<times> command) list \<Rightarrow> world \<Rightarrow> world" where
  "run_all [] w = w"
| "run_all ((h, c) # rest) w = run_all rest (snd (main h c w))"

lemma run_all_append: "run_all (xs @ ys) w = run_all ys (run_all xs w)"
  by (induction xs w rule: run_all.induct) auto

lemma history_trans:
  assumes "history P u v" and "history P v w"
  shows "history P u w"
  using assms(2,1) by (induction rule: history.induct) (auto intro: history_step)

lemma history_run_all:
  "\<forall>x \<in> set xs. crypto (fst x) = P \<Longrightarrow> history P w (run_all xs w)"
proof (induction xs w rule: run_all.induct)
  case (2 h c rest w)
  have "history P w (snd (main h c w))"
    using "2.prems" by (intro history_step history_refl) simp
  then show ?case using 2 by (auto intro: history_trans)
qed (simp add: history_refl)

lemma history_iff:
  "history P w w' \<longleftrightarrow> (\<exists>xs. (\<forall>x \<in> set xs. crypto (fst x) = P) \<and> w' = run_all xs w)"
proof
  assume "history P w w'"
  then show "\<exists>xs. (\<forall>x \<in> set xs. crypto (fst x) = P) \<and> w' = run_all xs w"
  proof induction
    case (history_step w w' h c)
    then obtain xs where "\<forall>x \<in> set xs. crypto (fst x) = P" "w' = run_all xs w" by blast
    with history_step.hyps(2) show ?case
      by (intro exI [of _ "xs @ [(h, c)]"]) (simp add: run_all_append)
  qed (intro exI [of _ "[]"], simp)
qed (auto intro: history_run_all)

section \<open>Existing files\<close>

definition keeps_files :: "world \<Rightarrow> world \<Rightarrow> bool" where
  "keeps_files w w' \<longleftrightarrow> files w \<subseteq>\<^sub>m files w'"

interpretation keep_frame: frame_relation keeps_files
  by unfold_locales (auto simp: keeps_files_def intro: map_le_trans)

lemma same_files_keeps: "framed same_files m \<Longrightarrow> framed keeps_files m"
  by (auto simp: framed_def same_files_def keeps_files_def)

text \<open>An action that changes at most one file, and that one only when it is absent.\<close>

lemma fresh_output_keeps:
  assumes "framed (same_elsewhere p) m" and "\<And>w. files w p \<noteq> None \<Longrightarrow> snd (m w) = w"
  shows "framed keeps_files m"
  unfolding framed_def keeps_files_def map_le_def
proof (intro allI ballI)
  fix w :: world and q assume q: "q \<in> dom (files w)"
  show "files w q = files (snd (m w)) q"
  proof (cases "q = p")
    case True
    then show ?thesis using q assms(2) [of w] by auto
  next
    case False
    then show ?thesis using assms(1) by (simp add: framed_def same_elsewhere_def)
  qed
qed

lemma sign_image_keeps: "framed keeps_files (sign_image P toml os pp mp kp out ov)"
  by (rule fresh_output_keeps [OF sign_image_frames(1)]) (simp add: sign_image_existing)

lemma key_files_keep:
  "framed keeps_files (generate_private_key P os sk p)"
  "framed keeps_files (export_public_key P os kp p)"
  by (rule fresh_output_keeps [OF framed_generate(1)],
      simp add: generate_private_key_def io_then_def path_exists_def io_lift_def)
    (rule fresh_output_keeps [OF framed_generate(2)],
      auto simp: export_public_key_def io_then_def path_exists_def io_lift_def)

lemma run_keeps: "framed keeps_files (run h c)"
proof -
  note rules = keep_frame.framed_rules print_frames(1,2) [THEN same_files_keeps]
    framed_println [THEN same_files_keeps] framed_inspect_key [THEN same_files_keeps] sign_image_keeps key_files_keep
  have "framed keeps_files (run_image h ic)" for ic
    by (cases ic) (auto simp: Let_def intro!: rules)
  moreover have "framed keeps_files (run_key h kc)" for kc
    by (cases kc) (auto intro!: rules)
  moreover have "framed keeps_files (run_self_check h args)" for args
    unfolding run_self_check_def by (intro rules)
  ultimately show ?thesis
    by (cases c) (auto intro!: rules)
qed

lemma main_keeps: "keeps_files w (snd (main h c w))"
proof -
  obtain r w1 where r: "run h c w = (r, w1)" by (cases "run h c w")
  then have "keeps_files w w1" using run_keeps [of h c] by (metis framed_def snd_conv)
  then show ?thesis using r
    by (cases r) (simp_all add: main_def print_err_def keeps_files_def)
qed

lemma history_keeps: "history P w w' \<Longrightarrow> keeps_files w w'"
  by (induction rule: history.induct) (auto intro: keep_frame.refl keep_frame.trans main_keeps)

section \<open>Properties\<close>

text \<open>C21: No sequence of commands changes or removes a file that exists, whatever fails on the
  way: the tool only adds files.\<close>

theorem existing_files_survive:
  assumes "history P w w'" and "files w path = Some bs"
  shows "files w' path = Some bs"
  using history_keeps [OF assms(1)] assms(2) by (force simp: keeps_files_def map_le_def)

theorem existing_files_survive_witness:
  "files (run_all [(sample_host, Image (ImageSign sample_args)),
     (sample_host, Image (ImageSign (sample_args\<lparr>g_output := ''p''\<rparr>)))] sample_world) ''p'' =
     Some sample_payload"
proof -
  have "crypto sample_host = sample_provider" by (simp add: sample_host_def)
  then have "history sample_provider sample_world (run_all
    [(sample_host, Image (ImageSign sample_args)),
     (sample_host, Image (ImageSign (sample_args\<lparr>g_output := ''p''\<rparr>)))] sample_world)"
    by (intro history_run_all) auto
  then show ?thesis
    by (rule existing_files_survive) (simp add: sample_world_def)
qed

end
