(* ===== verification/Release.thy ===== *)
theory Release
  imports History
begin

text \<open>
  A release from nothing: generating a key, signing a payload with it and verifying the
  result, as three runs of the tool on one file system. The lemmas say what each run needs to
  exit with status 0; the property chains them.
\<close>

text \<open>The exit statuses of a list of runs.\<close>

fun statuses :: "(('sk, 'vk, 'sg) host \<times> command) list \<Rightarrow> world \<Rightarrow> nat list" where
  "statuses [] w = []"
| "statuses ((h, c) # rest) w = (case main h c w of (s, w') \<Rightarrow> s # statuses rest w')"

definition verify_any :: "string \<Rightarrow> command" where
  "verify_any path = Image (ImageVerify \<lparr>v_artifact = path, v_minimum_security_epoch = 0,
     v_vendor_id = None, v_product_id = None, v_hardware_family = None, v_component_id = None\<rparr>)"

definition no_faults :: "os \<Rightarrow> bool" where
  "no_faults os \<longleftrightarrow> (\<forall>p. read_fault os p = None \<and> write_outcome os p = WriteOk)"

lemma generate_succeeds:
  assumes "validate_key_role_label role = Ok ()" "to_pkcs8_pem (crypto h) (fresh_key h) = Inr pem"
    and "no_faults (system h)" "files w key = None"
  shows "\<exists>w'. main h (Key (KeyGenerate role key)) w = (0, w') \<and>
    files w' = (files w)(key \<mapsto> as_bytes pem)"
  using assms
  by (simp add: main_def io_then_def io_lift_def io_map_err_def generate_private_key_def
      path_exists_def fs_write_def println_def print_out_def Let_def no_faults_def)

lemma into_manifest_any:
  assumes "is_ok (into_manifest doc n d k)"
  shows "\<exists>m. into_manifest doc n' d' k' = Ok m"
proof -
  from assms obtain m where "into_manifest doc n d k = Ok m"
    by (cases "into_manifest doc n d k") auto
  then show ?thesis by (auto simp: into_manifest_def ok_iff Let_def split: if_splits)
qed

lemma release_request:
  assumes "provider_laws P" "pem_laws P" "toml_laws toml"
    and "to_pkcs8_pem P sk = Inr pem" "no_faults os"
    and "files w kp = Some (as_bytes pem)" "files w pp = Some payload" "files w mp = Some (as_bytes s)"
    and "payload \<noteq> []" "length payload < 2 ^ 32 - 320" "valid_str s" "toml s = Inr doc"
    and "d_key_id doc = None" "is_ok (into_manifest doc 0 [] [])"
  obtains m where "sign_request P toml os pp mp kp None w payload sk doc m"
    "key_id m = derive_key_id P (verifying_key P sk)"
proof -
  let ?k = "derive_key_id P (verifying_key P sk)"
  obtain m where m: "into_manifest doc (of_nat (length payload)) (sha256 P payload) ?k = Ok m"
    using into_manifest_any [OF assms(14)] by blast
  note facts = into_manifest_Ok [OF m]
  have "manifest_size_of m \<le> 256"
    using facts(1) padded_le by (simp add: manifest_valid_def manifest_sizes manifest_size_of_def)
  then have "64 + region_size m payload < 2 ^ 32"
    using assms(10) by (simp add: region_size_def)
  moreover have "read_signing_key P os kp w = (Ok sk, w)"
    using assms(2,4,5,6) by (auto simp: ok_iff no_faults_def pem_laws_def)
  moreover have "read_manifest_document toml os mp w = (Ok doc, w)"
    using assms(5,8,11,12) by (auto simp: ok_iff no_faults_def)
  ultimately have "sign_request P toml os pp mp kp None w payload sk doc m"
    using assms(5,7,9,10,13) m facts(5)
    by (simp add: sign_request_def no_faults_def chosen_key_id_def)
  then show thesis using facts(5) by (rule that)
qed

lemma sign_succeeds:
  assumes "provider_laws (crypto h)" "toml_laws (toml_from_str h)" "no_faults (system h)"
    and "sign_request (crypto h) (toml_from_str h) (system h) pp mp kp ov w payload sk doc m"
    and "key_id m = derive_key_id (crypto h) (verifying_key (crypto h) sk)"
    and "files w out = None"
  shows "\<exists>w'. main h (Image (ImageSign \<lparr>g_payload = pp, g_manifest = mp, g_key = kp,
    g_key_id = ov, g_output = out\<rparr>)) w = (0, w')"
proof -
  note m = sign_request_manifest [OF assms(1,2,4)]
  have "write_outcome (system h) out = WriteOk" using assms(3) by (simp add: no_faults_def)
  from sign_image_writes [OF assms(1,2,4,6) this] signed_parse(1) [OF assms(1) m(1-3,5) assms(5)]
  show ?thesis
    by (simp add: main_def io_then_def println_def print_out_def)
qed

lemma verify_succeeds:
  assumes "files w path = Some bs" "verify_image (crypto h) bs any_target = Ok report"
    "is_valid report" "no_faults (system h)"
  shows "\<exists>w'. main h (verify_any path) w = (0, w')"
proof -
  have "fst (main h (verify_any path) w) = 0"
    using assms
    by (simp add: verify_any_def main_status image_verify_target_def any_target_def ok_iff Let_def
        no_faults_def)
  then show ?thesis by (metis prod.collapse)
qed

section \<open>Properties\<close>

text \<open>C14: A release completes: on a system without faults, with a fresh output and key path, a
  payload that fits the format and a document the tool accepts, generating the key, signing
  with it and verifying the image exit with status 0, one after the other.\<close>

theorem release_completes:
  assumes "provider_laws (crypto h)" "pem_laws (crypto h)" "toml_laws (toml_from_str h)"
    and "to_pkcs8_pem (crypto h) (fresh_key h) = Inr pem" "no_faults (system h)"
    and "validate_key_role_label role = Ok ()"
    and "files w key = None" "files w out = None" "key \<noteq> out"
    and "files w pp = Some payload" "payload \<noteq> []" "length payload < 2 ^ 32 - 320"
    and "files w mp = Some (as_bytes s)" "valid_str s" "toml_from_str h s = Inr doc"
    and "d_key_id doc = None" "is_ok (into_manifest doc 0 [] [])"
  shows "statuses [(h, Key (KeyGenerate role key)),
     (h, Image (ImageSign \<lparr>g_payload = pp, g_manifest = mp, g_key = key, g_key_id = None,
        g_output = out\<rparr>)),
     (h, verify_any out)] w = [0, 0, 0]"
proof -
  obtain w1 where w1: "main h (Key (KeyGenerate role key)) w = (0, w1)"
    "files w1 = (files w)(key \<mapsto> as_bytes pem)"
    using generate_succeeds [OF assms(6,4,5,7)] by blast
  have f: "files w1 key = Some (as_bytes pem)" "files w1 pp = Some payload"
    "files w1 mp = Some (as_bytes s)" "files w1 out = None"
    using assms(7-10,13) by (auto simp: w1(2))
  obtain m where m: "sign_request (crypto h) (toml_from_str h) (system h) pp mp key None w1 payload
      (fresh_key h) doc m"
    "key_id m = derive_key_id (crypto h) (verifying_key (crypto h) (fresh_key h))"
    by (rule release_request [OF assms(1-5) f(1-3) assms(11,12,14-17)])
  obtain w2 where w2: "main h (Image (ImageSign \<lparr>g_payload = pp, g_manifest = mp, g_key = key,
      g_key_id = None, g_output = out\<rparr>)) w1 = (0, w2)"
    using sign_succeeds [OF assms(1,3,5) m f(4)] by blast
  from sign_command_writes [OF assms(1,3) w2] obtain bs report where
    "files w2 out = Some bs" "verify_image (crypto h) bs any_target = Ok report" "is_valid report"
    by auto
  from verify_succeeds [OF this assms(5)] show ?thesis
    by (auto simp: w1 w2)
qed

theorem release_completes_witness:
  "statuses [(sample_host, Key (KeyGenerate ''RELEASE'' ''new'')),
     (sample_host, Image (ImageSign \<lparr>g_payload = ''p'', g_manifest = ''m'', g_key = ''new'',
        g_key_id = None, g_output = ''o''\<rparr>)),
     (sample_host, verify_any ''o'')] sample_world = [0, 0, 0]"
proof -
  have 1: "provider_laws (crypto sample_host)" "pem_laws (crypto sample_host)"
    "toml_laws (toml_from_str sample_host)"
    "to_pkcs8_pem (crypto sample_host) (fresh_key sample_host) = Inr [byte_char 9]"
    "no_faults (system sample_host)"
    by (simp_all add: sample_host_def sample_provider_laws sample_pem_laws sample_toml_laws
        no_faults_def sample_os_def) (simp add: sample_provider_def)
  have 2: "validate_key_role_label ''RELEASE'' = Ok ()" "files sample_world ''new'' = None"
    "files sample_world ''o'' = None" "''new'' \<noteq> ''o''" "files sample_world ''p'' = Some sample_payload"
    "sample_payload \<noteq> []" "length sample_payload < 2 ^ 32 - 320"
    "files sample_world ''m'' = Some (as_bytes ''M'')" "valid_str ''M''"
    "toml_from_str sample_host ''M'' = Inr sample_document" "d_key_id sample_document = None"
    "is_ok (into_manifest sample_document 0 [] [])"
    by (simp_all add: validate_key_role_label_def sample_world_def sample_payload_def valid_str_def
        as_bytes_def sample_host_def sample_toml_def sample_into_manifest)
      (simp add: sample_document_def)
  show ?thesis by (rule release_completes [OF 1 2])
qed

end
