(* ===== verification/CCore.thy ===== *)
theory CCore
  imports Bytes
begin

text \<open>
  What the device code (C, under \<^verbatim>\<open>core/\<close> and \<^verbatim>\<open>stage0/\<close>) is made of. A computation
  returns a value, leaves its function with a status other than \<^verbatim>\<open>RAMPART_OK\<close>, or reads
  outside of an object, which is the outcome \<open>Fault\<close>. A pointer is \<open>None\<close> for
  \<^verbatim>\<open>NULL\<close>, or the elements of the object from where it points to the end; an object may
  be longer than the length a function is given for it.
\<close>

section \<open>Status codes\<close>

datatype rampart_status =
    RAMPART_OK
  | RAMPART_ERR_INVALID_ARGUMENT
  | RAMPART_ERR_BOUNDS
  | RAMPART_ERR_OVERFLOW
  | RAMPART_ERR_IMAGE_FORMAT
  | RAMPART_ERR_MANIFEST_FORMAT
  | RAMPART_ERR_SIGNATURE
  | RAMPART_ERR_KEY_REVOKED
  | RAMPART_ERR_SECURITY_EPOCH
  | RAMPART_ERR_TARGET_MISMATCH
  | RAMPART_ERR_SLOT_INVALID
  | RAMPART_ERR_TRANSACTION_CORRUPT
  | RAMPART_ERR_HEALTH_FAILED
  | RAMPART_ERR_NO_BOOTABLE_IMAGE
  | RAMPART_ERR_INTERNAL
  | RAMPART_ERR_UNSUPPORTED_ALGORITHM
  | RAMPART_ERR_CRYPTO_PROVIDER
  | RAMPART_ERR_TRUST_STORE
  | RAMPART_ERR_KEY_UNKNOWN
  | RAMPART_ERR_KEY_EXPIRED
  | RAMPART_ERR_KEY_ROLE
  | RAMPART_ERR_KEY_LIFECYCLE

fun rampart_status_string :: "rampart_status \<Rightarrow> string" where
  "rampart_status_string RAMPART_OK = ''ok''"
| "rampart_status_string RAMPART_ERR_INVALID_ARGUMENT = ''invalid argument''"
| "rampart_status_string RAMPART_ERR_BOUNDS = ''bounds error''"
| "rampart_status_string RAMPART_ERR_OVERFLOW = ''integer overflow''"
| "rampart_status_string RAMPART_ERR_IMAGE_FORMAT = ''image format error''"
| "rampart_status_string RAMPART_ERR_MANIFEST_FORMAT = ''manifest format error''"
| "rampart_status_string RAMPART_ERR_SIGNATURE = ''signature error''"
| "rampart_status_string RAMPART_ERR_KEY_REVOKED = ''key revoked''"
| "rampart_status_string RAMPART_ERR_SECURITY_EPOCH = ''security epoch rejected''"
| "rampart_status_string RAMPART_ERR_TARGET_MISMATCH = ''target mismatch''"
| "rampart_status_string RAMPART_ERR_SLOT_INVALID = ''invalid slot''"
| "rampart_status_string RAMPART_ERR_TRANSACTION_CORRUPT = ''transaction metadata corrupt''"
| "rampart_status_string RAMPART_ERR_HEALTH_FAILED = ''health contract failed''"
| "rampart_status_string RAMPART_ERR_NO_BOOTABLE_IMAGE = ''no bootable image''"
| "rampart_status_string RAMPART_ERR_INTERNAL = ''internal error''"
| "rampart_status_string RAMPART_ERR_UNSUPPORTED_ALGORITHM = ''unsupported algorithm''"
| "rampart_status_string RAMPART_ERR_CRYPTO_PROVIDER = ''crypto provider failure''"
| "rampart_status_string RAMPART_ERR_TRUST_STORE = ''invalid trust store''"
| "rampart_status_string RAMPART_ERR_KEY_UNKNOWN = ''unknown key''"
| "rampart_status_string RAMPART_ERR_KEY_EXPIRED = ''key expired''"
| "rampart_status_string RAMPART_ERR_KEY_ROLE = ''key role rejected''"
| "rampart_status_string RAMPART_ERR_KEY_LIFECYCLE = ''key lifecycle rejected''"

section \<open>Computations\<close>

datatype 'a c = Ret 'a | Stop rampart_status | Fault

fun c_then :: "'a c \<Rightarrow> ('a \<Rightarrow> 'b c) \<Rightarrow> 'b c" where
  "c_then (Ret x) f = f x"
| "c_then (Stop s) f = Stop s"
| "c_then Fault f = Fault"

named_theorems ret_iff and fault_iff

lemma c_then_Ret_iff [ret_iff]: "c_then m f = Ret y \<longleftrightarrow> (\<exists>x. m = Ret x \<and> f x = Ret y)"
  by (cases m) auto

lemma c_then_Fault_iff [fault_iff]:
  "c_then m f = Fault \<longleftrightarrow> m = Fault \<or> (\<exists>x. m = Ret x \<and> f x = Fault)"
  by (cases m) auto

lemma if_Stop_Ret_iff [ret_iff]: "(if b then Stop s else m) = Ret x \<longleftrightarrow> \<not> b \<and> m = Ret x"
  by simp

lemma if_Stop_Fault_iff [fault_iff]: "(if b then Stop s else m) = Fault \<longleftrightarrow> \<not> b \<and> m = Fault"
  by simp

lemma c_then_weak_cong: "m = n \<Longrightarrow> c_then m f = c_then n f"
  by simp

section \<open>Memory\<close>

text \<open>\<^verbatim>\<open>p[i]\<close> and \<^verbatim>\<open>&p[i]\<close>\<close>

definition c_index :: "'a list \<Rightarrow> nat \<Rightarrow> 'a c" where
  "c_index p i = (if i < length p then Ret (p ! i) else Fault)"

definition c_offset :: "'a list \<Rightarrow> nat \<Rightarrow> 'a list c" where
  "c_offset p i = (if i \<le> length p then Ret (drop i p) else Fault)"

lemma c_index_iff [ret_iff]: "c_index p i = Ret x \<longleftrightarrow> i < length p \<and> x = p ! i"
  by (auto simp: c_index_def)

lemma c_offset_iff [ret_iff]: "c_offset p i = Ret q \<longleftrightarrow> i \<le> length p \<and> q = drop i p"
  by (auto simp: c_offset_def)

lemma c_index_Fault [fault_iff]: "c_index p i = Fault \<longleftrightarrow> length p \<le> i"
  by (auto simp: c_index_def)

lemma c_offset_Fault [fault_iff]: "c_offset p i = Fault \<longleftrightarrow> length p < i"
  by (auto simp: c_offset_def)

end
