(* ===== verification/Stage0.thy ===== *)
theory Stage0
  imports CCore "HOL-Library.Multiset"
begin

text \<open>
  Stage 0 of the boot chain, \<^verbatim>\<open>stage0/src/select.c\<close>: which stage 1 slot to start. The
  contract of the two scans is the locale \<open>best_of\<close>: scanning a list while keeping the
  best eligible element returns an eligible element that no other one beats, the earliest
  of them. Both scans interpret it.
\<close>

section \<open>Data\<close>

datatype rampart_stage1_slot_state = RAMPART_STAGE1_SLOT_EMPTY | RAMPART_STAGE1_SLOT_CONFIRMED | RAMPART_STAGE1_SLOT_TRIAL | RAMPART_STAGE1_SLOT_REJECTED | RAMPART_STAGE1_SLOT_INVALID

datatype rampart_stage0_decision_reason = RAMPART_STAGE0_DECISION_TRIAL_STAGE1 | RAMPART_STAGE0_DECISION_CONFIRMED_STAGE1

record rampart_stage0_stage1_candidate =
  slot_id :: u32
  slot_state :: rampart_stage1_slot_state
  authenticated :: bool
  slot_security_epoch :: u32
  image_base :: nat
  image_size :: nat
  entry_point :: nat
  trial_attempt :: u32
  max_trial_attempts :: u32

record rampart_stage0_decision =
  selected_slot_id :: u32
  decision_entry_point :: nat
  reason :: rampart_stage0_decision_reason

section \<open>Operations\<close>

definition candidate_has_executable_shape :: "rampart_stage0_stage1_candidate \<Rightarrow> bool" where
  "candidate_has_executable_shape c \<longleftrightarrow>
     authenticated c \<and> image_base c \<noteq> 0 \<and> image_size c \<noteq> 0 \<and> entry_point c \<noteq> 0"

definition candidate_is_eligible_trial :: "u32 \<Rightarrow> rampart_stage0_stage1_candidate \<Rightarrow> bool" where
  "candidate_is_eligible_trial minimum_security_epoch c \<longleftrightarrow>
     candidate_has_executable_shape c \<and> slot_state c = RAMPART_STAGE1_SLOT_TRIAL \<and>
     slot_security_epoch c \<ge> minimum_security_epoch \<and> trial_attempt c < max_trial_attempts c"

definition candidate_is_eligible_confirmed :: "u32 \<Rightarrow> rampart_stage0_stage1_candidate \<Rightarrow> bool" where
  "candidate_is_eligible_confirmed minimum_security_epoch c \<longleftrightarrow>
     candidate_has_executable_shape c \<and> slot_state c = RAMPART_STAGE1_SLOT_CONFIRMED \<and>
     slot_security_epoch c \<ge> minimum_security_epoch"

definition candidate_is_preferred :: "rampart_stage0_stage1_candidate \<Rightarrow> rampart_stage0_stage1_candidate option \<Rightarrow> bool" where
  "candidate_is_preferred c current_best =
     (case current_best of
        None \<Rightarrow> True
      | Some b \<Rightarrow>
          if slot_security_epoch c > slot_security_epoch b then True
          else if slot_security_epoch c < slot_security_epoch b then False
          else slot_id c < slot_id b)"

text \<open>The loops over the indices of the array; \<open>best\<close> is the pointer they carry.\<close>

fun select_trial :: "rampart_stage0_stage1_candidate list \<Rightarrow> u32 \<Rightarrow> nat list \<Rightarrow> rampart_stage0_stage1_candidate option \<Rightarrow>
    rampart_stage0_stage1_candidate option c" where
  "select_trial candidates minimum_security_epoch [] best = Ret best"
| "select_trial candidates minimum_security_epoch (i # is) best =
     c_then (c_index candidates i) (\<lambda>candidate.
     select_trial candidates minimum_security_epoch is
       (if candidate_is_eligible_trial minimum_security_epoch candidate \<and>
           candidate_is_preferred candidate best then Some candidate else best))"

fun select_confirmed :: "rampart_stage0_stage1_candidate list \<Rightarrow> u32 \<Rightarrow> nat list \<Rightarrow> rampart_stage0_stage1_candidate option \<Rightarrow>
    rampart_stage0_stage1_candidate option c" where
  "select_confirmed candidates minimum_security_epoch [] best = Ret best"
| "select_confirmed candidates minimum_security_epoch (i # is) best =
     c_then (c_index candidates i) (\<lambda>candidate.
     select_confirmed candidates minimum_security_epoch is
       (if candidate_is_eligible_confirmed minimum_security_epoch candidate \<and>
           candidate_is_preferred candidate best then Some candidate else best))"

text \<open>The result is the status and what \<^verbatim>\<open>decision\<close> points to afterwards.\<close>

definition rampart_stage0_select_stage1 ::
  "rampart_stage0_stage1_candidate list option \<Rightarrow> nat \<Rightarrow> u32 \<Rightarrow> rampart_stage0_decision option \<Rightarrow>
     (rampart_status \<times> rampart_stage0_decision option) c" where
  "rampart_stage0_select_stage1 candidates candidate_count minimum_security_epoch decision =
     (case (candidates, decision) of
        (Some cs, Some d) \<Rightarrow>
          if candidate_count = 0 then Ret (RAMPART_ERR_NO_BOOTABLE_IMAGE, decision)
          else
          c_then (select_trial cs minimum_security_epoch [0..<candidate_count] None) (\<lambda>selected.
          case selected of
            Some s \<Rightarrow> Ret (RAMPART_OK, Some (d\<lparr>selected_slot_id := slot_id s,
              decision_entry_point := entry_point s, reason := RAMPART_STAGE0_DECISION_TRIAL_STAGE1\<rparr>))
          | None \<Rightarrow>
          c_then (select_confirmed cs minimum_security_epoch [0..<candidate_count] None) (\<lambda>selected.
          case selected of
            Some s \<Rightarrow> Ret (RAMPART_OK, Some (d\<lparr>selected_slot_id := slot_id s,
              decision_entry_point := entry_point s, reason := RAMPART_STAGE0_DECISION_CONFIRMED_STAGE1\<rparr>))
          | None \<Rightarrow> Ret (RAMPART_ERR_NO_BOOTABLE_IMAGE, decision)))
      | _ \<Rightarrow> Ret (RAMPART_ERR_INVALID_ARGUMENT, decision))"

section \<open>The contract of a scan\<close>

text \<open>
  \<open>better\<close> is the strict part of a total preorder: it is transitive, and what beats a
  loser's better is decided for all. \<open>scan\<close> is the loop.
\<close>

locale best_of =
  fixes eligible :: "'a \<Rightarrow> bool"
    and better :: "'a \<Rightarrow> 'a \<Rightarrow> bool"
    and scan :: "'a list \<Rightarrow> 'a option \<Rightarrow> 'a option"
  assumes irrefl: "\<not> better x x"
    and trans: "better x y \<Longrightarrow> better y z \<Longrightarrow> better x z"
    and not_better_trans: "\<not> better x y \<Longrightarrow> \<not> better y z \<Longrightarrow> \<not> better x z"
    and scan_Nil: "scan [] b = b"
    and scan_Cons: "scan (x # xs) b =
      scan xs (if eligible x \<and> (\<forall>y. b = Some y \<longrightarrow> better x y) then Some x else b)"
begin

lemma scan_result:
  assumes "\<And>y. b = Some y \<Longrightarrow> eligible y"
  shows "case scan xs b of
      None \<Rightarrow> b = None \<and> (\<forall>x \<in> set xs. \<not> eligible x)
    | Some m \<Rightarrow> eligible m \<and> (m \<in> set xs \<or> b = Some m) \<and>
        (\<forall>x \<in> set xs. eligible x \<longrightarrow> \<not> better x m) \<and> (\<forall>y. b = Some y \<longrightarrow> \<not> better y m)"
  using assms
proof (induction xs arbitrary: b)
  case Nil
  then show ?case by (auto simp: scan_Nil irrefl split: option.split)
next
  case (Cons x xs)
  show ?case
  proof (cases "eligible x \<and> (\<forall>y. b = Some y \<longrightarrow> better x y)")
    case True
    then have s: "scan (x # xs) b = scan xs (Some x)" by (simp add: scan_Cons)
    have ih: "case scan xs (Some x) of
        None \<Rightarrow> Some x = None \<and> (\<forall>x \<in> set xs. \<not> eligible x)
      | Some m \<Rightarrow> eligible m \<and> (m \<in> set xs \<or> Some x = Some m) \<and>
          (\<forall>x \<in> set xs. eligible x \<longrightarrow> \<not> better x m) \<and> (\<forall>y. Some x = Some y \<longrightarrow> \<not> better y m)"
      by (rule Cons.IH) (use True in simp)
    then obtain m where m: "scan xs (Some x) = Some m" by (cases "scan xs (Some x)") auto
    have "\<not> better y m" if "b = Some y" for y
    proof
      assume "better y m"
      moreover have "better x y" using True that by simp
      ultimately have "better x m" by (rule trans [rotated])
      then show False using ih m by simp
    qed
    with ih m show ?thesis by (auto simp: s)
  next
    case False
    then have s: "scan (x # xs) b = scan xs b" by (simp only: scan_Cons if_False)
    have ih: "case scan xs b of
        None \<Rightarrow> b = None \<and> (\<forall>x \<in> set xs. \<not> eligible x)
      | Some m \<Rightarrow> eligible m \<and> (m \<in> set xs \<or> b = Some m) \<and>
          (\<forall>x \<in> set xs. eligible x \<longrightarrow> \<not> better x m) \<and> (\<forall>y. b = Some y \<longrightarrow> \<not> better y m)"
      by (rule Cons.IH) (use Cons.prems in simp)
    show ?thesis
    proof (cases "scan xs b")
      case None
      with ih False show ?thesis unfolding s by auto
    next
      case (Some m)
      have "\<not> better x m" if "eligible x"
      proof -
        from False that obtain y where "b = Some y" "\<not> better x y" by auto
        moreover from this ih Some have "\<not> better y m" by simp
        ultimately show ?thesis using not_better_trans by blast
      qed
      with ih Some show ?thesis unfolding s by auto
    qed
  qed
qed

lemma scan_None: "scan xs None = None \<longleftrightarrow> (\<forall>x \<in> set xs. \<not> eligible x)"
  using scan_result [of None xs] by (auto split: option.splits)

lemma scan_Some:
  assumes "scan xs None = Some m"
  shows "m \<in> set xs" "eligible m" "\<And>x. x \<in> set xs \<Longrightarrow> eligible x \<Longrightarrow> \<not> better x m"
  using scan_result [of None xs] assms by auto

text \<open>The order of the list matters only between elements that neither beats.\<close>

lemma scan_mset:
  assumes "mset xs = mset ys"
    and "\<And>x y. x \<in> set xs \<Longrightarrow> y \<in> set xs \<Longrightarrow> eligible x \<Longrightarrow> eligible y \<Longrightarrow> x \<noteq> y \<Longrightarrow> better x y \<or> better y x"
  shows "scan xs None = scan ys None"
proof -
  have set_eq: "set xs = set ys" using assms(1) by (rule mset_eq_setD)
  show ?thesis
  proof (cases "scan xs None")
    case None
    then show ?thesis using scan_None set_eq by metis
  next
    case (Some m)
    then have "scan ys None \<noteq> None" using scan_None [of ys] scan_Some [OF Some] set_eq by auto
    then obtain n where n: "scan ys None = Some n" by auto
    have "m = n"
      using scan_Some [OF Some] scan_Some [OF n] set_eq assms(2) by metis
    then show ?thesis by (simp add: Some n)
  qed
qed

end


section \<open>The two scans\<close>

text \<open>The loops without their memory accesses.\<close>

definition scan_with ::
  "(rampart_stage0_stage1_candidate \<Rightarrow> bool) \<Rightarrow> rampart_stage0_stage1_candidate list \<Rightarrow> rampart_stage0_stage1_candidate option \<Rightarrow>
     rampart_stage0_stage1_candidate option" where
  "scan_with eligible cs best =
     foldl (\<lambda>b c. if eligible c \<and> candidate_is_preferred c b then Some c else b) best cs"

lemma select_trial_scan:
  "(\<forall>i \<in> set is. i < length cs) \<Longrightarrow> select_trial cs e is best =
     Ret (scan_with (candidate_is_eligible_trial e) (map ((!) cs) is) best)"
  by (induction "is" arbitrary: best) (simp_all add: scan_with_def c_index_def)

lemma select_confirmed_scan:
  "(\<forall>i \<in> set is. i < length cs) \<Longrightarrow> select_confirmed cs e is best =
     Ret (scan_with (candidate_is_eligible_confirmed e) (map ((!) cs) is) best)"
  by (induction "is" arbitrary: best) (simp_all add: scan_with_def c_index_def)

text \<open>Newer security epochs first, then smaller slot numbers.\<close>

definition beats :: "rampart_stage0_stage1_candidate \<Rightarrow> rampart_stage0_stage1_candidate \<Rightarrow> bool" where
  "beats c b \<longleftrightarrow> slot_security_epoch b < slot_security_epoch c \<or>
     slot_security_epoch b = slot_security_epoch c \<and> slot_id c < slot_id b"

lemma preferred_iff: "candidate_is_preferred c b \<longleftrightarrow> (\<forall>y. b = Some y \<longrightarrow> beats c y)"
  by (auto simp: candidate_is_preferred_def beats_def split: option.split)

interpretation trial_scan:
  best_of "candidate_is_eligible_trial e" beats "scan_with (candidate_is_eligible_trial e)"
  by unfold_locales (auto simp: beats_def scan_with_def preferred_iff)

interpretation confirmed_scan:
  best_of "candidate_is_eligible_confirmed e" beats "scan_with (candidate_is_eligible_confirmed e)"
  by unfold_locales (auto simp: beats_def scan_with_def preferred_iff)

text \<open>What the selection computes for an array of \<open>count\<close> candidates.\<close>

definition decide :: "rampart_stage0_stage1_candidate list \<Rightarrow> u32 \<Rightarrow> rampart_stage0_decision \<Rightarrow>
    rampart_status \<times> rampart_stage0_decision" where
  "decide cs e d =
     (case scan_with (candidate_is_eligible_trial e) cs None of
        Some s \<Rightarrow> (RAMPART_OK, d\<lparr>selected_slot_id := slot_id s,
          decision_entry_point := entry_point s, reason := RAMPART_STAGE0_DECISION_TRIAL_STAGE1\<rparr>)
      | None \<Rightarrow> (case scan_with (candidate_is_eligible_confirmed e) cs None of
          Some s \<Rightarrow> (RAMPART_OK, d\<lparr>selected_slot_id := slot_id s,
            decision_entry_point := entry_point s, reason := RAMPART_STAGE0_DECISION_CONFIRMED_STAGE1\<rparr>)
        | None \<Rightarrow> (RAMPART_ERR_NO_BOOTABLE_IMAGE, d)))"

lemma select_decide:
  assumes "n \<le> length cs"
  shows "rampart_stage0_select_stage1 (Some cs) n e (Some d) =
    Ret (map_prod id Some (decide (take n cs) e d))"
proof -
  have take: "map ((!) cs) [0..<n] = take n cs"
    using assms by (intro nth_equalityI) auto
  have inside: "\<forall>i \<in> set [0..<n]. i < length cs" using assms by auto
  show ?thesis
  proof (cases "n = 0")
    case True
    then show ?thesis
      by (simp add: rampart_stage0_select_stage1_def decide_def scan_with_def)
  next
    case False
    then show ?thesis
      by (simp add: rampart_stage0_select_stage1_def decide_def select_trial_scan [OF inside]
          select_confirmed_scan [OF inside] take split: option.split)
  qed
qed

section \<open>A sample\<close>

definition sample_slot :: "u32 \<Rightarrow> rampart_stage1_slot_state \<Rightarrow> u32 \<Rightarrow> rampart_stage0_stage1_candidate" where
  "sample_slot n s epoch = \<lparr>slot_id = n, slot_state = s, authenticated = True,
     slot_security_epoch = epoch, image_base = 0x8000, image_size = 0x100, entry_point = 0x8040,
     trial_attempt = 0, max_trial_attempts = 3\<rparr>"

definition sample_slots :: "rampart_stage0_stage1_candidate list" where
  "sample_slots = [sample_slot 1 RAMPART_STAGE1_SLOT_CONFIRMED 9, sample_slot 2 RAMPART_STAGE1_SLOT_TRIAL 4,
     sample_slot 3 RAMPART_STAGE1_SLOT_TRIAL 5]"

definition sample_decision :: rampart_stage0_decision where
  "sample_decision = \<lparr>selected_slot_id = 0, decision_entry_point = 0,
     reason = RAMPART_STAGE0_DECISION_CONFIRMED_STAGE1\<rparr>"

lemma sample_selection:
  "rampart_stage0_select_stage1 (Some sample_slots) 3 4 (Some sample_decision) =
     Ret (RAMPART_OK, Some \<lparr>selected_slot_id = 3, decision_entry_point = 0x8040,
       reason = RAMPART_STAGE0_DECISION_TRIAL_STAGE1\<rparr>)"
  by (subst select_decide)
    (simp_all add: sample_slots_def decide_def scan_with_def sample_slot_def sample_decision_def
      candidate_is_eligible_trial_def candidate_has_executable_shape_def
      candidate_is_preferred_def)

section \<open>Properties\<close>

text \<open>What makes a slot start: the requirements of \<^verbatim>\<open>docs/invariants.md\<close> on a candidate.\<close>

definition bootable :: "u32 \<Rightarrow> rampart_stage0_stage1_candidate \<Rightarrow> bool" where
  "bootable e s \<longleftrightarrow> authenticated s \<and> image_base s \<noteq> 0 \<and> image_size s \<noteq> 0 \<and>
     entry_point s \<noteq> 0 \<and> e \<le> slot_security_epoch s"

definition trial_slot :: "u32 \<Rightarrow> rampart_stage0_stage1_candidate \<Rightarrow> bool" where
  "trial_slot e s \<longleftrightarrow> bootable e s \<and> slot_state s = RAMPART_STAGE1_SLOT_TRIAL \<and>
     trial_attempt s < max_trial_attempts s"

definition confirmed_slot :: "u32 \<Rightarrow> rampart_stage0_stage1_candidate \<Rightarrow> bool" where
  "confirmed_slot e s \<longleftrightarrow> bootable e s \<and> slot_state s = RAMPART_STAGE1_SLOT_CONFIRMED"

lemma eligible_iff:
  "candidate_is_eligible_trial e = trial_slot e"
  "candidate_is_eligible_confirmed e = confirmed_slot e"
  by (auto simp: fun_eq_iff candidate_is_eligible_trial_def candidate_is_eligible_confirmed_def
      candidate_has_executable_shape_def trial_slot_def confirmed_slot_def bootable_def)

text \<open>C10: Selecting among the candidates of an array succeeds exactly when one of them may boot: a
  trial slot with attempts left, or else a confirmed slot, in either case authenticated, with an
  image and an entry point, and an epoch not below the minimum. No candidate of the same kind
  has a newer epoch, or the same epoch and a smaller slot number, than the choice. Otherwise
  the decision is left as it was.\<close>

theorem stage0_selects_best:
  assumes "n \<le> length cs"
  shows "case rampart_stage0_select_stage1 (Some cs) n e (Some d) of
      Ret (RAMPART_OK, Some d') \<Rightarrow>
        (\<exists>s \<in> set (take n cs). selected_slot_id d' = slot_id s \<and>
          decision_entry_point d' = entry_point s \<and>
          (if reason d' = RAMPART_STAGE0_DECISION_TRIAL_STAGE1
           then trial_slot e s \<and> (\<forall>x \<in> set (take n cs). trial_slot e x \<longrightarrow> \<not> beats x s)
           else confirmed_slot e s \<and> (\<forall>x \<in> set (take n cs). \<not> trial_slot e x \<and>
             (confirmed_slot e x \<longrightarrow> \<not> beats x s))))
    | Ret (RAMPART_ERR_NO_BOOTABLE_IMAGE, d') \<Rightarrow> d' = Some d \<and>
        (\<forall>x \<in> set (take n cs). \<not> trial_slot e x \<and> \<not> confirmed_slot e x)
    | _ \<Rightarrow> False"
proof (cases "scan_with (trial_slot e) (take n cs) None")
  case (Some s)
  with trial_scan.scan_Some [of e "take n cs" s] show ?thesis
    by (auto simp: select_decide [OF assms] decide_def eligible_iff)
next
  case none: None
  then have no_trial: "\<forall>x \<in> set (take n cs). \<not> trial_slot e x"
    using trial_scan.scan_None [of e "take n cs"] by (simp add: eligible_iff)
  show ?thesis
  proof (cases "scan_with (confirmed_slot e) (take n cs) None")
    case (Some s)
    with none no_trial confirmed_scan.scan_Some [of e "take n cs" s] show ?thesis
      by (auto simp: select_decide [OF assms] decide_def eligible_iff)
  next
    case None
    with none no_trial confirmed_scan.scan_None [of e "take n cs"] show ?thesis
      by (auto simp: select_decide [OF assms] decide_def eligible_iff)
  qed
qed

theorem stage0_selects_best_witness:
  "\<exists>s \<in> set sample_slots. slot_id s = 3 \<and> trial_slot 4 s \<and>
     (\<forall>x \<in> set sample_slots. trial_slot 4 x \<longrightarrow> \<not> beats x s)"
proof -
  have "3 \<le> length sample_slots" by (simp add: sample_slots_def)
  from stage0_selects_best [OF this, of 4 sample_decision] show ?thesis
    unfolding sample_selection by (auto simp: sample_slots_def)
qed

text \<open>C25: Which slot boots does not depend on the order in which the platform lists the candidates,
  as long as their slot numbers differ.\<close>

theorem stage0_order_irrelevant:
  assumes "mset cs = mset cs'" and "distinct (map slot_id cs)"
  shows "rampart_stage0_select_stage1 (Some cs) (length cs) e (Some d) =
    rampart_stage0_select_stage1 (Some cs') (length cs') e (Some d)"
proof -
  have total: "beats x y \<or> beats y x" if "x \<in> set cs" "y \<in> set cs" "x \<noteq> y" for x y
  proof -
    have "slot_id x \<noteq> slot_id y"
      using that assms(2) by (meson distinct_map inj_onD)
    then show ?thesis by (auto simp: beats_def)
  qed
  have "scan_with (candidate_is_eligible_trial e) cs None = scan_with (candidate_is_eligible_trial e) cs' None"
    "scan_with (candidate_is_eligible_confirmed e) cs None = scan_with (candidate_is_eligible_confirmed e) cs' None"
    using total by (auto intro!: trial_scan.scan_mset confirmed_scan.scan_mset assms(1))
  then show ?thesis by (simp add: select_decide decide_def cong: option.case_cong)
qed

theorem stage0_order_irrelevant_witness:
  "rampart_stage0_select_stage1 (Some (rev sample_slots)) 3 4 (Some sample_decision) =
     Ret (RAMPART_OK, Some \<lparr>selected_slot_id = 3, decision_entry_point = 0x8040,
       reason = RAMPART_STAGE0_DECISION_TRIAL_STAGE1\<rparr>)"
  using stage0_order_irrelevant [of sample_slots "rev sample_slots" 4 sample_decision]
    sample_selection
  by (simp add: sample_slots_def sample_slot_def numeral_3_eq_3)

end
