(* ===== verification/CBinary.thy ===== *)
theory CBinary
  imports CCore Text
begin

text \<open>
  The byte-level helpers of the device code, \<^verbatim>\<open>core/src/binary.c\<close>, and the target
  check, \<^verbatim>\<open>core/src/target.c\<close>. An out parameter that the callers always point at a local
  variable is the result. \<open>size_max\<close> is \<^verbatim>\<open>SIZE_MAX\<close>, which the platform decides. The
  lemmas say what each helper computes on an object with at least the length it is given,
  and so that it does not read outside of it.
\<close>

section \<open>Comparisons\<close>

text \<open>The loops, over the indices that are left.\<close>

fun equal_from :: "bytes \<Rightarrow> bytes \<Rightarrow> nat list \<Rightarrow> bool c" where
  "equal_from left right [] = Ret True"
| "equal_from left right (i # is) =
     c_then (c_index left i) (\<lambda>a.
     c_then (c_index right i) (\<lambda>b.
     if a \<noteq> b then Ret False else equal_from left right is))"

definition rampart_binary_bytes_equal :: "bytes option \<Rightarrow> bytes option \<Rightarrow> nat \<Rightarrow> bool c" where
  "rampart_binary_bytes_equal left right len =
     (case (left, right) of
        (Some l, Some r) \<Rightarrow> equal_from l r [0..<len]
      | _ \<Rightarrow> Ret False)"

fun match_from :: "bytes \<Rightarrow> string \<Rightarrow> nat list \<Rightarrow> bool c" where
  "match_from left right [] = Ret True"
| "match_from left right (i # is) =
     c_then (c_index left i) (\<lambda>a.
     c_then (c_index right i) (\<lambda>b.
     if a \<noteq> of_char b then Ret False else match_from left right is))"

definition rampart_binary_bytes_match :: "bytes option \<Rightarrow> string option \<Rightarrow> nat \<Rightarrow> bool c" where
  "rampart_binary_bytes_match left right len =
     (case (left, right) of
        (Some l, Some r) \<Rightarrow> match_from l r [0..<len]
      | _ \<Rightarrow> Ret False)"

fun zeroes_from :: "bytes \<Rightarrow> nat list \<Rightarrow> bool c" where
  "zeroes_from bs [] = Ret True"
| "zeroes_from bs (i # is) =
     c_then (c_index bs i) (\<lambda>b. if b \<noteq> 0 then Ret False else zeroes_from bs is)"

definition rampart_binary_all_zeroes :: "bytes option \<Rightarrow> nat \<Rightarrow> bool c" where
  "rampart_binary_all_zeroes bs len =
     (case bs of None \<Rightarrow> Ret False | Some p \<Rightarrow> zeroes_from p [0..<len])"

section \<open>Ranges and sizes\<close>

definition rampart_binary_range_available :: "nat \<Rightarrow> nat \<Rightarrow> nat \<Rightarrow> bool" where
  "rampart_binary_range_available offset len total_len =
     (if offset > total_len then False
      else if len > total_len - offset then False
      else True)"

definition rampart_binary_checked_add_size :: "nat \<Rightarrow> nat \<Rightarrow> nat \<Rightarrow> nat c" where
  "rampart_binary_checked_add_size size_max left right =
     (if right > size_max - left then Stop RAMPART_ERR_OVERFLOW else Ret (left + right))"

section \<open>Reads\<close>

definition rampart_binary_read_u16_le :: "bytes option \<Rightarrow> nat \<Rightarrow> nat \<Rightarrow> u16 c" where
  "rampart_binary_read_u16_le bs len offset =
     (case bs of
        None \<Rightarrow> Stop RAMPART_ERR_INVALID_ARGUMENT
      | Some p \<Rightarrow>
          if \<not> rampart_binary_range_available offset 2 len then Stop RAMPART_ERR_BOUNDS
          else c_then (c_index p offset) (\<lambda>b0.
               c_then (c_index p (offset + 1)) (\<lambda>b1.
               Ret (u16_from_le b0 b1))))"

definition rampart_binary_read_u32_le :: "bytes option \<Rightarrow> nat \<Rightarrow> nat \<Rightarrow> u32 c" where
  "rampart_binary_read_u32_le bs len offset =
     (case bs of
        None \<Rightarrow> Stop RAMPART_ERR_INVALID_ARGUMENT
      | Some p \<Rightarrow>
          if \<not> rampart_binary_range_available offset 4 len then Stop RAMPART_ERR_BOUNDS
          else c_then (c_index p offset) (\<lambda>b0.
               c_then (c_index p (offset + 1)) (\<lambda>b1.
               c_then (c_index p (offset + 2)) (\<lambda>b2.
               c_then (c_index p (offset + 3)) (\<lambda>b3.
               Ret (u32_from_le b0 b1 b2 b3))))))"

section \<open>The device target\<close>

record rampart_target_id =
  tid_vendor_id :: u32
  tid_product_id :: u32
  tid_hardware_family :: u32
  tid_component_id :: u32

definition rampart_target_matches :: "rampart_target_id option \<Rightarrow> rampart_target_id option \<Rightarrow> bool" where
  "rampart_target_matches artifact_target device_target =
     (case (artifact_target, device_target) of
        (Some a, Some d) \<Rightarrow>
          tid_vendor_id a = tid_vendor_id d \<and> tid_product_id a = tid_product_id d \<and>
          tid_hardware_family a = tid_hardware_family d \<and>
          tid_component_id a = tid_component_id d
      | _ \<Rightarrow> False)"

definition rampart_target_validate_binding ::
  "rampart_target_id option \<Rightarrow> rampart_target_id option \<Rightarrow> rampart_status" where
  "rampart_target_validate_binding artifact_target device_target =
     (if artifact_target = None \<or> device_target = None then RAMPART_ERR_INVALID_ARGUMENT
      else if \<not> rampart_target_matches artifact_target device_target
      then RAMPART_ERR_TARGET_MISMATCH
      else RAMPART_OK)"

section \<open>What the helpers compute\<close>

lemma equal_from_eq:
  "\<forall>i \<in> set is. i < length l \<and> i < length r \<Longrightarrow>
     equal_from l r is = Ret (\<forall>i \<in> set is. l ! i = r ! i)"
  by (induction "is") (auto simp: c_index_def)

lemma match_from_eq:
  "\<forall>i \<in> set is. i < length l \<and> i < length s \<Longrightarrow>
     match_from l s is = Ret (\<forall>i \<in> set is. l ! i = of_char (s ! i))"
  by (induction "is") (auto simp: c_index_def)

lemma zeroes_from_eq:
  "\<forall>i \<in> set is. i < length l \<Longrightarrow> zeroes_from l is = Ret (\<forall>i \<in> set is. l ! i = 0)"
  by (induction "is") (auto simp: c_index_def)

lemma take_eq_iff:
  assumes "n \<le> length xs" and "n \<le> length ys"
  shows "take n xs = take n ys \<longleftrightarrow> (\<forall>i \<in> set [0..<n]. xs ! i = ys ! i)"
proof
  assume eq: "take n xs = take n ys"
  have "xs ! i = ys ! i" if "i < n" for i
    using arg_cong [OF eq, of "\<lambda>zs. zs ! i"] that by simp
  then show "\<forall>i \<in> set [0..<n]. xs ! i = ys ! i" by simp
qed (use assms in \<open>auto intro: nth_take_lemma\<close>)

lemma bytes_equal_eq [ret_iff]:
  "n \<le> length l \<Longrightarrow> n \<le> length r \<Longrightarrow>
     rampart_binary_bytes_equal (Some l) (Some r) n = Ret (take n l = take n r)"
  by (simp add: rampart_binary_bytes_equal_def take_eq_iff equal_from_eq)

lemma bytes_match_eq [ret_iff]:
  "n \<le> length l \<Longrightarrow> n = length s \<Longrightarrow>
     rampart_binary_bytes_match (Some l) (Some s) n = Ret (seg 0 n l = as_bytes s)"
  using take_eq_iff [of n l "as_bytes s"]
  by (simp add: rampart_binary_bytes_match_def match_from_eq seg_def as_bytes_def)

lemma all_zeroes_eq [ret_iff]:
  "n \<le> length l \<Longrightarrow> rampart_binary_all_zeroes (Some l) n = Ret (seg 0 n l = replicate n 0)"
  using take_eq_iff [of n l "replicate n 0"]
  by (simp add: rampart_binary_all_zeroes_def zeroes_from_eq seg_def)

lemma range_available_iff [simp]:
  "rampart_binary_range_available offset len total_len \<longleftrightarrow> offset + len \<le> total_len"
  by (auto simp: rampart_binary_range_available_def)

lemma checked_add_size_iff [ret_iff]:
  "left \<le> size_max \<Longrightarrow> rampart_binary_checked_add_size size_max left right = Ret n \<longleftrightarrow>
     left + right \<le> size_max \<and> n = left + right"
  by (auto simp: rampart_binary_checked_add_size_def)

lemma checked_add_size_Ret:
  "rampart_binary_checked_add_size size_max left right = Ret n \<longleftrightarrow>
     right \<le> size_max - left \<and> n = left + right"
  by (auto simp: rampart_binary_checked_add_size_def)

lemma checked_add_no_fault [simp]: "rampart_binary_checked_add_size size_max left right \<noteq> Fault"
  by (simp add: rampart_binary_checked_add_size_def)

lemma seg_drop [simp]: "seg i n (drop j xs) = seg (i + j) n xs"
  by (simp add: seg_def)

lemma read_u16_iff [ret_iff]:
  "len \<le> length p \<Longrightarrow> rampart_binary_read_u16_le (Some p) len off = Ret v \<longleftrightarrow>
     off + 2 \<le> len \<and> seg off 2 p = u16_to_le v"
proof -
  assume len: "len \<le> length p"
  show ?thesis
  proof (cases "off + 2 \<le> len")
    case True
    then have s: "seg off 2 p = [p ! off, p ! (off + 1)]"
      using len list_eq_2 [of "seg off 2 p"] by simp
    have "u16_from_le a b = v \<longleftrightarrow> [a, b] = u16_to_le v" for a b
      by (metis le_inject(1) u16_to_from_le)
    then show ?thesis
      using True len by (auto simp: rampart_binary_read_u16_le_def c_index_def s)
  qed (simp add: rampart_binary_read_u16_le_def)
qed

lemma read_u32_iff [ret_iff]:
  "len \<le> length p \<Longrightarrow> rampart_binary_read_u32_le (Some p) len off = Ret v \<longleftrightarrow>
     off + 4 \<le> len \<and> seg off 4 p = u32_to_le v"
proof -
  assume len: "len \<le> length p"
  show ?thesis
  proof (cases "off + 4 \<le> len")
    case True
    then have s: "seg off 4 p = [p ! off, p ! (off + 1), p ! (off + 2), p ! (off + 3)]"
      using len list_eq_4 [of "seg off 4 p"] by simp
    have "u32_from_le a b x y = v \<longleftrightarrow> [a, b, x, y] = u32_to_le v" for a b x y
      by (metis le_inject(2) u32_to_from_le)
    then show ?thesis
      using True len by (auto simp: rampart_binary_read_u32_le_def c_index_def s)
  qed (simp add: rampart_binary_read_u32_le_def)
qed

text \<open>The memory accesses of the reads are those of the range they have checked.\<close>

lemma reads_no_fault [simp]:
  "len \<le> length p \<Longrightarrow> rampart_binary_read_u16_le (Some p) len off \<noteq> Fault"
  "len \<le> length p \<Longrightarrow> rampart_binary_read_u32_le (Some p) len off \<noteq> Fault"
  by (auto simp: rampart_binary_read_u16_le_def rampart_binary_read_u32_le_def c_index_def
      split: if_splits)

lemma target_validate_iff:
  "rampart_target_validate_binding (Some a) (Some d) =
     (if a = d then RAMPART_OK else RAMPART_ERR_TARGET_MISMATCH)"
  by (cases a; cases d) (auto simp: rampart_target_validate_binding_def rampart_target_matches_def)

end
