(* ===== verification/DeviceManifest.thy ===== *)
theory DeviceManifest
  imports CBinary
begin

text \<open>
  The manifest parser of the device, \<^verbatim>\<open>core/src/manifest.c\<close>. The view it fills keeps
  pointers into the buffer; a pointer is the rest of the buffer from there. The view is
  returned once every check has passed, as the code stores its local copy at the end.
\<close>

definition valid_key_role :: "u16 \<Rightarrow> bool" where
  "valid_key_role role \<longleftrightarrow>
     role = 1 \<or> role = 2 \<or> role = 3 \<or> role = 4 \<or> role = 5 \<or> role = 6"

definition valid_rollback_policy :: "u16 \<Rightarrow> bool" where
  "valid_rollback_policy policy \<longleftrightarrow> policy = 0 \<or> policy = 1"

record rampart_manifest_view =
  mv_format_version :: u32
  mv_artifact_id :: bytes
  mv_artifact_id_len :: nat
  mv_target :: rampart_target_id
  mv_hardware_revision_min :: u32
  mv_hardware_revision_max :: u32
  mv_security_epoch :: u32
  mv_version_major :: u16
  mv_version_minor :: u16
  mv_version_patch :: u16
  mv_digest_algorithm :: u16
  mv_payload_size :: u32
  mv_payload_digest :: "bytes option"
  mv_payload_digest_len :: nat
  mv_signature_algorithm :: u16
  mv_required_key_role :: u16
  mv_signature_threshold :: u16
  mv_signature_count :: u16
  mv_key_id :: "bytes option"
  mv_key_id_len :: nat
  mv_trial_max_attempts :: u16
  mv_trial_probation_ms :: u32
  mv_rollback_policy :: u16
  mv_requirement_count :: u16
  mv_dependency_count :: u16
  mv_health_required_count :: u16

definition rampart_manifest_parse_v1 :: "nat \<Rightarrow> bytes option \<Rightarrow> nat \<Rightarrow> rampart_manifest_view c" where
  "rampart_manifest_parse_v1 size_max bs len =
     (case bs of
        None \<Rightarrow> Stop RAMPART_ERR_INVALID_ARGUMENT
      | Some p \<Rightarrow>
      if len < 128 then Stop RAMPART_ERR_MANIFEST_FORMAT
      else
      c_then (rampart_binary_bytes_match bs (Some ''RPMFST01'') 8) (\<lambda>magic.
      if \<not> magic then Stop RAMPART_ERR_MANIFEST_FORMAT
      else
      c_then (rampart_binary_read_u32_le bs len 12) (\<lambda>manifest_size.
      if unat manifest_size \<noteq> len then Stop RAMPART_ERR_MANIFEST_FORMAT
      else
      c_then (rampart_binary_read_u16_le bs len 8) (\<lambda>format_version.
      if format_version \<noteq> 1 then Stop RAMPART_ERR_MANIFEST_FORMAT
      else
      c_then (rampart_binary_read_u16_le bs len 10) (\<lambda>header_size.
      if header_size \<noteq> 128 then Stop RAMPART_ERR_MANIFEST_FORMAT
      else
      c_then (rampart_binary_read_u32_le bs len 16) (\<lambda>vendor.
      c_then (rampart_binary_read_u32_le bs len 20) (\<lambda>product.
      c_then (rampart_binary_read_u32_le bs len 24) (\<lambda>family.
      c_then (rampart_binary_read_u32_le bs len 28) (\<lambda>rev_min.
      c_then (rampart_binary_read_u32_le bs len 32) (\<lambda>rev_max.
      if rev_min > rev_max then Stop RAMPART_ERR_MANIFEST_FORMAT
      else
      c_then (rampart_binary_read_u32_le bs len 36) (\<lambda>component.
      c_then (rampart_binary_read_u32_le bs len 40) (\<lambda>epoch.
      c_then (rampart_binary_read_u16_le bs len 44) (\<lambda>major.
      c_then (rampart_binary_read_u16_le bs len 46) (\<lambda>minor.
      c_then (rampart_binary_read_u16_le bs len 48) (\<lambda>patch.
      c_then (rampart_binary_read_u16_le bs len 50) (\<lambda>digest_algorithm.
      if digest_algorithm \<noteq> 1 then Stop RAMPART_ERR_MANIFEST_FORMAT
      else
      c_then (rampart_binary_read_u32_le bs len 52) (\<lambda>payload_len.
      c_then (c_offset p 56) (\<lambda>digest.
      c_then (rampart_binary_read_u16_le bs len 88) (\<lambda>signature_algorithm.
      if signature_algorithm \<noteq> 1 then Stop RAMPART_ERR_MANIFEST_FORMAT
      else
      c_then (rampart_binary_read_u16_le bs len 90) (\<lambda>role.
      if \<not> valid_key_role role then Stop RAMPART_ERR_MANIFEST_FORMAT
      else
      c_then (rampart_binary_read_u16_le bs len 92) (\<lambda>threshold.
      c_then (rampart_binary_read_u16_le bs len 94) (\<lambda>sig_count.
      if threshold \<noteq> 1 \<or> sig_count \<noteq> 1 then Stop RAMPART_ERR_MANIFEST_FORMAT
      else
      c_then (c_offset p 96) (\<lambda>kid.
      c_then (rampart_binary_read_u16_le bs len 104) (\<lambda>attempts.
      c_then (rampart_binary_read_u16_le bs len 106) (\<lambda>rollback.
      if \<not> valid_rollback_policy rollback then Stop RAMPART_ERR_MANIFEST_FORMAT
      else
      c_then (rampart_binary_read_u32_le bs len 108) (\<lambda>probation.
      c_then (rampart_binary_read_u16_le bs len 112) (\<lambda>artifact_id_len.
      if artifact_id_len = 0 \<or> artifact_id_len > 128 then Stop RAMPART_ERR_MANIFEST_FORMAT
      else
      c_then (rampart_binary_checked_add_size size_max 128 (unat artifact_id_len))
        (\<lambda>artifact_id_end.
      let padding_len = (4 - (artifact_id_end mod 4)) mod 4 in
      c_then (rampart_binary_checked_add_size size_max artifact_id_end padding_len)
        (\<lambda>canonical_manifest_size.
      if canonical_manifest_size \<noteq> len then Stop RAMPART_ERR_MANIFEST_FORMAT
      else
      c_then (c_offset p 128) (\<lambda>id.
      c_then (rampart_binary_read_u16_le bs len 114) (\<lambda>requirements.
      c_then (rampart_binary_read_u16_le bs len 116) (\<lambda>dependencies.
      c_then (rampart_binary_read_u16_le bs len 118) (\<lambda>health.
      if requirements \<noteq> 0 \<or> dependencies \<noteq> 0 \<or> health \<noteq> 0
      then Stop RAMPART_ERR_MANIFEST_FORMAT
      else
      c_then (c_offset p 120) (\<lambda>reserved.
      c_then (rampart_binary_all_zeroes (Some reserved) (128 - 120)) (\<lambda>zero.
      if \<not> zero then Stop RAMPART_ERR_MANIFEST_FORMAT
      else
      c_then (c_offset p artifact_id_end) (\<lambda>padding.
      c_then (rampart_binary_all_zeroes (Some padding) (len - artifact_id_end)) (\<lambda>zero.
      if \<not> zero then Stop RAMPART_ERR_MANIFEST_FORMAT
      else
      Ret \<lparr>mv_format_version = ucast format_version,
           mv_artifact_id = id,
           mv_artifact_id_len = unat artifact_id_len,
           mv_target = \<lparr>tid_vendor_id = vendor, tid_product_id = product,
             tid_hardware_family = family, tid_component_id = component\<rparr>,
           mv_hardware_revision_min = rev_min,
           mv_hardware_revision_max = rev_max,
           mv_security_epoch = epoch,
           mv_version_major = major,
           mv_version_minor = minor,
           mv_version_patch = patch,
           mv_digest_algorithm = digest_algorithm,
           mv_payload_size = payload_len,
           mv_payload_digest = Some digest,
           mv_payload_digest_len = 32,
           mv_signature_algorithm = signature_algorithm,
           mv_required_key_role = role,
           mv_signature_threshold = threshold,
           mv_signature_count = sig_count,
           mv_key_id = Some kid,
           mv_key_id_len = 8,
           mv_trial_max_attempts = attempts,
           mv_trial_probation_ms = probation,
           mv_rollback_policy = rollback,
           mv_requirement_count = requirements,
           mv_dependency_count = dependencies,
           mv_health_required_count = health\<rparr>)))))))))))))))))))))))))))))))))))))"

definition rampart_manifest_validate_basic ::
  "rampart_manifest_view option \<Rightarrow> rampart_target_id option \<Rightarrow> u32 \<Rightarrow> rampart_status" where
  "rampart_manifest_validate_basic manifest device_target minimum_security_epoch =
     (case (manifest, device_target) of
        (Some m, Some _) \<Rightarrow>
          if mv_format_version m \<noteq> 1 then RAMPART_ERR_MANIFEST_FORMAT
          else if mv_digest_algorithm m \<noteq> 1 then RAMPART_ERR_MANIFEST_FORMAT
          else if mv_signature_algorithm m \<noteq> 1 then RAMPART_ERR_MANIFEST_FORMAT
          else
            (let target_status = rampart_target_validate_binding (Some (mv_target m)) device_target
             in if target_status \<noteq> RAMPART_OK then target_status
             else if mv_security_epoch m < minimum_security_epoch then RAMPART_ERR_SECURITY_EPOCH
             else if mv_payload_size m = 0 then RAMPART_ERR_MANIFEST_FORMAT
             else if mv_payload_digest m = None \<or> mv_payload_digest_len m \<noteq> 32
             then RAMPART_ERR_MANIFEST_FORMAT
             else RAMPART_OK)
      | _ \<Rightarrow> RAMPART_ERR_INVALID_ARGUMENT)"

end
