(* ===== verification/DeviceImage.thy ===== *)
theory DeviceImage
  imports DeviceManifest
begin

text \<open>
  The image parser of the device, \<^verbatim>\<open>core/src/image.c\<close>. The out parameters of the
  functions are the addresses of objects; what is stored in them is the result. The tests of
  such addresses, and of \<^verbatim>\<open>&parsed.manifest\<close>, for \<^verbatim>\<open>NULL\<close> are left out. \<^verbatim>\<open>(size_t)\<close> of a
  \<^verbatim>\<open>uint32_t\<close> is \<open>unat\<close>: where \<^verbatim>\<open>SIZE_MAX\<close> is below \<open>2 ^ 32 - 1\<close> the code would truncate.
\<close>

section \<open>Required values\<close>

definition require_u16_c :: "bytes option \<Rightarrow> nat \<Rightarrow> nat \<Rightarrow> u16 \<Rightarrow> unit c" where
  "require_u16_c bs len offset expected =
     c_then (rampart_binary_read_u16_le bs len offset) (\<lambda>actual.
     if actual \<noteq> expected then Stop RAMPART_ERR_IMAGE_FORMAT else Ret ())"

definition require_u32_c :: "bytes option \<Rightarrow> nat \<Rightarrow> nat \<Rightarrow> u32 \<Rightarrow> unit c" where
  "require_u32_c bs len offset expected =
     c_then (rampart_binary_read_u32_le bs len offset) (\<lambda>actual.
     if actual \<noteq> expected then Stop RAMPART_ERR_IMAGE_FORMAT else Ret ())"

section \<open>The signature section\<close>

record rampart_signature_view =
  sv_key_id :: bytes
  sv_key_id_len :: nat
  sv_signature_algorithm :: u16
  sv_signature :: bytes
  sv_signature_len :: nat
  sv_public_key :: bytes
  sv_public_key_len :: nat

definition validate_signature_section ::
  "bytes option \<Rightarrow> nat \<Rightarrow> nat \<Rightarrow> nat \<Rightarrow> rampart_manifest_view \<Rightarrow> rampart_signature_view c" where
  "validate_signature_section bs len signed_region_offset signed_region_size manifest =
     (let record_offset = 32; record_padding_offset = record_offset + 145 in
      case bs of
        None \<Rightarrow> Stop RAMPART_ERR_INVALID_ARGUMENT
      | Some p \<Rightarrow>
      if len \<noteq> 192 then Stop RAMPART_ERR_IMAGE_FORMAT
      else
      c_then (rampart_binary_bytes_match bs (Some ''RPSIGN01'') 8) (\<lambda>magic.
      if \<not> magic then Stop RAMPART_ERR_IMAGE_FORMAT
      else
      c_then (require_u16_c bs len 8 1) (\<lambda>_.
      c_then (require_u16_c bs len 10 32) (\<lambda>_.
      c_then (require_u32_c bs len 12 192) (\<lambda>_.
      c_then (require_u32_c bs len 16 (of_nat signed_region_offset)) (\<lambda>_.
      c_then (require_u32_c bs len 20 (of_nat signed_region_size)) (\<lambda>_.
      c_then (require_u16_c bs len 24 1) (\<lambda>_.
      c_then (require_u16_c bs len 26 1) (\<lambda>_.
      c_then (require_u16_c bs len 28 160) (\<lambda>_.
      c_then (require_u16_c bs len 30 0) (\<lambda>_.
      c_then (c_offset p record_offset) (\<lambda>kid.
      c_then (rampart_binary_bytes_equal (Some kid) (mv_key_id manifest) 8) (\<lambda>same.
      if \<not> same then Stop RAMPART_ERR_IMAGE_FORMAT
      else
      c_then (require_u16_c bs len (record_offset + 8) 1) (\<lambda>_.
      c_then (require_u16_c bs len (record_offset + 10) 1) (\<lambda>_.
      c_then (require_u16_c bs len (record_offset + 12) 64) (\<lambda>_.
      c_then (require_u16_c bs len (record_offset + 14) 65) (\<lambda>_.
      c_then (c_offset p (record_offset + 16)) (\<lambda>sig_bytes.
      c_then (c_offset p (record_offset + 80)) (\<lambda>public_key.
      c_then (c_index public_key 0) (\<lambda>tag.
      if tag \<noteq> 0x04 then Stop RAMPART_ERR_IMAGE_FORMAT
      else
      c_then (c_offset p record_padding_offset) (\<lambda>padding.
      c_then (rampart_binary_all_zeroes (Some padding) (len - record_padding_offset)) (\<lambda>zero.
      if \<not> zero then Stop RAMPART_ERR_IMAGE_FORMAT
      else
      Ret \<lparr>sv_key_id = kid, sv_key_id_len = 8, sv_signature_algorithm = 1,
           sv_signature = sig_bytes, sv_signature_len = 64,
           sv_public_key = public_key, sv_public_key_len = 65\<rparr>))))))))))))))))))))))"

section \<open>The image\<close>

record rampart_image_view =
  iv_bytes :: bytes
  iv_len :: nat
  iv_manifest_offset :: nat
  iv_manifest_size :: nat
  iv_payload_offset :: nat
  iv_payload_size :: nat
  iv_signature_offset :: nat
  iv_signature_size :: nat
  iv_signed_region_offset :: nat
  iv_signed_region_size :: nat
  iv_manifest :: rampart_manifest_view
  iv_signature :: rampart_signature_view

definition rampart_image_parse :: "nat \<Rightarrow> bytes option \<Rightarrow> nat \<Rightarrow> rampart_image_view c" where
  "rampart_image_parse size_max bs len =
     (case bs of
        None \<Rightarrow> Stop RAMPART_ERR_INVALID_ARGUMENT
      | Some p \<Rightarrow>
      if len < 64 then Stop RAMPART_ERR_IMAGE_FORMAT
      else
      c_then (rampart_binary_bytes_match bs (Some ''RMPIMG01'') 8) (\<lambda>magic.
      if \<not> magic then Stop RAMPART_ERR_IMAGE_FORMAT
      else
      c_then (rampart_binary_read_u16_le bs len 8) (\<lambda>image_version.
      c_then (rampart_binary_read_u16_le bs len 10) (\<lambda>image_kind.
      c_then (rampart_binary_read_u16_le bs len 12) (\<lambda>header_size.
      c_then (rampart_binary_read_u16_le bs len 14) (\<lambda>flags.
      if image_version \<noteq> 1 \<or> image_kind \<noteq> 1 \<or> header_size \<noteq> 64 \<or> flags \<noteq> 0
      then Stop RAMPART_ERR_IMAGE_FORMAT
      else
      c_then (rampart_binary_read_u32_le bs len 16) (\<lambda>manifest_offset_u32.
      c_then (rampart_binary_read_u32_le bs len 20) (\<lambda>manifest_size_u32.
      c_then (rampart_binary_read_u32_le bs len 24) (\<lambda>payload_offset_u32.
      c_then (rampart_binary_read_u32_le bs len 28) (\<lambda>payload_size_u32.
      c_then (rampart_binary_read_u32_le bs len 32) (\<lambda>signature_offset_u32.
      c_then (rampart_binary_read_u32_le bs len 36) (\<lambda>signature_size_u32.
      c_then (rampart_binary_read_u32_le bs len 40) (\<lambda>signed_region_offset_u32.
      c_then (rampart_binary_read_u32_le bs len 44) (\<lambda>signed_region_size_u32.
      c_then (c_offset p 48) (\<lambda>reserved.
      c_then (rampart_binary_all_zeroes (Some reserved) (64 - 48)) (\<lambda>zero.
      if \<not> zero then Stop RAMPART_ERR_IMAGE_FORMAT
      else
      let manifest_offset = unat manifest_offset_u32; manifest_size = unat manifest_size_u32;
          payload_offset = unat payload_offset_u32; payload_size = unat payload_size_u32;
          signature_offset = unat signature_offset_u32; signature_size = unat signature_size_u32;
          signed_region_offset = unat signed_region_offset_u32;
          signed_region_size = unat signed_region_size_u32 in
      if manifest_offset \<noteq> 64 then Stop RAMPART_ERR_IMAGE_FORMAT
      else
      c_then (rampart_binary_checked_add_size size_max manifest_offset manifest_size)
        (\<lambda>expected_payload_offset.
      if payload_offset \<noteq> expected_payload_offset then Stop RAMPART_ERR_IMAGE_FORMAT
      else
      c_then (rampart_binary_checked_add_size size_max payload_offset payload_size)
        (\<lambda>expected_signature_offset.
      if signature_offset \<noteq> expected_signature_offset then Stop RAMPART_ERR_IMAGE_FORMAT
      else
      c_then (rampart_binary_checked_add_size size_max signature_offset signature_size)
        (\<lambda>expected_file_len.
      if expected_file_len \<noteq> len then Stop RAMPART_ERR_IMAGE_FORMAT
      else if signed_region_offset \<noteq> manifest_offset then Stop RAMPART_ERR_IMAGE_FORMAT
      else
      c_then (rampart_binary_checked_add_size size_max manifest_size payload_size)
        (\<lambda>expected_signed_region_size.
      if signed_region_size \<noteq> expected_signed_region_size then Stop RAMPART_ERR_IMAGE_FORMAT
      else if \<not> rampart_binary_range_available manifest_offset manifest_size len \<or>
              \<not> rampart_binary_range_available payload_offset payload_size len \<or>
              \<not> rampart_binary_range_available signature_offset signature_size len \<or>
              \<not> rampart_binary_range_available signed_region_offset signed_region_size len
      then Stop RAMPART_ERR_IMAGE_FORMAT
      else
      c_then (c_offset p manifest_offset) (\<lambda>manifest_bytes.
      c_then (rampart_manifest_parse_v1 size_max (Some manifest_bytes) manifest_size) (\<lambda>manifest.
      if unat (mv_payload_size manifest) \<noteq> payload_size then Stop RAMPART_ERR_IMAGE_FORMAT
      else
      c_then (c_offset p signature_offset) (\<lambda>signature_bytes.
      c_then (validate_signature_section (Some signature_bytes) signature_size
        signed_region_offset signed_region_size manifest) (\<lambda>signature.
      Ret \<lparr>iv_bytes = p, iv_len = len,
           iv_manifest_offset = manifest_offset, iv_manifest_size = manifest_size,
           iv_payload_offset = payload_offset, iv_payload_size = payload_size,
           iv_signature_offset = signature_offset, iv_signature_size = signature_size,
           iv_signed_region_offset = signed_region_offset,
           iv_signed_region_size = signed_region_size,
           iv_manifest = manifest, iv_signature = signature\<rparr>))))))))))))))))))))))))"

end
