(* ===== verification/DeviceRefinement.thy ===== *)
theory DeviceRefinement
  imports DeviceImage Image
begin

text \<open>
  The two implementations of the image format. \<open>abs_manifest\<close> and \<open>abs_image\<close> read a view of
  the device as a value of the host tool; the parsers of the device are proved to accept
  the layouts of the host's encoders, and to agree with the parsers of the host up to the
  checks only the host makes (UTF-8, the public key and its identifier).
\<close>

section \<open>Two readers of one format\<close>

text \<open>
  The contract of a refinement between two parsers. Both accept the encodings \<open>enc a\<close> of
  abstract contents \<open>a\<close>: the host those with \<open>host_wf\<close>, from a list of bytes; the device
  those with \<open>device_wf\<close>, from a buffer \<open>b\<close> whose bytes are \<open>content b\<close>. \<open>checked\<close> is what only
  the host tests, \<open>abs\<close> reads a view of the device as a value of the host, and \<open>ok\<close> collects the
  preconditions on a buffer.
\<close>

locale reader_refinement =
  fixes ok :: "'b \<Rightarrow> bool" and content :: "'b \<Rightarrow> bytes"
    and host :: "bytes \<Rightarrow> 'h \<Rightarrow> bool" and device :: "'b \<Rightarrow> 'd \<Rightarrow> bool"
    and host_wf :: "'a \<Rightarrow> bool" and device_wf :: "'a \<Rightarrow> bool" and enc :: "'a \<Rightarrow> bytes"
    and host_view :: "'a \<Rightarrow> 'h" and device_view :: "'b \<Rightarrow> 'a \<Rightarrow> 'd"
    and abs :: "'d \<Rightarrow> 'h" and checked :: "'h \<Rightarrow> bool"
  assumes host_exact: "host bs h \<longleftrightarrow> (\<exists>a. host_wf a \<and> bs = enc a \<and> h = host_view a)"
    and device_exact: "ok b \<Longrightarrow>
      device b d \<longleftrightarrow> (\<exists>a. device_wf a \<and> content b = enc a \<and> d = device_view b a)"
    and wf_iff: "ok b \<Longrightarrow> host_wf a \<longleftrightarrow> device_wf a \<and> checked (host_view a)"
    and abs_view: "ok b \<Longrightarrow> device_wf a \<Longrightarrow> content b = enc a \<Longrightarrow>
      abs (device_view b a) = host_view a"
begin

lemma agree:
  assumes "ok b"
  shows "host (content b) h \<longleftrightarrow> (\<exists>d. device b d \<and> h = abs d \<and> checked h)"
proof
  assume "host (content b) h"
  then obtain a where a: "host_wf a" "content b = enc a" "h = host_view a"
    unfolding host_exact by blast
  have wf: "device_wf a" "checked h" using wf_iff [OF assms] a(1,3) by simp_all
  have "device b (device_view b a)"
    unfolding device_exact [OF assms] using wf(1) a(2) by blast
  moreover have "h = abs (device_view b a)"
    using abs_view [OF assms wf(1) a(2)] a(3) by simp
  ultimately show "\<exists>d. device b d \<and> h = abs d \<and> checked h" using wf(2) by blast
next
  assume "\<exists>d. device b d \<and> h = abs d \<and> checked h"
  then obtain a where a: "device_wf a" "content b = enc a" "h = abs (device_view b a)" "checked h"
    unfolding device_exact [OF assms] by blast
  have h: "h = host_view a" using abs_view [OF assms a(1,2)] a(3) by simp
  have "host_wf a" using wf_iff [OF assms] a(1,4) by (simp add: h)
  then show "host (content b) h" unfolding host_exact using a(2) h by blast
qed

lemma host_implies_device:
  assumes "ok b" and "host (content b) h"
  shows "\<exists>d. device b d \<and> abs d = h"
  using assms(2) unfolding agree [OF assms(1)] by auto

end

text \<open>A buffer the device may be given: \<open>len\<close> bytes from \<open>p\<close> on, on a platform with \<open>size_max\<close>.\<close>

definition buffer_ok :: "nat \<Rightarrow> bytes \<times> nat \<Rightarrow> bool" where
  "buffer_ok size_max b \<longleftrightarrow> snd b \<le> length (fst b) \<and> snd b \<le> size_max \<and> 2 ^ 32 - 1 \<le> size_max"

definition buffer_bytes :: "bytes \<times> nat \<Rightarrow> bytes" where
  "buffer_bytes b = take (snd b) (fst b)"

section \<open>The manifest\<close>


definition abs_manifest :: "rampart_manifest_view \<Rightarrow> rampart_manifest" where
  "abs_manifest v = \<lparr>
     artifact_id = map byte_char (take (mv_artifact_id_len v) (mv_artifact_id v)),
     vendor_id = tid_vendor_id (mv_target v),
     product_id = tid_product_id (mv_target v),
     hardware_family = tid_hardware_family (mv_target v),
     hardware_revision_min = mv_hardware_revision_min v,
     hardware_revision_max = mv_hardware_revision_max v,
     component_id = tid_component_id (mv_target v),
     security_epoch = mv_security_epoch v,
     version_major = mv_version_major v,
     version_minor = mv_version_minor v,
     version_patch = mv_version_patch v,
     payload_size = mv_payload_size v,
     payload_digest = take 32 (the (mv_payload_digest v)),
     signature_role = mv_required_key_role v,
     signature_threshold = mv_signature_threshold v,
     signature_count = mv_signature_count v,
     key_id = take 8 (the (mv_key_id v)),
     trial_max_attempts = mv_trial_max_attempts v,
     trial_probation_ms = mv_trial_probation_ms v,
     rollback_policy = mv_rollback_policy v,
     requirement_count = mv_requirement_count v,
     dependency_count = mv_dependency_count v,
     health_required_count = mv_health_required_count v\<rparr>"

definition manifest_view_of :: "bytes \<Rightarrow> rampart_manifest \<Rightarrow> rampart_manifest_view" where
  "manifest_view_of p m = \<lparr>mv_format_version = 1, mv_artifact_id = drop 128 p,
     mv_artifact_id_len = length (artifact_id m),
     mv_target = \<lparr>tid_vendor_id = vendor_id m, tid_product_id = product_id m,
       tid_hardware_family = hardware_family m, tid_component_id = component_id m\<rparr>,
     mv_hardware_revision_min = hardware_revision_min m,
     mv_hardware_revision_max = hardware_revision_max m,
     mv_security_epoch = security_epoch m,
     mv_version_major = version_major m,
     mv_version_minor = version_minor m,
     mv_version_patch = version_patch m,
     mv_digest_algorithm = 1,
     mv_payload_size = payload_size m,
     mv_payload_digest = Some (drop 56 p),
     mv_payload_digest_len = 32,
     mv_signature_algorithm = 1,
     mv_required_key_role = signature_role m,
     mv_signature_threshold = signature_threshold m,
     mv_signature_count = signature_count m,
     mv_key_id = Some (drop 96 p),
     mv_key_id_len = 8,
     mv_trial_max_attempts = trial_max_attempts m,
     mv_trial_probation_ms = trial_probation_ms m,
     mv_rollback_policy = rollback_policy m,
     mv_requirement_count = requirement_count m,
     mv_dependency_count = dependency_count m,
     mv_health_required_count = health_required_count m\<rparr>"

definition manifest_sized :: "rampart_manifest \<Rightarrow> bool" where
  "manifest_sized m \<longleftrightarrow> length (payload_digest m) = 32 \<and> length (key_id m) = 8"

lemma role_tables_agree:
  "valid_key_role r \<longleftrightarrow> is_known_role r" "valid_rollback_policy b \<longleftrightarrow> is_known_rollback_policy b"
  by (simp_all add: valid_key_role_def is_known_role_def role_codes valid_rollback_policy_def
      is_known_rollback_policy_def rollback_codes)

lemma c_manifest_lengths:
  assumes "rampart_manifest_parse_v1 size_max (Some p) len = Ret v" and "len \<le> length p"
    and "2 ^ 32 - 1 \<le> size_max"
  shows "\<exists>n s. 128 \<le> len \<and> seg 112 2 p = u16_to_le n \<and> 0 < unat n \<and> unat n \<le> 128 \<and>
    len = 128 + unat n + pad_len (unat n) \<and> seg 12 4 p = u32_to_le s \<and> unat s = len \<and>
    seg (128 + unat n) (pad_len (unat n)) p = replicate (pad_len (unat n)) 0 \<and>
    mv_artifact_id_len v = unat n \<and> mv_artifact_id v = drop 128 p"
proof -
  have len: "128 \<le> len"
    using assms(1) by (simp add: rampart_manifest_parse_v1_def not_less split: if_splits)
  have sm: "128 \<le> size_max" using assms(3) by simp
  from assms(1,2) len sm show ?thesis
    by (clarsimp simp: rampart_manifest_parse_v1_def ret_iff Let_def not_less
        word_le_nat_alt word_less_nat_alt pad_len_128_unfold unat_gt_0)
qed


lemma take_drop_seg: "take n (drop i xs) = seg i n xs"
  by (simp add: seg_def)

lemma c_manifest_sound:
  assumes "rampart_manifest_parse_v1 size_max (Some p) len = Ret v" and "len \<le> length p"
    and "2 ^ 32 - 1 \<le> size_max"
  shows "manifest_sized (abs_manifest v) \<and> manifest_valid (abs_manifest v) \<and>
    take len p = manifest_layout (abs_manifest v) \<and> v = manifest_view_of p (abs_manifest v)"
proof -
  obtain n s where n: "128 \<le> len" "seg 112 2 p = u16_to_le n" "0 < unat n" "unat n \<le> 128"
    and len: "len = 128 + unat n + pad_len (unat n)" "seg 12 4 p = u32_to_le s" "unat s = len"
    and pad: "seg (128 + unat n) (pad_len (unat n)) p = replicate (pad_len (unat n)) 0"
    and v: "mv_artifact_id_len v = unat n" "mv_artifact_id v = drop 128 p"
    using c_manifest_lengths [OF assms] by blast
  define m where "m = abs_manifest v"
  have id: "artifact_id m = map byte_char (seg 128 (unat n) p)"
    by (simp add: m_def abs_manifest_def v seg_def)
  have idl: "length (artifact_id m) = unat n"
    using len(1) assms(2) by (simp add: id)
  have size: "manifest_size_of m = len"
    by (simp add: manifest_size_of_def idl len(1))
  have sm: "128 \<le> size_max" using assms(3) by simp
  have sz: "seg 12 4 p = u32_to_le (of_nat len)"
    by (simp add: len(2) flip: len(3))
  have "mv_format_version v = 1 \<and> mv_digest_algorithm v = 1 \<and>
    mv_payload_digest v = Some (drop 56 p) \<and> mv_payload_digest_len v = 32 \<and>
    mv_signature_algorithm v = 1 \<and> mv_key_id v = Some (drop 96 p) \<and> mv_key_id_len v = 8"
    using assms(1,2) n(1) sm
    by (clarsimp simp: rampart_manifest_parse_v1_def ret_iff Let_def not_less)
  then have v_fields: "mv_format_version v = 1" "mv_digest_algorithm v = 1"
    "mv_payload_digest v = Some (drop 56 p)" "mv_payload_digest_len v = 32"
    "mv_signature_algorithm v = 1" "mv_key_id v = Some (drop 96 p)" "mv_key_id_len v = 8"
    by simp_all
  have "manifest_valid m"
    using assms(1,2) n idl sm unfolding manifest_valid_def
    by (clarsimp simp: rampart_manifest_parse_v1_def ret_iff Let_def not_less manifest_sizes
        m_def abs_manifest_def role_tables_agree pad_len_128_unfold)
  moreover have fixed: "length (payload_digest m) = 32" "length (key_id m) = 8"
    using assms(2) n(1) by (auto simp: m_def abs_manifest_def v_fields)
  moreover have "take len p = manifest_layout m"
    unfolding manifest_layout_iff [OF fixed] size idl
    using assms(1,2) n len(1) sz pad sm
    by (clarsimp simp: rampart_manifest_parse_v1_def ret_iff Let_def not_less seg_take
        m_def abs_manifest_def pad_len_128_unfold MANIFEST_MAGIC_def take_drop_seg
        simp del: of_nat_add)
  moreover have "v = manifest_view_of p m"
  proof (rule rampart_manifest_view.equality)
    show "mv_artifact_id_len v = mv_artifact_id_len (manifest_view_of p m)"
      by (simp only: manifest_view_of_def rampart_manifest_view.simps idl v(1))
    show "mv_target v = mv_target (manifest_view_of p m)"
      by (simp add: manifest_view_of_def m_def abs_manifest_def)
  qed (simp_all add: manifest_view_of_def m_def abs_manifest_def v v_fields)
  ultimately show ?thesis unfolding m_def manifest_sized_def by blast
qed


lemma c_manifest_complete:
  assumes "manifest_sized m" and "manifest_valid m" and "take len p = manifest_layout m"
    and "len \<le> length p" and "2 ^ 32 - 1 \<le> size_max"
  shows "rampart_manifest_parse_v1 size_max (Some p) len = Ret (manifest_view_of p m)"
proof -
  have fixed: "length (payload_digest m) = 32" "length (key_id m) = 8"
    using assms(1) by (simp_all add: manifest_sized_def)
  note table = assms(3) [unfolded manifest_layout_iff [OF fixed]]
  have len: "len = manifest_size_of m" using table assms(4) by simp
  have idl: "length (artifact_id m) \<le> 128" "artifact_id m \<noteq> []"
    using assms(2) by (auto simp: manifest_valid_def manifest_sizes)
  have nid: "unat (of_nat (length (artifact_id m)) :: u16) = length (artifact_id m)"
    using idl(1) by (simp add: unat_of_nat_u16)
  then have wid: "(of_nat (length (artifact_id m)) :: u16) \<noteq> 0"
    "(of_nat (length (artifact_id m)) :: u16) \<le> 128"
    using idl by (auto simp: word_le_nat_alt)
  have sz: "128 \<le> manifest_size_of m" "manifest_size_of m \<le> 259"
    using idl(1) pad_len_le [of "length (artifact_id m)"] by (simp_all add: manifest_size_of_def)
  then have nsz: "unat (of_nat (manifest_size_of m) :: u32) = manifest_size_of m"
    by (intro unat_of_nat_u32) simp
  show ?thesis
    using table idl nid wid nsz sz assms(2,4,5) len unfolding manifest_size_of_def
    by (cases m) (clarsimp simp: rampart_manifest_parse_v1_def ret_iff Let_def manifest_sizes
        not_less not_le manifest_valid_def pad_len_128_unfold seg_take MANIFEST_MAGIC_def
        role_tables_agree manifest_view_of_def ex_bool_eq simp del: of_nat_add)
qed


lemma c_manifest_iff:
  assumes "len \<le> length p" and "2 ^ 32 - 1 \<le> size_max"
  shows "rampart_manifest_parse_v1 size_max (Some p) len = Ret v \<longleftrightarrow>
    (\<exists>m. manifest_sized m \<and> manifest_valid m \<and> take len p = manifest_layout m \<and>
       v = manifest_view_of p m)"
  using c_manifest_sound [OF _ assms] c_manifest_complete [OF _ _ _ assms] by metis

lemma length_manifest_layout_sized:
  assumes "manifest_sized m"
  shows "length (manifest_layout m) = manifest_size_of m"
  using assms manifest_layout_iff [of m "manifest_layout m"] by (simp add: manifest_sized_def)

lemma manifest_typed_iff: "manifest_typed m \<longleftrightarrow> manifest_sized m \<and> valid_str (artifact_id m)"
  by (auto simp: manifest_typed_def manifest_sized_def)

lemma abs_manifest_view_of:
  assumes "manifest_sized m" and "seg 56 32 p = payload_digest m" and "seg 96 8 p = key_id m"
    and "seg 128 (length (artifact_id m)) p = as_bytes (artifact_id m)"
  shows "abs_manifest (manifest_view_of p m) = m"
  using assms by (cases m) (simp add: abs_manifest_def manifest_view_of_def take_drop_seg)

lemma abs_manifest_view_of':
  assumes "manifest_sized m" and "take len p = manifest_layout m" and "len \<le> length p"
  shows "abs_manifest (manifest_view_of p m) = m"
proof (rule abs_manifest_view_of [OF assms(1)])
  have fixed: "length (payload_digest m) = 32" "length (key_id m) = 8"
    using assms(1) by (simp_all add: manifest_sized_def)
  note table = assms(2) [unfolded manifest_layout_iff [OF fixed]]
  have "len = manifest_size_of m" using table assms(3) by simp
  then have "128 + length (artifact_id m) \<le> len" by (simp add: manifest_size_of_def)
  then show "seg 56 32 p = payload_digest m" "seg 96 8 p = key_id m"
    "seg 128 (length (artifact_id m)) p = as_bytes (artifact_id m)"
    using table by (simp_all add: seg_take)
qed

interpretation manifest_readers:
  reader_refinement "buffer_ok size_max" buffer_bytes "\<lambda>bs m. parse_manifest bs = Ok m"
    "\<lambda>b v. rampart_manifest_parse_v1 size_max (Some (fst b)) (snd b) = Ret v"
    "\<lambda>m. manifest_typed m \<and> manifest_valid m" "\<lambda>m. manifest_sized m \<and> manifest_valid m"
    manifest_layout "\<lambda>m. m" "\<lambda>b. manifest_view_of (fst b)" abs_manifest
    "\<lambda>m. valid_str (artifact_id m)"
  by unfold_locales
    (auto simp: parse_manifest_iff manifest_typed_iff c_manifest_iff buffer_ok_def buffer_bytes_def
      intro: abs_manifest_view_of')

lemma require_iff [ret_iff]:
  "len \<le> length p \<Longrightarrow> require_u16_c (Some p) len off x = Ret u \<longleftrightarrow>
     off + 2 \<le> len \<and> seg off 2 p = u16_to_le x"
  "len \<le> length p \<Longrightarrow> require_u32_c (Some p) len off y = Ret u \<longleftrightarrow>
     off + 4 \<le> len \<and> seg off 4 p = u32_to_le y"
  by (auto simp: require_u16_c_def require_u32_c_def ret_iff)

definition signature_view_of :: "bytes \<Rightarrow> rampart_signature_view" where
  "signature_view_of p = \<lparr>sv_key_id = drop 32 p, sv_key_id_len = 8, sv_signature_algorithm = 1,
     sv_signature = drop 48 p, sv_signature_len = 64,
     sv_public_key = drop 112 p, sv_public_key_len = 65\<rparr>"

definition abs_signature :: "rampart_signature_view \<Rightarrow> signature_record" where
  "abs_signature s = \<lparr>s_key_id = take 8 (sv_key_id s), s_signature = take 64 (sv_signature s),
     s_public_key = take 65 (sv_public_key s)\<rparr>"

lemma signature_layout_iff:
  assumes "signature_typed r"
  shows "bs = signature_layout r i n \<longleftrightarrow>
    length bs = 192 \<and> seg 0 8 bs = SIGNATURE_MAGIC \<and> seg 8 2 bs = u16_to_le 1 \<and>
    seg 10 2 bs = u16_to_le 32 \<and> seg 12 4 bs = u32_to_le 192 \<and>
    seg 16 4 bs = u32_to_le (of_nat i) \<and> seg 20 4 bs = u32_to_le (of_nat n) \<and>
    seg 24 2 bs = u16_to_le 1 \<and> seg 26 2 bs = u16_to_le 1 \<and> seg 28 2 bs = u16_to_le 160 \<and>
    seg 30 2 bs = u16_to_le 0 \<and> seg 32 8 bs = s_key_id r \<and> seg 40 2 bs = u16_to_le 1 \<and>
    seg 42 2 bs = u16_to_le 1 \<and> seg 44 2 bs = u16_to_le 64 \<and> seg 46 2 bs = u16_to_le 65 \<and>
    seg 48 64 bs = s_signature r \<and> seg 112 65 bs = s_public_key r \<and>
    seg 177 15 bs = replicate 15 0"
  using assms by (simp add: signature_layout_def layout_iff signature_typed_def del: concat.simps)

lemma c_signature_iff:
  assumes "192 \<le> length p" and "mv_key_id v = Some k" and "8 \<le> length k"
  shows "validate_signature_section (Some p) 192 i n v = Ret s \<longleftrightarrow>
    (\<exists>r. signature_typed r \<and> s_key_id r = take 8 k \<and> s_public_key r ! 0 = 4 \<and>
       take 192 p = signature_layout r i n \<and> s = signature_view_of p)"
proof
  let ?r = "abs_signature (signature_view_of p)"
  assume "validate_signature_section (Some p) 192 i n v = Ret s"
  then have "signature_typed ?r \<and> s_key_id ?r = take 8 k \<and> s_public_key ?r ! 0 = 4 \<and>
       take 192 p = signature_layout ?r i n \<and> s = signature_view_of p"
    using assms
    by (clarsimp simp: validate_signature_section_def ret_iff Let_def signature_typed_def
      abs_signature_def signature_view_of_def signature_layout_iff seg_take take_drop_seg
      SIGNATURE_MAGIC_def)
  then show "\<exists>r. signature_typed r \<and> s_key_id r = take 8 k \<and> s_public_key r ! 0 = 4 \<and>
       take 192 p = signature_layout r i n \<and> s = signature_view_of p" by blast
next
  assume "\<exists>r. signature_typed r \<and> s_key_id r = take 8 k \<and> s_public_key r ! 0 = 4 \<and>
       take 192 p = signature_layout r i n \<and> s = signature_view_of p"
  then obtain r where r: "signature_typed r" "s_key_id r = take 8 k" "s_public_key r ! 0 = 4"
    "take 192 p = signature_layout r i n" "s = signature_view_of p" by blast
  note table = r(4) [unfolded signature_layout_iff [OF r(1)]]
  have key: "seg 112 65 p = s_public_key r" using table by (simp add: seg_take)
  have "p ! 112 = seg 112 65 p ! 0" using assms(1) by simp
  also have "\<dots> = 4" unfolding key by (rule r(3))
  finally show "validate_signature_section (Some p) 192 i n v = Ret s"
    using assms table r(2,5)
    by (clarsimp simp: validate_signature_section_def ret_iff Let_def
      signature_view_of_def seg_take take_drop_seg SIGNATURE_MAGIC_def ex_bool_eq)
qed

section \<open>The image\<close>

definition device_wf :: "rampart_manifest \<Rightarrow> bytes \<Rightarrow> signature_record \<Rightarrow> bool" where
  "device_wf m payload r \<longleftrightarrow>
     manifest_sized m \<and> manifest_valid m \<and> unat (payload_size m) = length payload \<and>
     64 + region_size m payload < 2 ^ 32 \<and>
     signature_typed r \<and> s_key_id r = key_id m \<and> s_public_key r ! 0 = 4"

definition image_view_of :: "bytes \<Rightarrow> rampart_manifest \<Rightarrow> bytes \<Rightarrow> rampart_image_view" where
  "image_view_of p m payload =
     (let po = 64 + manifest_size_of m; so = po + length payload in
      \<lparr>iv_bytes = p, iv_len = so + 192, iv_manifest_offset = 64,
       iv_manifest_size = manifest_size_of m, iv_payload_offset = po,
       iv_payload_size = length payload, iv_signature_offset = so, iv_signature_size = 192,
       iv_signed_region_offset = 64, iv_signed_region_size = region_size m payload,
       iv_manifest = manifest_view_of (drop 64 p) m,
       iv_signature = signature_view_of (drop so p)\<rparr>)"

lemma c_signature_len:
  "validate_signature_section (Some p) len i n v = Ret s \<Longrightarrow> len = 192"
  by (simp add: validate_signature_section_def Let_def split: if_splits)

lemma c_image_header:
  assumes "rampart_image_parse size_max (Some p) len = Ret v"
    and "len \<le> length p" and "len \<le> size_max" and "2 ^ 32 - 1 \<le> size_max"
  obtains mf payload sigs where
    "take len p = image_layout mf payload sigs"
    "64 + length mf + length payload < 2 ^ 32"
    "rampart_manifest_parse_v1 size_max (Some (drop 64 p)) (length mf) = Ret (iv_manifest v)"
    "unat (mv_payload_size (iv_manifest v)) = length payload"
    "validate_signature_section (Some (drop (64 + length mf + length payload) p)) (length sigs) 64
       (length mf + length payload) (iv_manifest v) = Ret (iv_signature v)"
    "iv_bytes v = p" "iv_len v = len" "iv_manifest_offset v = 64" "iv_manifest_size v = length mf"
    "iv_payload_offset v = 64 + length mf" "iv_payload_size v = length payload"
    "iv_signature_offset v = 64 + length mf + length payload" "iv_signature_size v = length sigs"
    "iv_signed_region_offset v = 64" "iv_signed_region_size v = length mf + length payload"
proof -
  have len: "64 \<le> len"
    using assms by (simp add: rampart_image_parse_def not_less split: if_splits)
  from assms len obtain x1 x2 x3 x4 x5 x6 x7 x8
    where segs: "seg 0 8 p = IMAGE_MAGIC" "seg 8 2 p = u16_to_le 1" "seg 10 2 p = u16_to_le 1"
      "seg 12 2 p = u16_to_le 64" "seg 14 2 p = u16_to_le 0" "seg 16 4 p = u32_to_le x1"
      "seg 20 4 p = u32_to_le x2" "seg 24 4 p = u32_to_le x3" "seg 28 4 p = u32_to_le x4"
      "seg 32 4 p = u32_to_le x5" "seg 36 4 p = u32_to_le x6" "seg 40 4 p = u32_to_le x7"
      "seg 44 4 p = u32_to_le x8" "seg 48 16 p = replicate 16 0"
    and offs: "unat x1 = 64" "unat x3 = 64 + unat x2" "unat x5 = unat x3 + unat x4"
      "len = unat x5 + unat x6" "unat x7 = 64" "unat x8 = unat x2 + unat x4"
    and m: "rampart_manifest_parse_v1 size_max (Some (drop 64 p)) (unat x2) = Ret (iv_manifest v)"
      "unat (mv_payload_size (iv_manifest v)) = unat x4"
      "validate_signature_section (Some (drop (unat x5) p)) (unat x6) 64 (unat x8) (iv_manifest v)
         = Ret (iv_signature v)"
    and view: "iv_bytes v = p" "iv_len v = len" "iv_manifest_offset v = 64"
      "iv_manifest_size v = unat x2" "iv_payload_offset v = unat x3" "iv_payload_size v = unat x4"
      "iv_signature_offset v = unat x5" "iv_signature_size v = unat x6"
      "iv_signed_region_offset v = 64" "iv_signed_region_size v = unat x8"
    by (clarsimp simp: rampart_image_parse_def ret_iff Let_def IMAGE_MAGIC_def)
  define mf where "mf = seg 64 (unat x2) p"
  define payload where "payload = seg (unat x3) (unat x4) p"
  define sigs where "sigs = seg (unat x5) (unat x6) p"
  have lens: "length mf = unat x2" "length payload = unat x4" "length sigs = unat x6"
    using offs assms(2) by (simp_all add: mf_def payload_def sigs_def)
  have words: "x1 = 64" "x2 = of_nat (length mf)" "x3 = of_nat (64 + length mf)"
    "x4 = of_nat (length payload)" "x5 = of_nat (64 + length mf + length payload)"
    "x6 = of_nat (length sigs)" "x7 = 64" "x8 = of_nat (length mf + length payload)"
    using offs(1-3,5,6) [THEN eq_of_nat] lens offs by simp_all
  have parts: "seg 64 (length mf) p = mf" "seg (64 + length mf) (length payload) p = payload"
    "seg (64 + (length mf + length payload)) (length sigs) p = sigs"
    "len = 64 + (length mf + (length payload + length sigs))"
    using offs by (simp_all add: lens) (simp_all add: mf_def payload_def sigs_def add.assoc)
  show thesis
  proof
    show "take len p = image_layout mf payload sigs"
      unfolding image_layout_def Let_def layout_iff
      using assms(2) len
      by (simp add: segs words parts seg_take add.assoc del: concat.simps)
    show "64 + length mf + length payload < 2 ^ 32"
      using offs unat_u32_less [of x5] by (simp add: lens)
  qed (use m view offs in \<open>simp_all add: lens add.assoc\<close>)
qed


lemma image_layout_parts:
  assumes "bs = image_layout mf payload sigs"
  shows "seg 64 (length mf) bs = mf"
    "seg (64 + length mf + length payload) (length sigs) bs = sigs"
  using assms unfolding image_layout_def Let_def layout_iff by (simp_all add: add.assoc)

lemma layout_key_id:
  assumes "manifest_sized m" and "take n p = manifest_layout m"
  shows "take 8 (drop 96 p) = key_id m"
proof -
  have "128 \<le> length (take n p)"
    by (simp only: assms length_manifest_layout_sized) (simp add: manifest_size_of_def)
  then have "take 8 (drop 96 p) = seg 96 8 (take n p)"
    by (simp add: seg_take take_drop_seg)
  also have "\<dots> = key_id m"
    using assms manifest_layout_iff [of m "take n p"] by (simp add: manifest_sized_def)
  finally show ?thesis .
qed

lemma c_image_sound:
  assumes "rampart_image_parse size_max (Some p) len = Ret v"
    and "len \<le> length p" and "len \<le> size_max" and "2 ^ 32 - 1 \<le> size_max"
  obtains m payload r where
    "device_wf m payload r" "take len p = image_bytes m payload r" "v = image_view_of p m payload"
proof -
  obtain mf payload sigs where h: "take len p = image_layout mf payload sigs"
    "64 + length mf + length payload < 2 ^ 32"
    "rampart_manifest_parse_v1 size_max (Some (drop 64 p)) (length mf) = Ret (iv_manifest v)"
    "unat (mv_payload_size (iv_manifest v)) = length payload"
    "validate_signature_section (Some (drop (64 + length mf + length payload) p)) (length sigs) 64
       (length mf + length payload) (iv_manifest v) = Ret (iv_signature v)"
    and view: "iv_bytes v = p" "iv_len v = len" "iv_manifest_offset v = 64"
    "iv_manifest_size v = length mf" "iv_payload_offset v = 64 + length mf"
    "iv_payload_size v = length payload" "iv_signature_offset v = 64 + length mf + length payload"
    "iv_signature_size v = length sigs" "iv_signed_region_offset v = 64"
    "iv_signed_region_size v = length mf + length payload"
    using c_image_header [OF assms] by blast
  have len: "len = 64 + length mf + length payload + length sigs"
    using arg_cong [OF h(1), of length] assms(2) by (simp add: length_image_layout)
  have parts: "take (length mf) (drop 64 p) = mf"
    "take (length sigs) (drop (64 + length mf + length payload) p) = sigs"
    using image_layout_parts [OF h(1)] len by (simp_all add: seg_take take_drop_seg)
  have sigs: "length sigs = 192" using h(5) by (rule c_signature_len)
  have big: "128 \<le> length mf"
    using h(3) by (simp add: rampart_manifest_parse_v1_def not_less split: if_splits)
  have room: "length mf \<le> length (drop 64 p)" "8 \<le> length (drop 160 p)"
    "192 \<le> length (drop (64 + length mf + length payload) p)"
    using assms(2) len big sigs by simp_all
  obtain m where m: "manifest_sized m" "manifest_valid m" "mf = manifest_layout m"
    "iv_manifest v = manifest_view_of (drop 64 p) m"
    using iffD1 [OF c_manifest_iff [OF room(1) assms(4)] h(3)] unfolding parts(1) by blast
  have mf: "length mf = manifest_size_of m" by (simp add: m length_manifest_layout_sized)
  have kid: "mv_key_id (iv_manifest v) = Some (drop 160 p)" by (simp add: m(4) manifest_view_of_def)
  have key: "take 8 (drop 160 p) = key_id m"
    using layout_key_id [OF m(1) parts(1) [unfolded m(3)]] by simp
  obtain r where r: "signature_typed r" "s_key_id r = key_id m" "s_public_key r ! 0 = 4"
    "sigs = signature_layout r 64 (region_size m payload)"
    "iv_signature v = signature_view_of (drop (64 + length mf + length payload) p)"
    using iffD1 [OF c_signature_iff [OF room(3) kid room(2)] h(5) [unfolded sigs]]
    unfolding parts(2) [unfolded sigs] key by (auto simp: region_size_def mf)
  show thesis
  proof
    show "device_wf m payload r"
      using m(1,2) r(1-3) h(2) [unfolded mf] h(4) [unfolded m(4)]
      by (simp add: device_wf_def region_size_def manifest_view_of_def)
    show "take len p = image_bytes m payload r"
      by (simp only: image_bytes_def h(1) m(3) r(4))
    show "v = image_view_of p m payload"
      by (rule rampart_image_view.equality)
        (simp_all add: image_view_of_def Let_def view m(4) r(5) mf sigs len region_size_def)
  qed
qed


lemma c_image_complete:
  assumes "device_wf m payload r" and "take len p = image_bytes m payload r"
    and "len \<le> length p" and "len \<le> size_max" and "2 ^ 32 - 1 \<le> size_max"
  shows "rampart_image_parse size_max (Some p) len = Ret (image_view_of p m payload)"
proof -
  let ?mf = "manifest_layout m"
  let ?sigs = "signature_layout r 64 (region_size m payload)"
  let ?so = "64 + manifest_size_of m + length payload"
  have wf: "manifest_sized m" "manifest_valid m" "unat (payload_size m) = length payload"
    "64 + region_size m payload < 2 ^ 32" "signature_typed r" "s_key_id r = key_id m"
    "s_public_key r ! 0 = 4"
    using assms(1) by (simp_all add: device_wf_def)
  have mf: "length ?mf = manifest_size_of m" and sigs: "length ?sigs = 192"
    using wf by (simp_all add: length_manifest_layout_sized length_signature_layout)
  have img: "take len p = image_layout ?mf payload ?sigs"
    using assms(2) by (simp add: image_bytes_def)
  have len: "len = ?so + 192"
    using arg_cong [OF img, of length] assms(3) by (simp add: length_image_layout mf sigs)
  note table = img [unfolded image_layout_def Let_def layout_iff mf sigs]
  have parts: "take (manifest_size_of m) (drop 64 p) = ?mf" "take 192 (drop ?so p) = ?sigs"
    using image_layout_parts [OF img] len by (simp_all add: mf sigs seg_take take_drop_seg)
  have m: "rampart_manifest_parse_v1 size_max (Some (drop 64 p)) (manifest_size_of m) =
      Ret (manifest_view_of (drop 64 p) m)"
    using wf assms(3,5) len parts(1) by (intro c_manifest_complete) auto
  have key: "take 8 (drop 96 (drop 64 p)) = key_id m"
    using layout_key_id [OF wf(1) parts(1)] by simp
  have s: "validate_signature_section (Some (drop ?so p)) 192 64 (region_size m payload)
      (manifest_view_of (drop 64 p) m) = Ret (signature_view_of (drop ?so p))"
    using assms(3) len wf key parts(2)
    by (intro iffD2 [OF c_signature_iff [where k = "drop 96 (drop 64 p)"]])
      (auto simp: manifest_view_of_def)
  have small: "manifest_size_of m + length payload < 4294967232"
    using wf(4) by (simp add: region_size_def)
  then have words: "unat (of_nat (manifest_size_of m) :: u32) = manifest_size_of m"
    "unat (of_nat (length payload) :: u32) = length payload"
    "unat (of_nat (64 + manifest_size_of m) :: u32) = 64 + manifest_size_of m"
    "unat (of_nat (64 + (manifest_size_of m + length payload)) :: u32) =
       64 + (manifest_size_of m + length payload)"
    "unat (of_nat (manifest_size_of m + length payload) :: u32) =
       manifest_size_of m + length payload"
    by (intro unat_of_nat_u32; simp)+
  have size: "mv_payload_size (manifest_view_of (drop 64 p) m) = payload_size m"
    by (simp add: manifest_view_of_def)
  show ?thesis
    using table small words m s [unfolded region_size_def] wf(3) assms(3,4) len size
    by (clarsimp simp: rampart_image_parse_def ret_iff Let_def seg_take image_view_of_def
        region_size_def IMAGE_MAGIC_def [symmetric] ex_bool_eq add.assoc simp del: of_nat_add concat.simps)
qed


lemma c_image_iff:
  assumes "len \<le> length p" and "len \<le> size_max" and "2 ^ 32 - 1 \<le> size_max"
  shows "rampart_image_parse size_max (Some p) len = Ret v \<longleftrightarrow>
    (\<exists>m payload r. device_wf m payload r \<and> take len p = image_bytes m payload r \<and>
       v = image_view_of p m payload)"
  using c_image_sound [OF _ assms] c_image_complete [OF _ _ assms] by metis

definition abs_image :: "rampart_image_view \<Rightarrow> parsed_image" where
  "abs_image v = \<lparr>manifest = abs_manifest (iv_manifest v),
     manifest_range = (iv_manifest_offset v, iv_manifest_offset v + iv_manifest_size v),
     payload_range = (iv_payload_offset v, iv_payload_offset v + iv_payload_size v),
     signature_range = (iv_signature_offset v, iv_signature_offset v + iv_signature_size v),
     signed_region_range = (iv_signed_region_offset v,
       iv_signed_region_offset v + iv_signed_region_size v),
     signature = abs_signature (iv_signature v)\<rparr>"

lemma image_wf_iff:
  assumes "sec1_law P"
  shows "image_wf P m payload r \<longleftrightarrow>
    device_wf m payload r \<and> valid_str (artifact_id m) \<and> key_bound P r"
  using assms
  by (auto simp: image_wf_def device_wf_def manifest_typed_iff key_bound_def signature_typed_def
      sec1_law_def split: option.splits)

lemma abs_signature_view_of:
  assumes "signature_typed r" and "take 192 q = signature_layout r i n"
  shows "abs_signature (signature_view_of q) = r"
  using assms
  by (cases r) (simp add: abs_signature_def signature_view_of_def signature_layout_iff
      take_drop_seg seg_take)

lemma abs_image_view_of:
  assumes "device_wf m payload r" and "take len p = image_bytes m payload r" and "len \<le> length p"
  shows "abs_image (image_view_of p m payload) = image_view m payload r"
proof -
  let ?so = "64 + manifest_size_of m + length payload"
  have wf: "manifest_sized m" "signature_typed r" using assms(1) by (simp_all add: device_wf_def)
  have mf: "length (manifest_layout m) = manifest_size_of m"
    and sigs: "length (signature_layout r 64 (region_size m payload)) = 192"
    using wf by (simp_all add: length_manifest_layout_sized length_signature_layout)
  note img = assms(2) [unfolded image_bytes_def]
  have len: "len = ?so + 192"
    using arg_cong [OF img, of length] assms(3) by (simp add: length_image_layout mf sigs)
  have parts: "take (manifest_size_of m) (drop 64 p) = manifest_layout m"
    "take 192 (drop ?so p) = signature_layout r 64 (region_size m payload)"
    using image_layout_parts [OF img] len by (simp_all add: mf sigs seg_take take_drop_seg)
  have "abs_manifest (manifest_view_of (drop 64 p) m) = m"
    using assms(3) len by (intro abs_manifest_view_of' [OF wf(1) parts(1)]) simp
  moreover have "abs_signature (signature_view_of (drop ?so p)) = r"
    by (rule abs_signature_view_of [OF wf(2) parts(2)])
  ultimately show ?thesis
    by (simp add: abs_image_def image_view_of_def Image.image_view_def Let_def region_size_def)
qed

interpretation image_readers:
  reader_refinement "\<lambda>b. sec1_law P \<and> buffer_ok size_max b" buffer_bytes
    "\<lambda>bs img. parse_image P bs = Ok img"
    "\<lambda>b v. rampart_image_parse size_max (Some (fst b)) (snd b) = Ret v"
    "\<lambda>(m, payload, r). image_wf P m payload r" "\<lambda>(m, payload, r). device_wf m payload r"
    "\<lambda>(m, payload, r). image_bytes m payload r" "\<lambda>(m, payload, r). image_view m payload r"
    "\<lambda>b (m, payload, r). image_view_of (fst b) m payload" abs_image
    "\<lambda>img. valid_str (artifact_id (manifest img)) \<and> key_bound P (signature img)"
  by unfold_locales
    (auto simp: parse_image_iff c_image_iff image_wf_iff buffer_ok_def buffer_bytes_def
      intro: abs_image_view_of)

section \<open>Memory safety\<close>

lemma c_manifest_no_fault:
  assumes "len \<le> length p"
  shows "rampart_manifest_parse_v1 size_max (Some p) len \<noteq> Fault"
proof (cases "128 \<le> len")
  case True
  then show ?thesis using assms
    by (auto simp: rampart_manifest_parse_v1_def fault_iff ret_iff checked_add_size_Ret Let_def)
qed (simp add: rampart_manifest_parse_v1_def)


lemma c_signature_no_fault:
  assumes "len \<le> length p" and "mv_key_id v = Some k" and "8 \<le> length k"
  shows "validate_signature_section (Some p) len i n v \<noteq> Fault"
proof (cases "len = 192")
  case True
  then show ?thesis using assms
    by (auto simp: validate_signature_section_def require_u16_c_def require_u32_c_def fault_iff ret_iff
        Let_def)
qed (simp add: validate_signature_section_def Let_def)

lemma c_manifest_key:
  assumes "rampart_manifest_parse_v1 size_max (Some p) len = Ret v" and "len \<le> length p"
  shows "\<exists>k. mv_key_id v = Some k \<and> 8 \<le> length k"
  using assms
  by (cases "128 \<le> len")
    (auto simp: rampart_manifest_parse_v1_def ret_iff Let_def checked_add_size_Ret)

lemma c_image_no_fault:
  assumes "len \<le> length p"
  shows "rampart_image_parse size_max (Some p) len \<noteq> Fault"
proof (cases "64 \<le> len")
  case True
  have m: "off + n \<le> length p \<Longrightarrow> rampart_manifest_parse_v1 size_max (Some (drop off p)) n \<noteq> Fault"
    for off n by (rule c_manifest_no_fault) simp
  have s: False
    if f: "validate_signature_section (Some (drop (64 + a + c) p)) e i k v = Fault"
      "64 + a + c + e \<le> length p"
      and r: "rampart_manifest_parse_v1 size_max (Some (drop 64 p)) a = Ret v" for a c e i k v
  proof -
    have "a \<le> length (drop 64 p)" using f(2) by simp
    with c_manifest_key [OF r] obtain kid where "mv_key_id v = Some kid" "8 \<le> length kid"
      by blast
    then show False using f c_signature_no_fault [of e "drop (64 + a + c) p"] by auto
  qed
  show ?thesis using assms True
    by (auto simp: rampart_image_parse_def fault_iff ret_iff Let_def checked_add_size_Ret m
        dest: s)
qed (simp add: rampart_image_parse_def)


section \<open>Properties\<close>

text \<open>C23: The two manifest parsers implement one format: on the same bytes the host returns \<open>m\<close>
  exactly when the device returns a view of \<open>m\<close> and the artifact identifier is UTF-8, which
  only the host tests.\<close>

theorem manifest_parsers_agree:
  assumes "len \<le> length p" and "len \<le> size_max" and "2 ^ 32 - 1 \<le> size_max"
  shows "parse_manifest (take len p) = Ok m \<longleftrightarrow>
    (\<exists>v. rampart_manifest_parse_v1 size_max (Some p) len = Ret v \<and> m = abs_manifest v \<and>
       valid_str (artifact_id m))"
  using manifest_readers.agree [of size_max "(p, len)" m] assms
  by (simp add: buffer_ok_def buffer_bytes_def)

theorem manifest_parsers_agree_witness:
  "\<exists>v. rampart_manifest_parse_v1 (2 ^ 32 - 1)
      (Some (manifest_layout (sample_manifest 3 (replicate 32 9) (replicate 8 1)))) 132 = Ret v \<and>
     sample_manifest 3 (replicate 32 9) (replicate 8 1) = abs_manifest v"
proof -
  let ?m = "sample_manifest 3 (replicate 32 9) (replicate 8 1)"
  have m: "manifest_typed ?m" "manifest_valid ?m" by (rule sample_manifest_ok; simp)+
  have len: "length (manifest_layout ?m) = 132"
    using length_manifest_layout [OF m(1)] by simp
  then have "parse_manifest (take 132 (manifest_layout ?m)) = Ok ?m"
    using parse_manifest_complete [OF m] by simp
  then show ?thesis
    using iffD1 [OF manifest_parsers_agree [of 132 "manifest_layout ?m" "2 ^ 32 - 1" ?m]] len by auto
qed

lemma sample_image_length: "length sample_image = 391"
  using length_image_bytes [OF sample_image_wf]
  by (simp add: sample_image_def sample_image_manifest_def sample_payload_def)

text \<open>C4: The two image parsers implement one format. On a buffer of \<open>len\<close> bytes the host accepts an
  image and returns \<open>img\<close> exactly when the device accepts it with a view of the same manifest,
  sections and signature record, its artifact identifier is UTF-8 and its key identifier belongs
  to the embedded public key; these two checks, which need no trust in the image, are the only
  ones the device leaves to others. The law of the provider says that a 65-byte SEC1 encoding
  is uncompressed.\<close>

theorem image_parsers_agree:
  assumes "sec1_law P" and "len \<le> length p" and "len \<le> size_max" and "2 ^ 32 - 1 \<le> size_max"
  shows "parse_image P (take len p) = Ok img \<longleftrightarrow>
    (\<exists>v. rampart_image_parse size_max (Some p) len = Ret v \<and> img = abs_image v \<and>
       valid_str (artifact_id (manifest img)) \<and> key_bound P (signature img))"
  using image_readers.agree [of P size_max "(p, len)" img] assms
  by (simp add: buffer_ok_def buffer_bytes_def)

theorem image_parsers_agree_witness:
  "\<exists>v. rampart_image_parse (2 ^ 32 - 1) (Some (sample_image @ [0, 0])) (length sample_image) = Ret v \<and>
     abs_image v = image_view sample_image_manifest sample_payload sample_image_record"
  using iffD1 [OF image_parsers_agree [OF sample_sec1_law, of "length sample_image"
      "sample_image @ [0, 0]" "2 ^ 32 - 1"]] sample_parse_image
  by (fastforce simp: sample_image_length)

text \<open>C13: The image parser of the device reads only inside of the buffer it is given: with a length
  that does not exceed the object behind the pointer, whatever the bytes, no read is out of
  bounds. The overflow tests of the code do not matter for this.\<close>

theorem image_parse_memory_safe:
  assumes "\<forall>p. bs = Some p \<longrightarrow> len \<le> length p"
  shows "rampart_image_parse size_max bs len \<noteq> Fault"
  using assms c_image_no_fault by (cases bs) (simp_all add: rampart_image_parse_def)

theorem image_parse_memory_safe_witness:
  "rampart_image_parse (2 ^ 32 - 1) (Some (replicate 100 0xFF)) 64 \<noteq> Fault"
  by (rule image_parse_memory_safe) simp

end
