(* ===== verification/Trust.thy ===== *)
theory Trust
  imports CCore Crypto
begin

text \<open>
  The device's cryptography front end and trust store, \<^verbatim>\<open>core/src/crypto.c\<close> and
  \<^verbatim>\<open>core/src/trust.c\<close>. The provider's callbacks are functions of the message; what they
  leave in the digest buffer is part of their result. A callback may be missing or fail with
  any status: \<open>digest_of p m\<close> is the digest it leaves, if it works on \<open>m\<close>, and \<open>digest_law\<close>
  is the contract of \<^verbatim>\<open>crypto.h\<close>, that a digest it reports as written is complete.
  \<open>store_ok\<close>, \<open>hash_fails\<close> and \<open>may_sign\<close> say what a valid store is, when the check of a
  store stops because the provider failed, and when a record authorizes a request; the
  lemmas show that the loops of the code decide them. The record that \<^verbatim>\<open>rampart_trust_authorize\<close>
  stores through its result pointer, on success only, is its value here.
\<close>

unbundle bit_operations_syntax

section \<open>Cryptography\<close>

record rampart_crypto_provider =
  p_sha256 :: "(bytes \<Rightarrow> rampart_status \<times> bytes) option"
  p_verify :: "(bytes \<Rightarrow> bytes \<Rightarrow> bytes \<Rightarrow> rampart_status) option"

definition copy_sha256_digest :: "bytes \<Rightarrow> bytes \<Rightarrow> bytes c" where
  "copy_sha256_digest destination source =
     (if 32 \<le> length destination \<and> 32 \<le> length source
      then Ret (take 32 source @ drop 32 destination) else Fault)"

text \<open>\<open>pointed p n\<close>: the \<open>n\<close> elements a callback reads through \<open>p\<close>.\<close>

definition pointed :: "'a list option \<Rightarrow> nat \<Rightarrow> 'a list c" where
  "pointed p n = (case p of
       None \<Rightarrow> if n = 0 then Ret [] else Fault
     | Some xs \<Rightarrow> if n \<le> length xs then Ret (take n xs) else Fault)"

definition rampart_crypto_hash ::
  "rampart_crypto_provider option \<Rightarrow> u16 \<Rightarrow> bytes option \<Rightarrow> nat \<Rightarrow> bytes option \<Rightarrow> nat \<Rightarrow>
     (rampart_status \<times> bytes option) c" where
  "rampart_crypto_hash provider algorithm message message_len digest digest_len =
     (case (provider, digest) of
        (Some p, Some d) \<Rightarrow>
          if message = None \<and> message_len \<noteq> 0 then Ret (RAMPART_ERR_INVALID_ARGUMENT, digest)
          else if algorithm \<noteq> 1 then Ret (RAMPART_ERR_UNSUPPORTED_ALGORITHM, digest)
          else if digest_len \<noteq> 32 then Ret (RAMPART_ERR_INVALID_ARGUMENT, digest)
          else (case p_sha256 p of
              None \<Rightarrow> Ret (RAMPART_ERR_CRYPTO_PROVIDER, digest)
            | Some f \<Rightarrow>
                c_then (pointed message message_len) (\<lambda>bs.
                let (status, computed_digest) = f bs in
                if status \<noteq> RAMPART_OK then Ret (RAMPART_ERR_CRYPTO_PROVIDER, digest)
                else c_then (copy_sha256_digest d computed_digest) (\<lambda>d'.
                  Ret (RAMPART_OK, Some d'))))
      | _ \<Rightarrow> Ret (RAMPART_ERR_INVALID_ARGUMENT, digest))"

definition rampart_crypto_verify_signature ::
  "rampart_crypto_provider option \<Rightarrow> u16 \<Rightarrow> bytes option \<Rightarrow> nat \<Rightarrow> bytes option \<Rightarrow> nat \<Rightarrow> bytes option \<Rightarrow> nat \<Rightarrow>
     rampart_status c" where
  "rampart_crypto_verify_signature provider algorithm message message_len public_key
       public_key_len signature signature_len =
     (case (provider, public_key, signature) of
        (Some p, Some _, Some _) \<Rightarrow>
          if message = None \<and> message_len \<noteq> 0 then Ret RAMPART_ERR_INVALID_ARGUMENT
          else if algorithm \<noteq> 1 then Ret RAMPART_ERR_UNSUPPORTED_ALGORITHM
          else if public_key_len \<noteq> 65 \<or> signature_len \<noteq> 64 then Ret RAMPART_ERR_SIGNATURE
          else (case p_verify p of
              None \<Rightarrow> Ret RAMPART_ERR_CRYPTO_PROVIDER
            | Some f \<Rightarrow>
                c_then (pointed message message_len) (\<lambda>m.
                c_then (pointed public_key 65) (\<lambda>k.
                c_then (pointed signature 64) (\<lambda>s.
                let status = f m k s in
                Ret (if status = RAMPART_OK \<or> status = RAMPART_ERR_SIGNATURE \<or>
                        status = RAMPART_ERR_CRYPTO_PROVIDER
                     then status else RAMPART_ERR_CRYPTO_PROVIDER)))))
      | _ \<Rightarrow> Ret RAMPART_ERR_INVALID_ARGUMENT)"

lemma copy_digest_iff [ret_iff]:
  "copy_sha256_digest d x = Ret y \<longleftrightarrow> 32 \<le> length d \<and> 32 \<le> length x \<and> y = take 32 x @ drop 32 d"
  by (auto simp: copy_sha256_digest_def)

lemma pointed_Some_iff: "pointed (Some xs) n = Ret ys \<longleftrightarrow> n \<le> length xs \<and> ys = take n xs"
  by (auto simp: pointed_def)

section \<open>The store\<close>

definition TRUST_ROLES_ALL :: u32 where
  "TRUST_ROLES_ALL =
     push_bit 1 1 OR push_bit 2 1 OR push_bit 3 1 OR push_bit 4 1 OR push_bit 5 1 OR push_bit 6 1"

record rampart_trust_record =
  roles :: u32
  key_epoch :: u32
  algorithm :: u16
  key_status :: u16
  record_key_id :: bytes
  record_public_key :: bytes

record rampart_trust_store =
  records :: "rampart_trust_record list option"
  store_count :: nat

record rampart_trust_request =
  request_key_id :: "bytes option"
  request_key_id_len :: nat
  required_role :: u16
  manifest_role :: u16
  lifecycle :: u16

fun key_ids_equal_from :: "bytes \<Rightarrow> bytes \<Rightarrow> nat list \<Rightarrow> bool c" where
  "key_ids_equal_from left right [] = Ret True"
| "key_ids_equal_from left right (i # is) =
     c_then (c_index left i) (\<lambda>a.
     c_then (c_index right i) (\<lambda>b.
     if a \<noteq> b then Ret False else key_ids_equal_from left right is))"

definition key_ids_equal :: "bytes \<Rightarrow> bytes \<Rightarrow> bool c" where
  "key_ids_equal left right = key_ids_equal_from left right [0..<8]"

definition valid_record_shape :: "rampart_trust_record \<Rightarrow> bool c" where
  "valid_record_shape r =
     (if algorithm r \<noteq> 1 then Ret False
      else c_then (c_index (record_public_key r) 0) (\<lambda>tag.
        Ret (tag = 4 \<and> roles r \<noteq> 0 \<and> roles r AND NOT TRUST_ROLES_ALL = 0 \<and>
          (key_status r = 1 \<or> key_status r = 2 \<or> key_status r = 3 \<or> key_status r = 4))))"

text \<open>The inner loop, over the records before the current one.\<close>

fun no_earlier_id :: "rampart_trust_record list \<Rightarrow> rampart_trust_record \<Rightarrow> nat list \<Rightarrow> unit c" where
  "no_earlier_id rs r [] = Ret ()"
| "no_earlier_id rs r (j # js) =
     c_then (c_index rs j) (\<lambda>earlier.
     c_then (key_ids_equal (record_key_id r) (record_key_id earlier)) (\<lambda>same.
     if same then Stop RAMPART_ERR_TRUST_STORE else no_earlier_id rs r js))"

text \<open>The outer loop; \<open>digest\<close> is the buffer the iterations share.\<close>

fun validate_from :: "rampart_trust_record list \<Rightarrow> rampart_crypto_provider \<Rightarrow> bytes \<Rightarrow> nat list \<Rightarrow> unit c" where
  "validate_from rs p digest [] = Ret ()"
| "validate_from rs p digest (i # is) =
     c_then (c_index rs i) (\<lambda>r.
     c_then (valid_record_shape r) (\<lambda>ok.
     if \<not> ok then Stop RAMPART_ERR_TRUST_STORE
     else
     c_then (rampart_crypto_hash (Some p) 1 (Some (record_public_key r)) 65 (Some digest) 32)
       (\<lambda>(status, digest').
     if status \<noteq> RAMPART_OK then Stop status
     else (case digest' of
         None \<Rightarrow> Fault
       | Some d \<Rightarrow>
           c_then (key_ids_equal (record_key_id r) d) (\<lambda>derived.
           if \<not> derived then Stop RAMPART_ERR_TRUST_STORE
           else c_then (no_earlier_id rs r [0..<i]) (\<lambda>_. validate_from rs p d is))))))"

definition rampart_trust_store_validate :: "rampart_trust_store option \<Rightarrow> rampart_crypto_provider option \<Rightarrow> unit c" where
  "rampart_trust_store_validate store provider =
     (case (store, provider) of
        (Some st, Some p) \<Rightarrow>
          (case records st of
             None \<Rightarrow> Stop RAMPART_ERR_TRUST_STORE
           | Some rs \<Rightarrow>
               if store_count st = 0 \<or> store_count st > 16 then Stop RAMPART_ERR_TRUST_STORE
               else validate_from rs p (replicate 32 0) [0..<store_count st])
      | _ \<Rightarrow> Stop RAMPART_ERR_INVALID_ARGUMENT)"

definition valid_role :: "u16 \<Rightarrow> bool" where
  "valid_role role \<longleftrightarrow> role = 1 \<or> role = 2 \<or> role = 3 \<or> role = 4 \<or> role = 5 \<or> role = 6"

fun find_record :: "rampart_trust_record list \<Rightarrow> bytes \<Rightarrow> nat list \<Rightarrow> rampart_trust_record option c" where
  "find_record rs kid [] = Ret None"
| "find_record rs kid (i # is) =
     c_then (c_index rs i) (\<lambda>r.
     c_then (key_ids_equal (record_key_id r) kid) (\<lambda>same.
     if same then Ret (Some r) else find_record rs kid is))"

definition rampart_trust_authorize ::
  "rampart_trust_store option \<Rightarrow> rampart_crypto_provider option \<Rightarrow> rampart_trust_request option \<Rightarrow> bool \<Rightarrow> rampart_trust_record c" where
  "rampart_trust_authorize store provider request has_result =
     (case (store, provider, request) of
        (Some st, Some p, Some rq) \<Rightarrow>
          if \<not> has_result then Stop RAMPART_ERR_INVALID_ARGUMENT
          else (case request_key_id rq of
            None \<Rightarrow> Stop RAMPART_ERR_INVALID_ARGUMENT
          | Some kid \<Rightarrow>
              if request_key_id_len rq \<noteq> 8 \<or> \<not> valid_role (required_role rq) \<or>
                 \<not> valid_role (manifest_role rq) \<or> lifecycle rq \<noteq> 1 \<and> lifecycle rq \<noteq> 2
              then Stop RAMPART_ERR_INVALID_ARGUMENT
              else
              c_then (rampart_trust_store_validate store provider) (\<lambda>_.
              (case records st of
                 None \<Rightarrow> Fault
               | Some rs \<Rightarrow>
              c_then (find_record rs kid [0..<store_count st]) (\<lambda>found.
              case found of
                None \<Rightarrow> Stop RAMPART_ERR_KEY_UNKNOWN
              | Some m \<Rightarrow>
                  if key_status m = 2 then Stop RAMPART_ERR_KEY_REVOKED
                  else if key_status m = 3 then Stop RAMPART_ERR_KEY_EXPIRED
                  else if lifecycle rq = 2 \<and> (key_status m = 4 \<or> required_role rq = 6)
                  then Stop RAMPART_ERR_KEY_LIFECYCLE
                  else if manifest_role rq \<noteq> required_role rq \<or>
                          roles m AND push_bit (unat (required_role rq)) 1 = 0
                  then Stop RAMPART_ERR_KEY_ROLE
                  else Ret m))))
      | _ \<Rightarrow> Stop RAMPART_ERR_INVALID_ARGUMENT)"

section \<open>What the loops decide\<close>

text \<open>
  The digest the callback of \<open>p\<close> leaves for \<open>m\<close>, if there is a callback and it reports
  success; \<open>digest_law p\<close>: then all 32 bytes are written. \<open>store_typed\<close>: the array has the
  records it claims, with fields of the declared sizes.
\<close>

definition digest_of :: "rampart_crypto_provider \<Rightarrow> bytes \<Rightarrow> bytes option" where
  "digest_of p m = (case p_sha256 p of
       None \<Rightarrow> None
     | Some f \<Rightarrow> if fst (f m) = RAMPART_OK then Some (snd (f m)) else None)"

definition digest_law :: "rampart_crypto_provider \<Rightarrow> bool" where
  "digest_law p \<longleftrightarrow> (\<forall>m d. digest_of p m = Some d \<longrightarrow> length d = 32)"

definition record_typed :: "rampart_trust_record \<Rightarrow> bool" where
  "record_typed r \<longleftrightarrow> length (record_key_id r) = 8 \<and> length (record_public_key r) = 65"

definition store_typed :: "rampart_trust_store \<Rightarrow> rampart_trust_record list \<Rightarrow> bool" where
  "store_typed st rs \<longleftrightarrow> (\<exists>more. records st = Some (rs @ more)) \<and> store_count st = length rs \<and>
     list_all record_typed rs"

definition record_shape :: "rampart_trust_record \<Rightarrow> bool" where
  "record_shape r \<longleftrightarrow> algorithm r = 1 \<and> record_public_key r ! 0 = 4 \<and>
     roles r \<noteq> 0 \<and> roles r AND NOT TRUST_ROLES_ALL = 0 \<and> key_status r \<in> {1, 2, 3, 4}"

definition record_ok :: "rampart_crypto_provider \<Rightarrow> rampart_trust_record \<Rightarrow> bool" where
  "record_ok p r \<longleftrightarrow> record_shape r \<and>
     map_option (take 8) (digest_of p (record_public_key r)) = Some (record_key_id r)"

definition records_ok :: "rampart_crypto_provider \<Rightarrow> rampart_trust_record list \<Rightarrow> bool" where
  "records_ok p rs \<longleftrightarrow> list_all (record_ok p) rs \<and> distinct (map record_key_id rs)"

definition store_ok :: "rampart_crypto_provider \<Rightarrow> rampart_trust_record list \<Rightarrow> bool" where
  "store_ok p rs \<longleftrightarrow> rs \<noteq> [] \<and> length rs \<le> 16 \<and> records_ok p rs"

text \<open>The first record that is not in order has the right shape, but its key has no digest.\<close>

definition hash_fails_at :: "rampart_crypto_provider \<Rightarrow> rampart_trust_record list \<Rightarrow> nat \<Rightarrow> bool" where
  "hash_fails_at p rs i \<longleftrightarrow> i < length rs \<and> records_ok p (take i rs) \<and> record_shape (rs ! i) \<and>
     digest_of p (record_public_key (rs ! i)) = None"

definition hash_fails :: "rampart_crypto_provider \<Rightarrow> rampart_trust_record list \<Rightarrow> bool" where
  "hash_fails p rs \<longleftrightarrow> length rs \<le> 16 \<and> (\<exists>i < length rs. hash_fails_at p rs i)"

definition may_sign :: "rampart_trust_request \<Rightarrow> rampart_trust_record \<Rightarrow> bool" where
  "may_sign rq r \<longleftrightarrow> key_status r \<noteq> 2 \<and> key_status r \<noteq> 3 \<and>
     \<not> (lifecycle rq = 2 \<and> (key_status r = 4 \<or> required_role rq = 6)) \<and>
     manifest_role rq = required_role rq \<and> bit (roles r) (unat (required_role rq))"

lemma key_ids_equal_from_eq:
  "\<forall>i \<in> set is. i < length l \<and> i < length r \<Longrightarrow>
     key_ids_equal_from l r is = Ret (\<forall>i \<in> set is. l ! i = r ! i)"
  by (induction "is") (auto simp: c_index_def)

lemma key_ids_equal_eq:
  assumes "8 \<le> length l" and "8 \<le> length r"
  shows "key_ids_equal l r = Ret (take 8 l = take 8 r)"
proof -
  have "(\<forall>i \<in> set [0..<8]. l ! i = r ! i) \<longleftrightarrow> take 8 l = take 8 r"
    using assms by (auto simp: list_eq_iff_nth_eq)
  then show ?thesis
    unfolding key_ids_equal_def using assms by (subst key_ids_equal_from_eq) auto
qed

lemma crypto_hash_eq:
  assumes "digest_law p" and "length d = 32" and "n \<le> length m"
  shows "rampart_crypto_hash (Some p) 1 (Some m) n (Some d) 32 =
    (case digest_of p (take n m) of
       None \<Rightarrow> Ret (RAMPART_ERR_CRYPTO_PROVIDER, Some d)
     | Some d' \<Rightarrow> Ret (RAMPART_OK, Some d'))"
proof (cases "p_sha256 p")
  case (Some f)
  show ?thesis
  proof (cases "fst (f (take n m)) = RAMPART_OK")
    case True
    then have "digest_of p (take n m) = Some (snd (f (take n m)))"
      using Some by (simp add: digest_of_def)
    then show ?thesis
      using assms Some True
      by (auto simp: rampart_crypto_hash_def pointed_def copy_sha256_digest_def split_beta
          digest_law_def)
  qed (use assms(3) Some in \<open>simp add: rampart_crypto_hash_def digest_of_def pointed_def split_beta\<close>)
qed (simp add: rampart_crypto_hash_def digest_of_def)

lemma valid_record_shape_eq: "record_typed r \<Longrightarrow> valid_record_shape r = Ret (record_shape r)"
  by (simp add: valid_record_shape_def c_index_def record_typed_def record_shape_def)

lemma no_earlier_id_eq:
  assumes "length (record_key_id r) = 8"
    and "\<forall>j \<in> set js. j < length rs \<and> length (record_key_id (rs ! j)) = 8"
  shows "no_earlier_id rs r js =
    (if \<exists>j \<in> set js. record_key_id r = record_key_id (rs ! j) then Stop RAMPART_ERR_TRUST_STORE
     else Ret ())"
  using assms by (induction js) (auto simp: c_index_def key_ids_equal_eq)

lemma records_ok_take_Suc:
  assumes "k < length rs"
  shows "records_ok p (take (Suc k) rs) \<longleftrightarrow> records_ok p (take k rs) \<and> record_ok p (rs ! k) \<and>
    record_key_id (rs ! k) \<notin> record_key_id ` set (take k rs)"
  using assms by (auto simp: records_ok_def take_Suc_conv_app_nth)

lemma records_ok_take:
  assumes "records_ok p (take n rs)" "k \<le> n"
  shows "records_ok p (take k rs)"
proof -
  have "take k rs = take k (take n rs)" using assms(2) by (simp add: min_def)
  then show ?thesis
    using assms(1) unfolding records_ok_def
    by (metis list_all_append append_take_drop_id distinct_take take_map)
qed

lemma record_ok_hash: "record_ok p r \<Longrightarrow> digest_of p (record_public_key r) \<noteq> None"
  by (auto simp: record_ok_def)

text \<open>One round of the outer loop: the record passes, or which status leaves the function.\<close>

lemma validate_from_step:
  assumes "digest_law p" "length d = 32" "i < length rs" "\<forall>j \<le> i. record_typed (rs ! j)"
  obtains d' where "length d' = 32"
    and "validate_from rs p d (i # is) =
      (if record_ok p (rs ! i) \<and> record_key_id (rs ! i) \<notin> record_key_id ` set (take i rs)
       then validate_from rs p d' is
       else if record_shape (rs ! i) \<and> digest_of p (record_public_key (rs ! i)) = None
       then Stop RAMPART_ERR_CRYPTO_PROVIDER else Stop RAMPART_ERR_TRUST_STORE)"
proof -
  let ?r = "rs ! i"
  have typed: "record_typed ?r" using assms(4) by simp
  have shape: "valid_record_shape ?r = Ret (record_shape ?r)"
    using typed by (rule valid_record_shape_eq)
  have hash: "rampart_crypto_hash (Some p) 1 (Some (record_public_key ?r)) 65 (Some d) 32 =
    (case digest_of p (record_public_key ?r) of
       None \<Rightarrow> Ret (RAMPART_ERR_CRYPTO_PROVIDER, Some d)
     | Some d' \<Rightarrow> Ret (RAMPART_OK, Some d'))"
    using crypto_hash_eq [OF assms(1,2), of 65 "record_public_key ?r"] typed
    by (simp add: record_typed_def)
  have "set (take i rs) = (!) rs ` {..<i}"
    using assms(3) by (simp add: nth_image [symmetric] lessThan_atLeast0)
  then have earlier: "no_earlier_id rs ?r [0..<i] =
    (if record_key_id ?r \<in> record_key_id ` set (take i rs) then Stop RAMPART_ERR_TRUST_STORE
     else Ret ())"
    using assms(3,4) by (subst no_earlier_id_eq) (auto simp: record_typed_def)
  show thesis
  proof (cases "digest_of p (record_public_key ?r)")
    case None
    then have "\<not> record_ok p ?r" using record_ok_hash by blast
    then show thesis
      using assms(3) None
      by (intro that [OF assms(2)], cases "record_shape ?r") (simp_all add: c_index_def shape hash)
  next
    case (Some d')
    then have len: "length d' = 32" using assms(1) by (simp add: digest_law_def)
    have ids: "key_ids_equal (record_key_id ?r) d' = Ret (take 8 d' = record_key_id ?r)"
      using typed len by (auto simp: key_ids_equal_eq record_typed_def)
    show thesis
      using that [OF len] assms(3)
      by (cases "record_shape ?r"; cases "take 8 d' = record_key_id ?r")
        (simp_all add: c_index_def shape hash Some ids earlier record_ok_def)
  qed
qed

lemma validate_from_eq:
  assumes "digest_law p" "length d = 32" "k \<le> n" "n \<le> length rs"
    and "\<forall>i < n. record_typed (rs ! i)" "records_ok p (take k rs)"
  shows "validate_from rs p d [k..<n] =
    (if records_ok p (take n rs) then Ret ()
     else if \<exists>i < n. hash_fails_at p rs i then Stop RAMPART_ERR_CRYPTO_PROVIDER
     else Stop RAMPART_ERR_TRUST_STORE)"
  using assms(2,3,6)
proof (induction "n - k" arbitrary: k d)
  case 0
  then show ?case by simp
next
  case (Suc x)
  then have k: "k < n" "[k..<n] = k # [Suc k..<n]" by (simp_all add: upt_rec)
  obtain d' where len: "length d' = 32"
    and step: "validate_from rs p d (k # [Suc k..<n]) =
      (if record_ok p (rs ! k) \<and> record_key_id (rs ! k) \<notin> record_key_id ` set (take k rs)
       then validate_from rs p d' [Suc k..<n]
       else if record_shape (rs ! k) \<and> digest_of p (record_public_key (rs ! k)) = None
       then Stop RAMPART_ERR_CRYPTO_PROVIDER else Stop RAMPART_ERR_TRUST_STORE)"
    using validate_from_step [OF assms(1) Suc.prems(1), of k rs "[Suc k..<n]"] k(1) assms(4,5)
    by auto
  show ?case
  proof (cases "records_ok p (take (Suc k) rs)")
    case True
    then show ?thesis
      using Suc.hyps(1) [of "Suc k" d'] Suc.hyps(2) len k assms(4)
      by (simp add: step records_ok_take_Suc del: validate_from.simps(2))
  next
    case False
    have bad: "\<not> records_ok p (take i rs)" if "k < i" for i
      using False records_ok_take [of p i rs "Suc k"] that by auto
    have good: "records_ok p (take i rs)" if "i \<le> k" for i
      using records_ok_take [OF Suc.prems(3) that] .
    have before: "\<not> hash_fails_at p rs i" if "i < k" for i
      using good [of "Suc i"] that k(1) assms(4) record_ok_hash
      by (auto simp: hash_fails_at_def records_ok_take_Suc)
    have "(\<exists>i < n. hash_fails_at p rs i) \<longleftrightarrow> hash_fails_at p rs k"
      using bad before k(1) by (metis hash_fails_at_def linorder_neqE_nat)
    moreover have fails: "hash_fails_at p rs k \<longleftrightarrow>
        record_shape (rs ! k) \<and> digest_of p (record_public_key (rs ! k)) = None"
      using Suc.prems(3) k(1) assms(4) by (simp add: hash_fails_at_def)
    have "\<not> (record_ok p (rs ! k) \<and>
        record_key_id (rs ! k) \<notin> record_key_id ` set (take k rs))"
      using False Suc.prems(3) k(1) assms(4) by (simp add: records_ok_take_Suc)
    then have "validate_from rs p d [k..<n] = (if hash_fails_at p rs k
        then Stop RAMPART_ERR_CRYPTO_PROVIDER else Stop RAMPART_ERR_TRUST_STORE)"
      unfolding k(2) step fails by (rule if_not_P)
    ultimately show ?thesis using bad [OF k(1)] by (simp only: if_False)
  qed
qed

lemma find_record_eq:
  assumes "length kid = 8"
    and "\<forall>i \<in> set is. i < length rs \<and> record_typed (rs ! i)"
  shows "find_record rs kid is = Ret (find (\<lambda>r. record_key_id r = kid) (map ((!) rs) is))"
  using assms by (induction "is") (auto simp: c_index_def key_ids_equal_eq record_typed_def)

lemma role_bit: "(w :: u32) AND push_bit k 1 = 0 \<longleftrightarrow> \<not> bit w k"
  by (simp add: push_bit_of_1 and_exp_eq_0_iff_not_bit)

lemma unique_earlier_ids:
  "distinct (map f xs) \<longleftrightarrow> (\<forall>i < length xs. \<forall>j < i. f (xs ! i) \<noteq> f (xs ! j))"
  unfolding distinct_conv_nth by (auto, metis linorder_neqE_nat order_less_trans)

lemma hash_fails_at_append:
  "i < length rs \<Longrightarrow> hash_fails_at p (rs @ rest) i \<longleftrightarrow> hash_fails_at p rs i"
  by (simp add: hash_fails_at_def nth_append)

lemma hash_fails_not_ok: "hash_fails p rs \<Longrightarrow> \<not> store_ok p rs"
  using record_ok_hash
  by (fastforce simp: hash_fails_def hash_fails_at_def store_ok_def records_ok_def list_all_length)

lemma store_validate_eq:
  assumes "digest_law p" and "store_typed st rs"
  shows "rampart_trust_store_validate (Some st) (Some p) =
    (if store_ok p rs then Ret ()
     else if hash_fails p rs then Stop RAMPART_ERR_CRYPTO_PROVIDER
     else Stop RAMPART_ERR_TRUST_STORE)"
proof -
  from assms(2) obtain more where st: "records st = Some (rs @ more)" "store_count st = length rs"
    and typed: "\<forall>i < length rs. record_typed (rs ! i)"
    by (auto simp: store_typed_def list_all_length)
  have "validate_from (rs @ more) p (replicate 32 0) [0..<length rs] =
    (if records_ok p rs then Ret ()
     else if \<exists>i < length rs. hash_fails_at p rs i then Stop RAMPART_ERR_CRYPTO_PROVIDER
     else Stop RAMPART_ERR_TRUST_STORE)"
    using validate_from_eq [OF assms(1), of "replicate 32 0" 0 "length rs" "rs @ more"] typed
    by (simp add: nth_append hash_fails_at_append records_ok_def cong: conj_cong)
  then show ?thesis
    by (auto simp: rampart_trust_store_validate_def st store_ok_def hash_fails_def)
qed

lemma find_by_id:
  assumes "distinct (map f xs)"
  shows "find (\<lambda>x. f x = k) xs = Some m \<longleftrightarrow> m \<in> set xs \<and> f m = k"
  using assms by (induction xs) (auto simp: rev_image_eqI)

text \<open>The answer to a well-formed request, as a function of the store's valid records.\<close>

lemma trust_authorize_eq:
  assumes "digest_law p" "store_typed st rs" "request_key_id rq = Some kid" "length kid = 8"
  shows "rampart_trust_authorize (Some st) (Some p) (Some rq) True =
    (if request_key_id_len rq = 8 \<and> valid_role (required_role rq) \<and>
        valid_role (manifest_role rq) \<and> (lifecycle rq = 1 \<or> lifecycle rq = 2)
     then if store_ok p rs
       then (case find (\<lambda>r. record_key_id r = kid) rs of
           None \<Rightarrow> Stop RAMPART_ERR_KEY_UNKNOWN
         | Some m \<Rightarrow>
             if key_status m = 2 then Stop RAMPART_ERR_KEY_REVOKED
             else if key_status m = 3 then Stop RAMPART_ERR_KEY_EXPIRED
             else if lifecycle rq = 2 \<and> (key_status m = 4 \<or> required_role rq = 6)
             then Stop RAMPART_ERR_KEY_LIFECYCLE
             else if may_sign rq m then Ret m else Stop RAMPART_ERR_KEY_ROLE)
       else if hash_fails p rs then Stop RAMPART_ERR_CRYPTO_PROVIDER
       else Stop RAMPART_ERR_TRUST_STORE
     else Stop RAMPART_ERR_INVALID_ARGUMENT)"
proof -
  from assms(2) obtain more where st: "records st = Some (rs @ more)" "store_count st = length rs"
    and typed: "\<forall>i < length rs. record_typed (rs ! i)"
    by (auto simp: store_typed_def list_all_length)
  have "map ((!) (rs @ more)) [0..<length rs] = rs"
    by (rule nth_equalityI) (auto simp: nth_append)
  then have find: "find_record (rs @ more) kid [0..<length rs] =
      Ret (find (\<lambda>r. record_key_id r = kid) rs)"
    using typed by (subst find_record_eq [OF assms(4)]) (auto simp: nth_append)
  show ?thesis
    unfolding rampart_trust_authorize_def role_bit
    by (auto simp: assms(3) store_validate_eq [OF assms(1,2)] st find may_sign_def
        split: option.split)
qed

section \<open>Properties\<close>

text \<open>C11: A request for authorization is granted exactly when it is well formed, the whole store
  is valid, with a digest from the provider for every public key in it, and the one record with the requested key identifier is neither revoked nor
  expired, fits the lifecycle of the device and has the role that both the policy and the
  manifest name; the record granted is that one.\<close>

theorem trust_authorize_exact:
  assumes "digest_law p" "store_typed st rs" "request_key_id rq = Some kid" "length kid = 8"
  shows "rampart_trust_authorize (Some st) (Some p) (Some rq) True = Ret m \<longleftrightarrow>
    request_key_id_len rq = 8 \<and> valid_role (required_role rq) \<and> valid_role (manifest_role rq) \<and>
    (lifecycle rq = 1 \<or> lifecycle rq = 2) \<and> store_ok p rs \<and>
    m \<in> set rs \<and> record_key_id m = kid \<and> may_sign rq m"
proof (cases "store_ok p rs")
  case True
  then have found: "find (\<lambda>r. record_key_id r = kid) rs = Some m \<longleftrightarrow> m \<in> set rs \<and> record_key_id m = kid"
    by (intro find_by_id) (simp add: store_ok_def records_ok_def)
  have "rampart_trust_authorize (Some st) (Some p) (Some rq) True = Ret m \<longleftrightarrow>
    request_key_id_len rq = 8 \<and> valid_role (required_role rq) \<and> valid_role (manifest_role rq) \<and>
    (lifecycle rq = 1 \<or> lifecycle rq = 2) \<and>
    find (\<lambda>r. record_key_id r = kid) rs = Some m \<and> may_sign rq m"
    unfolding trust_authorize_eq [OF assms]
    by (cases "find (\<lambda>r. record_key_id r = kid) rs") (auto simp: True may_sign_def)
  then show ?thesis using found True by blast
qed (simp add: trust_authorize_eq [OF assms])

definition sample_trust_record :: rampart_trust_record where
  "sample_trust_record = \<lparr>roles = 2, key_epoch = 0, algorithm = 1, key_status = 1,
     record_key_id = take 8 (sample_digest (4 # 9 # replicate 63 0)),
     record_public_key = 4 # 9 # replicate 63 0\<rparr>"

definition sample_store :: rampart_trust_store where
  "sample_store = \<lparr>records = Some [sample_trust_record], store_count = 1\<rparr>"

definition sample_c_provider :: rampart_crypto_provider where
  "sample_c_provider = \<lparr>p_sha256 = Some (\<lambda>m. (RAMPART_OK, sample_digest m)), p_verify = None\<rparr>"

definition failing_c_provider :: rampart_crypto_provider where
  "failing_c_provider = \<lparr>p_sha256 = Some (\<lambda>m. (RAMPART_ERR_INTERNAL, replicate 32 0)),
     p_verify = None\<rparr>"

lemma sample_trust:
  "digest_law sample_c_provider" "store_typed sample_store [sample_trust_record]"
  "store_ok sample_c_provider [sample_trust_record]"
  "length (record_key_id sample_trust_record) = 8"
  by (simp_all add: digest_law_def digest_of_def sample_c_provider_def sample_digest_def
      store_typed_def sample_store_def record_typed_def sample_trust_record_def store_ok_def
      records_ok_def record_ok_def record_shape_def TRUST_ROLES_ALL_def)

lemma failing_provider:
  "digest_law failing_c_provider" "hash_fails failing_c_provider [sample_trust_record]"
  by (simp_all add: digest_law_def digest_of_def failing_c_provider_def hash_fails_def
      hash_fails_at_def records_ok_def record_shape_def sample_trust_record_def TRUST_ROLES_ALL_def)

theorem trust_authorize_exact_witness:
  "rampart_trust_authorize (Some sample_store) (Some sample_c_provider)
     (Some \<lparr>request_key_id = Some (record_key_id sample_trust_record), request_key_id_len = 8,
       required_role = 1, manifest_role = 1, lifecycle = 2\<rparr>) True = Ret sample_trust_record"
  by (subst trust_authorize_exact [OF sample_trust(1,2) _ sample_trust(4)])
    (simp_all add: sample_trust valid_role_def may_sign_def, simp add: sample_trust_record_def)

text \<open>C24: Every refusal of a well-formed request has a status of its own, decided in the order of
  the code. The provider's failure is reported exactly when some record, after records that
  are all in order, has the right shape and the provider has no digest of its key (it has no
  callback, or the callback fails); every other store that is not valid is reported as such.
  With a valid store come an unknown key identifier, a revoked or an expired key, a key the
  lifecycle of the device excludes, and a role the key does not have. No outcome is a read
  outside of the records.\<close>

theorem trust_authorize_refusals:
  assumes "digest_law p" "store_typed st rs" "request_key_id rq = Some kid" "length kid = 8"
    and "request_key_id_len rq = 8" "valid_role (required_role rq)" "valid_role (manifest_role rq)"
    and "lifecycle rq = 1 \<or> lifecycle rq = 2"
    and "rampart_trust_authorize (Some st) (Some p) (Some rq) True = out"
  shows "out \<noteq> Fault \<and>
    (out = Stop RAMPART_ERR_CRYPTO_PROVIDER \<longleftrightarrow> hash_fails p rs) \<and>
    (out = Stop RAMPART_ERR_TRUST_STORE \<longleftrightarrow> \<not> store_ok p rs \<and> \<not> hash_fails p rs) \<and>
    (store_ok p rs \<longrightarrow>
      (out = Stop RAMPART_ERR_KEY_UNKNOWN \<longleftrightarrow> (\<forall>r \<in> set rs. record_key_id r \<noteq> kid)) \<and>
      (\<forall>r \<in> set rs. record_key_id r = kid \<longrightarrow>
        (out = Stop RAMPART_ERR_KEY_REVOKED \<longleftrightarrow> key_status r = 2) \<and>
        (out = Stop RAMPART_ERR_KEY_EXPIRED \<longleftrightarrow> key_status r = 3) \<and>
        (out = Stop RAMPART_ERR_KEY_LIFECYCLE \<longleftrightarrow> key_status r \<notin> {2, 3} \<and> lifecycle rq = 2 \<and>
           (key_status r = 4 \<or> required_role rq = 6)) \<and>
        (out = Stop RAMPART_ERR_KEY_ROLE \<longleftrightarrow> key_status r \<notin> {2, 3} \<and>
           \<not> (lifecycle rq = 2 \<and> (key_status r = 4 \<or> required_role rq = 6)) \<and>
           \<not> (manifest_role rq = required_role rq \<and> bit (roles r) (unat (required_role rq))))))"
proof (cases "store_ok p rs")
  case ok: True
  have fails: "\<not> hash_fails p rs" using ok hash_fails_not_ok by blast
  note out = assms(9) [unfolded trust_authorize_eq [OF assms(1-4)], symmetric]
  show ?thesis
  proof (cases "find (\<lambda>r. record_key_id r = kid) rs")
    case None
    then have "\<forall>r \<in> set rs. record_key_id r \<noteq> kid" by (simp add: find_None_iff)
    then show ?thesis using ok fails assms(5-8) by (simp add: out None)
  next
    case (Some m)
    have found: "m = r \<longleftrightarrow> r \<in> set rs \<and> record_key_id r = kid" for r
      using Some ok find_by_id [of record_key_id rs kid r] by (simp add: store_ok_def records_ok_def)
    then have m: "m \<in> set rs" "record_key_id m = kid" by blast+
    have the: "(\<forall>r \<in> set rs. record_key_id r = kid \<longrightarrow> Q r) \<longleftrightarrow> Q m" for Q
      using m found [THEN iffD2] by blast
    have known: "(\<forall>r \<in> set rs. record_key_id r \<noteq> kid) \<longleftrightarrow> False" using m by blast
    define excluded where "excluded \<longleftrightarrow>
      lifecycle rq = 2 \<and> (key_status m = 4 \<or> required_role rq = 6)"
    define fits where "fits \<longleftrightarrow>
      manifest_role rq = required_role rq \<and> bit (roles m) (unat (required_role rq))"
    have answer: "out = (if key_status m = 2 then Stop RAMPART_ERR_KEY_REVOKED
             else if key_status m = 3 then Stop RAMPART_ERR_KEY_EXPIRED
             else if excluded then Stop RAMPART_ERR_KEY_LIFECYCLE
             else if fits then Ret m else Stop RAMPART_ERR_KEY_ROLE)"
      using ok assms(5-8) by (auto simp: out Some may_sign_def excluded_def fits_def)
    show ?thesis
      unfolding the known excluded_def [symmetric] fits_def [symmetric] using ok fails answer
      by (cases "key_status m = 2"; cases "key_status m = 3"; cases excluded; cases fits) simp_all
  qed
next
  case False
  then show ?thesis
    unfolding assms(9) [symmetric] trust_authorize_eq [OF assms(1-4)] using assms(5-8) by simp
qed

theorem trust_authorize_refusals_witness:
  "rampart_trust_authorize (Some sample_store) (Some sample_c_provider)
     (Some \<lparr>request_key_id = Some (replicate 8 0), request_key_id_len = 8, required_role = 1,
       manifest_role = 1, lifecycle = 2\<rparr>) True = Stop RAMPART_ERR_KEY_UNKNOWN \<and>
   rampart_trust_authorize (Some sample_store) (Some failing_c_provider)
     (Some \<lparr>request_key_id = Some (replicate 8 0), request_key_id_len = 8, required_role = 1,
       manifest_role = 1, lifecycle = 2\<rparr>) True = Stop RAMPART_ERR_CRYPTO_PROVIDER"
proof -
  have "record_key_id sample_trust_record ! 1 = 65"
    by (simp add: sample_trust_record_def sample_digest_def)
  then have "record_key_id sample_trust_record \<noteq> replicate 8 0" by auto
  then have "rampart_trust_authorize (Some sample_store) (Some sample_c_provider)
     (Some \<lparr>request_key_id = Some (replicate 8 0), request_key_id_len = 8, required_role = 1,
       manifest_role = 1, lifecycle = 2\<rparr>) True = Stop RAMPART_ERR_KEY_UNKNOWN"
    using trust_authorize_refusals [OF sample_trust(1,2), where kid = "replicate 8 0"
      and rq = "\<lparr>request_key_id = Some (replicate 8 0), request_key_id_len = 8, required_role = 1,
       manifest_role = 1, lifecycle = 2\<rparr>"] sample_trust(3)
    by (simp add: valid_role_def)
  moreover have "rampart_trust_authorize (Some sample_store) (Some failing_c_provider)
     (Some \<lparr>request_key_id = Some (replicate 8 0), request_key_id_len = 8, required_role = 1,
       manifest_role = 1, lifecycle = 2\<rparr>) True = Stop RAMPART_ERR_CRYPTO_PROVIDER"
    using trust_authorize_refusals [OF failing_provider(1) sample_trust(2), where kid = "replicate 8 0"
      and rq = "\<lparr>request_key_id = Some (replicate 8 0), request_key_id_len = 8, required_role = 1,
       manifest_role = 1, lifecycle = 2\<rparr>"] failing_provider(2)
    by (simp add: valid_role_def)
  ultimately show ?thesis by (rule conjI)
qed

text \<open>C26: The two cryptographic calls fail closed. A signature passes exactly when there is a
  callback, the algorithm and both sizes are the supported ones, and the callback accepts the
  bytes that the pointers and lengths describe. A hash succeeds exactly when the callback
  leaves a digest of the message, and then fills the buffer with it; with every other status
  the buffer is as it was.\<close>

theorem crypto_calls_fail_closed:
  "(rampart_crypto_verify_signature provider alg msg n key key_len sig sig_len = Ret RAMPART_OK \<longleftrightarrow>
     (\<exists>p f m k s. provider = Some p \<and> p_verify p = Some f \<and> alg = 1 \<and>
        key_len = 65 \<and> sig_len = 64 \<and> pointed msg n = Ret m \<and>
        key = Some k \<and> 65 \<le> length k \<and> sig = Some s \<and> 64 \<le> length s \<and>
        f m (take 65 k) (take 64 s) = RAMPART_OK)) \<and>
   (rampart_crypto_hash provider alg msg n (Some d) digest_len = Ret (RAMPART_OK, out) \<longleftrightarrow>
     (\<exists>p m x. provider = Some p \<and> alg = 1 \<and> digest_len = 32 \<and> pointed msg n = Ret m \<and>
        digest_of p m = Some x \<and> 32 \<le> length x \<and> 32 \<le> length d \<and>
        out = Some (take 32 x @ drop 32 d))) \<and>
   (\<nexists>status changed. rampart_crypto_hash provider alg msg n (Some d) digest_len =
      Ret (status, Some changed) \<and> status \<noteq> RAMPART_OK \<and> changed \<noteq> d)"
proof (intro conjI)
  have null: "pointed None n \<noteq> Ret x" if "n \<noteq> 0" for x :: bytes using that by (simp add: pointed_def)
  show "rampart_crypto_verify_signature provider alg msg n key key_len sig sig_len = Ret RAMPART_OK \<longleftrightarrow>
     (\<exists>p f m k s. provider = Some p \<and> p_verify p = Some f \<and> alg = 1 \<and>
        key_len = 65 \<and> sig_len = 64 \<and> pointed msg n = Ret m \<and>
        key = Some k \<and> 65 \<le> length k \<and> sig = Some s \<and> 64 \<le> length s \<and>
        f m (take 65 k) (take 64 s) = RAMPART_OK)"
    using null
    by (auto simp: rampart_crypto_verify_signature_def ret_iff pointed_Some_iff Let_def
        split: option.splits if_splits)
  show "rampart_crypto_hash provider alg msg n (Some d) digest_len = Ret (RAMPART_OK, out) \<longleftrightarrow>
     (\<exists>p m x. provider = Some p \<and> alg = 1 \<and> digest_len = 32 \<and> pointed msg n = Ret m \<and>
        digest_of p m = Some x \<and> 32 \<le> length x \<and> 32 \<le> length d \<and>
        out = Some (take 32 x @ drop 32 d))"
    using null
    by (auto simp: rampart_crypto_hash_def ret_iff copy_digest_iff digest_of_def split_beta Let_def
        split: option.splits if_splits)
  show "\<nexists>status changed. rampart_crypto_hash provider alg msg n (Some d) digest_len =
      Ret (status, Some changed) \<and> status \<noteq> RAMPART_OK \<and> changed \<noteq> d"
    by (auto simp: rampart_crypto_hash_def ret_iff split_beta Let_def split: option.splits if_splits)
qed

end
