(* ===== verification/DeviceVerdict.thy ===== *)
theory DeviceVerdict
  imports DeviceRefinement Trust Signing
begin

text \<open>
  The verdict on an image on the two sides. \<open>callbacks_of P\<close> are crypto callbacks of the device
  that compute the primitives of the host's provider \<open>P\<close>. The calls that the device offers for
  a parsed image (basic validation, hashing, signature verification) then decide what the
  host's verification reports, and accept what the host has signed.
\<close>


text \<open>The device's callbacks, when they compute the primitives of the host's provider.\<close>

definition c_verifies :: "('sk, 'vk, 'sg) provider \<Rightarrow> bytes \<Rightarrow> bytes \<Rightarrow> bytes \<Rightarrow> bool" where
  "c_verifies P m k s = (case from_sec1_bytes P k of
       None \<Rightarrow> False
     | Some vk \<Rightarrow> (case sig_from_slice P s of None \<Rightarrow> False | Some sg \<Rightarrow> ecdsa_verify P vk m sg))"

definition callbacks_of :: "('sk, 'vk, 'sg) provider \<Rightarrow> rampart_crypto_provider" where
  "callbacks_of P = \<lparr>p_sha256 = Some (\<lambda>m. (RAMPART_OK, sha256 P m)),
     p_verify = Some (\<lambda>m k s. if c_verifies P m k s then RAMPART_OK else RAMPART_ERR_SIGNATURE)\<rparr>"

definition target_of :: "device_target \<Rightarrow> rampart_target_id" where
  "target_of t = \<lparr>tid_vendor_id = t_vendor_id t, tid_product_id = t_product_id t,
     tid_hardware_family = t_hardware_family t, tid_component_id = t_component_id t\<rparr>"

lemma callbacks_digest: "digest_of (callbacks_of P) m = Some (sha256 P m)"
  by (simp add: digest_of_def callbacks_of_def)

lemma callbacks_hash: "\<forall>m. length (sha256 P m) = 32 \<Longrightarrow> digest_law (callbacks_of P)"
  by (simp add: digest_law_def callbacks_digest)

lemma callbacks_verify:
  assumes "n \<le> length m" and "65 \<le> length k" and "64 \<le> length s"
  shows "rampart_crypto_verify_signature (Some (callbacks_of P)) 1 (Some m) n (Some k) 65 (Some s) 64 =
    Ret (if c_verifies P (take n m) (take 65 k) (take 64 s) then RAMPART_OK
         else RAMPART_ERR_SIGNATURE)"
  using assms by (simp add: rampart_crypto_verify_signature_def callbacks_of_def pointed_def)

lemma signature_check_iff:
  "signature_check P m payload r = Ok True \<longleftrightarrow>
     c_verifies P (manifest_layout m @ payload) (s_public_key r) (s_signature r)"
  by (simp add: signature_check_def c_verifies_def split: option.split)

lemma validate_basic_iff:
  "rampart_manifest_validate_basic (Some (manifest_view_of p m)) (Some (target_of t)) e = RAMPART_OK
    \<longleftrightarrow> target_matches m t \<and> e \<le> security_epoch m \<and> payload_size m \<noteq> 0"
  by (auto simp: rampart_manifest_validate_basic_def manifest_view_of_def target_validate_iff
      target_of_def target_matches_def Let_def)

lemma image_layout_region:
  assumes "bs = image_layout mf payload sigs"
  shows "seg (64 + length mf) (length payload) bs = payload"
    "seg 64 (length mf + length payload) bs = mf @ payload"
  using assms image_layout_parts(1) [OF assms] seg_split [of 64 "length mf" "length payload" bs]
  unfolding image_layout_def Let_def layout_iff by simp_all

text \<open>The memory that the view of an accepted image points at.\<close>

lemma device_view_memory:
  assumes "device_wf m payload r" and "take len p = image_bytes m payload r" and "len \<le> length p"
  shows "take (length payload) (drop (64 + manifest_size_of m) p) = payload"
    and "take (region_size m payload) (drop 64 p) = manifest_layout m @ payload"
    and "64 + manifest_size_of m + length payload + 192 \<le> length p"
    and "take 32 (drop 120 p) = payload_digest m"
proof -
  have wf: "manifest_sized m" "signature_typed r" using assms(1) by (simp_all add: device_wf_def)
  have mf: "length (manifest_layout m) = manifest_size_of m"
    and sigs: "length (signature_layout r 64 (region_size m payload)) = 192"
    using wf by (simp_all add: length_manifest_layout_sized length_signature_layout)
  note img = assms(2) [unfolded image_bytes_def]
  have len: "len = 64 + manifest_size_of m + length payload + 192"
    using arg_cong [OF img, of length] assms(3) by (simp add: length_image_layout mf sigs)
  then show "64 + manifest_size_of m + length payload + 192 \<le> length p" using assms(3) by simp
  show "take (length payload) (drop (64 + manifest_size_of m) p) = payload"
    and region: "take (region_size m payload) (drop 64 p) = manifest_layout m @ payload"
    using image_layout_region [OF img] len
    by (simp_all add: mf seg_take take_drop_seg region_size_def)
  have "take 32 (drop 120 p) = seg 56 32 (take (region_size m payload) (drop 64 p))"
    by (simp add: take_drop_seg seg_seg region_size_def manifest_size_of_def)
  also have "\<dots> = seg 56 32 (manifest_layout m)"
    unfolding region by (rule seg_append_left) (simp add: mf manifest_size_of_def)
  also have "\<dots> = payload_digest m"
    using wf(1) manifest_layout_iff [of m "manifest_layout m"] by (simp add: manifest_sized_def)
  finally show "take 32 (drop 120 p) = payload_digest m" .
qed

lemma host_verdict:
  assumes "image_wf P m payload r"
  shows "(\<exists>report. verify_image P (image_bytes m payload r)
        \<lparr>o_device_target = Some t, o_minimum_security_epoch = e\<rparr> = Ok report \<and> is_valid report) \<longleftrightarrow>
    sha256 P payload = payload_digest m \<and> target_matches m t \<and> e \<le> security_epoch m \<and>
    c_verifies P (manifest_layout m @ payload) (s_public_key r) (s_signature r)"
  unfolding verify_image_sections [OF assms] signature_check_iff [symmetric]
  by (cases "signature_check P m payload r") (auto simp: is_valid_def report_of_def)

lemma device_hash:
  assumes "\<forall>m. length (sha256 P m) = 32" and "n \<le> length q" and "32 \<le> length k"
  shows "(\<exists>d. rampart_crypto_hash (Some (callbacks_of P)) 1 (Some q) n (Some (replicate 32 0)) 32 =
        Ret (RAMPART_OK, Some d) \<and>
      rampart_binary_bytes_equal (Some d) (Some k) 32 = Ret True) \<longleftrightarrow>
    sha256 P (take n q) = take 32 k"
  using assms by (simp add: crypto_hash_eq [OF callbacks_hash] callbacks_digest bytes_equal_eq)

text \<open>The device's calls on the view of an accepted image.\<close>

lemma device_calls:
  assumes "device_wf m payload r" and "take len p = image_bytes m payload r" and "len \<le> length p"
    and "v = image_view_of p m payload"
  shows "mv_payload_size (iv_manifest v) = payload_size m"
    and "rampart_manifest_validate_basic (Some (iv_manifest v)) (Some (target_of t)) e = RAMPART_OK
      \<longleftrightarrow> target_matches m t \<and> e \<le> security_epoch m \<and> payload_size m \<noteq> 0"
    and "\<forall>m. length (sha256 P m) = 32 \<Longrightarrow>
      (\<exists>d. rampart_crypto_hash (Some (callbacks_of P)) (mv_digest_algorithm (iv_manifest v))
          (Some (drop (iv_payload_offset v) p)) (iv_payload_size v) (Some (replicate 32 0)) 32 =
            Ret (RAMPART_OK, Some d) \<and>
        rampart_binary_bytes_equal (Some d) (mv_payload_digest (iv_manifest v)) 32 = Ret True) \<longleftrightarrow>
      sha256 P payload = payload_digest m"
    and "rampart_crypto_verify_signature (Some (callbacks_of P))
        (sv_signature_algorithm (iv_signature v))
        (Some (drop (iv_signed_region_offset v) p)) (iv_signed_region_size v)
        (Some (sv_public_key (iv_signature v))) (sv_public_key_len (iv_signature v))
        (Some (sv_signature (iv_signature v))) (sv_signature_len (iv_signature v)) =
      Ret (if c_verifies P (manifest_layout m @ payload) (s_public_key r) (s_signature r)
           then RAMPART_OK else RAMPART_ERR_SIGNATURE)"
proof -
  note mem = device_view_memory [OF assms(1-3)]
  have abs: "abs_signature (iv_signature v) = r"
    using abs_image_view_of [OF assms(1-3)]
    by (simp add: assms(4) abs_image_def Image.image_view_def Let_def)
  define so where "so = 64 + manifest_size_of m + length payload"
  have view: "iv_manifest v = manifest_view_of (drop 64 p) m"
    "iv_payload_offset v = 64 + manifest_size_of m" "iv_payload_size v = length payload"
    "iv_signed_region_offset v = 64" "iv_signed_region_size v = region_size m payload"
    "iv_signature v = signature_view_of (drop so p)"
    by (simp_all add: assms(4) image_view_of_def Let_def so_def)
  have m_view: "mv_digest_algorithm (iv_manifest v) = 1"
    "mv_payload_digest (iv_manifest v) = Some (drop 120 p)"
    by (simp_all add: view(1) manifest_view_of_def)
  have s_view: "sv_signature_algorithm (iv_signature v) = 1" "sv_public_key_len (iv_signature v) = 65"
    "sv_signature_len (iv_signature v) = 64" "sv_public_key (iv_signature v) = drop (so + 112) p"
    "sv_signature (iv_signature v) = drop (so + 48) p"
    by (simp_all add: view(6) signature_view_of_def add.commute)
  have keys: "take 65 (drop (so + 112) p) = s_public_key r" "take 64 (drop (so + 48) p) = s_signature r"
    using abs by (auto simp: abs_signature_def s_view)
  have room: "so + 192 \<le> length p" "region_size m payload \<le> length (drop 64 p)"
    "length payload \<le> length (drop (64 + manifest_size_of m) p)" "32 \<le> length (drop 120 p)"
    using mem(3) by (simp_all add: so_def region_size_def manifest_size_of_def)
  show "mv_payload_size (iv_manifest v) = payload_size m"
    by (simp add: view(1) manifest_view_of_def)
  show "rampart_manifest_validate_basic (Some (iv_manifest v)) (Some (target_of t)) e = RAMPART_OK
      \<longleftrightarrow> target_matches m t \<and> e \<le> security_epoch m \<and> payload_size m \<noteq> 0"
    unfolding view(1) by (rule validate_basic_iff)
  show "(\<exists>d. rampart_crypto_hash (Some (callbacks_of P)) (mv_digest_algorithm (iv_manifest v))
          (Some (drop (iv_payload_offset v) p)) (iv_payload_size v) (Some (replicate 32 0)) 32 =
            Ret (RAMPART_OK, Some d) \<and>
        rampart_binary_bytes_equal (Some d) (mv_payload_digest (iv_manifest v)) 32 = Ret True) \<longleftrightarrow>
      sha256 P payload = payload_digest m" if "\<forall>m. length (sha256 P m) = 32"
    unfolding view(2,3) m_view device_hash [OF that room(3,4)] mem(1,4) ..
  show "rampart_crypto_verify_signature (Some (callbacks_of P))
        (sv_signature_algorithm (iv_signature v))
        (Some (drop (iv_signed_region_offset v) p)) (iv_signed_region_size v)
        (Some (sv_public_key (iv_signature v))) (sv_public_key_len (iv_signature v))
        (Some (sv_signature (iv_signature v))) (sv_signature_len (iv_signature v)) =
      Ret (if c_verifies P (manifest_layout m @ payload) (s_public_key r) (s_signature r)
           then RAMPART_OK else RAMPART_ERR_SIGNATURE)"
    unfolding view(4,5) s_view
    using callbacks_verify [OF room(2), of "drop (so + 112) p" "drop (so + 48) p" P] room(1)
    by (simp add: keys mem(2))
qed

section \<open>A sample\<close>


definition sample_target :: device_target where
  "sample_target = \<lparr>t_vendor_id = 0x585, t_product_id = 2, t_hardware_family = 3,
     t_component_id = 5\<rparr>"

lemma sample_device:
  "rampart_image_parse (2 ^ 32 - 1) (Some sample_image) 391 =
     Ret (image_view_of sample_image sample_image_manifest sample_payload)"
  "device_wf sample_image_manifest sample_payload sample_image_record"
proof -
  show wf: "device_wf sample_image_manifest sample_payload sample_image_record"
    using sample_image_wf by (simp add: image_wf_iff [OF sample_sec1_law])
  show "rampart_image_parse (2 ^ 32 - 1) (Some sample_image) 391 =
     Ret (image_view_of sample_image sample_image_manifest sample_payload)"
    by (rule c_image_complete [OF wf]) (simp_all add: sample_image_length flip: sample_image_def)
qed

section \<open>Properties\<close>

text \<open>C5: On a parsed image whose identifier is UTF-8 and whose key is bound to its identifier, the
  host's verification of target and epoch reports a valid, non-empty image exactly when the
  device's calls succeed on the view: the basic validation of the manifest, the payload's hash
  against the manifest's digest, and the signature over the signed region. The callbacks of the
  device compute the primitives of the host.\<close>

theorem device_verdict:
  assumes "sec1_law P" and "\<forall>m. length (sha256 P m) = 32"
    and "len \<le> length p" and "len \<le> size_max" and "2 ^ 32 - 1 \<le> size_max"
    and "rampart_image_parse size_max (Some p) len = Ret v"
    and "valid_str (artifact_id (abs_manifest (iv_manifest v)))"
    and "key_bound P (abs_signature (iv_signature v))"
  shows "(\<exists>report. verify_image P (take len p)
        \<lparr>o_device_target = Some t, o_minimum_security_epoch = e\<rparr> = Ok report \<and> is_valid report) \<and>
      mv_payload_size (iv_manifest v) \<noteq> 0 \<longleftrightarrow>
    rampart_manifest_validate_basic (Some (iv_manifest v)) (Some (target_of t)) e = RAMPART_OK \<and>
    (\<exists>d. rampart_crypto_hash (Some (callbacks_of P)) (mv_digest_algorithm (iv_manifest v))
        (Some (drop (iv_payload_offset v) p)) (iv_payload_size v) (Some (replicate 32 0)) 32 =
          Ret (RAMPART_OK, Some d) \<and>
      rampart_binary_bytes_equal (Some d) (mv_payload_digest (iv_manifest v)) 32 = Ret True) \<and>
    rampart_crypto_verify_signature (Some (callbacks_of P))
      (sv_signature_algorithm (iv_signature v))
      (Some (drop (iv_signed_region_offset v) p)) (iv_signed_region_size v)
      (Some (sv_public_key (iv_signature v))) (sv_public_key_len (iv_signature v))
      (Some (sv_signature (iv_signature v))) (sv_signature_len (iv_signature v)) = Ret RAMPART_OK"
proof -
  from c_image_sound [OF assms(6,3,4,5)] obtain m payload r where
    a: "device_wf m payload r" "take len p = image_bytes m payload r" "v = image_view_of p m payload" .
  have "abs_manifest (iv_manifest v) = m" "abs_signature (iv_signature v) = r"
    using abs_image_view_of [OF a(1,2) assms(3)]
    by (simp_all add: a(3) abs_image_def Image.image_view_def Let_def)
  then have wf: "image_wf P m payload r"
    using a(1) assms(7,8) by (simp add: image_wf_iff [OF assms(1)])
  show ?thesis
    unfolding a(2) host_verdict [OF wf] device_calls [OF a(1,2) assms(3) a(3)]
      device_calls(3) [OF a(1,2) assms(3) a(3) assms(2)]
    by auto
qed

theorem device_verdict_witness:
  "rampart_manifest_validate_basic
     (Some (iv_manifest (image_view_of sample_image sample_image_manifest sample_payload)))
     (Some (target_of sample_target)) 7 = RAMPART_OK"
proof -
  let ?v = "image_view_of sample_image sample_image_manifest sample_payload"
  have img: "take 391 sample_image = sample_image" by (simp add: sample_image_length)
  have abs: "abs_manifest (iv_manifest ?v) = sample_image_manifest"
    "abs_signature (iv_signature ?v) = sample_image_record"
    using abs_image_view_of [OF sample_device(2), of 391 sample_image]
    by (simp_all add: img sample_image_length sample_image_def [symmetric] abs_image_def
        Image.image_view_def Let_def)
  have wf: "valid_str (artifact_id sample_image_manifest)" "key_bound sample_provider sample_image_record"
    using sample_image_wf by (simp_all add: image_wf_iff [OF sample_sec1_law])
  have "c_verifies sample_provider (manifest_layout sample_image_manifest @ sample_payload)
      (s_public_key sample_image_record) (s_signature sample_image_record)"
    by (simp add: c_verifies_def sample_image_record_def sample_record_def sample_provider_def)
  then have "\<exists>report. verify_image sample_provider sample_image
      \<lparr>o_device_target = Some sample_target, o_minimum_security_epoch = 7\<rparr> = Ok report \<and> is_valid report"
    unfolding sample_image_def host_verdict [OF sample_image_wf]
    by (simp add: target_matches_def sample_target_def)
       (simp add: sample_image_manifest_def sample_manifest_def sample_provider_def)
  moreover have "mv_payload_size (iv_manifest ?v) \<noteq> 0"
    by (simp add: image_view_of_def Let_def manifest_view_of_def sample_image_manifest_def)
  ultimately show ?thesis
    using device_verdict [OF sample_sec1_law _ _ _ _ sample_device(1), of sample_target 7]
      wf abs provider_lawsD(1) [OF sample_provider_laws]
    by (simp add: img sample_image_length)
qed

text \<open>C9: Every image the host signs is accepted by the device: the written file parses to a view of
  the returned image, basic validation passes for the image's own target at its own epoch, its
  payload hashes to the manifest's digest, and the signature verifies over the signed region.\<close>

theorem device_accepts_signed_image:
  assumes "provider_laws P" "sec1_law P" "toml_laws toml"
    and "sign_image P toml os payload_path manifest_path key_path out ov w = (Ok img, w')"
    and "files w' out = Some bs" and "length bs \<le> size_max" and "2 ^ 32 - 1 \<le> size_max"
    and "target_matches (manifest img) t" and "e \<le> security_epoch (manifest img)"
  shows "\<exists>v. rampart_image_parse size_max (Some bs) (length bs) = Ret v \<and> abs_image v = img \<and>
    rampart_manifest_validate_basic (Some (iv_manifest v)) (Some (target_of t)) e = RAMPART_OK \<and>
    (\<exists>d. rampart_crypto_hash (Some (callbacks_of P)) (mv_digest_algorithm (iv_manifest v))
        (Some (drop (iv_payload_offset v) bs)) (iv_payload_size v) (Some (replicate 32 0)) 32 =
          Ret (RAMPART_OK, Some d) \<and>
      rampart_binary_bytes_equal (Some d) (mv_payload_digest (iv_manifest v)) 32 = Ret True) \<and>
    rampart_crypto_verify_signature (Some (callbacks_of P))
      (sv_signature_algorithm (iv_signature v))
      (Some (drop (iv_signed_region_offset v) bs)) (iv_signed_region_size v)
      (Some (sv_public_key (iv_signature v))) (sv_public_key_len (iv_signature v))
      (Some (sv_signature (iv_signature v))) (sv_signature_len (iv_signature v)) = Ret RAMPART_OK"
proof -
  from assms(1,3,4) obtain payload sk doc m where s:
    "sign_request P toml os payload_path manifest_path key_path ov w payload sk doc m"
    "key_id m = derive_key_id P (verifying_key P sk)"
    "img = image_view m payload (signed_record P sk m payload)"
    "w' = w\<lparr>files := (files w)(out \<mapsto> signed_bytes P sk m payload)\<rparr>"
    by (rule sign_image_Ok)
  let ?r = "signed_record P sk m payload"
  note m = sign_request_manifest [OF assms(1,3) s(1)]
  have wf: "image_wf P m payload ?r"
    using assms(1) m(1-3,5) s(2) by (rule signed_wf)
  then have dev: "device_wf m payload ?r" by (simp add: image_wf_iff [OF assms(2)])
  have bs: "take (length bs) bs = image_bytes m payload ?r"
    using assms(5) by (simp add: s(4) signed_bytes_def)
  define v where "v = image_view_of bs m payload"
  have "rampart_image_parse size_max (Some bs) (length bs) = Ret v"
    unfolding v_def by (rule c_image_complete [OF dev bs order_refl assms(6,7)])
  moreover have "abs_image v = img"
    using abs_image_view_of [OF dev bs order_refl] by (simp add: v_def s(3))
  moreover have "c_verifies P (manifest_layout m @ payload) (s_public_key ?r) (s_signature ?r)"
    using signed_check [OF assms(1)] by (simp add: signature_check_iff)
  moreover have "payload_size m \<noteq> 0"
    using s(1) m(3) by (auto simp: sign_request_def)
  moreover have "target_matches m t" "e \<le> security_epoch m"
    using assms(8,9) by (simp_all add: s(3))
  ultimately show ?thesis
    using device_calls(2) [OF dev bs order_refl v_def, of t e]
      device_calls(4) [OF dev bs order_refl v_def, of P]
      iffD2 [OF device_calls(3) [OF dev bs order_refl v_def] m(4) [symmetric]]
      provider_lawsD(1) [OF assms(1)]
    by (intro exI [of _ v]) simp
qed

theorem device_accepts_signed_image_witness:
  "\<exists>bs v. files sample_signed_world ''o'' = Some bs \<and>
     rampart_image_parse (2 ^ 32 - 1) (Some bs) (length bs) = Ret v \<and> abs_image v = sample_signed"
proof -
  let ?bs = "signed_bytes sample_provider 9 sample_image_manifest sample_payload"
  note m = sign_request_manifest [OF sample_provider_laws sample_toml_laws sample_sign_request]
  have "key_id sample_image_manifest = derive_key_id sample_provider (verifying_key sample_provider 9)"
    by (simp add: sample_image_manifest_def)
  from length_image_bytes [OF signed_wf [OF sample_provider_laws m(1-3,5) this]]
  have bs: "length ?bs \<le> 2 ^ 32 - 1"
    by (simp add: signed_bytes_def sample_image_manifest_def sample_payload_def)
  have written: "files sample_signed_world ''o'' = Some ?bs"
    by (simp add: sample_signed_world_def)
  have t: "target_matches (manifest sample_signed) sample_target"
    by (simp add: sample_signed_def target_matches_def sample_target_def)
      (simp add: sample_image_manifest_def sample_manifest_def)
  show ?thesis
    using device_accepts_signed_image [OF sample_provider_laws sample_sec1_law sample_toml_laws
        sample_sign written bs order_refl t order_refl] written by blast
qed

end
