(* ===== verification/Spec2Isabelle.thy ===== *)
theory Spec2Isabelle
  imports Release Stage0 DeviceVerdict
begin

text \<open>
  Rampart signs firmware images on a host and checks them on a device. This development models
  the host tool (Rust, \<^verbatim>\<open>host/rampart/src\<close>) as a whole, and the portable device code (C,
  \<^verbatim>\<open>core/src\<close> and \<^verbatim>\<open>stage0/src\<close>).

  \<^bold>\<open>The program.\<close> \<^verbatim>\<open>main.rs\<close> dispatches commands. \<^verbatim>\<open>image sign\<close> reads a payload, a TOML
  document and a key (\<^verbatim>\<open>keys.rs\<close>), builds a manifest, signs manifest and payload, and writes
  header, manifest, payload and signature section as one image (\<^verbatim>\<open>format.rs\<close>). \<^verbatim>\<open>image verify\<close>
  and \<^verbatim>\<open>image inspect\<close> parse an image and report on it. On the device \<^verbatim>\<open>image.c\<close> and
  \<^verbatim>\<open>manifest.c\<close> parse the same format into a view of pointers; \<^verbatim>\<open>crypto.c\<close> hashes and verifies
  through callbacks of the platform, \<^verbatim>\<open>trust.c\<close> decides which key may sign what, and
  \<^verbatim>\<open>select.c\<close> of stage 0 chooses the slot to start. No code of the repository calls these in
  sequence yet: stage 1 is a stub.

  \<^bold>\<open>The theories.\<close> In the order of their imports:
  \<^item> \<open>Prelude\<close>: results with errors and panics, the collections \<open>ok_iff\<close> and \<open>panic_iff\<close> that
    invert sequences of fallible steps, and \<open>layout_iff\<close>, which turns a concatenation of fields
    into a table of its segments. Every proof about an encoder or a parser goes through it.
  \<^item> \<open>Bytes\<close>, \<open>Text\<close>: the helpers at the end of \<^verbatim>\<open>format.rs\<close>, and what they and the rest use of
    the standard library (slices, conversions, checked arithmetic, UTF-8, integer parsing and
    printing). The locale \<open>fixed_field\<close> is the contract of a field reader and writer.
  \<^item> \<open>Crypto\<close>: the third-party primitives as a record of functions, the parameter \<open>P\<close>, with their
    laws. \<open>World\<close>: files and streams as explicit state; \<open>frame_relation\<close> is the locale of what
    an action may change.
  \<^item> \<open>Keys\<close> (\<^verbatim>\<open>keys.rs\<close>), \<open>Policy\<close> (roles, rollback policies, versions; locale \<open>code_table\<close>),
    \<open>Manifest\<close>, \<open>Signature\<close>, \<open>Image\<close>, \<open>Verify\<close>, \<open>Signing\<close> (the parts of \<^verbatim>\<open>format.rs\<close>) and \<open>Cli\<close>
    (\<^verbatim>\<open>main.rs\<close>). A definition has the name of its function; a struct is a record, with a prefix
    where two structs share a field name.
  \<^item> \<open>History\<close> and \<open>Release\<close>: sequences of runs of the tool on one file system.
  \<^item> \<open>CCore\<close>, \<open>CBinary\<close>, \<open>DeviceManifest\<close>, \<open>DeviceImage\<close>, \<open>Trust\<close>, \<open>Stage0\<close>: the C code. A
    computation returns a value, leaves with a status, or reads outside of an object
    (\<open>Fault\<close>); a pointer is \<open>None\<close> or the rest of the object it points into. \<open>best_of\<close> is the
    contract of the two scans of \<^verbatim>\<open>select.c\<close>.
  \<^item> \<open>DeviceRefinement\<close> and \<open>DeviceVerdict\<close>: host against device. The locale
    \<open>reader_refinement\<close> is the contract between two parsers of one format, interpreted on the
    manifest parsers and on the image parsers.

  \<^bold>\<open>What is proved.\<close> The encoders produce the layouts of \<^verbatim>\<open>docs/image-format.md\<close>, and the parsers
  of both languages accept exactly these, so an accepted image is the canonical encoding of
  what it parses to, and its signed region and record determine every byte. Verification
  reports exactly the documented checks, and the calls of the device give the same verdict.
  What the tool signs, both sides accept; a failed signing leaves nothing behind, with the
  exceptions that are stated; no history of commands changes an existing file. No input bytes
  make the parsers panic or read out of bounds. Authorization grants exactly the keys the
  security model admits and names every refusal, the failure of the crypto provider included;
  the slot selection is optimal and independent of the order of the slots.

  \<^bold>\<open>Bounds.\<close> The host is modelled with a 64-bit \<^verbatim>\<open>usize\<close>; an allocation beyond \<^verbatim>\<open>isize::MAX\<close>
  panics. \<^verbatim>\<open>SIZE_MAX\<close> of the device is the parameter \<open>size_max\<close>; a conversion from
  \<^verbatim>\<open>uint32_t\<close> to \<^verbatim>\<open>size_t\<close> keeps the value, which needs \<^verbatim>\<open>SIZE_MAX\<close> of at least \<open>2 ^ 32 - 1\<close>, the
  hypothesis of the theorems on what is accepted. Words have the width of the source. No
  definition uses fuel: loops are recursions over the indices that are left or, for the padding
  of the manifest, a recursion with a proof of termination.

  \<^bold>\<open>Not modelled.\<close> The crates \<^verbatim>\<open>sha2\<close>, \<^verbatim>\<open>p256\<close>, \<^verbatim>\<open>toml\<close>, \<^verbatim>\<open>serde_json\<close> and the callbacks of the
  device are parameters with named laws (\<open>provider_laws\<close>, \<open>pem_laws\<close>, \<open>sec1_law\<close>, \<open>toml_laws\<close>,
  \<open>digest_law\<close>). A callback may be missing or fail with any status, but gives the same answer each
  time it gets the same bytes; \<open>callbacks_of\<close> are callbacks that compute what the host's crates
  compute. Left out are \<^verbatim>\<open>clap\<close>'s parsing of the command line, the text of panics, failures of
  the output streams, exhausted memory, concurrent changes of files, symbolic links and
  permissions. So are the writes of the C functions through their out parameters before they
  fail (they only store in locals until they return \<^verbatim>\<open>RAMPART_OK\<close>), the optional end pointer of
  the range check, which no caller passes, slot states outside of their enumeration, the stage 0 and stage 1 entry
  loops, the OpenSSL binding of \<^verbatim>\<open>platform/host\<close>, and tests, fuzzers and build files.
\<close>

section \<open>Properties\<close>

text \<open>C20: An image that the sign command wrote with status 0 passes the verify command from then
  on: after any further sequence of commands, on any system that can still read the file, it
  exits with status 0.\<close>

theorem signed_file_passes_verify_command:
  assumes "provider_laws (crypto h)" "toml_laws (toml_from_str h)"
    and "main h (Image (ImageSign args)) w = (0, w')"
    and "history (crypto h) w' w''"
    and "crypto h' = crypto h" "read_fault (system h') (g_output args) = None"
  shows "fst (main h' (Image (ImageVerify \<lparr>v_artifact = g_output args,
    v_minimum_security_epoch = 0, v_vendor_id = None, v_product_id = None,
    v_hardware_family = None, v_component_id = None\<rparr>)) w'') = 0"
proof -
  from sign_command_writes [OF assms(1-3)] obtain bs report where
    bs: "files w' (g_output args) = Some bs" "verify_image (crypto h) bs any_target = Ok report"
      "is_valid report" .
  have "files w'' (g_output args) = Some bs"
    using history_keeps [OF assms(4)] bs(1) by (force simp: keeps_files_def map_le_def)
  then show ?thesis
    using bs(2,3) assms(5,6)
    by (simp add: main_status image_verify_target_def any_target_def ok_iff Let_def)
qed

theorem signed_file_passes_verify_command_witness:
  "fst (main sample_host (Image (ImageVerify \<lparr>v_artifact = ''o'',
    v_minimum_security_epoch = 0, v_vendor_id = None, v_product_id = None,
    v_hardware_family = None, v_component_id = None\<rparr>))
     (run_all [(sample_host, Image (ImageSign sample_args)),
       (sample_host, Image (ImageSign sample_args))] sample_world)) = 0"
proof -
  have z: "fst (main sample_host (Image (ImageSign sample_args)) sample_world) = 0"
    by (simp add: main_def sample_host_def sample_args_def io_then_def sample_sign println_def
        print_out_def)
  then have s: "main sample_host (Image (ImageSign sample_args)) sample_world =
      (0, snd (main sample_host (Image (ImageSign sample_args)) sample_world))"
    by (metis prod.collapse)
  have laws: "provider_laws (crypto sample_host)" "toml_laws (toml_from_str sample_host)"
    "read_fault (system sample_host) (g_output sample_args) = None"
    by (simp_all add: sample_host_def sample_provider_laws sample_toml_laws sample_os_def)
  have "history (crypto sample_host)
      (snd (main sample_host (Image (ImageSign sample_args)) sample_world))
      (run_all [(sample_host, Image (ImageSign sample_args))]
        (snd (main sample_host (Image (ImageSign sample_args)) sample_world)))"
    by (intro history_run_all) simp
  from signed_file_passes_verify_command [OF laws(1,2) s this refl laws(3)] show ?thesis
    by (simp add: sample_args_def)
qed

end
